(* ===== verification/Prelude.thy ===== *)
theory Prelude
  imports Main "HOL-Library.Word"
begin

text \<open>
  Shared vocabulary of the development: the machine integers and identifiers of the Rust
  sources, the three ways a fallible call can end (a value, a \<open>WFMachinesError\<close>, a Rust
  panic), the decimal rendering of sequence numbers (\<open>u32::to_string\<close>), and the generic
  lemmas on these types that the component theories rely on.
\<close>

section \<open>Collections of simplification rules\<close>

named_theorems fsm_tables \<open>transition tables and the names of states and events\<close>

section \<open>Machine types\<close>

type_synonym u32 = "32 word"
type_synonym u64 = "64 word"
type_synonym byte = "8 word"
type_synonym event_id = int
type_synonym system_time = int
type_synonym duration = int

section \<open>Errors and outcomes\<close>

text \<open>
  \<open>WFMachinesError\<close> of \<open>core/src/worker/workflow/mod.rs\<close>.  The message is the constant text of
  the \<open>format!\<close> that builds it; the values interpolated into the message are not kept.
\<close>

datatype wf_error = Nondeterminism string | Fatal string

text \<open>
  The result of a fallible call: \<open>Ok\<close>, the early return of an error, or a Rust panic
  (\<open>panic!\<close>, \<open>unreachable!\<close>, \<open>unwrap\<close> or \<open>expect\<close> on the absent case).
\<close>

datatype 'a outcome = Ok 'a | Err wf_error | Panic string

primrec obind :: "'a outcome \<Rightarrow> ('a \<Rightarrow> 'b outcome) \<Rightarrow> 'b outcome" where
  "obind (Ok x) f = f x"
| "obind (Err e) f = Err e"
| "obind (Panic p) f = Panic p"

primrec is_panic :: "'a outcome \<Rightarrow> bool" where
  "is_panic (Ok x) = False"
| "is_panic (Err e) = False"
| "is_panic (Panic p) = True"

fun omap_concat :: "('a \<Rightarrow> 'b list outcome) \<Rightarrow> 'a list \<Rightarrow> 'b list outcome" where
  "omap_concat f [] = Ok []"
| "omap_concat f (x # xs) = obind (f x) (\<lambda>ys. obind (omap_concat f xs) (\<lambda>zs. Ok (ys @ zs)))"

lemma obind_eq_Ok [simp]:
  "obind m f = Ok y \<longleftrightarrow> (\<exists>x. m = Ok x \<and> f x = Ok y)"
  by (cases m) auto

lemma obind_Ok_right [simp]: "obind m Ok = m"
  by (cases m) auto

lemma obind_assoc: "obind (obind m f) g = obind m (\<lambda>x. obind (f x) g)"
  by (cases m) auto

lemma is_panic_obind:
  "is_panic (obind m f) \<longleftrightarrow> is_panic m \<or> (\<exists>x. m = Ok x \<and> is_panic (f x))"
  by (cases m) auto

lemma omap_concat_no_panic:
  "(\<And>x. x \<in> set xs \<Longrightarrow> \<not> is_panic (f x)) \<Longrightarrow> \<not> is_panic (omap_concat f xs)"
  by (induction xs) (auto simp: is_panic_obind)

lemma omap_concat_Ok:
  "(\<And>x. x \<in> set xs \<Longrightarrow> f x = Ok (g x)) \<Longrightarrow> omap_concat f xs = Ok (concat (map g xs))"
  by (induction xs) auto

lemma omap_concat_cong:
  "(\<And>x. x \<in> set xs \<Longrightarrow> f x = g x) \<Longrightarrow> omap_concat f xs = omap_concat g xs"
  by (induction xs) auto

lemma omap_concat_append:
  "omap_concat f (xs @ ys) =
     obind (omap_concat f xs) (\<lambda>a. obind (omap_concat f ys) (\<lambda>b. Ok (a @ b)))"
  by (induction xs) (auto simp: obind_assoc)

section \<open>Decimal rendering of unsigned integers\<close>

definition digit_char :: "nat \<Rightarrow> char" where
  "digit_char d = char_of (48 + d)"

fun show_nat :: "nat \<Rightarrow> string" where
  "show_nat n =
     (if n < 10 then [digit_char n] else show_nat (n div 10) @ [digit_char (n mod 10)])"

declare show_nat.simps [simp del]

definition show_u32 :: "u32 \<Rightarrow> string" where
  "show_u32 w = show_nat (unat w)"

lemma of_char_digit_char: "d < 10 \<Longrightarrow> of_char (digit_char d) = 48 + d"
  by (simp add: digit_char_def)

lemma digit_char_inj: "a < 10 \<Longrightarrow> b < 10 \<Longrightarrow> digit_char a = digit_char b \<longleftrightarrow> a = b"
  by (metis add_left_cancel of_char_digit_char)

lemma show_nat_not_Nil [simp]: "show_nat n \<noteq> []" "[] \<noteq> show_nat n"
  by (subst show_nat.simps, simp)+

lemma show_nat_inj: "show_nat a = show_nat b \<Longrightarrow> a = b"
proof (induction a arbitrary: b rule: show_nat.induct)
  case (1 n)
  show ?case
  proof (cases "n < 10")
    case True
    then show ?thesis
      using "1.prems" digit_char_inj
      by (auto simp: show_nat.simps [of n] show_nat.simps [of b] split: if_splits)
  next
    case False
    then have "show_nat n = show_nat (n div 10) @ [digit_char (n mod 10)]"
      by (simp add: show_nat.simps [of n])
    moreover from this have nb: "\<not> b < 10"
      using "1.prems" by (auto simp: show_nat.simps [of b])
    ultimately have "show_nat (n div 10) = show_nat (b div 10)"
      and "digit_char (n mod 10) = digit_char (b mod 10)"
      using "1.prems" by (simp_all add: show_nat.simps [of b])
    then have "n div 10 = b div 10" "n mod 10 = b mod 10"
      using "1.IH" [OF False] by (auto simp: digit_char_inj)
    then show ?thesis
      by (metis div_mult_mod_eq)
  qed
qed

lemma show_u32_eq_iff [simp]: "show_u32 a = show_u32 b \<longleftrightarrow> a = b"
  by (metis show_nat_inj show_u32_def word_eq_iff_unsigned)

end
