(* ===== verification/Fsm.thy ===== *)
theory Fsm
  imports Prelude
begin

text \<open>
  The state machine library \<open>rustfsm\<close>: the \<open>StateMachine\<close> and \<open>TransitionResult\<close> types of
  \<open>fsm/rustfsm_trait\<close> and the meaning of the \<open>fsm!\<close> macro of \<open>fsm/rustfsm_procmacro\<close>.

  A machine definition is a list of \<open>transition\<close> rows, as the macro parses them.  The code the
  macro generates for \<open>on_event\<close> is \<open>on_event\<close> below, over the \<open>step\<close> function of the machine:
  \<open>step s e d\<close> is \<open>None\<close> for the generated catch-all arm and \<open>Some\<close> of the handler's result and the
  shared state it leaves otherwise.  The locale \<open>fsm_conforms\<close> states that such a step function
  agrees with a transition table; its lemmas hold for every machine of the SDK.
\<close>

section \<open>Transition results (\<open>rustfsm_trait\<close>)\<close>

datatype machine_error = MInvalidTransition | Underlying wf_error

datatype ('c, 's) transition_result =
    InvalidTransition
  | TOk "'c list" 's
  | TErr wf_error
  | TPanic string

datatype 'c cmds_result = Cmds "'c list" | Failed_with machine_error | Panicked string

definition tr_ok :: "'c list \<Rightarrow> 's \<Rightarrow> ('c, 's) transition_result" where
  "tr_ok commands new_state = TOk commands new_state"

definition tr_from_state :: "('a \<Rightarrow> 's) \<Rightarrow> 'a \<Rightarrow> ('c, 's) transition_result" where
  "tr_from_state into_dest current_state = TOk [] (into_dest current_state)"

definition tr_commands :: "'s \<Rightarrow> 'c list \<Rightarrow> ('c, 's) transition_result" where
  "tr_commands default_state commands = TOk commands default_state"

definition tr_default :: "'s \<Rightarrow> ('c, 's) transition_result" where
  "tr_default default_state = TOk [] default_state"

primrec into_general :: "('d \<Rightarrow> 's) \<Rightarrow> ('c, 'd) transition_result \<Rightarrow> ('c, 's) transition_result" where
  "into_general f InvalidTransition = InvalidTransition"
| "into_general f (TOk commands new_state) = TOk commands (f new_state)"
| "into_general f (TErr e) = TErr e"
| "into_general f (TPanic p) = TPanic p"

primrec into_cmd_result ::
  "('c, 's) transition_result \<Rightarrow> (machine_error + ('c list \<times> 's)) outcome" where
  "into_cmd_result (TOk commands new_state) = Ok (Inr (commands, new_state))"
| "into_cmd_result InvalidTransition = Ok (Inl MInvalidTransition)"
| "into_cmd_result (TErr e) = Ok (Inl (Underlying e))"
| "into_cmd_result (TPanic p) = Panic p"

lemmas transition_results = tr_ok_def tr_from_state_def tr_commands_def tr_default_def

section \<open>The machine and its generated \<open>on_event\<close>\<close>

record ('s, 'd) fsm =
  fsm_state :: "'s option"
  fsm_shared :: 'd

type_synonym ('s, 'e, 'd, 'c) step_fun =
  "'s \<Rightarrow> 'e \<Rightarrow> 'd \<Rightarrow> (('c, 's) transition_result \<times> 'd) option"

definition from_parts :: "'s \<Rightarrow> 'd \<Rightarrow> ('s, 'd) fsm" where
  "from_parts st shared = \<lparr>fsm_state = Some st, fsm_shared = shared\<rparr>"

definition on_event ::
  "('s, 'e, 'd, 'c) step_fun \<Rightarrow> ('s, 'd) fsm \<Rightarrow> 'e \<Rightarrow> 'c cmds_result \<times> ('s, 'd) fsm" where
  "on_event step m e =
     (case fsm_state m of
        None \<Rightarrow> (Failed_with MInvalidTransition, m)
      | Some s \<Rightarrow>
          (case step s e (fsm_shared m) of
             None \<Rightarrow> (Failed_with MInvalidTransition, m)
           | Some (res, d) \<Rightarrow>
               (case into_cmd_result res of
                  Ok (Inr (cmds, s')) \<Rightarrow> (Cmds cmds, \<lparr>fsm_state = Some s', fsm_shared = d\<rparr>)
                | Ok (Inl err) \<Rightarrow> (Failed_with err, \<lparr>fsm_state = None, fsm_shared = d\<rparr>)
                | Err e' \<Rightarrow> (Failed_with (Underlying e'), \<lparr>fsm_state = None, fsm_shared = d\<rparr>)
                | Panic p \<Rightarrow> (Panicked p, \<lparr>fsm_state = None, fsm_shared = d\<rparr>))))"

inductive fsm_reachable ::
  "('s, 'e, 'd, 'c) step_fun \<Rightarrow> ('s, 'd) fsm \<Rightarrow> ('s, 'd) fsm \<Rightarrow> bool"
  for step :: "('s, 'e, 'd, 'c) step_fun" and m :: "('s, 'd) fsm" where
  reach_refl: "fsm_reachable step m m"
| reach_event: "fsm_reachable step m m' \<Longrightarrow> snd (on_event step m' e) = m'' \<Longrightarrow>
    fsm_reachable step m m''"

section \<open>Machine definitions (\<open>rustfsm_procmacro\<close>)\<close>

text \<open>
  A row names states and events by identifiers; a machine theory supplies the types of these
  identifiers, one constructor per state and per event of the machine.
\<close>

record ('n, 'ev) transition =
  tr_from :: 'n
  tr_to :: "'n list"
  tr_event :: 'ev
  tr_handler :: "string option"
  tr_mutates_shared :: bool

text \<open>A row of the definition: \<open>from --(event, [shared] handler)--> to\<close>.\<close>

definition row :: "'n \<Rightarrow> 'ev \<Rightarrow> string option \<Rightarrow> bool \<Rightarrow> 'n \<Rightarrow> ('n, 'ev) transition" where
  "row from event handler shared to =
     \<lparr>tr_from = from, tr_to = [to], tr_event = event, tr_handler = handler,
      tr_mutates_shared = shared\<rparr>"

definition parse_definition :: "('n, 'ev) transition list \<Rightarrow> ('n, 'ev) transition list option" where
  "parse_definition transitions =
     (if length (remdups transitions) \<noteq> length transitions then None else Some transitions)"

definition is_final_state :: "('n, 'ev) transition list \<Rightarrow> 'n \<Rightarrow> bool" where
  "is_final_state table st = (\<not> list_ex (\<lambda>t. tr_from t = st) table)"

definition all_states :: "('n, 'ev) transition list \<Rightarrow> 'n list" where
  "all_states table = remdups (concat (map (\<lambda>t. tr_to t @ [tr_from t]) table))"

definition without_dests :: "('n, 'ev) transition \<Rightarrow> ('n, 'ev) transition" where
  "without_dests t = t\<lparr>tr_to := []\<rparr>"

text \<open>The map of \<open>merge_transition_dests\<close>, its entries in the order of first insertion.\<close>

fun merge_entry :: "('n, 'ev) transition list \<Rightarrow> ('n, 'ev) transition \<Rightarrow> ('n, 'ev) transition list" where
  "merge_entry [] t = [t]"
| "merge_entry (e # es) t =
     (if without_dests e = without_dests t then e\<lparr>tr_to := tr_to e @ tr_to t\<rparr> # es
      else e # merge_entry es t)"

definition merge_transition_dests :: "('n, 'ev) transition list \<Rightarrow> ('n, 'ev) transition list" where
  "merge_transition_dests transitions = foldl merge_entry [] transitions"

definition state_branches :: "('n, 'ev) transition list \<Rightarrow> 'n \<Rightarrow> ('n, 'ev) transition list" where
  "state_branches table from = merge_transition_dests (filter (\<lambda>t. tr_from t = from) table)"

text \<open>The generated \<open>match\<close> arms for an event in a state, and where they may lead.\<close>

definition event_arms :: "('n, 'ev) transition list \<Rightarrow> 'n \<Rightarrow> 'ev \<Rightarrow> ('n, 'ev) transition list" where
  "event_arms table from ev = filter (\<lambda>t. tr_event t = ev) (state_branches table from)"

definition dests :: "('n, 'ev) transition list \<Rightarrow> 'n \<Rightarrow> 'ev \<Rightarrow> 'n list" where
  "dests table from ev =
     concat (map tr_to (filter (\<lambda>t. tr_from t = from \<and> tr_event t = ev) table))"

definition mutating_row :: "('n, 'ev) transition list \<Rightarrow> 'n \<Rightarrow> 'ev \<Rightarrow> bool" where
  "mutating_row table from ev =
     list_ex (\<lambda>t. tr_from t = from \<and> tr_event t = ev \<and> tr_mutates_shared t) table"

inductive table_path :: "('n, 'ev) transition list \<Rightarrow> 'n \<Rightarrow> 'n \<Rightarrow> bool" for table where
  path_refl: "table_path table a a"
| path_step: "table_path table a b \<Longrightarrow> c \<in> set (dests table b ev) \<Longrightarrow> table_path table a c"

section \<open>Reading tables row by row\<close>

lemma dests_empty_row [fsm_tables]:
  "dests [] a b = []"
  "dests (row f e h m t # xs) a b = [] \<longleftrightarrow> \<not> (f = a \<and> e = b) \<and> dests xs a b = []"
  by (simp_all add: dests_def row_def)

lemma in_dests_row [fsm_tables]:
  "c \<in> set (dests (row f e h m t # xs) a b) \<longleftrightarrow>
     f = a \<and> e = b \<and> c = t \<or> c \<in> set (dests xs a b)"
  by (auto simp: dests_def row_def)

lemma mutating_row_row [fsm_tables]:
  "mutating_row [] a b = False"
  "mutating_row (row f e h m t # xs) a b = (f = a \<and> e = b \<and> m \<or> mutating_row xs a b)"
  by (simp_all add: mutating_row_def row_def)

lemma is_final_state_row [fsm_tables]:
  "is_final_state [] a = True"
  "is_final_state (row f e h m t # xs) a = (f \<noteq> a \<and> is_final_state xs a)"
  by (simp_all add: is_final_state_def row_def)

section \<open>Merging destinations loses nothing\<close>

lemma without_dests_update [simp]: "without_dests (t\<lparr>tr_to := x\<rparr>) = without_dests t"
  by (simp add: without_dests_def)

lemma without_dests_fields:
  assumes "without_dests a = without_dests b"
  shows "tr_from a = tr_from b" and "tr_event a = tr_event b"
    and "tr_handler a = tr_handler b" and "tr_mutates_shared a = tr_mutates_shared b"
  using assms by (cases a; cases b; simp add: without_dests_def)+

lemma merge_entry_keys:
  "map without_dests (merge_entry es t) =
     (if without_dests t \<in> without_dests ` set es then map without_dests es
      else map without_dests es @ [without_dests t])"
  by (induction es) auto

lemma merge_entry_dests:
  "distinct (map without_dests es) \<Longrightarrow>
   concat (map tr_to (filter (\<lambda>e. without_dests e = k) (merge_entry es t))) =
     concat (map tr_to (filter (\<lambda>e. without_dests e = k) es)) @
       (if without_dests t = k then tr_to t else [])"
proof (induction es)
  case (Cons e es)
  have none: "filter (\<lambda>x. without_dests x = without_dests e) es = []"
    using Cons.prems by (auto simp: filter_empty_conv) (metis imageI)
  show ?case
    using Cons none by (cases "without_dests e = k"; cases "without_dests e = without_dests t") auto
qed simp

lemma merge_keys_distinct:
  "distinct (map without_dests (merge_transition_dests ts))"
proof -
  have "distinct (map without_dests es) \<Longrightarrow> distinct (map without_dests (foldl merge_entry es ts))"
    for es
    by (induction ts arbitrary: es) (auto simp: merge_entry_keys)
  then show ?thesis by (simp add: merge_transition_dests_def)
qed

lemma merge_dests:
  "concat (map tr_to (filter (\<lambda>e. without_dests e = k) (merge_transition_dests ts))) =
   concat (map tr_to (filter (\<lambda>e. without_dests e = k) ts))"
proof -
  have "distinct (map without_dests es) \<Longrightarrow>
    concat (map tr_to (filter (\<lambda>e. without_dests e = k) (foldl merge_entry es ts))) =
      concat (map tr_to (filter (\<lambda>e. without_dests e = k) (es @ ts)))" for es
  proof (induction ts arbitrary: es)
    case (Cons t ts)
    have "distinct (map without_dests (merge_entry es t))"
      using Cons.prems by (auto simp: merge_entry_keys)
    from Cons.IH [OF this] show ?case
      using Cons.prems by (simp add: merge_entry_dests)
  qed simp
  then show ?thesis by (simp add: merge_transition_dests_def)
qed

lemma merge_keys_set:
  "without_dests ` set (merge_transition_dests ts) = without_dests ` set ts"
proof -
  have "without_dests ` set (foldl merge_entry es ts) = without_dests ` set es \<union> without_dests ` set ts"
    for es
  proof (induction ts arbitrary: es)
    case (Cons t ts)
    have "without_dests ` set (merge_entry es t) = insert (without_dests t) (without_dests ` set es)"
      using arg_cong [OF merge_entry_keys [of es t], of set] by (auto split: if_splits)
    with Cons show ?case by auto
  qed simp
  then show ?thesis by (simp add: merge_transition_dests_def)
qed

section \<open>Facts about \<open>on_event\<close> for any step function\<close>

lemma on_event_None [simp]:
  "fsm_state m = None \<Longrightarrow> on_event step m e = (Failed_with MInvalidTransition, m)"
  by (simp add: on_event_def)

lemma on_event_catch_all:
  "fsm_state m = Some s \<Longrightarrow> step s e (fsm_shared m) = None \<Longrightarrow>
   on_event step m e = (Failed_with MInvalidTransition, m)"
  by (simp add: on_event_def)

lemma on_event_Some:
  "fsm_state m = Some s \<Longrightarrow> step s e (fsm_shared m) = Some (TOk cs s', d) \<Longrightarrow>
   on_event step m e = (Cmds cs, \<lparr>fsm_state = Some s', fsm_shared = d\<rparr>)"
  by (simp add: on_event_def)

lemma on_event_CmdsE:
  assumes "on_event step m e = (Cmds cs, m')"
  obtains s s' d where "fsm_state m = Some s" "step s e (fsm_shared m) = Some (TOk cs s', d)"
    "m' = \<lparr>fsm_state = Some s', fsm_shared = d\<rparr>"
proof -
  from assms obtain s where s: "fsm_state m = Some s"
    by (cases "fsm_state m") (auto simp: on_event_def)
  with assms obtain r d where r: "step s e (fsm_shared m) = Some (r, d)"
    by (cases "step s e (fsm_shared m)") (auto simp: on_event_def)
  with assms s that show ?thesis by (cases r) (auto simp: on_event_def)
qed

lemma on_event_state_Some:
  assumes "fsm_state (snd (on_event step m e)) = Some s'"
  obtains (kept) "snd (on_event step m e) = m"
  | (moved) s cs d where "fsm_state m = Some s" "step s e (fsm_shared m) = Some (TOk cs s', d)"
      "snd (on_event step m e) = \<lparr>fsm_state = Some s', fsm_shared = d\<rparr>"
proof (cases "fsm_state m")
  case None
  then show ?thesis using kept by simp
next
  case (Some s)
  show ?thesis
  proof (cases "step s e (fsm_shared m)")
    case None
    then show ?thesis using Some kept by (simp add: on_event_catch_all)
  next
    case (Some rd)
    obtain r d where rd: "rd = (r, d)" by (cases rd)
    show ?thesis
      using assms Some \<open>fsm_state m = Some s\<close> moved [of s]
      by (cases r) (auto simp: on_event_def rd)
  qed
qed

text \<open>An invariant of the (state, shared state) pairs holds as long as the machine has a state.\<close>

lemma fsm_invariant:
  assumes "fsm_reachable step m m'" and "fsm_state m' = Some s'"
    and "\<And>s. fsm_state m = Some s \<Longrightarrow> I s (fsm_shared m)"
    and "\<And>s e d cs s' d'. I s d \<Longrightarrow> step s e d = Some (TOk cs s', d') \<Longrightarrow> I s' d'"
  shows "I s' (fsm_shared m')"
  using assms(1,2)
proof (induction arbitrary: s' rule: fsm_reachable.induct)
  case reach_refl
  then show ?case by (rule assms(3))
next
  case (reach_event m' e m'')
  from reach_event.hyps reach_event.prems
  have "fsm_state (snd (on_event step m' e)) = Some s'" by simp
  then show ?case
  proof (cases rule: on_event_state_Some)
    case kept
    then show ?thesis using reach_event by simp
  next
    case (moved s cs d)
    from assms(4) [OF reach_event.IH [OF moved(1)] moved(2)]
    show ?thesis using moved(3) reach_event.hyps by simp
  qed
qed

lemma fsm_reachable_trans:
  assumes "fsm_reachable step m m'" and "fsm_reachable step m' m''"
  shows "fsm_reachable step m m''"
  using assms(2,1) by (induction rule: fsm_reachable.induct) (auto intro: reach_event)

section \<open>Machines that follow their table\<close>

text \<open>
  The contract between a transition table and the step function of a machine: an event is
  dispatched exactly when the table has a row for it, a handler never reports an invalid
  transition of its own, a successful step leads to a destination the table names, and only rows
  marked \<open>shared\<close> touch the shared state.
\<close>

locale fsm_conforms =
  fixes table :: "('n, 'ev) transition list"
    and state_name :: "'s \<Rightarrow> 'n"
    and event_name :: "'e \<Rightarrow> 'ev"
    and step :: "'s \<Rightarrow> 'e \<Rightarrow> 'd \<Rightarrow> (('c, 's) transition_result \<times> 'd) option"
  assumes step_None: "step s e d = None \<longleftrightarrow> dests table (state_name s) (event_name e) = []"
    and step_dest: "step s e d = Some (TOk cs s', d') \<Longrightarrow>
      state_name s' \<in> set (dests table (state_name s) (event_name e))"
    and step_valid: "step s e d \<noteq> Some (InvalidTransition, d')"
    and step_shared: "step s e d = Some (r, d') \<Longrightarrow>
      \<not> mutating_row table (state_name s) (event_name e) \<Longrightarrow> d' = d"
begin

lemma invalid_iff:
  assumes "fsm_state m = Some s"
  shows "fst (on_event step m e) = Failed_with MInvalidTransition \<longleftrightarrow>
         dests table (state_name s) (event_name e) = []"
proof (cases "step s e (fsm_shared m)")
  case None
  then show ?thesis using assms step_None by (simp add: on_event_catch_all)
next
  case (Some rd)
  obtain r d where rd: "rd = (r, d)" by (cases rd)
  then have "r \<noteq> InvalidTransition" using Some step_valid by auto
  then show ?thesis
    using assms Some rd step_None [of s e "fsm_shared m"]
    by (cases r) (auto simp: on_event_def)
qed

lemma invalid_unchanged:
  assumes "fst (on_event step m e) = Failed_with MInvalidTransition"
  shows "snd (on_event step m e) = m"
proof (cases "fsm_state m")
  case (Some s)
  with assms have "step s e (fsm_shared m) = None"
    by (simp add: invalid_iff step_None)
  with Some show ?thesis by (simp add: on_event_catch_all)
qed simp

lemma final_rejects:
  assumes "fsm_state m = Some s" and "is_final_state table (state_name s)"
  shows "on_event step m e = (Failed_with MInvalidTransition, m)"
proof -
  have "dests table (state_name s) (event_name e) = []"
    using assms(2) by (auto simp: is_final_state_def dests_def list_ex_iff filter_empty_conv)
  then show ?thesis using assms(1) step_None by (simp add: on_event_catch_all)
qed

lemma not_final_iff_accepts:
  assumes "fsm_state m = Some s" and "tr_from t = state_name s" and "tr_event t = event_name e"
    and "t \<in> set table" and "tr_to t \<noteq> []"
  shows "fst (on_event step m e) \<noteq> Failed_with MInvalidTransition"
  using assms by (auto simp: invalid_iff dests_def filter_empty_conv)

lemma ok_follows_table:
  assumes "on_event step m e = (Cmds cs, m')"
  shows "\<exists>s s'. fsm_state m = Some s \<and> fsm_state m' = Some s' \<and>
           state_name s' \<in> set (dests table (state_name s) (event_name e))"
  using assms by (rule on_event_CmdsE) (auto dest: step_dest)

lemma state_lost_iff:
  "fsm_state (snd (on_event step m e)) = None \<longleftrightarrow>
     fsm_state m = None \<or> (\<exists>err. fst (on_event step m e) = Failed_with (Underlying err)) \<or>
     (\<exists>p. fst (on_event step m e) = Panicked p)"
proof (cases "fsm_state m")
  case (Some s)
  show ?thesis
  proof (cases "step s e (fsm_shared m)")
    case None
    then show ?thesis using Some by (simp add: on_event_catch_all)
  next
    case (Some rd)
    obtain r d where rd: "rd = (r, d)" by (cases rd)
    then have "r \<noteq> InvalidTransition" using Some step_valid by auto
    then show ?thesis using Some rd \<open>fsm_state m = Some s\<close> by (cases r) (auto simp: on_event_def)
  qed
qed simp

lemma reachable_follows_table:
  assumes "fsm_reachable step m m'" and "fsm_state m = Some s" and "fsm_state m' = Some s'"
  shows "table_path table (state_name s) (state_name s')"
proof -
  let ?I = "\<lambda>x d. table_path table (state_name s) (state_name x)"
  from assms(1) assms(3) have "?I s' (fsm_shared m')"
    by (rule fsm_invariant [where I = ?I])
      (use assms(2) in \<open>auto intro: path_refl path_step dest: step_dest\<close>)
  then show ?thesis .
qed

end

end
