(* ===== verification/Protos_Data.thy ===== *)
theory Protos_Data
  imports Prelude
begin

text \<open>
  The protobuf data of the SDK (\<open>sdk-core-protos\<close>): payloads, failures and the enumerations of
  the API, with the conversions of \<open>sdk-core-protos/src/lib.rs\<close> between them.  Maps are
  association lists.  Enumerations that travel as \<open>i32\<close> keep their number and are read with the
  conversion that the code uses.  \<open>externals\<close> collects what the sources call but do not define:
  the JSON, UTF-8 and protobuf codecs, the time conversions of \<open>prost-types\<close> and the hash of run ids.
\<close>

section \<open>Payloads\<close>

type_synonym 'v str_map = "(string \<times> 'v) list"

definition map_insert :: "'k \<Rightarrow> 'v \<Rightarrow> ('k \<times> 'v) list \<Rightarrow> ('k \<times> 'v) list" where
  "map_insert k v m = (k, v) # filter (\<lambda>e. fst e \<noteq> k) m"

definition map_remove :: "'k \<Rightarrow> ('k \<times> 'v) list \<Rightarrow> ('k \<times> 'v) list" where
  "map_remove k m = filter (\<lambda>e. fst e \<noteq> k) m"

definition contains_key :: "('k \<times> 'v) list \<Rightarrow> 'k \<Rightarrow> bool" where
  "contains_key m k = (map_of m k \<noteq> None)"

record payload =
  pl_metadata :: "byte list str_map"
  pl_data :: "byte list"

type_synonym payloads = "payload list"

definition payload_default :: payload where
  "payload_default = \<lparr>pl_metadata = [], pl_data = []\<rparr>"

definition into_payloads :: "payload list \<Rightarrow> payloads option" where
  "into_payloads ps = (if ps = [] then None else Some ps)"

definition from_payloads :: "payloads option \<Rightarrow> payload list" where
  "from_payloads p = (case p of None \<Rightarrow> [] | Some ps \<Rightarrow> ps)"

datatype payloads_to_payload_error = MoreThanOnePayload | NoPayload

definition payload_try_from :: "payloads \<Rightarrow> payloads_to_payload_error + payload" where
  "payload_try_from v =
     (if v = [] then Inl NoPayload
      else if butlast v = [] then Inr (last v)
      else Inl MoreThanOnePayload)"

text \<open>Protobuf times, and the Rust times they convert to (nanoseconds).\<close>

type_synonym duration_pb = "int \<times> int"
type_synonym timestamp = "int \<times> int"

definition timestamp_default :: timestamp where
  "timestamp_default = (0, 0)"

record retry_policy =
  rp_initial_interval :: "duration_pb option"
  rp_backoff_coefficient :: u64
  rp_maximum_interval :: "duration_pb option"
  rp_maximum_attempts :: int
  rp_non_retryable_error_types :: "string list"

definition retry_policy_default :: retry_policy where
  "retry_policy_default =
     \<lparr>rp_initial_interval = None, rp_backoff_coefficient = 0, rp_maximum_interval = None,
      rp_maximum_attempts = 0, rp_non_retryable_error_types = []\<rparr>"

record workflow_execution =
  we_workflow_id :: string
  we_run_id :: string

record namespaced_workflow_execution =
  nwe_namespace :: string
  nwe_workflow_id :: string
  nwe_run_id :: string

section \<open>Enumerations\<close>

datatype (plugins only: code) event_type =
    ET_Unspecified | ET_WorkflowExecutionStarted | ET_WorkflowExecutionCompleted
    | ET_WorkflowExecutionFailed | ET_WorkflowExecutionTimedOut | ET_WorkflowTaskScheduled
    | ET_WorkflowTaskStarted | ET_WorkflowTaskCompleted | ET_WorkflowTaskTimedOut
    | ET_WorkflowTaskFailed | ET_ActivityTaskScheduled | ET_ActivityTaskStarted
    | ET_ActivityTaskCompleted | ET_ActivityTaskFailed | ET_ActivityTaskTimedOut
    | ET_ActivityTaskCancelRequested | ET_ActivityTaskCanceled | ET_TimerStarted | ET_TimerFired
    | ET_TimerCanceled | ET_WorkflowExecutionCancelRequested | ET_WorkflowExecutionCanceled
    | ET_RequestCancelExternalWorkflowExecutionInitiated
    | ET_RequestCancelExternalWorkflowExecutionFailed
    | ET_ExternalWorkflowExecutionCancelRequested | ET_MarkerRecorded
    | ET_WorkflowExecutionSignaled | ET_WorkflowExecutionTerminated
    | ET_WorkflowExecutionContinuedAsNew | ET_StartChildWorkflowExecutionInitiated
    | ET_StartChildWorkflowExecutionFailed | ET_ChildWorkflowExecutionStarted
    | ET_ChildWorkflowExecutionCompleted | ET_ChildWorkflowExecutionFailed
    | ET_ChildWorkflowExecutionCanceled | ET_ChildWorkflowExecutionTimedOut
    | ET_ChildWorkflowExecutionTerminated | ET_SignalExternalWorkflowExecutionInitiated
    | ET_SignalExternalWorkflowExecutionFailed | ET_ExternalWorkflowExecutionSignaled
    | ET_UpsertWorkflowSearchAttributes | ET_WorkflowExecutionUpdateAccepted
    | ET_WorkflowExecutionUpdateRejected | ET_WorkflowExecutionUpdateCompleted
    | ET_WorkflowPropertiesModifiedExternally | ET_ActivityPropertiesModifiedExternally
    | ET_WorkflowPropertiesModified | ET_WorkflowExecutionUpdateAdmitted
    | ET_NexusOperationScheduled | ET_NexusOperationStarted | ET_NexusOperationCompleted
    | ET_NexusOperationFailed | ET_NexusOperationCanceled | ET_NexusOperationTimedOut
    | ET_NexusOperationCancelRequested | ET_WorkflowExecutionOptionsUpdated

datatype (plugins only: code) command_type =
    CT_Unspecified | CT_ScheduleActivityTask | CT_RequestCancelActivityTask | CT_StartTimer
    | CT_CompleteWorkflowExecution | CT_FailWorkflowExecution | CT_CancelTimer
    | CT_CancelWorkflowExecution | CT_RequestCancelExternalWorkflowExecution | CT_RecordMarker
    | CT_ContinueAsNewWorkflowExecution | CT_StartChildWorkflowExecution
    | CT_SignalExternalWorkflowExecution | CT_UpsertWorkflowSearchAttributes
    | CT_ProtocolMessage | CT_ModifyWorkflowProperties | CT_ScheduleNexusOperation
    | CT_RequestCancelNexusOperation

text \<open>The event types in the order of their numbers, 0 to 55.\<close>

definition event_types :: "event_type list" where
  "event_types =
    [ET_Unspecified, ET_WorkflowExecutionStarted, ET_WorkflowExecutionCompleted
     , ET_WorkflowExecutionFailed, ET_WorkflowExecutionTimedOut, ET_WorkflowTaskScheduled
     , ET_WorkflowTaskStarted, ET_WorkflowTaskCompleted, ET_WorkflowTaskTimedOut
     , ET_WorkflowTaskFailed, ET_ActivityTaskScheduled, ET_ActivityTaskStarted
     , ET_ActivityTaskCompleted, ET_ActivityTaskFailed, ET_ActivityTaskTimedOut
     , ET_ActivityTaskCancelRequested, ET_ActivityTaskCanceled, ET_TimerStarted, ET_TimerFired
     , ET_TimerCanceled, ET_WorkflowExecutionCancelRequested, ET_WorkflowExecutionCanceled
     , ET_RequestCancelExternalWorkflowExecutionInitiated
     , ET_RequestCancelExternalWorkflowExecutionFailed
     , ET_ExternalWorkflowExecutionCancelRequested, ET_MarkerRecorded
     , ET_WorkflowExecutionSignaled, ET_WorkflowExecutionTerminated
     , ET_WorkflowExecutionContinuedAsNew, ET_StartChildWorkflowExecutionInitiated
     , ET_StartChildWorkflowExecutionFailed, ET_ChildWorkflowExecutionStarted
     , ET_ChildWorkflowExecutionCompleted, ET_ChildWorkflowExecutionFailed
     , ET_ChildWorkflowExecutionCanceled, ET_ChildWorkflowExecutionTimedOut
     , ET_ChildWorkflowExecutionTerminated, ET_SignalExternalWorkflowExecutionInitiated
     , ET_SignalExternalWorkflowExecutionFailed, ET_ExternalWorkflowExecutionSignaled
     , ET_UpsertWorkflowSearchAttributes, ET_WorkflowExecutionUpdateAccepted
     , ET_WorkflowExecutionUpdateRejected, ET_WorkflowExecutionUpdateCompleted
     , ET_WorkflowPropertiesModifiedExternally, ET_ActivityPropertiesModifiedExternally
     , ET_WorkflowPropertiesModified, ET_WorkflowExecutionUpdateAdmitted
     , ET_NexusOperationScheduled, ET_NexusOperationStarted, ET_NexusOperationCompleted
     , ET_NexusOperationFailed, ET_NexusOperationCanceled, ET_NexusOperationTimedOut
     , ET_NexusOperationCancelRequested, ET_WorkflowExecutionOptionsUpdated]"

definition event_type_try_from :: "int \<Rightarrow> event_type option" where
  "event_type_try_from n =
     (if 0 \<le> n \<and> nat n < length event_types then Some (event_types ! nat n) else None)"

fun command_type_code :: "command_type \<Rightarrow> int" where
  "command_type_code CT_Unspecified = 0"
| "command_type_code CT_ScheduleActivityTask = 1"
| "command_type_code CT_RequestCancelActivityTask = 2"
| "command_type_code CT_StartTimer = 3"
| "command_type_code CT_CompleteWorkflowExecution = 4"
| "command_type_code CT_FailWorkflowExecution = 5"
| "command_type_code CT_CancelTimer = 6"
| "command_type_code CT_CancelWorkflowExecution = 7"
| "command_type_code CT_RequestCancelExternalWorkflowExecution = 8"
| "command_type_code CT_RecordMarker = 9"
| "command_type_code CT_ContinueAsNewWorkflowExecution = 10"
| "command_type_code CT_StartChildWorkflowExecution = 11"
| "command_type_code CT_SignalExternalWorkflowExecution = 12"
| "command_type_code CT_UpsertWorkflowSearchAttributes = 13"
| "command_type_code CT_ProtocolMessage = 14"
| "command_type_code CT_ModifyWorkflowProperties = 16"
| "command_type_code CT_ScheduleNexusOperation = 17"
| "command_type_code CT_RequestCancelNexusOperation = 18"

definition command_types :: "command_type list" where
  "command_types =
    [CT_Unspecified, CT_ScheduleActivityTask, CT_RequestCancelActivityTask, CT_StartTimer
     , CT_CompleteWorkflowExecution, CT_FailWorkflowExecution, CT_CancelTimer
     , CT_CancelWorkflowExecution, CT_RequestCancelExternalWorkflowExecution, CT_RecordMarker
     , CT_ContinueAsNewWorkflowExecution, CT_StartChildWorkflowExecution
     , CT_SignalExternalWorkflowExecution, CT_UpsertWorkflowSearchAttributes, CT_ProtocolMessage
     , CT_ModifyWorkflowProperties, CT_ScheduleNexusOperation, CT_RequestCancelNexusOperation]"

definition command_type_try_from :: "int \<Rightarrow> command_type option" where
  "command_type_try_from n = List.find (\<lambda>c. command_type_code c = n) command_types"

definition command_type_get :: "int \<Rightarrow> command_type" where
  "command_type_get n = (case command_type_try_from n of None \<Rightarrow> CT_Unspecified | Some c \<Rightarrow> c)"

datatype retry_state = RS_Unspecified | RS_InProgress | RS_NonRetryableFailure | RS_Timeout
  | RS_MaximumAttemptsReached | RS_RetryPolicyNotSet | RS_InternalServerError | RS_CancelRequested

definition retry_states :: "retry_state list" where
  "retry_states = [RS_Unspecified, RS_InProgress, RS_NonRetryableFailure, RS_Timeout,
     RS_MaximumAttemptsReached, RS_RetryPolicyNotSet, RS_InternalServerError, RS_CancelRequested]"

definition retry_state_get :: "int \<Rightarrow> retry_state" where
  "retry_state_get n =
     (if 0 \<le> n \<and> nat n < length retry_states then retry_states ! nat n else RS_Unspecified)"

primrec retry_state_code :: "retry_state \<Rightarrow> int" where
  "retry_state_code RS_Unspecified = 0"
| "retry_state_code RS_InProgress = 1"
| "retry_state_code RS_NonRetryableFailure = 2"
| "retry_state_code RS_Timeout = 3"
| "retry_state_code RS_MaximumAttemptsReached = 4"
| "retry_state_code RS_RetryPolicyNotSet = 5"
| "retry_state_code RS_InternalServerError = 6"
| "retry_state_code RS_CancelRequested = 7"

datatype timeout_type = TT_Unspecified | TT_StartToClose | TT_ScheduleToStart | TT_ScheduleToClose
  | TT_Heartbeat

primrec timeout_type_code :: "timeout_type \<Rightarrow> int" where
  "timeout_type_code TT_Unspecified = 0"
| "timeout_type_code TT_StartToClose = 1"
| "timeout_type_code TT_ScheduleToStart = 2"
| "timeout_type_code TT_ScheduleToClose = 3"
| "timeout_type_code TT_Heartbeat = 4"

definition timeout_type_try_from :: "int \<Rightarrow> timeout_type option" where
  "timeout_type_try_from n =
     List.find (\<lambda>t. timeout_type_code t = n)
       [TT_Unspecified, TT_StartToClose, TT_ScheduleToStart, TT_ScheduleToClose, TT_Heartbeat]"

datatype activity_cancellation_type = ACT_TryCancel | ACT_WaitCancellationCompleted | ACT_Abandon

definition activity_cancellation_type_try_from :: "int \<Rightarrow> activity_cancellation_type option" where
  "activity_cancellation_type_try_from n =
     (if n = 0 then Some ACT_TryCancel
      else if n = 1 then Some ACT_WaitCancellationCompleted
      else if n = 2 then Some ACT_Abandon else None)"

datatype child_workflow_cancellation_type = CWCT_Abandon | CWCT_TryCancel
  | CWCT_WaitCancellationCompleted | CWCT_WaitCancellationRequested

definition child_workflow_cancellation_type_get :: "int \<Rightarrow> child_workflow_cancellation_type" where
  "child_workflow_cancellation_type_get n =
     (if n = 1 then CWCT_TryCancel
      else if n = 2 then CWCT_WaitCancellationCompleted
      else if n = 3 then CWCT_WaitCancellationRequested else CWCT_Abandon)"

datatype start_child_failed_cause = SCF_Unspecified | SCF_WorkflowAlreadyExists | SCF_NamespaceNotFound

definition start_child_failed_cause_try_from :: "int \<Rightarrow> start_child_failed_cause option" where
  "start_child_failed_cause_try_from n =
     (if n = 0 then Some SCF_Unspecified
      else if n = 1 then Some SCF_WorkflowAlreadyExists
      else if n = 2 then Some SCF_NamespaceNotFound else None)"

primrec start_child_failed_cause_code :: "start_child_failed_cause \<Rightarrow> int" where
  "start_child_failed_cause_code SCF_Unspecified = 0"
| "start_child_failed_cause_code SCF_WorkflowAlreadyExists = 1"
| "start_child_failed_cause_code SCF_NamespaceNotFound = 2"

datatype cancel_external_failed_cause = CEF_Unspecified | CEF_ExternalWorkflowExecutionNotFound
  | CEF_NamespaceNotFound

definition cancel_external_failed_cause_get :: "int \<Rightarrow> cancel_external_failed_cause" where
  "cancel_external_failed_cause_get n =
     (if n = 1 then CEF_ExternalWorkflowExecutionNotFound
      else if n = 2 then CEF_NamespaceNotFound else CEF_Unspecified)"

datatype signal_external_failed_cause = SEF_Unspecified | SEF_ExternalWorkflowExecutionNotFound
  | SEF_NamespaceNotFound | SEF_SignalCountLimitExceeded

definition signal_external_failed_cause_get :: "int \<Rightarrow> signal_external_failed_cause" where
  "signal_external_failed_cause_get n =
     (if n = 1 then SEF_ExternalWorkflowExecutionNotFound
      else if n = 2 then SEF_NamespaceNotFound
      else if n = 3 then SEF_SignalCountLimitExceeded else SEF_Unspecified)"

datatype versioning_intent = VI_Unspecified | VI_Compatible | VI_Default

definition versioning_intent_get :: "int \<Rightarrow> versioning_intent" where
  "versioning_intent_get n =
     (if n = 1 then VI_Compatible else if n = 2 then VI_Default else VI_Unspecified)"

section \<open>Failures\<close>

datatype failure_info =
    ApplicationFailureInfo string bool
  | TimeoutFailureInfo int "payloads option"
  | CanceledFailureInfo "payloads option"
  | TerminatedFailureInfo
  | ActivityFailureInfo event_id event_id string "string option" string int
  | ChildWorkflowExecutionFailureInfo string "workflow_execution option" "string option"
      event_id event_id int
  | NexusOperationExecutionFailureInfo event_id string string string string
  | OtherFailureInfo nat

datatype failure = Failure
  (f_message: string) (f_source: string) (f_stack_trace: string)
  (f_encoded_attributes: "payload option")
  (f_cause: "failure option") (f_info: "failure_info option")

text \<open>\<open>Failure { message, cause, failure_info, ..Default::default() }\<close>.\<close>

definition mk_failure :: "string \<Rightarrow> failure option \<Rightarrow> failure_info option \<Rightarrow> failure" where
  "mk_failure message cause info = Failure message [] [] None cause info"

definition failure_default :: failure where
  "failure_default = mk_failure [] None None"

definition failure_is_timeout :: "failure \<Rightarrow> timeout_type option" where
  "failure_is_timeout f =
     (case f_info f of
        Some (TimeoutFailureInfo tt _) \<Rightarrow>
          Some (case timeout_type_try_from tt of None \<Rightarrow> TT_Unspecified | Some t \<Rightarrow> t)
      | _ \<Rightarrow> None)"

definition application_failure :: "string \<Rightarrow> bool \<Rightarrow> failure" where
  "application_failure message non_retryable =
     mk_failure message None (Some (ApplicationFailureInfo [] non_retryable))"

definition timeout_failure :: "timeout_type \<Rightarrow> failure" where
  "timeout_failure tt =
     mk_failure ''Activity timed out''
       (Some (mk_failure ''Activity timed out'' None
         (Some (TimeoutFailureInfo (timeout_type_code tt) None))))
       (Some (ActivityFailureInfo 0 0 [] None [] 0))"

definition maybe_application_failure :: "failure \<Rightarrow> (string \<times> bool) option" where
  "maybe_application_failure f =
     (case f_info f of Some (ApplicationFailureInfo t nr) \<Rightarrow> Some (t, nr) | _ \<Rightarrow> None)"

section \<open>Marker data and code outside the sources\<close>

record patched_marker_data =
  pmd_id :: string
  pmd_deprecated :: bool

record la_marker_data =
  lmd_seq :: u32
  lmd_attempt :: u32
  lmd_activity_id :: string
  lmd_activity_type :: string
  lmd_complete_time :: "timestamp option"
  lmd_backoff :: "duration_pb option"
  lmd_original_schedule_time :: "timestamp option"

record update_meta =
  um_update_id :: string
  um_identity :: string

record update_input =
  ui_header :: "payload str_map option"
  ui_name :: string
  ui_args :: "payloads option"

record update_request_pb =
  ur_meta :: "update_meta option"
  ur_input :: "update_input option"

datatype update_outcome = OutcomeSuccess payloads | OutcomeFailure failure

datatype update_msg =
    UM_Accept string event_id "update_request_pb option"
  | UM_Reject string event_id "update_request_pb option" "failure option"
  | UM_Response "update_meta option" "update_outcome option"

record any_pb =
  any_type_url :: string
  any_value :: "byte list"

record externals =
  x_patch_to_json :: "patched_marker_data \<Rightarrow> byte list option"
  x_patch_of_json :: "byte list \<Rightarrow> patched_marker_data option"
  x_la_to_json :: "la_marker_data \<Rightarrow> byte list option"
  x_la_of_json :: "byte list \<Rightarrow> la_marker_data option"
  x_strings_to_json :: "string list \<Rightarrow> byte list option"
  x_from_utf8 :: "byte list \<Rightarrow> string option"
  x_decode_request :: "byte list \<Rightarrow> update_request_pb option"
  x_encode_msg :: "update_msg \<Rightarrow> byte list option"
  x_systime :: "timestamp \<Rightarrow> system_time option"
  x_timestamp :: "system_time \<Rightarrow> timestamp"
  x_duration :: "duration_pb \<Rightarrow> duration option"
  x_siphash :: "string \<Rightarrow> u64"

text \<open>\<open>TryIntoOrNone::try_into_or_none\<close>.\<close>

definition try_into_or_none :: "('a \<Rightarrow> 'b option) \<Rightarrow> 'a option \<Rightarrow> 'b option" where
  "try_into_or_none conv v = Option.bind v conv"

definition json_encoding_metadata :: "byte list str_map" where
  "json_encoding_metadata = [(''encoding'', map of_char ''json/plain'')]"

definition json_payload :: "byte list \<Rightarrow> payload" where
  "json_payload bytes = \<lparr>pl_metadata = json_encoding_metadata, pl_data = bytes\<rparr>"

definition is_json_payload :: "payload \<Rightarrow> bool" where
  "is_json_payload p =
     (map_of (pl_metadata p) ''encoding'' = Some (map of_char ''json/plain''))"

subsection \<open>Marker details\<close>

definition PATCHED_MARKER_DETAILS_KEY :: string where
  "PATCHED_MARKER_DETAILS_KEY = ''patch-data''"

definition PATCH_MARKER_NAME :: string where
  "PATCH_MARKER_NAME = ''core_patch''"

definition LOCAL_ACTIVITY_MARKER_NAME :: string where
  "LOCAL_ACTIVITY_MARKER_NAME = ''core_local_activity''"

definition VERSION_SEARCH_ATTR_KEY :: string where
  "VERSION_SEARCH_ATTR_KEY = ''TemporalChangeVersion''"

definition build_has_change_marker_details ::
  "externals \<Rightarrow> string \<Rightarrow> bool \<Rightarrow> payloads str_map option" where
  "build_has_change_marker_details x patch_id deprecated =
     (case x_patch_to_json x \<lparr>pmd_id = patch_id, pmd_deprecated = deprecated\<rparr> of
        None \<Rightarrow> None
      | Some bytes \<Rightarrow> Some (map_insert PATCHED_MARKER_DETAILS_KEY [json_payload bytes] []))"

definition first_payload :: "payloads str_map \<Rightarrow> string \<Rightarrow> payload option" where
  "first_payload details key =
     (case map_of details key of Some (p # _) \<Rightarrow> Some p | _ \<Rightarrow> None)"

definition decode_change_marker_details ::
  "externals \<Rightarrow> payloads str_map \<Rightarrow> (string \<times> bool) option" where
  "decode_change_marker_details x details =
     (case map_of details PATCHED_MARKER_DETAILS_KEY of
        Some ps \<Rightarrow>
          (case ps of
             [] \<Rightarrow> None
           | p # _ \<Rightarrow>
               if is_json_payload p \<and> x_from_utf8 x (pl_data p) \<noteq> None then
                 (case x_patch_of_json x (pl_data p) of
                    None \<Rightarrow> None
                  | Some d \<Rightarrow> Some (pmd_id d, pmd_deprecated d))
               else None)
      | None \<Rightarrow>
          Option.bind (first_payload details ''patch_id'') (\<lambda>id_entry.
          Option.bind (first_payload details ''deprecated'') (\<lambda>deprecated_entry.
          Option.bind (x_from_utf8 x (pl_data id_entry)) (\<lambda>name.
            case pl_data deprecated_entry of
              [] \<Rightarrow> None
            | b # _ \<Rightarrow> Some (name, b \<noteq> 0)))))"

definition build_local_activity_marker_details ::
  "externals \<Rightarrow> la_marker_data \<Rightarrow> payload option \<Rightarrow> payloads str_map" where
  "build_local_activity_marker_details x metadata result =
     (let hm = (case x_la_to_json x metadata of
                  None \<Rightarrow> []
                | Some bytes \<Rightarrow> map_insert ''data'' [json_payload bytes] [])
      in case result of None \<Rightarrow> hm | Some res \<Rightarrow> map_insert ''result'' [res] hm)"

definition extract_la_marker_data_of_details ::
  "externals \<Rightarrow> payloads str_map \<Rightarrow> la_marker_data option" where
  "extract_la_marker_data_of_details x details =
     Option.bind (first_payload details ''data'') (\<lambda>p.
       if x_from_utf8 x (pl_data p) = None then None else x_la_of_json x (pl_data p))"

definition extract_local_activity_marker_details ::
  "externals \<Rightarrow> payloads str_map \<Rightarrow> la_marker_data option \<times> payload option" where
  "extract_local_activity_marker_details x details =
     (extract_la_marker_data_of_details x details,
      case map_of details ''result'' of
        None \<Rightarrow> None
      | Some ps \<Rightarrow> if ps = [] then None else Some (last ps))"

section \<open>Facts\<close>

lemma map_of_filter_key:
  "map_of (filter (\<lambda>e. fst e \<noteq> k) m) x = (if x = k then None else map_of m x)"
  by (induction m) auto

lemma map_of_map_insert [simp]: "map_of (map_insert k v m) x = (if x = k then Some v else map_of m x)"
  by (auto simp: map_insert_def map_of_filter_key)

lemma map_of_map_remove [simp]: "map_of (map_remove k m) x = (if x = k then None else map_of m x)"
  by (auto simp: map_remove_def map_of_filter_key)

lemma payload_try_from_Inr: "payload_try_from v = Inr p \<longleftrightarrow> v = [p]"
  by (cases v rule: rev_cases) (auto simp: payload_try_from_def)

lemma command_type_code_inj: "command_type_code a = command_type_code b \<Longrightarrow> a = b"
  by (cases a; cases b; simp)

lemma command_type_get_code [simp]: "command_type_get (command_type_code c) = c"
  by (cases c; simp add: command_type_get_def command_type_try_from_def command_types_def)

lemma retry_state_get_code [simp]: "retry_state_get (retry_state_code r) = r"
  by (cases r; simp add: retry_state_get_def retry_states_def)

lemma json_payload_facts [simp]:
  "is_json_payload (json_payload b)" "pl_data (json_payload b) = b"
  by (simp_all add: is_json_payload_def json_payload_def json_encoding_metadata_def)

lemma length_event_types: "length event_types = 56"
  by (simp add: event_types_def)

end
