(* ===== verification/Protos_Events.thy ===== *)
theory Protos_Events
  imports Protos_Data
begin

text \<open>
  History events: \<open>history_event::Attributes\<close> with the fields the SDK reads, \<open>HistoryEvent\<close> and
  the helper methods of \<open>sdk-core-protos/src/lib.rs\<close> and of \<open>core/src/protosext/mod.rs\<close> on them.
  A constructor without arguments stands for attributes of which the SDK reads no field.
\<close>

section \<open>Event attributes\<close>

record wf_started_attrs =
  wes_workflow_type :: "string option"
  wes_parent_workflow_namespace :: string
  wes_parent_workflow_execution :: "workflow_execution option"
  wes_input :: "payloads option"
  wes_workflow_execution_timeout :: "duration_pb option"
  wes_workflow_run_timeout :: "duration_pb option"
  wes_workflow_task_timeout :: "duration_pb option"
  wes_continued_execution_run_id :: string
  wes_initiator :: int
  wes_continued_failure :: "failure option"
  wes_last_completion_result :: "payloads option"
  wes_original_execution_run_id :: string
  wes_identity :: string
  wes_first_execution_run_id :: string
  wes_retry_policy :: "retry_policy option"
  wes_attempt :: int
  wes_workflow_execution_expiration_time :: "timestamp option"
  wes_cron_schedule :: string
  wes_first_workflow_task_backoff :: "duration_pb option"
  wes_memo :: "payload str_map option"
  wes_search_attributes :: "payload str_map option"
  wes_header :: "payload str_map option"

record wft_started_attrs =
  wts_scheduled_event_id :: event_id
  wts_history_size_bytes :: int
  wts_suggest_continue_as_new :: bool

record wft_completed_metadata =
  wcm_core_used_flags :: "u32 list"
  wcm_lang_used_flags :: "u32 list"
  wcm_sdk_name :: string
  wcm_sdk_version :: string

record wft_completed_attrs =
  wtc_scheduled_event_id :: event_id
  wtc_sdk_metadata :: "wft_completed_metadata option"
  wtc_worker_build_id :: "string option"

record wft_failed_attrs =
  wtf_scheduled_event_id :: event_id
  wtf_cause :: int
  wtf_new_run_id :: string

record act_scheduled_attrs =
  asc_activity_id :: string
  asc_activity_type :: "string option"

record act_completed_attrs =
  acm_result :: "payloads option"
  acm_scheduled_event_id :: event_id

record act_failed_attrs =
  afl_failure :: "failure option"
  afl_scheduled_event_id :: event_id
  afl_started_event_id :: event_id
  afl_identity :: string
  afl_retry_state :: int

record act_timed_out_attrs =
  ato_failure :: "failure option"
  ato_scheduled_event_id :: event_id
  ato_started_event_id :: event_id
  ato_retry_state :: int

record act_canceled_attrs =
  acn_details :: "payloads option"
  acn_scheduled_event_id :: event_id
  acn_started_event_id :: event_id
  acn_identity :: string

record timer_fired_attrs =
  tfd_timer_id :: string
  tfd_started_event_id :: event_id

record marker_recorded_attrs =
  mrk_marker_name :: string
  mrk_details :: "payloads str_map"
  mrk_failure :: "failure option"

record wf_signaled_attrs =
  wsg_signal_name :: string
  wsg_input :: "payloads option"
  wsg_identity :: string
  wsg_header :: "payload str_map option"

record child_failed_attrs =
  cwf_failure :: "failure option"
  cwf_initiated_event_id :: event_id
  cwf_retry_state :: int

record nexus_started_attrs =
  nst_scheduled_event_id :: event_id
  nst_operation_id :: string

record nexus_completed_attrs =
  ncm_scheduled_event_id :: event_id
  ncm_result :: "payload option"

record nexus_ended_attrs =
  nen_scheduled_event_id :: event_id
  nen_failure :: "failure option"

record update_accepted_attrs =
  uac_protocol_instance_id :: string
  uac_accepted_request_message_id :: string
  uac_accepted_request_sequencing_event_id :: event_id
  uac_accepted_request :: "update_request_pb option"

datatype (plugins only: code) event_attributes =
    WorkflowExecutionStartedEventAttributes wf_started_attrs
  | WorkflowExecutionCompletedEventAttributes
  | WorkflowExecutionFailedEventAttributes
  | WorkflowExecutionTimedOutEventAttributes
  | WorkflowTaskScheduledEventAttributes
  | WorkflowTaskStartedEventAttributes wft_started_attrs
  | WorkflowTaskCompletedEventAttributes wft_completed_attrs
  | WorkflowTaskTimedOutEventAttributes event_id
  | WorkflowTaskFailedEventAttributes wft_failed_attrs
  | ActivityTaskScheduledEventAttributes act_scheduled_attrs
  | ActivityTaskStartedEventAttributes event_id
  | ActivityTaskCompletedEventAttributes act_completed_attrs
  | ActivityTaskFailedEventAttributes act_failed_attrs
  | ActivityTaskTimedOutEventAttributes act_timed_out_attrs
  | ActivityTaskCancelRequestedEventAttributes event_id
  | ActivityTaskCanceledEventAttributes act_canceled_attrs
  | TimerStartedEventAttributes string
  | TimerFiredEventAttributes timer_fired_attrs
  | TimerCanceledEventAttributes string event_id
  | WorkflowExecutionCancelRequestedEventAttributes string
  | WorkflowExecutionCanceledEventAttributes
  | RequestCancelExternalWorkflowExecutionInitiatedEventAttributes
  | RequestCancelExternalWorkflowExecutionFailedEventAttributes int event_id
  | ExternalWorkflowExecutionCancelRequestedEventAttributes event_id
  | MarkerRecordedEventAttributes marker_recorded_attrs
  | WorkflowExecutionSignaledEventAttributes wf_signaled_attrs
  | WorkflowExecutionTerminatedEventAttributes
  | WorkflowExecutionContinuedAsNewEventAttributes
  | StartChildWorkflowExecutionInitiatedEventAttributes string "string option"
  | StartChildWorkflowExecutionFailedEventAttributes int event_id
  | ChildWorkflowExecutionStartedEventAttributes "workflow_execution option" event_id
  | ChildWorkflowExecutionCompletedEventAttributes "payloads option" event_id
  | ChildWorkflowExecutionFailedEventAttributes child_failed_attrs
  | ChildWorkflowExecutionCanceledEventAttributes event_id
  | ChildWorkflowExecutionTimedOutEventAttributes int event_id
  | ChildWorkflowExecutionTerminatedEventAttributes event_id
  | SignalExternalWorkflowExecutionInitiatedEventAttributes
  | SignalExternalWorkflowExecutionFailedEventAttributes int event_id
  | ExternalWorkflowExecutionSignaledEventAttributes event_id
  | UpsertWorkflowSearchAttributesEventAttributes "payload str_map option"
  | WorkflowExecutionUpdateAcceptedEventAttributes update_accepted_attrs
  | WorkflowExecutionUpdateRejectedEventAttributes
  | WorkflowExecutionUpdateCompletedEventAttributes
  | WorkflowPropertiesModifiedExternallyEventAttributes
  | ActivityPropertiesModifiedExternallyEventAttributes
  | WorkflowPropertiesModifiedEventAttributes
  | WorkflowExecutionUpdateAdmittedEventAttributes "update_request_pb option"
  | NexusOperationScheduledEventAttributes
  | NexusOperationStartedEventAttributes nexus_started_attrs
  | NexusOperationCompletedEventAttributes nexus_completed_attrs
  | NexusOperationFailedEventAttributes nexus_ended_attrs
  | NexusOperationCanceledEventAttributes nexus_ended_attrs
  | NexusOperationTimedOutEventAttributes nexus_ended_attrs
  | NexusOperationCancelRequestedEventAttributes event_id
  | WorkflowExecutionOptionsUpdatedEventAttributes

record history_event =
  he_event_id :: event_id
  he_event_time :: "timestamp option"
  he_event_type :: int
  he_worker_may_ignore :: bool
  he_attributes :: "event_attributes option"

section \<open>Methods of history events\<close>

definition event_type_of :: "history_event \<Rightarrow> event_type" where
  "event_type_of e =
     (case event_type_try_from (he_event_type e) of None \<Rightarrow> ET_Unspecified | Some t \<Rightarrow> t)"

definition command_event_types :: "event_type list" where
  "command_event_types =
     [ET_ActivityTaskScheduled, ET_ActivityTaskCancelRequested, ET_MarkerRecorded,
      ET_RequestCancelExternalWorkflowExecutionInitiated,
      ET_SignalExternalWorkflowExecutionInitiated, ET_StartChildWorkflowExecutionInitiated,
      ET_TimerCanceled, ET_TimerStarted, ET_UpsertWorkflowSearchAttributes,
      ET_WorkflowPropertiesModified, ET_NexusOperationScheduled,
      ET_NexusOperationCancelRequested, ET_WorkflowExecutionCanceled,
      ET_WorkflowExecutionCompleted, ET_WorkflowExecutionContinuedAsNew,
      ET_WorkflowExecutionFailed, ET_WorkflowExecutionUpdateAccepted,
      ET_WorkflowExecutionUpdateRejected, ET_WorkflowExecutionUpdateCompleted]"

definition is_command_event :: "history_event \<Rightarrow> bool" where
  "is_command_event e =
     (case event_type_try_from (he_event_type e) of
        None \<Rightarrow> False
      | Some et \<Rightarrow> et \<in> set command_event_types)"

definition initial_command_event_id :: "event_attributes \<Rightarrow> event_id option" where
  "initial_command_event_id attrs =
     (case attrs of
        WorkflowTaskStartedEventAttributes a \<Rightarrow> Some (wts_scheduled_event_id a)
      | WorkflowTaskCompletedEventAttributes a \<Rightarrow> Some (wtc_scheduled_event_id a)
      | WorkflowTaskTimedOutEventAttributes i \<Rightarrow> Some i
      | WorkflowTaskFailedEventAttributes a \<Rightarrow> Some (wtf_scheduled_event_id a)
      | ActivityTaskStartedEventAttributes i \<Rightarrow> Some i
      | ActivityTaskCompletedEventAttributes a \<Rightarrow> Some (acm_scheduled_event_id a)
      | ActivityTaskFailedEventAttributes a \<Rightarrow> Some (afl_scheduled_event_id a)
      | ActivityTaskTimedOutEventAttributes a \<Rightarrow> Some (ato_scheduled_event_id a)
      | ActivityTaskCancelRequestedEventAttributes i \<Rightarrow> Some i
      | ActivityTaskCanceledEventAttributes a \<Rightarrow> Some (acn_scheduled_event_id a)
      | TimerFiredEventAttributes a \<Rightarrow> Some (tfd_started_event_id a)
      | TimerCanceledEventAttributes _ i \<Rightarrow> Some i
      | RequestCancelExternalWorkflowExecutionFailedEventAttributes _ i \<Rightarrow> Some i
      | ExternalWorkflowExecutionCancelRequestedEventAttributes i \<Rightarrow> Some i
      | StartChildWorkflowExecutionFailedEventAttributes _ i \<Rightarrow> Some i
      | ChildWorkflowExecutionStartedEventAttributes _ i \<Rightarrow> Some i
      | ChildWorkflowExecutionCompletedEventAttributes _ i \<Rightarrow> Some i
      | ChildWorkflowExecutionFailedEventAttributes a \<Rightarrow> Some (cwf_initiated_event_id a)
      | ChildWorkflowExecutionCanceledEventAttributes i \<Rightarrow> Some i
      | ChildWorkflowExecutionTimedOutEventAttributes _ i \<Rightarrow> Some i
      | ChildWorkflowExecutionTerminatedEventAttributes i \<Rightarrow> Some i
      | SignalExternalWorkflowExecutionFailedEventAttributes _ i \<Rightarrow> Some i
      | ExternalWorkflowExecutionSignaledEventAttributes i \<Rightarrow> Some i
      | NexusOperationStartedEventAttributes a \<Rightarrow> Some (nst_scheduled_event_id a)
      | NexusOperationCompletedEventAttributes a \<Rightarrow> Some (ncm_scheduled_event_id a)
      | NexusOperationFailedEventAttributes a \<Rightarrow> Some (nen_scheduled_event_id a)
      | NexusOperationCanceledEventAttributes a \<Rightarrow> Some (nen_scheduled_event_id a)
      | NexusOperationTimedOutEventAttributes a \<Rightarrow> Some (nen_scheduled_event_id a)
      | NexusOperationCancelRequestedEventAttributes i \<Rightarrow> Some i
      | _ \<Rightarrow> None)"

definition get_initial_command_event_id :: "history_event \<Rightarrow> event_id option" where
  "get_initial_command_event_id e = Option.bind (he_attributes e) initial_command_event_id"

definition get_protocol_instance_id :: "history_event \<Rightarrow> string option" where
  "get_protocol_instance_id e =
     (case he_attributes e of
        Some (WorkflowExecutionUpdateAcceptedEventAttributes a) \<Rightarrow> Some (uac_protocol_instance_id a)
      | _ \<Rightarrow> None)"

definition is_final_wf_execution_event :: "history_event \<Rightarrow> bool" where
  "is_final_wf_execution_event e =
     (event_type_of e \<in> {ET_WorkflowExecutionCompleted, ET_WorkflowExecutionCanceled,
        ET_WorkflowExecutionFailed, ET_WorkflowExecutionTimedOut,
        ET_WorkflowExecutionContinuedAsNew, ET_WorkflowExecutionTerminated})"

definition is_wft_closed_event :: "history_event \<Rightarrow> bool" where
  "is_wft_closed_event e =
     (event_type_of e \<in> {ET_WorkflowTaskCompleted, ET_WorkflowTaskFailed, ET_WorkflowTaskTimedOut})"

fun attributes_event_type :: "event_attributes \<Rightarrow> event_type" where
  "attributes_event_type (WorkflowExecutionStartedEventAttributes a) = ET_WorkflowExecutionStarted"
| "attributes_event_type WorkflowExecutionCompletedEventAttributes = ET_WorkflowExecutionCompleted"
| "attributes_event_type WorkflowExecutionFailedEventAttributes = ET_WorkflowExecutionFailed"
| "attributes_event_type WorkflowExecutionTimedOutEventAttributes = ET_WorkflowExecutionTimedOut"
| "attributes_event_type WorkflowTaskScheduledEventAttributes = ET_WorkflowTaskScheduled"
| "attributes_event_type (WorkflowTaskStartedEventAttributes a) = ET_WorkflowTaskStarted"
| "attributes_event_type (WorkflowTaskCompletedEventAttributes a) = ET_WorkflowTaskCompleted"
| "attributes_event_type (WorkflowTaskTimedOutEventAttributes a) = ET_WorkflowTaskTimedOut"
| "attributes_event_type (WorkflowTaskFailedEventAttributes a) = ET_WorkflowTaskFailed"
| "attributes_event_type (ActivityTaskScheduledEventAttributes a) = ET_ActivityTaskScheduled"
| "attributes_event_type (ActivityTaskStartedEventAttributes a) = ET_ActivityTaskStarted"
| "attributes_event_type (ActivityTaskCompletedEventAttributes a) = ET_ActivityTaskCompleted"
| "attributes_event_type (ActivityTaskFailedEventAttributes a) = ET_ActivityTaskFailed"
| "attributes_event_type (ActivityTaskTimedOutEventAttributes a) = ET_ActivityTaskTimedOut"
| "attributes_event_type (ActivityTaskCancelRequestedEventAttributes a) = ET_ActivityTaskCancelRequested"
| "attributes_event_type (ActivityTaskCanceledEventAttributes a) = ET_ActivityTaskCanceled"
| "attributes_event_type (TimerStartedEventAttributes a) = ET_TimerStarted"
| "attributes_event_type (TimerFiredEventAttributes a) = ET_TimerFired"
| "attributes_event_type (TimerCanceledEventAttributes a b) = ET_TimerCanceled"
| "attributes_event_type (WorkflowExecutionCancelRequestedEventAttributes a) = ET_WorkflowExecutionCancelRequested"
| "attributes_event_type WorkflowExecutionCanceledEventAttributes = ET_WorkflowExecutionCanceled"
| "attributes_event_type RequestCancelExternalWorkflowExecutionInitiatedEventAttributes = ET_RequestCancelExternalWorkflowExecutionInitiated"
| "attributes_event_type (RequestCancelExternalWorkflowExecutionFailedEventAttributes a b) = ET_RequestCancelExternalWorkflowExecutionFailed"
| "attributes_event_type (ExternalWorkflowExecutionCancelRequestedEventAttributes a) = ET_ExternalWorkflowExecutionCancelRequested"
| "attributes_event_type (MarkerRecordedEventAttributes a) = ET_MarkerRecorded"
| "attributes_event_type (WorkflowExecutionSignaledEventAttributes a) = ET_WorkflowExecutionSignaled"
| "attributes_event_type WorkflowExecutionTerminatedEventAttributes = ET_WorkflowExecutionTerminated"
| "attributes_event_type WorkflowExecutionContinuedAsNewEventAttributes = ET_WorkflowExecutionContinuedAsNew"
| "attributes_event_type (StartChildWorkflowExecutionInitiatedEventAttributes a b) = ET_StartChildWorkflowExecutionInitiated"
| "attributes_event_type (StartChildWorkflowExecutionFailedEventAttributes a b) = ET_StartChildWorkflowExecutionFailed"
| "attributes_event_type (ChildWorkflowExecutionStartedEventAttributes a b) = ET_ChildWorkflowExecutionStarted"
| "attributes_event_type (ChildWorkflowExecutionCompletedEventAttributes a b) = ET_ChildWorkflowExecutionCompleted"
| "attributes_event_type (ChildWorkflowExecutionFailedEventAttributes a) = ET_ChildWorkflowExecutionFailed"
| "attributes_event_type (ChildWorkflowExecutionCanceledEventAttributes a) = ET_ChildWorkflowExecutionCanceled"
| "attributes_event_type (ChildWorkflowExecutionTimedOutEventAttributes a b) = ET_ChildWorkflowExecutionTimedOut"
| "attributes_event_type (ChildWorkflowExecutionTerminatedEventAttributes a) = ET_ChildWorkflowExecutionTerminated"
| "attributes_event_type SignalExternalWorkflowExecutionInitiatedEventAttributes = ET_SignalExternalWorkflowExecutionInitiated"
| "attributes_event_type (SignalExternalWorkflowExecutionFailedEventAttributes a b) = ET_SignalExternalWorkflowExecutionFailed"
| "attributes_event_type (ExternalWorkflowExecutionSignaledEventAttributes a) = ET_ExternalWorkflowExecutionSignaled"
| "attributes_event_type (UpsertWorkflowSearchAttributesEventAttributes a) = ET_UpsertWorkflowSearchAttributes"
| "attributes_event_type (WorkflowExecutionUpdateAcceptedEventAttributes a) = ET_WorkflowExecutionUpdateAccepted"
| "attributes_event_type WorkflowExecutionUpdateRejectedEventAttributes = ET_WorkflowExecutionUpdateRejected"
| "attributes_event_type WorkflowExecutionUpdateCompletedEventAttributes = ET_WorkflowExecutionUpdateCompleted"
| "attributes_event_type WorkflowPropertiesModifiedExternallyEventAttributes = ET_WorkflowPropertiesModifiedExternally"
| "attributes_event_type ActivityPropertiesModifiedExternallyEventAttributes = ET_ActivityPropertiesModifiedExternally"
| "attributes_event_type WorkflowPropertiesModifiedEventAttributes = ET_WorkflowPropertiesModified"
| "attributes_event_type (WorkflowExecutionUpdateAdmittedEventAttributes a) = ET_WorkflowExecutionUpdateAdmitted"
| "attributes_event_type NexusOperationScheduledEventAttributes = ET_NexusOperationScheduled"
| "attributes_event_type (NexusOperationStartedEventAttributes a) = ET_NexusOperationStarted"
| "attributes_event_type (NexusOperationCompletedEventAttributes a) = ET_NexusOperationCompleted"
| "attributes_event_type (NexusOperationFailedEventAttributes a) = ET_NexusOperationFailed"
| "attributes_event_type (NexusOperationCanceledEventAttributes a) = ET_NexusOperationCanceled"
| "attributes_event_type (NexusOperationTimedOutEventAttributes a) = ET_NexusOperationTimedOut"
| "attributes_event_type (NexusOperationCancelRequestedEventAttributes a) = ET_NexusOperationCancelRequested"
| "attributes_event_type WorkflowExecutionOptionsUpdatedEventAttributes = ET_WorkflowExecutionOptionsUpdated"

section \<open>Markers (\<open>HistoryEventExt\<close>)\<close>

record complete_la_data =
  cla_marker_dat :: la_marker_data
  cla_result :: "failure + payload"

definition get_patch_marker_details :: "externals \<Rightarrow> history_event \<Rightarrow> (string \<times> bool) option" where
  "get_patch_marker_details x e =
     (if event_type_of e = ET_MarkerRecorded then
        (case he_attributes e of
           Some (MarkerRecordedEventAttributes m) \<Rightarrow>
             if mrk_marker_name m = PATCH_MARKER_NAME
             then decode_change_marker_details x (mrk_details m) else None
         | _ \<Rightarrow> None)
      else None)"

definition is_local_activity_marker :: "history_event \<Rightarrow> bool" where
  "is_local_activity_marker e =
     (event_type_of e = ET_MarkerRecorded \<and>
      (case he_attributes e of
         Some (MarkerRecordedEventAttributes m) \<Rightarrow> mrk_marker_name m = LOCAL_ACTIVITY_MARKER_NAME
       | _ \<Rightarrow> False))"

definition extract_local_activity_marker_data ::
  "externals \<Rightarrow> history_event \<Rightarrow> la_marker_data option" where
  "extract_local_activity_marker_data x e =
     (if event_type_of e = ET_MarkerRecorded then
        (case he_attributes e of
           Some (MarkerRecordedEventAttributes m) \<Rightarrow>
             if mrk_marker_name m = LOCAL_ACTIVITY_MARKER_NAME
             then extract_la_marker_data_of_details x (mrk_details m) else None
         | _ \<Rightarrow> None)
      else None)"

definition into_local_activity_marker_details ::
  "externals \<Rightarrow> history_event \<Rightarrow> complete_la_data option" where
  "into_local_activity_marker_details x e =
     (if event_type_of e = ET_MarkerRecorded then
        (case he_attributes e of
           Some (MarkerRecordedEventAttributes m) \<Rightarrow>
             if mrk_marker_name m = LOCAL_ACTIVITY_MARKER_NAME then
               (case extract_local_activity_marker_details x (mrk_details m) of
                  (None, _) \<Rightarrow> None
                | (Some data, ok_res) \<Rightarrow>
                    Some \<lparr>cla_marker_dat = data,
                          cla_result =
                            (case (ok_res, mrk_failure m) of
                               (Some r, None) \<Rightarrow> Inr r
                             | (_, Some f) \<Rightarrow> Inl f
                             | (None, None) \<Rightarrow> Inr payload_default)\<rparr>)
             else None
         | _ \<Rightarrow> None)
      else None)"

section \<open>Reading the attributes of an event\<close>

text \<open>
  \<open>if let Some(attributes::X(attrs)) = event.attributes\<close>, one reader per attribute type.
\<close>

definition attrs_workflow_execution_started ::
  "history_event \<Rightarrow> wf_started_attrs option" where
  "attrs_workflow_execution_started e =
     (case he_attributes e of Some (WorkflowExecutionStartedEventAttributes a) \<Rightarrow> Some a | _ \<Rightarrow> None)"

definition attrs_workflow_task_started ::
  "history_event \<Rightarrow> wft_started_attrs option" where
  "attrs_workflow_task_started e =
     (case he_attributes e of Some (WorkflowTaskStartedEventAttributes a) \<Rightarrow> Some a | _ \<Rightarrow> None)"

definition attrs_workflow_task_completed ::
  "history_event \<Rightarrow> wft_completed_attrs option" where
  "attrs_workflow_task_completed e =
     (case he_attributes e of Some (WorkflowTaskCompletedEventAttributes a) \<Rightarrow> Some a | _ \<Rightarrow> None)"

definition attrs_workflow_task_timed_out :: "history_event \<Rightarrow> event_id option" where
  "attrs_workflow_task_timed_out e =
     (case he_attributes e of Some (WorkflowTaskTimedOutEventAttributes a) \<Rightarrow> Some a | _ \<Rightarrow> None)"

definition attrs_workflow_task_failed :: "history_event \<Rightarrow> wft_failed_attrs option" where
  "attrs_workflow_task_failed e =
     (case he_attributes e of Some (WorkflowTaskFailedEventAttributes a) \<Rightarrow> Some a | _ \<Rightarrow> None)"

definition attrs_activity_task_scheduled ::
  "history_event \<Rightarrow> act_scheduled_attrs option" where
  "attrs_activity_task_scheduled e =
     (case he_attributes e of Some (ActivityTaskScheduledEventAttributes a) \<Rightarrow> Some a | _ \<Rightarrow> None)"

definition attrs_activity_task_started :: "history_event \<Rightarrow> event_id option" where
  "attrs_activity_task_started e =
     (case he_attributes e of Some (ActivityTaskStartedEventAttributes a) \<Rightarrow> Some a | _ \<Rightarrow> None)"

definition attrs_activity_task_completed ::
  "history_event \<Rightarrow> act_completed_attrs option" where
  "attrs_activity_task_completed e =
     (case he_attributes e of Some (ActivityTaskCompletedEventAttributes a) \<Rightarrow> Some a | _ \<Rightarrow> None)"

definition attrs_activity_task_failed :: "history_event \<Rightarrow> act_failed_attrs option" where
  "attrs_activity_task_failed e =
     (case he_attributes e of Some (ActivityTaskFailedEventAttributes a) \<Rightarrow> Some a | _ \<Rightarrow> None)"

definition attrs_activity_task_timed_out ::
  "history_event \<Rightarrow> act_timed_out_attrs option" where
  "attrs_activity_task_timed_out e =
     (case he_attributes e of Some (ActivityTaskTimedOutEventAttributes a) \<Rightarrow> Some a | _ \<Rightarrow> None)"

definition attrs_activity_task_cancel_requested ::
  "history_event \<Rightarrow> event_id option" where
  "attrs_activity_task_cancel_requested e =
     (case he_attributes e of Some (ActivityTaskCancelRequestedEventAttributes a) \<Rightarrow> Some a | _ \<Rightarrow> None)"

definition attrs_activity_task_canceled ::
  "history_event \<Rightarrow> act_canceled_attrs option" where
  "attrs_activity_task_canceled e =
     (case he_attributes e of Some (ActivityTaskCanceledEventAttributes a) \<Rightarrow> Some a | _ \<Rightarrow> None)"

definition attrs_timer_started :: "history_event \<Rightarrow> string option" where
  "attrs_timer_started e =
     (case he_attributes e of Some (TimerStartedEventAttributes a) \<Rightarrow> Some a | _ \<Rightarrow> None)"

definition attrs_timer_fired :: "history_event \<Rightarrow> timer_fired_attrs option" where
  "attrs_timer_fired e =
     (case he_attributes e of Some (TimerFiredEventAttributes a) \<Rightarrow> Some a | _ \<Rightarrow> None)"

definition attrs_timer_canceled ::
  "history_event \<Rightarrow> (string \<times> event_id) option" where
  "attrs_timer_canceled e =
     (case he_attributes e of Some (TimerCanceledEventAttributes a b) \<Rightarrow> Some (a, b) | _ \<Rightarrow> None)"

definition attrs_workflow_execution_cancel_requested ::
  "history_event \<Rightarrow> string option" where
  "attrs_workflow_execution_cancel_requested e =
     (case he_attributes e of Some (WorkflowExecutionCancelRequestedEventAttributes a) \<Rightarrow> Some a | _ \<Rightarrow> None)"

definition attrs_request_cancel_external_workflow_execution_failed ::
  "history_event \<Rightarrow> (int \<times> event_id) option" where
  "attrs_request_cancel_external_workflow_execution_failed e =
     (case he_attributes e of Some (RequestCancelExternalWorkflowExecutionFailedEventAttributes a b) \<Rightarrow> Some (a, b) | _ \<Rightarrow> None)"

definition attrs_external_workflow_execution_cancel_requested ::
  "history_event \<Rightarrow> event_id option" where
  "attrs_external_workflow_execution_cancel_requested e =
     (case he_attributes e of Some (ExternalWorkflowExecutionCancelRequestedEventAttributes a) \<Rightarrow> Some a | _ \<Rightarrow> None)"

definition attrs_marker_recorded :: "history_event \<Rightarrow> marker_recorded_attrs option" where
  "attrs_marker_recorded e =
     (case he_attributes e of Some (MarkerRecordedEventAttributes a) \<Rightarrow> Some a | _ \<Rightarrow> None)"

definition attrs_workflow_execution_signaled ::
  "history_event \<Rightarrow> wf_signaled_attrs option" where
  "attrs_workflow_execution_signaled e =
     (case he_attributes e of Some (WorkflowExecutionSignaledEventAttributes a) \<Rightarrow> Some a | _ \<Rightarrow> None)"

definition attrs_start_child_workflow_execution_initiated ::
  "history_event \<Rightarrow> (string \<times> string option) option" where
  "attrs_start_child_workflow_execution_initiated e =
     (case he_attributes e of Some (StartChildWorkflowExecutionInitiatedEventAttributes a b) \<Rightarrow> Some (a, b) | _ \<Rightarrow> None)"

definition attrs_start_child_workflow_execution_failed ::
  "history_event \<Rightarrow> (int \<times> event_id) option" where
  "attrs_start_child_workflow_execution_failed e =
     (case he_attributes e of Some (StartChildWorkflowExecutionFailedEventAttributes a b) \<Rightarrow> Some (a, b) | _ \<Rightarrow> None)"

definition attrs_child_workflow_execution_started ::
  "history_event \<Rightarrow> (workflow_execution option \<times> event_id) option" where
  "attrs_child_workflow_execution_started e =
     (case he_attributes e of Some (ChildWorkflowExecutionStartedEventAttributes a b) \<Rightarrow> Some (a, b) | _ \<Rightarrow> None)"

definition attrs_child_workflow_execution_completed ::
  "history_event \<Rightarrow> (payloads option \<times> event_id) option" where
  "attrs_child_workflow_execution_completed e =
     (case he_attributes e of Some (ChildWorkflowExecutionCompletedEventAttributes a b) \<Rightarrow> Some (a, b) | _ \<Rightarrow> None)"

definition attrs_child_workflow_execution_failed ::
  "history_event \<Rightarrow> child_failed_attrs option" where
  "attrs_child_workflow_execution_failed e =
     (case he_attributes e of Some (ChildWorkflowExecutionFailedEventAttributes a) \<Rightarrow> Some a | _ \<Rightarrow> None)"

definition attrs_child_workflow_execution_canceled ::
  "history_event \<Rightarrow> event_id option" where
  "attrs_child_workflow_execution_canceled e =
     (case he_attributes e of Some (ChildWorkflowExecutionCanceledEventAttributes a) \<Rightarrow> Some a | _ \<Rightarrow> None)"

definition attrs_child_workflow_execution_timed_out ::
  "history_event \<Rightarrow> (int \<times> event_id) option" where
  "attrs_child_workflow_execution_timed_out e =
     (case he_attributes e of Some (ChildWorkflowExecutionTimedOutEventAttributes a b) \<Rightarrow> Some (a, b) | _ \<Rightarrow> None)"

definition attrs_child_workflow_execution_terminated ::
  "history_event \<Rightarrow> event_id option" where
  "attrs_child_workflow_execution_terminated e =
     (case he_attributes e of Some (ChildWorkflowExecutionTerminatedEventAttributes a) \<Rightarrow> Some a | _ \<Rightarrow> None)"

definition attrs_signal_external_workflow_execution_failed ::
  "history_event \<Rightarrow> (int \<times> event_id) option" where
  "attrs_signal_external_workflow_execution_failed e =
     (case he_attributes e of Some (SignalExternalWorkflowExecutionFailedEventAttributes a b) \<Rightarrow> Some (a, b) | _ \<Rightarrow> None)"

definition attrs_external_workflow_execution_signaled ::
  "history_event \<Rightarrow> event_id option" where
  "attrs_external_workflow_execution_signaled e =
     (case he_attributes e of Some (ExternalWorkflowExecutionSignaledEventAttributes a) \<Rightarrow> Some a | _ \<Rightarrow> None)"

definition attrs_upsert_workflow_search_attributes ::
  "history_event \<Rightarrow> (payload str_map option) option" where
  "attrs_upsert_workflow_search_attributes e =
     (case he_attributes e of Some (UpsertWorkflowSearchAttributesEventAttributes a) \<Rightarrow> Some a | _ \<Rightarrow> None)"

definition attrs_workflow_execution_update_accepted ::
  "history_event \<Rightarrow> update_accepted_attrs option" where
  "attrs_workflow_execution_update_accepted e =
     (case he_attributes e of Some (WorkflowExecutionUpdateAcceptedEventAttributes a) \<Rightarrow> Some a | _ \<Rightarrow> None)"

definition attrs_workflow_execution_update_admitted ::
  "history_event \<Rightarrow> (update_request_pb option) option" where
  "attrs_workflow_execution_update_admitted e =
     (case he_attributes e of Some (WorkflowExecutionUpdateAdmittedEventAttributes a) \<Rightarrow> Some a | _ \<Rightarrow> None)"

definition attrs_nexus_operation_started ::
  "history_event \<Rightarrow> nexus_started_attrs option" where
  "attrs_nexus_operation_started e =
     (case he_attributes e of Some (NexusOperationStartedEventAttributes a) \<Rightarrow> Some a | _ \<Rightarrow> None)"

definition attrs_nexus_operation_completed ::
  "history_event \<Rightarrow> nexus_completed_attrs option" where
  "attrs_nexus_operation_completed e =
     (case he_attributes e of Some (NexusOperationCompletedEventAttributes a) \<Rightarrow> Some a | _ \<Rightarrow> None)"

definition attrs_nexus_operation_failed ::
  "history_event \<Rightarrow> nexus_ended_attrs option" where
  "attrs_nexus_operation_failed e =
     (case he_attributes e of Some (NexusOperationFailedEventAttributes a) \<Rightarrow> Some a | _ \<Rightarrow> None)"

definition attrs_nexus_operation_canceled ::
  "history_event \<Rightarrow> nexus_ended_attrs option" where
  "attrs_nexus_operation_canceled e =
     (case he_attributes e of Some (NexusOperationCanceledEventAttributes a) \<Rightarrow> Some a | _ \<Rightarrow> None)"

definition attrs_nexus_operation_timed_out ::
  "history_event \<Rightarrow> nexus_ended_attrs option" where
  "attrs_nexus_operation_timed_out e =
     (case he_attributes e of Some (NexusOperationTimedOutEventAttributes a) \<Rightarrow> Some a | _ \<Rightarrow> None)"

definition attrs_nexus_operation_cancel_requested ::
  "history_event \<Rightarrow> event_id option" where
  "attrs_nexus_operation_cancel_requested e =
     (case he_attributes e of Some (NexusOperationCancelRequestedEventAttributes a) \<Rightarrow> Some a | _ \<Rightarrow> None)"

lemmas attribute_readers =
  attrs_workflow_execution_started_def
  attrs_workflow_task_started_def
  attrs_workflow_task_completed_def
  attrs_workflow_task_timed_out_def
  attrs_workflow_task_failed_def
  attrs_activity_task_scheduled_def
  attrs_activity_task_started_def
  attrs_activity_task_completed_def
  attrs_activity_task_failed_def
  attrs_activity_task_timed_out_def
  attrs_activity_task_cancel_requested_def
  attrs_activity_task_canceled_def
  attrs_timer_started_def
  attrs_timer_fired_def
  attrs_timer_canceled_def
  attrs_workflow_execution_cancel_requested_def
  attrs_request_cancel_external_workflow_execution_failed_def
  attrs_external_workflow_execution_cancel_requested_def
  attrs_marker_recorded_def
  attrs_workflow_execution_signaled_def
  attrs_start_child_workflow_execution_initiated_def
  attrs_start_child_workflow_execution_failed_def
  attrs_child_workflow_execution_started_def
  attrs_child_workflow_execution_completed_def
  attrs_child_workflow_execution_failed_def
  attrs_child_workflow_execution_canceled_def
  attrs_child_workflow_execution_timed_out_def
  attrs_child_workflow_execution_terminated_def
  attrs_signal_external_workflow_execution_failed_def
  attrs_external_workflow_execution_signaled_def
  attrs_upsert_workflow_search_attributes_def
  attrs_workflow_execution_update_accepted_def
  attrs_workflow_execution_update_admitted_def
  attrs_nexus_operation_started_def
  attrs_nexus_operation_completed_def
  attrs_nexus_operation_failed_def
  attrs_nexus_operation_canceled_def
  attrs_nexus_operation_timed_out_def
  attrs_nexus_operation_cancel_requested_def

end
