(* ===== verification/Protos_Commands.thy ===== *)
theory Protos_Commands
  imports Protos_Events
begin

text \<open>
  Commands and activation jobs: the commands the language layer issues
  (\<open>coresdk::workflow_commands\<close>), the commands sent to the server (\<open>command::Attributes\<close>) with the
  conversions of \<open>sdk-core-protos/src/lib.rs\<close>, and the jobs of a workflow activation
  (\<open>workflow_activation_job::Variant\<close>).
\<close>

section \<open>Commands from the language layer\<close>

record start_timer =
  st_seq :: u32
  st_start_to_fire_timeout :: "duration_pb option"

record schedule_activity =
  sa_seq :: u32
  sa_activity_id :: string
  sa_activity_type :: string
  sa_task_queue :: string
  sa_headers :: "payload str_map"
  sa_arguments :: "payload list"
  sa_schedule_to_close_timeout :: "duration_pb option"
  sa_schedule_to_start_timeout :: "duration_pb option"
  sa_start_to_close_timeout :: "duration_pb option"
  sa_heartbeat_timeout :: "duration_pb option"
  sa_retry_policy :: "retry_policy option"
  sa_cancellation_type :: int
  sa_do_not_eagerly_execute :: bool
  sa_versioning_intent :: int

record schedule_local_activity =
  sla_seq :: u32
  sla_activity_id :: string
  sla_activity_type :: string
  sla_attempt :: u32
  sla_original_schedule_time :: "timestamp option"
  sla_headers :: "payload str_map"
  sla_arguments :: "payload list"
  sla_schedule_to_close_timeout :: "duration_pb option"
  sla_schedule_to_start_timeout :: "duration_pb option"
  sla_start_to_close_timeout :: "duration_pb option"
  sla_retry_policy :: "retry_policy option"
  sla_local_retry_threshold :: "duration_pb option"
  sla_cancellation_type :: int

record start_child_workflow =
  scw_seq :: u32
  scw_namespace :: string
  scw_workflow_id :: string
  scw_workflow_type :: string
  scw_task_queue :: string
  scw_input :: "payload list"
  scw_workflow_execution_timeout :: "duration_pb option"
  scw_workflow_run_timeout :: "duration_pb option"
  scw_workflow_task_timeout :: "duration_pb option"
  scw_parent_close_policy :: int
  scw_workflow_id_reuse_policy :: int
  scw_retry_policy :: "retry_policy option"
  scw_cron_schedule :: string
  scw_headers :: "payload str_map"
  scw_memo :: "payload str_map"
  scw_search_attributes :: "payload str_map"
  scw_cancellation_type :: int
  scw_versioning_intent :: int

record continue_as_new_cmd =
  can_workflow_type :: string
  can_task_queue :: string
  can_arguments :: "payload list"
  can_workflow_run_timeout :: "duration_pb option"
  can_workflow_task_timeout :: "duration_pb option"
  can_memo :: "payload str_map"
  can_headers :: "payload str_map"
  can_search_attributes :: "payload str_map"
  can_retry_policy :: "retry_policy option"
  can_versioning_intent :: int

record schedule_nexus_operation =
  sno_seq :: u32
  sno_endpoint :: string
  sno_service :: string
  sno_operation :: string
  sno_input :: "payload option"
  sno_schedule_to_close_timeout :: "duration_pb option"
  sno_nexus_header :: "string str_map"

datatype signal_target = SigWorkflowExecution namespaced_workflow_execution
  | SigChildWorkflowId string

record signal_external_cmd =
  sec_seq :: u32
  sec_target :: "signal_target option"
  sec_signal_name :: string
  sec_args :: "payload list"
  sec_headers :: "payload str_map"

record cancel_external_cmd =
  cec_seq :: u32
  cec_workflow_execution :: "namespaced_workflow_execution option"
  cec_reason :: string

datatype update_response_kind = UR_Accepted | UR_Rejected failure | UR_Completed payload

record update_response =
  upr_protocol_instance_id :: string
  upr_response :: "update_response_kind option"

section \<open>Commands for the server\<close>

record schedule_activity_attrs =
  saa_activity_id :: string
  saa_activity_type :: "string option"
  saa_task_queue :: "string option"
  saa_header :: "payload str_map option"
  saa_input :: "payloads option"
  saa_schedule_to_close_timeout :: "duration_pb option"
  saa_schedule_to_start_timeout :: "duration_pb option"
  saa_start_to_close_timeout :: "duration_pb option"
  saa_heartbeat_timeout :: "duration_pb option"
  saa_retry_policy :: "retry_policy option"
  saa_request_eager_execution :: bool
  saa_use_workflow_build_id :: bool

record start_child_attrs =
  sca_workflow_id :: string
  sca_workflow_type :: "string option"
  sca_control :: string
  sca_namespace :: string
  sca_task_queue :: "string option"
  sca_header :: "payload str_map option"
  sca_memo :: "payload str_map option"
  sca_search_attributes :: "payload str_map option"
  sca_input :: "payloads option"
  sca_workflow_id_reuse_policy :: int
  sca_workflow_execution_timeout :: "duration_pb option"
  sca_workflow_run_timeout :: "duration_pb option"
  sca_workflow_task_timeout :: "duration_pb option"
  sca_retry_policy :: "retry_policy option"
  sca_cron_schedule :: string
  sca_parent_close_policy :: int
  sca_inherit_build_id :: bool

record continue_as_new_attrs =
  cna_workflow_type :: "string option"
  cna_task_queue :: "string option"
  cna_input :: "payloads option"
  cna_workflow_run_timeout :: "duration_pb option"
  cna_workflow_task_timeout :: "duration_pb option"
  cna_memo :: "payload str_map option"
  cna_header :: "payload str_map option"
  cna_retry_policy :: "retry_policy option"
  cna_search_attributes :: "payload str_map option"
  cna_inherit_build_id :: bool

record record_marker_attrs =
  rma_marker_name :: string
  rma_details :: "payloads str_map"
  rma_header :: "payload str_map option"
  rma_failure :: "failure option"

record request_cancel_external_attrs =
  rce_namespace :: string
  rce_workflow_id :: string
  rce_run_id :: string
  rce_control :: string
  rce_child_workflow_only :: bool
  rce_reason :: string

record signal_external_attrs =
  sea_namespace :: string
  sea_execution :: "workflow_execution option"
  sea_signal_name :: string
  sea_input :: "payloads option"
  sea_control :: string
  sea_child_workflow_only :: bool
  sea_header :: "payload str_map option"

record schedule_nexus_attrs =
  sna_endpoint :: string
  sna_service :: string
  sna_operation :: string
  sna_input :: "payload option"
  sna_schedule_to_close_timeout :: "duration_pb option"
  sna_nexus_header :: "string str_map"

datatype (plugins only: code) command_attributes =
    ScheduleActivityTaskCommandAttributes schedule_activity_attrs
  | StartTimerCommandAttributes string "duration_pb option"
  | CompleteWorkflowExecutionCommandAttributes "payloads option"
  | FailWorkflowExecutionCommandAttributes "failure option"
  | RequestCancelActivityTaskCommandAttributes event_id
  | CancelTimerCommandAttributes string
  | CancelWorkflowExecutionCommandAttributes "payloads option"
  | RequestCancelExternalWorkflowExecutionCommandAttributes request_cancel_external_attrs
  | RecordMarkerCommandAttributes record_marker_attrs
  | ContinueAsNewWorkflowExecutionCommandAttributes continue_as_new_attrs
  | StartChildWorkflowExecutionCommandAttributes start_child_attrs
  | SignalExternalWorkflowExecutionCommandAttributes signal_external_attrs
  | UpsertWorkflowSearchAttributesCommandAttributes "payload str_map option"
  | ProtocolMessageCommandAttributes string
  | ModifyWorkflowPropertiesCommandAttributes "payload str_map option"
  | ScheduleNexusOperationCommandAttributes schedule_nexus_attrs
  | RequestCancelNexusOperationCommandAttributes event_id

type_synonym user_metadata = "payload option \<times> payload option"

record proto_command =
  pc_command_type :: int
  pc_attributes :: "command_attributes option"
  pc_user_metadata :: "user_metadata option"

definition proto_command_type :: "proto_command \<Rightarrow> command_type" where
  "proto_command_type c = command_type_get (pc_command_type c)"

primrec as_type :: "command_attributes \<Rightarrow> command_type" where
  "as_type (ScheduleActivityTaskCommandAttributes a) = CT_ScheduleActivityTask"
| "as_type (StartTimerCommandAttributes a b) = CT_StartTimer"
| "as_type (CompleteWorkflowExecutionCommandAttributes a) = CT_CompleteWorkflowExecution"
| "as_type (FailWorkflowExecutionCommandAttributes a) = CT_FailWorkflowExecution"
| "as_type (RequestCancelActivityTaskCommandAttributes a) = CT_RequestCancelActivityTask"
| "as_type (CancelTimerCommandAttributes a) = CT_CancelTimer"
| "as_type (CancelWorkflowExecutionCommandAttributes a) = CT_CancelWorkflowExecution"
| "as_type (RequestCancelExternalWorkflowExecutionCommandAttributes a) =
     CT_RequestCancelExternalWorkflowExecution"
| "as_type (RecordMarkerCommandAttributes a) = CT_RecordMarker"
| "as_type (ContinueAsNewWorkflowExecutionCommandAttributes a) = CT_ContinueAsNewWorkflowExecution"
| "as_type (StartChildWorkflowExecutionCommandAttributes a) = CT_StartChildWorkflowExecution"
| "as_type (SignalExternalWorkflowExecutionCommandAttributes a) = CT_SignalExternalWorkflowExecution"
| "as_type (UpsertWorkflowSearchAttributesCommandAttributes a) = CT_UpsertWorkflowSearchAttributes"
| "as_type (ProtocolMessageCommandAttributes a) = CT_ProtocolMessage"
| "as_type (ModifyWorkflowPropertiesCommandAttributes a) = CT_ModifyWorkflowProperties"
| "as_type (ScheduleNexusOperationCommandAttributes a) = CT_ScheduleNexusOperation"
| "as_type (RequestCancelNexusOperationCommandAttributes a) = CT_RequestCancelNexusOperation"

definition mk_command :: "command_type \<Rightarrow> command_attributes \<Rightarrow> proto_command" where
  "mk_command ct a =
     \<lparr>pc_command_type = command_type_code ct, pc_attributes = Some a, pc_user_metadata = None\<rparr>"

text \<open>\<open>From<command::Attributes> for Command\<close>: attributes it does not list hit \<open>unimplemented!()\<close>.\<close>

definition command_from_attributes :: "command_attributes \<Rightarrow> proto_command outcome" where
  "command_from_attributes a =
     (case a of
        StartTimerCommandAttributes _ _ \<Rightarrow> Ok (mk_command CT_StartTimer a)
      | CancelTimerCommandAttributes _ \<Rightarrow> Ok (mk_command CT_CancelTimer a)
      | CompleteWorkflowExecutionCommandAttributes _ \<Rightarrow>
          Ok (mk_command CT_CompleteWorkflowExecution a)
      | FailWorkflowExecutionCommandAttributes _ \<Rightarrow> Ok (mk_command CT_FailWorkflowExecution a)
      | ScheduleActivityTaskCommandAttributes _ \<Rightarrow> Ok (mk_command CT_ScheduleActivityTask a)
      | RequestCancelActivityTaskCommandAttributes _ \<Rightarrow>
          Ok (mk_command CT_RequestCancelActivityTask a)
      | ContinueAsNewWorkflowExecutionCommandAttributes _ \<Rightarrow>
          Ok (mk_command CT_ContinueAsNewWorkflowExecution a)
      | CancelWorkflowExecutionCommandAttributes _ \<Rightarrow> Ok (mk_command CT_CancelWorkflowExecution a)
      | RecordMarkerCommandAttributes _ \<Rightarrow> Ok (mk_command CT_RecordMarker a)
      | ProtocolMessageCommandAttributes _ \<Rightarrow> Ok (mk_command CT_ProtocolMessage a)
      | RequestCancelNexusOperationCommandAttributes _ \<Rightarrow>
          Ok (mk_command CT_RequestCancelNexusOperation a)
      | _ \<Rightarrow> Panic ''not implemented'')"

subsection \<open>Conversions of language commands\<close>

definition start_timer_attrs :: "start_timer \<Rightarrow> command_attributes" where
  "start_timer_attrs s = StartTimerCommandAttributes (show_u32 (st_seq s)) (st_start_to_fire_timeout s)"

definition cancel_timer_attrs :: "u32 \<Rightarrow> command_attributes" where
  "cancel_timer_attrs seq = CancelTimerCommandAttributes (show_u32 seq)"

definition upsert_search_attributes_attrs :: "payload str_map \<Rightarrow> command_attributes" where
  "upsert_search_attributes_attrs sas = UpsertWorkflowSearchAttributesCommandAttributes (Some sas)"

definition modify_properties_attrs :: "payload str_map option \<Rightarrow> command_attributes" where
  "modify_properties_attrs memo = ModifyWorkflowPropertiesCommandAttributes memo"

definition schedule_activity_cmd_to_api :: "schedule_activity \<Rightarrow> bool \<Rightarrow> command_attributes" where
  "schedule_activity_cmd_to_api s use_workflow_build_id =
     ScheduleActivityTaskCommandAttributes
       \<lparr>saa_activity_id = sa_activity_id s,
        saa_activity_type = Some (sa_activity_type s),
        saa_task_queue = Some (sa_task_queue s),
        saa_header = Some (sa_headers s),
        saa_input = into_payloads (sa_arguments s),
        saa_schedule_to_close_timeout = sa_schedule_to_close_timeout s,
        saa_schedule_to_start_timeout = sa_schedule_to_start_timeout s,
        saa_start_to_close_timeout = sa_start_to_close_timeout s,
        saa_heartbeat_timeout = sa_heartbeat_timeout s,
        saa_retry_policy = sa_retry_policy s,
        saa_request_eager_execution = (\<not> sa_do_not_eagerly_execute s),
        saa_use_workflow_build_id = use_workflow_build_id\<rparr>"

definition start_child_workflow_cmd_to_api ::
  "start_child_workflow \<Rightarrow> bool \<Rightarrow> command_attributes" where
  "start_child_workflow_cmd_to_api s inherit_build_id =
     StartChildWorkflowExecutionCommandAttributes
       \<lparr>sca_workflow_id = scw_workflow_id s,
        sca_workflow_type = Some (scw_workflow_type s),
        sca_control = [],
        sca_namespace = scw_namespace s,
        sca_task_queue = Some (scw_task_queue s),
        sca_header = Some (scw_headers s),
        sca_memo = Some (scw_memo s),
        sca_search_attributes = Some (scw_search_attributes s),
        sca_input = into_payloads (scw_input s),
        sca_workflow_id_reuse_policy = scw_workflow_id_reuse_policy s,
        sca_workflow_execution_timeout = scw_workflow_execution_timeout s,
        sca_workflow_run_timeout = scw_workflow_run_timeout s,
        sca_workflow_task_timeout = scw_workflow_task_timeout s,
        sca_retry_policy = scw_retry_policy s,
        sca_cron_schedule = scw_cron_schedule s,
        sca_parent_close_policy = scw_parent_close_policy s,
        sca_inherit_build_id = inherit_build_id\<rparr>"

definition complete_workflow_attrs :: "payload option \<Rightarrow> command_attributes" where
  "complete_workflow_attrs result =
     CompleteWorkflowExecutionCommandAttributes (map_option (\<lambda>p. [p]) result)"

definition fail_workflow_attrs :: "failure option \<Rightarrow> command_attributes" where
  "fail_workflow_attrs f = FailWorkflowExecutionCommandAttributes f"

definition none_if_empty :: "'a list \<Rightarrow> 'a list option" where
  "none_if_empty m = (if m = [] then None else Some m)"

definition continue_as_new_cmd_to_api :: "continue_as_new_cmd \<Rightarrow> bool \<Rightarrow> command_attributes" where
  "continue_as_new_cmd_to_api c inherit_build_id =
     ContinueAsNewWorkflowExecutionCommandAttributes
       \<lparr>cna_workflow_type = Some (can_workflow_type c),
        cna_task_queue = Some (can_task_queue c),
        cna_input = into_payloads (can_arguments c),
        cna_workflow_run_timeout = can_workflow_run_timeout c,
        cna_workflow_task_timeout = can_workflow_task_timeout c,
        cna_memo = none_if_empty (can_memo c),
        cna_header = none_if_empty (can_headers c),
        cna_retry_policy = can_retry_policy c,
        cna_search_attributes = none_if_empty (can_search_attributes c),
        cna_inherit_build_id = inherit_build_id\<rparr>"

definition cancel_workflow_attrs :: command_attributes where
  "cancel_workflow_attrs = CancelWorkflowExecutionCommandAttributes None"

definition schedule_nexus_operation_attrs :: "schedule_nexus_operation \<Rightarrow> command_attributes" where
  "schedule_nexus_operation_attrs c =
     ScheduleNexusOperationCommandAttributes
       \<lparr>sna_endpoint = sno_endpoint c, sna_service = sno_service c,
        sna_operation = sno_operation c, sna_input = sno_input c,
        sna_schedule_to_close_timeout = sno_schedule_to_close_timeout c,
        sna_nexus_header = sno_nexus_header c\<rparr>"

end
