(* ===== verification/Activation.thy ===== *)
theory Activation
  imports Protos_Commands "HOL-Library.Multiset"
begin

text \<open>
  Workflow activations: the job variants of \<open>coresdk::workflow_activation\<close> with the constructors of
  \<open>sdk-core-protos/src/lib.rs\<close>, and \<open>prepare_to_ship_activation\<close> of
  \<open>core/src/worker/workflow/mod.rs\<close>, which puts the jobs in the order the language layer expects.
\<close>

section \<open>Jobs\<close>

datatype activity_resolution_status =
    AR_Completed "payload option"
  | AR_Failed "failure option"
  | AR_Cancelled "failure option"
  | AR_Backoff u32 "duration_pb option" "timestamp option"

record resolve_activity =
  ra_seq :: u32
  ra_result :: "activity_resolution_status option"
  ra_is_local :: bool

datatype child_start_status =
    CSS_Succeeded string
  | CSS_Failed string string int
  | CSS_Cancelled "failure option"

datatype child_result_status =
    CRS_Completed "payload option"
  | CRS_Failed "failure option"
  | CRS_Cancelled "failure option"

datatype nexus_start_status =
    NSS_OperationId string
  | NSS_StartedSync bool
  | NSS_CancelledBeforeStart failure

datatype nexus_result_status =
    NRS_Completed payload
  | NRS_Failed failure
  | NRS_Cancelled failure
  | NRS_TimedOut failure

record initialize_workflow =
  iw_workflow_type :: string
  iw_workflow_id :: string
  iw_arguments :: "payload list"
  iw_randomness_seed :: u64
  iw_headers :: "payload str_map"
  iw_identity :: string
  iw_parent_workflow_info :: "namespaced_workflow_execution option"
  iw_workflow_execution_timeout :: "duration_pb option"
  iw_workflow_run_timeout :: "duration_pb option"
  iw_workflow_task_timeout :: "duration_pb option"
  iw_continued_from_execution_run_id :: string
  iw_continued_initiator :: int
  iw_continued_failure :: "failure option"
  iw_last_completion_result :: "payloads option"
  iw_first_execution_run_id :: string
  iw_retry_policy :: "retry_policy option"
  iw_attempt :: int
  iw_cron_schedule :: string
  iw_workflow_execution_expiration_time :: "timestamp option"
  iw_cron_schedule_to_schedule_interval :: "duration_pb option"
  iw_memo :: "payload str_map option"
  iw_search_attributes :: "payload str_map option"
  iw_start_time :: "timestamp option"

record do_update =
  du_id :: string
  du_protocol_instance_id :: string
  du_name :: string
  du_input :: "payload list"
  du_headers :: "payload str_map"
  du_meta :: "update_meta option"
  du_run_validator :: bool

record query_workflow =
  qw_query_id :: string
  qw_query_type :: string
  qw_arguments :: "payload list"
  qw_headers :: "payload str_map"

record signal_workflow =
  sw_signal_name :: string
  sw_input :: "payload list"
  sw_identity :: string
  sw_headers :: "payload str_map"

datatype eviction_reason = ER_Unspecified | ER_CacheFull | ER_CacheMiss | ER_Nondeterminism
  | ER_LangFail | ER_LangRequested | ER_TaskNotFound | ER_UnhandledCommand | ER_Fatal
  | ER_PaginationOrHistoryFetch | ER_WorkflowExecutionEnding

datatype (plugins only: code) job_variant =
    InitializeWorkflow initialize_workflow
  | FireTimer u32
  | UpdateRandomSeed u64
  | QueryWorkflow query_workflow
  | CancelWorkflow_job string
  | SignalWorkflow signal_workflow
  | ResolveActivity resolve_activity
  | NotifyHasPatch string
  | ResolveChildWorkflowExecutionStart u32 "child_start_status option"
  | ResolveChildWorkflowExecution u32 "child_result_status option"
  | ResolveSignalExternalWorkflow u32 "failure option"
  | ResolveRequestCancelExternalWorkflow u32 "failure option"
  | DoUpdate do_update
  | ResolveNexusOperationStart u32 "nexus_start_status option"
  | ResolveNexusOperation u32 "nexus_result_status option"
  | RemoveFromCache string eviction_reason

record workflow_activation =
  wa_run_id :: string
  wa_timestamp :: "timestamp option"
  wa_is_replaying :: bool
  wa_history_length :: u32
  wa_jobs :: "job_variant list"
  wa_available_internal_flags :: "u32 list"
  wa_history_size_bytes :: u64
  wa_continue_as_new_suggested :: bool
  wa_build_id_for_current_task :: string

section \<open>Building jobs\<close>

definition create_evict_activation ::
  "string \<Rightarrow> string \<Rightarrow> eviction_reason \<Rightarrow> workflow_activation" where
  "create_evict_activation run_id message reason =
     \<lparr>wa_run_id = run_id, wa_timestamp = None, wa_is_replaying = False, wa_history_length = 0,
      wa_jobs = [RemoveFromCache message reason], wa_available_internal_flags = [],
      wa_history_size_bytes = 0, wa_continue_as_new_suggested = False,
      wa_build_id_for_current_task = []\<rparr>"

definition is_only_eviction :: "workflow_activation \<Rightarrow> bool" where
  "is_only_eviction wfa = (case wa_jobs wfa of [RemoveFromCache _ _] \<Rightarrow> True | _ \<Rightarrow> False)"

fun find_eviction :: "job_variant list \<Rightarrow> eviction_reason option" where
  "find_eviction [] = None"
| "find_eviction (j # js) = (case j of RemoveFromCache _ r \<Rightarrow> Some r | _ \<Rightarrow> find_eviction js)"

definition eviction_reason_of :: "workflow_activation \<Rightarrow> eviction_reason option" where
  "eviction_reason_of wfa = find_eviction (wa_jobs wfa)"

definition is_local_activity_resolution :: "job_variant \<Rightarrow> bool" where
  "is_local_activity_resolution j = (case j of ResolveActivity ra \<Rightarrow> ra_is_local ra | _ \<Rightarrow> False)"

definition is_query_job :: "job_variant \<Rightarrow> bool" where
  "is_query_job j = (case j of QueryWorkflow _ \<Rightarrow> True | _ \<Rightarrow> False)"

definition opt_default :: "'a \<Rightarrow> 'a option \<Rightarrow> 'a" where
  "opt_default d v = (case v of None \<Rightarrow> d | Some y \<Rightarrow> y)"

definition signal_workflow_from :: "wf_signaled_attrs \<Rightarrow> signal_workflow" where
  "signal_workflow_from a =
     \<lparr>sw_signal_name = wsg_signal_name a, sw_input = from_payloads (wsg_input a),
      sw_identity = wsg_identity a, sw_headers = opt_default [] (wsg_header a)\<rparr>"

definition start_workflow_from_attribs ::
  "wf_started_attrs \<Rightarrow> string \<Rightarrow> u64 \<Rightarrow> timestamp \<Rightarrow> initialize_workflow" where
  "start_workflow_from_attribs attrs workflow_id randomness_seed start_time =
     \<lparr>iw_workflow_type = opt_default [] (wes_workflow_type attrs),
      iw_workflow_id = workflow_id,
      iw_arguments = from_payloads (wes_input attrs),
      iw_randomness_seed = randomness_seed,
      iw_headers = opt_default [] (wes_header attrs),
      iw_identity = wes_identity attrs,
      iw_parent_workflow_info =
        map_option (\<lambda>pe. \<lparr>nwe_namespace = wes_parent_workflow_namespace attrs,
                         nwe_workflow_id = we_workflow_id pe, nwe_run_id = we_run_id pe\<rparr>)
          (wes_parent_workflow_execution attrs),
      iw_workflow_execution_timeout = wes_workflow_execution_timeout attrs,
      iw_workflow_run_timeout = wes_workflow_run_timeout attrs,
      iw_workflow_task_timeout = wes_workflow_task_timeout attrs,
      iw_continued_from_execution_run_id = wes_continued_execution_run_id attrs,
      iw_continued_initiator = wes_initiator attrs,
      iw_continued_failure = wes_continued_failure attrs,
      iw_last_completion_result = wes_last_completion_result attrs,
      iw_first_execution_run_id = wes_first_execution_run_id attrs,
      iw_retry_policy = wes_retry_policy attrs,
      iw_attempt = wes_attempt attrs,
      iw_cron_schedule = wes_cron_schedule attrs,
      iw_workflow_execution_expiration_time = wes_workflow_execution_expiration_time attrs,
      iw_cron_schedule_to_schedule_interval = wes_first_workflow_task_backoff attrs,
      iw_memo = wes_memo attrs,
      iw_search_attributes = wes_search_attributes attrs,
      iw_start_time = Some start_time\<rparr>"

section \<open>Shipping an activation\<close>

definition variant_ordinal :: "job_variant \<Rightarrow> nat" where
  "variant_ordinal v =
     (case v of
        InitializeWorkflow _ \<Rightarrow> 0
      | NotifyHasPatch _ \<Rightarrow> 1
      | UpdateRandomSeed _ \<Rightarrow> 2
      | SignalWorkflow _ \<Rightarrow> 3
      | DoUpdate _ \<Rightarrow> 3
      | ResolveActivity ra \<Rightarrow> (if ra_is_local ra then 5 else 4)
      | QueryWorkflow _ \<Rightarrow> 6
      | RemoveFromCache _ _ \<Rightarrow> 7
      | _ \<Rightarrow> 4)"

text \<open>\<open>sort_by\<close> on the jobs is a stable sort by ordinal.\<close>

definition prepare_to_ship_activation :: "workflow_activation \<Rightarrow> workflow_activation" where
  "prepare_to_ship_activation wfa = wfa\<lparr>wa_jobs := sort_key variant_ordinal (wa_jobs wfa)\<rparr>"

section \<open>Properties\<close>

lemma ship_jobs [simp]:
  "wa_jobs (prepare_to_ship_activation wfa) = sort_key variant_ordinal (wa_jobs wfa)"
  by (simp add: prepare_to_ship_activation_def)

lemma variant_ordinal_le_7: "variant_ordinal j \<le> 7"
  by (simp add: variant_ordinal_def split: job_variant.splits)

lemma variant_ordinal_7_iff: "variant_ordinal j = 7 \<longleftrightarrow> (\<exists>m r. j = RemoveFromCache m r)"
  by (auto simp: variant_ordinal_def split: job_variant.splits)

lemma variant_ordinal_0_iff: "variant_ordinal j = 0 \<longleftrightarrow> (\<exists>i. j = InitializeWorkflow i)"
  by (auto simp: variant_ordinal_def split: job_variant.splits)

lemma find_eviction_iff:
  "find_eviction js = None \<longleftrightarrow> (\<forall>j \<in> set js. variant_ordinal j \<noteq> 7)"
  by (induction js) (auto simp: variant_ordinal_7_iff split: job_variant.splits)

end
