(* ===== verification/Protosext.thy ===== *)
theory Protosext
  imports Activation
begin

text \<open>
  The validated request types of \<open>core/src/protosext\<close>: schedule requests of local activities with
  their clamped timeouts, results of local activity executions, and the update requests that
  arrive as protocol messages or are reconstructed from history events.
\<close>

section \<open>Results of local activity executions\<close>

datatype la_execution_result =
    LA_Completed "payload option"
  | LA_Failed "failure option"
  | LA_TimedOut "failure option"
  | LA_Cancelled "failure option"

definition cancellation_from_details :: "payload option \<Rightarrow> failure" where
  "cancellation_from_details details =
     mk_failure ''Activity cancelled'' None
       (Some (CanceledFailureInfo (map_option (\<lambda>p. [p]) details)))"

definition empty_cancel :: la_execution_result where
  "empty_cancel = LA_Cancelled (Some (cancellation_from_details None))"

definition la_timeout :: "timeout_type \<Rightarrow> la_execution_result" where
  "la_timeout tt =
     LA_TimedOut (Some (mk_failure ''Activity timed out'' None
       (Some (TimeoutFailureInfo (timeout_type_code tt) None))))"

definition get_timeout_type :: "la_execution_result \<Rightarrow> timeout_type option" where
  "get_timeout_type r =
     (case r of
        LA_TimedOut (Some f) \<Rightarrow>
          (case f_info f of
             Some (TimeoutFailureInfo tt _) \<Rightarrow> timeout_type_try_from tt
           | _ \<Rightarrow> None)
      | _ \<Rightarrow> None)"

datatype activity_execution_status =
    AES_Completed "payload option"
  | AES_Failed "failure option"
  | AES_Cancelled "failure option"
  | AES_WillCompleteAsync

text \<open>\<open>CompleteActivityError::MalformedActivityCompletion\<close>, with its reason.\<close>

datatype complete_activity_error = MalformedActivityCompletion string

definition validate_activity_completion ::
  "activity_execution_status \<Rightarrow> complete_activity_error option" where
  "validate_activity_completion status =
     (case status of
        AES_Completed None \<Rightarrow>
          Some (MalformedActivityCompletion
            ''Activity completions must contain a `result` payload (which may be empty)'')
      | _ \<Rightarrow> None)"

definition la_execution_result_try_from ::
  "activity_execution_status \<Rightarrow> complete_activity_error + la_execution_result" where
  "la_execution_result_try_from s =
     (case s of
        AES_Completed c \<Rightarrow> Inr (LA_Completed c)
      | AES_Failed f \<Rightarrow>
          (if (case f of None \<Rightarrow> False | Some fail \<Rightarrow> failure_is_timeout fail \<noteq> None)
           then Inr (LA_TimedOut f) else Inr (LA_Failed f))
      | AES_Cancelled c \<Rightarrow> Inr (LA_Cancelled c)
      | AES_WillCompleteAsync \<Rightarrow>
          Inl (MalformedActivityCompletion ''Local activities cannot be completed async''))"

section \<open>Schedule requests of local activities\<close>

datatype la_close_timeouts =
    ScheduleOnly duration
  | StartOnly duration
  | Both (la_sched: duration) (la_start: duration)

primrec into_sched_and_start :: "la_close_timeouts \<Rightarrow> duration option \<times> duration option" where
  "into_sched_and_start (ScheduleOnly x) = (Some x, None)"
| "into_sched_and_start (StartOnly x) = (None, Some x)"
| "into_sched_and_start (Both sched start) = (Some sched, Some start)"

record valid_schedule_la =
  vla_seq :: u32
  vla_activity_id :: string
  vla_activity_type :: string
  vla_attempt :: u32
  vla_original_schedule_time :: "system_time option"
  vla_headers :: "payload str_map"
  vla_arguments :: "payload list"
  vla_schedule_to_start_timeout :: "duration option"
  vla_close_timeouts :: la_close_timeouts
  vla_retry_policy :: retry_policy
  vla_local_retry_threshold :: duration
  vla_cancellation_type :: activity_cancellation_type

text \<open>\<open>o.map(|x| x.try_into().map_err(..)).transpose()?\<close>\<close>

definition convert_opt :: "string \<Rightarrow> ('a \<Rightarrow> 'b option) \<Rightarrow> 'a option \<Rightarrow> string + 'b option" where
  "convert_opt err conv v =
     (case v of
        None \<Rightarrow> Inr None
      | Some y \<Rightarrow> (case conv y of None \<Rightarrow> Inl err | Some z \<Rightarrow> Inr (Some z)))"

definition clamp_to :: "duration option \<Rightarrow> duration option \<Rightarrow> duration option" where
  "clamp_to limit d =
     (case (d, limit) of
        (Some v, Some l) \<Rightarrow> if v > l then Some l else Some v
      | _ \<Rightarrow> d)"

definition close_timeouts_of :: "duration option \<Rightarrow> duration option \<Rightarrow> la_close_timeouts option" where
  "close_timeouts_of sched_to_close start_to_close =
     (case (sched_to_close, start_to_close) of
        (Some sch, None) \<Rightarrow> Some (ScheduleOnly sch)
      | (None, Some start) \<Rightarrow> Some (StartOnly start)
      | (Some sched, Some start) \<Rightarrow> Some (Both sched (if start > sched then sched else start))
      | (None, None) \<Rightarrow> None)"

definition from_schedule_la ::
  "externals \<Rightarrow> schedule_local_activity \<Rightarrow> string + valid_schedule_la" where
  "from_schedule_la x v =
     (case convert_opt ''Could not convert original_schedule_time'' (x_systime x)
             (sla_original_schedule_time v) of
        Inl e \<Rightarrow> Inl e
      | Inr original_schedule_time \<Rightarrow>
     (case convert_opt ''Could not convert schedule_to_close_timeout'' (x_duration x)
             (sla_schedule_to_close_timeout v) of
        Inl e \<Rightarrow> Inl e
      | Inr sched_to_close \<Rightarrow>
     (case convert_opt ''Could not convert schedule_to_start_timeout'' (x_duration x)
             (sla_schedule_to_start_timeout v) of
        Inl e \<Rightarrow> Inl e
      | Inr schedule_to_start \<Rightarrow>
     (case convert_opt ''Could not convert start_to_close_timeout'' (x_duration x)
             (sla_start_to_close_timeout v) of
        Inl e \<Rightarrow> Inl e
      | Inr start_to_close \<Rightarrow>
     (case close_timeouts_of sched_to_close start_to_close of
        None \<Rightarrow> Inl ''One or both of schedule_to_close or start_to_close timeouts must be set for local activities''
      | Some close_timeouts \<Rightarrow>
          Inr \<lparr>vla_seq = sla_seq v,
               vla_activity_id = sla_activity_id v,
               vla_activity_type = sla_activity_type v,
               vla_attempt = sla_attempt v,
               vla_original_schedule_time = original_schedule_time,
               vla_headers = sla_headers v,
               vla_arguments = sla_arguments v,
               vla_schedule_to_start_timeout = clamp_to sched_to_close schedule_to_start,
               vla_close_timeouts = close_timeouts,
               vla_retry_policy = opt_default retry_policy_default (sla_retry_policy v),
               vla_local_retry_threshold =
                 opt_default (60 * 1000000000)
                   (try_into_or_none (x_duration x) (sla_local_retry_threshold v)),
               vla_cancellation_type =
                 opt_default ACT_WaitCancellationCompleted
                   (activity_cancellation_type_try_from (sla_cancellation_type v))\<rparr>)))))"

section \<open>Update requests and protocol messages\<close>

datatype sequencing_id = SeqEventId event_id | SeqCommandIndex int

record protocol_message =
  pm_id :: string
  pm_protocol_instance_id :: string
  pm_sequencing_id :: "sequencing_id option"
  pm_body :: "any_pb option"

record update_request =
  ur_original :: update_request_pb

definition update_request_try_from :: "update_request_pb \<Rightarrow> string + update_request" where
  "update_request_try_from r =
     (if ur_input r = None then Inl ''Update request's `input` field must be populated''
      else if ur_meta r = None then Inl ''Update request's `meta` field must be populated''
      else Inr \<lparr>ur_original = r\<rparr>)"

definition update_input_of :: "update_request \<Rightarrow> update_input outcome" where
  "update_input_of u =
     (case ur_input (ur_original u) of
        None \<Rightarrow> Panic ''Update request's `input` field must be populated''
      | Some i \<Rightarrow> Ok i)"

definition update_request_name :: "update_request \<Rightarrow> string outcome" where
  "update_request_name u = obind (update_input_of u) (\<lambda>i. Ok (ui_name i))"

definition update_request_headers :: "update_request \<Rightarrow> payload str_map outcome" where
  "update_request_headers u = obind (update_input_of u) (\<lambda>i. Ok (opt_default [] (ui_header i)))"

definition update_request_input :: "update_request \<Rightarrow> payload list outcome" where
  "update_request_input u = obind (update_input_of u) (\<lambda>i. Ok (opt_default [] (ui_args i)))"

definition update_request_meta :: "update_request \<Rightarrow> update_meta outcome" where
  "update_request_meta u =
     (case ur_meta (ur_original u) of
        None \<Rightarrow> Panic ''Update request's `meta` field must be populated''
      | Some m \<Rightarrow> Ok m)"

text \<open>The only body kind is \<open>UpdateRequest\<close>.\<close>

record incoming_protocol_message =
  ipm_id :: string
  ipm_protocol_instance_id :: string
  ipm_sequencing_id :: "sequencing_id option"
  ipm_body :: update_request

definition processable_after_event_id :: "incoming_protocol_message \<Rightarrow> event_id option" where
  "processable_after_event_id m =
     (case ipm_sequencing_id m of
        None \<Rightarrow> Some 0
      | Some (SeqEventId i) \<Rightarrow> Some i
      | Some (SeqCommandIndex _) \<Rightarrow> None)"

definition message_body_try_from :: "externals \<Rightarrow> any_pb option \<Rightarrow> string + update_request" where
  "message_body_try_from x b =
     (case b of
        None \<Rightarrow> Inl ''Protocol message body must be populated''
      | Some v \<Rightarrow>
          if any_type_url v = ''type.googleapis.com/temporal.api.update.v1.Request'' then
            (case x_decode_request x (any_value v) of
               None \<Rightarrow> Inl ''failed to decode''
             | Some r \<Rightarrow> update_request_try_from r)
          else Inl ''Could not understand protocol message type'')"

definition incoming_message_try_from ::
  "externals \<Rightarrow> protocol_message \<Rightarrow> string + incoming_protocol_message" where
  "incoming_message_try_from x m =
     (case message_body_try_from x (pm_body m) of
        Inl e \<Rightarrow> Inl e
      | Inr body \<Rightarrow>
          Inr \<lparr>ipm_id = pm_id m, ipm_protocol_instance_id = pm_protocol_instance_id m,
               ipm_sequencing_id = pm_sequencing_id m, ipm_body = body\<rparr>)"

definition incoming_message_from_event :: "history_event \<Rightarrow> string + incoming_protocol_message" where
  "incoming_message_from_event e =
     (case he_attributes e of
        Some (WorkflowExecutionUpdateAdmittedEventAttributes req) \<Rightarrow>
          (case req of
             None \<Rightarrow> Inl ''Update admitted event must contain request''
           | Some request \<Rightarrow>
               (case ur_meta request of
                  None \<Rightarrow> Inl ''Update request's `meta` field must be populated''
                | Some meta \<Rightarrow>
                    (case update_request_try_from request of
                       Inl err \<Rightarrow> Inl err
                     | Inr body \<Rightarrow>
                         Inr \<lparr>ipm_id = um_update_id meta @ ''/request'',
                              ipm_protocol_instance_id = um_update_id meta,
                              ipm_sequencing_id = Some (SeqEventId (he_event_id e)),
                              ipm_body = body\<rparr>)))
      | Some (WorkflowExecutionUpdateAcceptedEventAttributes atts) \<Rightarrow>
          (case uac_accepted_request atts of
             None \<Rightarrow> Inl ''Update accepted event must contain accepted request''
           | Some request \<Rightarrow>
               (case update_request_try_from request of
                  Inl err \<Rightarrow> Inl err
                | Inr body \<Rightarrow>
                    Inr \<lparr>ipm_id = uac_accepted_request_message_id atts,
                         ipm_protocol_instance_id = uac_protocol_instance_id atts,
                         ipm_sequencing_id =
                           Some (SeqEventId (uac_accepted_request_sequencing_event_id atts)),
                         ipm_body = body\<rparr>))
      | _ \<Rightarrow> Inl ''Cannot convert event into protocol message. This is an sdk-core bug.'')"

section \<open>Facts\<close>

text \<open>A request that passed validation never triggers the \<open>expect\<close> calls of its accessors.\<close>

definition update_request_ok :: "update_request \<Rightarrow> bool" where
  "update_request_ok u \<longleftrightarrow> ur_input (ur_original u) \<noteq> None \<and> ur_meta (ur_original u) \<noteq> None"

lemma update_request_try_from_ok: "update_request_try_from r = Inr u \<Longrightarrow> update_request_ok u"
  by (auto simp: update_request_try_from_def update_request_ok_def split: if_splits)

lemma update_request_accessors:
  assumes "update_request_ok u"
  shows "\<exists>n. update_request_name u = Ok n" "\<exists>h. update_request_headers u = Ok h"
    "\<exists>i. update_request_input u = Ok i" "\<exists>m. update_request_meta u = Ok m"
  using assms
  by (auto simp: update_request_ok_def update_request_name_def update_request_headers_def
      update_request_input_def update_request_meta_def update_input_of_def)

lemma incoming_message_ok:
  "incoming_message_try_from x m = Inr i \<Longrightarrow> update_request_ok (ipm_body i)"
  by (auto simp: incoming_message_try_from_def message_body_try_from_def
      intro: update_request_try_from_ok split: sum.splits option.splits if_splits)

lemma incoming_message_from_event_ok:
  "incoming_message_from_event e = Inr i \<Longrightarrow> update_request_ok (ipm_body i)"
  by (auto simp: incoming_message_from_event_def intro: update_request_try_from_ok
      split: option.splits event_attributes.splits sum.splits)

lemma close_timeouts_of_Some:
  "close_timeouts_of a b = Some ct \<Longrightarrow>
     into_sched_and_start ct = (a, clamp_to a b) \<and> (a \<noteq> None \<or> b \<noteq> None)"
  by (auto simp: close_timeouts_of_def clamp_to_def split: option.splits)

lemma clamp_to_le: "clamp_to (Some l) d = Some v \<Longrightarrow> v \<le> l"
  by (auto simp: clamp_to_def split: option.splits if_splits)

lemma from_schedule_la_Inr:
  assumes "from_schedule_la x v = Inr la"
  obtains sched start where
    "sched = Option.bind (sla_schedule_to_close_timeout v) (x_duration x)"
    "start = Option.bind (sla_start_to_close_timeout v) (x_duration x)"
    "into_sched_and_start (vla_close_timeouts la) = (sched, clamp_to sched start)"
    "sched \<noteq> None \<or> start \<noteq> None"
    "vla_schedule_to_start_timeout la =
       clamp_to sched (Option.bind (sla_schedule_to_start_timeout v) (x_duration x))"
    "vla_seq la = sla_seq v"
  using assms
  by (auto simp: from_schedule_la_def convert_opt_def split: sum.splits option.splits
      dest!: close_timeouts_of_Some)

section \<open>A concrete instance of the external code\<close>

text \<open>
  Codecs that satisfy the round trip laws the properties assume, for concrete runs: patch data is
  its flag followed by its id, everything else is as trivial as its type allows.
\<close>

definition wit_externals :: externals where
  "wit_externals =
     \<lparr>x_patch_to_json = (\<lambda>d. Some ((if pmd_deprecated d then 1 else 0) # map (\<lambda>c. of_nat (of_char c)) (pmd_id d))),
      x_patch_of_json = (\<lambda>bs. case bs of
          [] \<Rightarrow> None
        | b # cs \<Rightarrow> Some \<lparr>pmd_id = map (\<lambda>c. char_of (unat c)) cs, pmd_deprecated = (b \<noteq> 0)\<rparr>),
      x_la_to_json = (\<lambda>_. Some []),
      x_la_of_json = (\<lambda>_. None),
      x_strings_to_json = (\<lambda>ss. Some (map of_char (concat ss))),
      x_from_utf8 = (\<lambda>bs. Some (map (\<lambda>c. char_of (unat c)) bs)),
      x_decode_request = (\<lambda>_. None),
      x_encode_msg = (\<lambda>_. Some []),
      x_systime = (\<lambda>(s, n). Some (s * 1000000000 + n)),
      x_timestamp = (\<lambda>t. (t div 1000000000, t mod 1000000000)),
      x_duration = (\<lambda>(s, n). if s < 0 then None else Some (s * 1000000000 + n)),
      x_siphash = (\<lambda>s. of_nat (length s))\<rparr>"

lemma wit_externals_patch_codec:
  "x_patch_to_json wit_externals d = Some bs \<Longrightarrow> x_patch_of_json wit_externals bs = Some d"
  by (cases d) (auto simp: wit_externals_def unsigned_of_nat take_bit_eq_mod char_of_mod_256
      intro!: map_idI)

end
