(* ===== verification/Temporal_Machine.thy ===== *)
theory Temporal_Machine
  imports Fsm Protosext
begin

text \<open>
  The layer between \<open>rustfsm\<close> machines and the workflow orchestrator
  (\<open>core/src/worker/workflow/machines/mod.rs\<close>): the responses machines give, and the generic
  \<open>handle_command\<close>, \<open>handle_event\<close> and \<open>process_machine_commands\<close> that every machine shares.
  A machine is given by its step function, its conversions from command types and history events
  and its \<open>adapt_response\<close>.
\<close>

section \<open>Responses\<close>

datatype (plugins only: code) machine_response =
    PushWFJob job_variant
  | IssueNewCommand proto_command
  | IssueNewMessage protocol_message
  | NewCoreOriginatedCommand command_attributes
  | IssueFakeLocalActivityMarker u32
  | TriggerWFTaskStarted event_id system_time
  | UpdateRunIdOnWorkflowReset string
  | QueueLocalActivity valid_schedule_la
  | RequestCancelLocalActivity u32
  | AbandonLocalActivity u32
  | UpdateWFTime "system_time option"

text \<open>\<open>MachineResponse::IssueNewCommand(attrs.into())\<close>\<close>

definition issue_command :: "command_attributes \<Rightarrow> machine_response list outcome" where
  "issue_command a = obind (command_from_attributes a) (\<lambda>c. Ok [IssueNewCommand c])"

record hist_event_data =
  hed_event :: history_event
  hed_replaying :: bool
  hed_current_task_is_last_in_history :: bool

record event_info =
  ei_event_id :: event_id
  ei_event_type :: event_type

type_synonym ('s, 'd, 'c) adapter =
  "('s, 'd) fsm \<Rightarrow> 'c \<Rightarrow> event_info option \<Rightarrow> machine_response list outcome"

section \<open>\<open>TemporalStateMachine\<close>\<close>

text \<open>\<open>state()\<close> and \<open>has_reached_final_state()\<close> unwrap the state.\<close>

definition fsm_state_get :: "('s, 'd) fsm \<Rightarrow> 's outcome" where
  "fsm_state_get m =
     (case fsm_state m of
        None \<Rightarrow> Panic ''called `Option::unwrap()` on a `None` value''
      | Some s \<Rightarrow> Ok s)"

definition has_reached_final_state ::
  "('n, 'ev) transition list \<Rightarrow> ('s \<Rightarrow> 'n) \<Rightarrow> ('s, 'd) fsm \<Rightarrow> bool outcome" where
  "has_reached_final_state table state_name m =
     obind (fsm_state_get m) (\<lambda>s. Ok (is_final_state table (state_name s)))"

definition process_machine_commands ::
  "('s, 'd, 'c) adapter \<Rightarrow> ('s, 'd) fsm \<Rightarrow> 'c list \<Rightarrow> event_info option \<Rightarrow>
   machine_response list outcome" where
  "process_machine_commands adapt m commands ei = omap_concat (\<lambda>cmd. adapt m cmd ei) commands"

text \<open>
  The message of an invalid transition prints the state, so a machine without a state panics.
\<close>

definition handle_command ::
  "(command_type \<Rightarrow> 'e option) \<Rightarrow> ('s, 'e, 'd, 'c) step_fun \<Rightarrow> ('s, 'd, 'c) adapter \<Rightarrow>
   ('s, 'd) fsm \<Rightarrow> command_type \<Rightarrow> machine_response list outcome \<times> ('s, 'd) fsm" where
  "handle_command convert step adapt m ct =
     (case convert ct of
        None \<Rightarrow> (Err (Nondeterminism ''Unexpected command generated by a machine''), m)
      | Some ev \<Rightarrow>
          (case on_event step m ev of
             (Cmds c, m') \<Rightarrow> (process_machine_commands adapt m' c None, m')
           | (Failed_with MInvalidTransition, m') \<Rightarrow>
               (obind (fsm_state_get m') (\<lambda>_.
                  Err (Nondeterminism ''Unexpected command producing an invalid transition'')), m')
           | (Failed_with (Underlying e), m') \<Rightarrow> (Err e, m')
           | (Panicked p, m') \<Rightarrow> (Panic p, m')))"

definition handle_event ::
  "(hist_event_data \<Rightarrow> 'e outcome) \<Rightarrow> ('s, 'e, 'd, 'c) step_fun \<Rightarrow> ('s, 'd, 'c) adapter \<Rightarrow>
   ('s, 'd) fsm \<Rightarrow> hist_event_data \<Rightarrow> machine_response list outcome \<times> ('s, 'd) fsm" where
  "handle_event convert step adapt m event_dat =
     (let event_info = \<lparr>ei_event_id = he_event_id (hed_event event_dat),
                        ei_event_type = event_type_of (hed_event event_dat)\<rparr>
      in case convert event_dat of
           Err e \<Rightarrow> (Err e, m)
         | Panic p \<Rightarrow> (Panic p, m)
         | Ok ev \<Rightarrow>
             (case on_event step m ev of
                (Cmds c, m') \<Rightarrow> (process_machine_commands adapt m' c (Some event_info), m')
              | (Failed_with MInvalidTransition, m') \<Rightarrow>
                  (obind (fsm_state_get m') (\<lambda>_.
                     Err (Fatal ''says the transition is invalid during event'')), m')
              | (Failed_with (Underlying e), m') \<Rightarrow> (Err e, m')
              | (Panicked p, m') \<Rightarrow> (Panic p, m')))"

text \<open>\<open>From<MachineError<WFMachinesError>> for WFMachinesError\<close>, used by the \<open>cancel\<close> methods' callers.\<close>

primrec wf_error_of_machine_error :: "machine_error \<Rightarrow> wf_error" where
  "wf_error_of_machine_error MInvalidTransition =
     Nondeterminism ''Invalid transition in state machine''"
| "wf_error_of_machine_error (Underlying e) = e"

text \<open>
  The shape all \<open>cancel\<close> methods share: run the event, turn a machine error into a
  \<open>WFMachinesError\<close> (as the caller's \<open>?\<close> does), and map the produced commands.
\<close>

definition run_and_map ::
  "('s, 'e, 'd, 'c) step_fun \<Rightarrow> (('s, 'd) fsm \<Rightarrow> 'c \<Rightarrow> machine_response list outcome) \<Rightarrow>
   ('s, 'd) fsm \<Rightarrow> 'e \<Rightarrow> machine_response list outcome \<times> ('s, 'd) fsm" where
  "run_and_map step f m ev =
     (case on_event step m ev of
        (Cmds c, m') \<Rightarrow> (omap_concat (f m') c, m')
      | (Failed_with e, m') \<Rightarrow> (Err (wf_error_of_machine_error e), m')
      | (Panicked p, m') \<Rightarrow> (Panic p, m'))"

text \<open>
  \<open>convert_payloads\<close>, which the activity and the child workflow machine define with a message each.
\<close>

definition convert_payloads :: "string \<Rightarrow> payloads option \<Rightarrow> payload option outcome" where
  "convert_payloads err result =
     (case result of
        None \<Rightarrow> Ok None
      | Some ps \<Rightarrow>
          (case payload_try_from ps of Inl _ \<Rightarrow> Err (Fatal err) | Inr p \<Rightarrow> Ok (Some p)))"

section \<open>Everything a workflow can do to one machine\<close>

text \<open>
  The orchestrator reaches a machine through history events, through the commands it echoes back
  and through requests of the language layer (a cancellation with its reason, the answer to an
  update, ...), which are a type parameter; it stops driving the run at the first
  error.
\<close>

datatype 'r machine_input = InEvent hist_event_data | InCommand command_type | InRequest 'r

definition apply_input ::
  "(command_type \<Rightarrow> 'e option) \<Rightarrow> (hist_event_data \<Rightarrow> 'e outcome) \<Rightarrow> ('s, 'e, 'd, 'c) step_fun \<Rightarrow>
   ('s, 'd, 'c) adapter \<Rightarrow> ('r \<Rightarrow> ('s, 'd) fsm \<Rightarrow> machine_response list outcome \<times> ('s, 'd) fsm) \<Rightarrow>
   ('s, 'd) fsm \<Rightarrow> 'r machine_input \<Rightarrow> machine_response list outcome \<times> ('s, 'd) fsm" where
  "apply_input convert_cmd convert_ev step adapt cancel m inp =
     (case inp of
        InEvent ed \<Rightarrow> handle_event convert_ev step adapt m ed
      | InCommand ct \<Rightarrow> handle_command convert_cmd step adapt m ct
      | InRequest r \<Rightarrow> cancel r m)"

text \<open>For machines without a \<open>cancel\<close> operation a cancellation request never reaches the machine.\<close>

definition no_cancel :: "'r \<Rightarrow> ('s, 'd) fsm \<Rightarrow> machine_response list outcome \<times> ('s, 'd) fsm" where
  "no_cancel reason m = (Ok [], m)"

fun run_inputs ::
  "('m \<Rightarrow> 'i \<Rightarrow> machine_response list outcome \<times> 'm) \<Rightarrow> 'm \<Rightarrow> 'i list \<Rightarrow>
   machine_response list outcome \<times> 'm" where
  "run_inputs app m [] = (Ok [], m)"
| "run_inputs app m (i # is) =
     (case app m i of
        (Ok rs, m') \<Rightarrow>
          (case run_inputs app m' is of
             (Ok rs', m'') \<Rightarrow> (Ok (rs @ rs'), m'')
           | (r, m'') \<Rightarrow> (r, m''))
      | (r, m') \<Rightarrow> (r, m'))"

section \<open>Facts\<close>

lemma handle_event_OkE:
  assumes "handle_event convert step adapt m ed = (Ok rs, m')"
  obtains e s cs s' d' ei where "convert ed = Ok e" "fsm_state m = Some s"
    "step s e (fsm_shared m) = Some (TOk cs s', d')"
    "m' = \<lparr>fsm_state = Some s', fsm_shared = d'\<rparr>"
    "omap_concat (\<lambda>c. adapt m' c (Some ei)) cs = Ok rs"
proof -
  from assms obtain e where e: "convert ed = Ok e"
    by (cases "convert ed") (auto simp: handle_event_def Let_def)
  with assms obtain cs where "on_event step m e = (Cmds cs, m')"
    and "\<exists>ei. process_machine_commands adapt m' cs (Some ei) = Ok rs"
    by (auto simp: handle_event_def Let_def split: prod.splits cmds_result.splits
        machine_error.splits)
  with e that show ?thesis
    unfolding process_machine_commands_def by (elim exE on_event_CmdsE) blast
qed

lemma handle_command_OkE:
  assumes "handle_command convert step adapt m ct = (Ok rs, m')"
  obtains e s cs s' d' where "convert ct = Some e" "fsm_state m = Some s"
    "step s e (fsm_shared m) = Some (TOk cs s', d')"
    "m' = \<lparr>fsm_state = Some s', fsm_shared = d'\<rparr>"
    "omap_concat (\<lambda>c. adapt m' c None) cs = Ok rs"
proof -
  from assms obtain e where e: "convert ct = Some e"
    by (cases "convert ct") (auto simp: handle_command_def)
  with assms obtain cs where "on_event step m e = (Cmds cs, m')"
    and "process_machine_commands adapt m' cs None = Ok rs"
    by (auto simp: handle_command_def split: prod.splits cmds_result.splits machine_error.splits)
  with e that show ?thesis
    unfolding process_machine_commands_def by (elim on_event_CmdsE) blast
qed

lemma run_and_map_OkE:
  assumes "run_and_map step f m e = (Ok rs, m')"
  obtains s cs s' d' where "fsm_state m = Some s"
    "step s e (fsm_shared m) = Some (TOk cs s', d')"
    "m' = \<lparr>fsm_state = Some s', fsm_shared = d'\<rparr>"
    "omap_concat (f m') cs = Ok rs"
proof -
  from assms obtain cs where "on_event step m e = (Cmds cs, m')" and "omap_concat (f m') cs = Ok rs"
    by (auto simp: run_and_map_def split: prod.splits cmds_result.splits)
  with that show ?thesis by (elim on_event_CmdsE) blast
qed

lemma convert_payloads_no_panic [simp]: "\<not> is_panic (convert_payloads err r)"
  by (simp add: convert_payloads_def split: option.splits sum.splits)

lemma no_cancel_told: "R m acc \<Longrightarrow> no_cancel r m = (Ok rs, m') \<Longrightarrow> R m' (acc @ rs)"
  by (simp add: no_cancel_def)

lemma no_cancel_no_panic: "\<not> is_panic (fst (no_cancel r m))"
  by (simp add: no_cancel_def)

text \<open>Relating a machine to all the responses it has given so far.\<close>

lemma run_inputs_invariant_on:
  assumes "run_inputs app m is = (Ok rs, m')" and "R m acc"
    and "\<And>m acc i rs m'. i \<in> set is \<Longrightarrow> R m acc \<Longrightarrow> app m i = (Ok rs, m') \<Longrightarrow> R m' (acc @ rs)"
  shows "R m' (acc @ rs)"
  using assms
proof (induction "is" arbitrary: m rs acc)
  case (Cons i "is")
  from Cons.prems(1) obtain r1 m1 where a: "app m i = (Ok r1, m1)"
    by (auto split: prod.splits outcome.splits)
  with Cons.prems(1) obtain r2 where b: "run_inputs app m1 is = (Ok r2, m')" and r: "rs = r1 @ r2"
    by (auto split: prod.splits outcome.splits)
  have "R m1 (acc @ r1)" using _ Cons.prems(2) a by (rule Cons.prems(3)) simp
  with b have "R m' ((acc @ r1) @ r2)"
  proof (rule Cons.IH)
    show "R m' (acc @ rs)" if "j \<in> set is" "R m acc" "app m j = (Ok rs, m')" for m acc j rs m'
      using _ that(2,3) by (rule Cons.prems(3)) (simp add: that(1))
  qed
  with r show ?case by simp
qed simp

lemma run_inputs_invariant:
  assumes "run_inputs app m is = (Ok rs, m')" and "R m acc"
    and "\<And>m acc i rs m'. R m acc \<Longrightarrow> app m i = (Ok rs, m') \<Longrightarrow> R m' (acc @ rs)"
  shows "R m' (acc @ rs)"
  using assms(1,2) by (rule run_inputs_invariant_on) (rule assms(3))

text \<open>
  What a machine says is paid for: by the credit it starts with and by what the inputs bring.
\<close>

lemma run_inputs_credit:
  fixes f :: "machine_response list \<Rightarrow> nat"
  assumes "run_inputs app m is = (Ok rs, m')"
    and "\<And>m i rs m'. app m i = (Ok rs, m') \<Longrightarrow> f rs + credit m' \<le> credit m + cost i"
    and "\<And>as bs. f (as @ bs) = f as + f bs" and "f [] = 0"
  shows "f rs + credit m' \<le> credit m + sum_list (map cost is)"
  using assms(1)
proof (induction "is" arbitrary: m rs)
  case Nil
  then show ?case by (simp add: assms(4))
next
  case (Cons i "is")
  from Cons.prems(1) obtain r1 m1 where a: "app m i = (Ok r1, m1)"
    by (auto split: prod.splits outcome.splits)
  with Cons.prems(1) obtain r2 where b: "run_inputs app m1 is = (Ok r2, m')" and r: "rs = r1 @ r2"
    by (auto split: prod.splits outcome.splits)
  from Cons.IH [OF b] assms(2) [OF a] show ?case by (simp add: r assms(3))
qed

lemma run_inputs_no_panic:
  assumes "I m" and "\<And>m i. I m \<Longrightarrow> \<not> is_panic (fst (app m i))"
    and "\<And>m i rs m'. I m \<Longrightarrow> app m i = (Ok rs, m') \<Longrightarrow> I m'"
  shows "\<not> is_panic (fst (run_inputs app m is))"
  using assms(1)
proof (induction "is" arbitrary: m)
  case (Cons i "is")
  obtain r m' where a: "app m i = (r, m')" by (cases "app m i")
  show ?case
  proof (cases r)
    case (Ok rs)
    then have "\<not> is_panic (fst (run_inputs app m' is))"
      using Cons a assms(3) by blast
    then show ?thesis using a Ok by (auto split: prod.splits outcome.splits)
  qed (use a assms(2) [OF Cons.prems, of i] in auto)
qed simp

lemma issue_command_simps [simp]:
  "issue_command (CancelTimerCommandAttributes t) =
     Ok [IssueNewCommand (mk_command CT_CancelTimer (CancelTimerCommandAttributes t))]"
  "issue_command (RecordMarkerCommandAttributes r) =
     Ok [IssueNewCommand (mk_command CT_RecordMarker (RecordMarkerCommandAttributes r))]"
  "issue_command (ProtocolMessageCommandAttributes t) =
     Ok [IssueNewCommand (mk_command CT_ProtocolMessage (ProtocolMessageCommandAttributes t))]"
  "issue_command (RequestCancelNexusOperationCommandAttributes i) =
     Ok [IssueNewCommand
       (mk_command CT_RequestCancelNexusOperation (RequestCancelNexusOperationCommandAttributes i))]"
  by (simp_all add: issue_command_def command_from_attributes_def)

lemma proto_command_type_mk [simp]: "proto_command_type (mk_command ct a) = ct"
  by (simp add: proto_command_type_def mk_command_def)

definition is_job :: "machine_response \<Rightarrow> bool" where
  "is_job r = (case r of PushWFJob _ \<Rightarrow> True | _ \<Rightarrow> False)"

lemma is_job_simps [simp]:
  "is_job (PushWFJob j)" "\<not> is_job (IssueNewCommand c)" "\<not> is_job (IssueNewMessage pm)"
  "\<not> is_job (NewCoreOriginatedCommand a)" "\<not> is_job (IssueFakeLocalActivityMarker n)"
  "\<not> is_job (TriggerWFTaskStarted i t)" "\<not> is_job (UpdateRunIdOnWorkflowReset rid)"
  "\<not> is_job (QueueLocalActivity la)" "\<not> is_job (RequestCancelLocalActivity n)"
  "\<not> is_job (AbandonLocalActivity n)" "\<not> is_job (UpdateWFTime ot)"
  by (simp_all add: is_job_def)

text \<open>What the language layer and what the server is sent.\<close>

definition pushed_jobs :: "machine_response list \<Rightarrow> job_variant list" where
  "pushed_jobs rs = concat (map (\<lambda>r. case r of PushWFJob j \<Rightarrow> [j] | _ \<Rightarrow> []) rs)"

definition issued_commands :: "machine_response list \<Rightarrow> proto_command list" where
  "issued_commands rs = concat (map (\<lambda>r. case r of IssueNewCommand c \<Rightarrow> [c] | _ \<Rightarrow> []) rs)"

definition core_commands :: "machine_response list \<Rightarrow> command_attributes list" where
  "core_commands rs =
     concat (map (\<lambda>r. case r of NewCoreOriginatedCommand a \<Rightarrow> [a] | _ \<Rightarrow> []) rs)"

lemma core_commands_simps [simp]:
  "core_commands [] = []" "core_commands (as @ bs) = core_commands as @ core_commands bs"
  "core_commands (NewCoreOriginatedCommand a # rs) = a # core_commands rs"
  "core_commands (PushWFJob j # rs) = core_commands rs"
  by (simp_all add: core_commands_def)

lemma pushed_jobs_simps [simp]:
  "pushed_jobs [] = []" "pushed_jobs (as @ bs) = pushed_jobs as @ pushed_jobs bs"
  "pushed_jobs (PushWFJob j # rs) = j # pushed_jobs rs"
  "\<not> is_job r \<Longrightarrow> pushed_jobs (r # rs) = pushed_jobs rs"
  by (auto simp: pushed_jobs_def is_job_def split: machine_response.splits)

lemma issued_commands_simps [simp]:
  "issued_commands [] = []" "issued_commands (as @ bs) = issued_commands as @ issued_commands bs"
  "issued_commands (IssueNewCommand c # rs) = c # issued_commands rs"
  "issued_commands (PushWFJob j # rs) = issued_commands rs"
  "issued_commands (IssueNewMessage msg # rs) = issued_commands rs"
  "issued_commands (RequestCancelLocalActivity n # rs) = issued_commands rs"
  "issued_commands (QueueLocalActivity la # rs) = issued_commands rs"
  "issued_commands (UpdateWFTime ot # rs) = issued_commands rs"
  "issued_commands (IssueFakeLocalActivityMarker n # rs) = issued_commands rs"
  by (simp_all add: issued_commands_def)

lemma run_and_map_no_panic:
  assumes "fsm_state m = Some s"
    and "\<And>p d. step s e (fsm_shared m) \<noteq> Some (TPanic p, d)"
    and "\<And>cs s' d' c. step s e (fsm_shared m) = Some (TOk cs s', d') \<Longrightarrow> c \<in> set cs \<Longrightarrow>
      \<not> is_panic (f \<lparr>fsm_state = Some s', fsm_shared = d'\<rparr> c)"
  shows "\<not> is_panic (fst (run_and_map step f m e))"
proof (cases "step s e (fsm_shared m)")
  case None
  then show ?thesis using assms(1) by (simp add: run_and_map_def on_event_catch_all)
next
  case (Some rd)
  obtain r d where rd: "rd = (r, d)" by (cases rd)
  show ?thesis
  proof (cases r)
    case (TOk cs s')
    then have "\<not> is_panic (omap_concat (f \<lparr>fsm_state = Some s', fsm_shared = d\<rparr>) cs)"
      using assms(3) Some rd by (intro omap_concat_no_panic) simp
    then show ?thesis using TOk Some rd assms(1) by (simp add: run_and_map_def on_event_def)
  qed (use Some rd assms in \<open>auto simp: run_and_map_def on_event_def\<close>)
qed

text \<open>A history event as a machine sees it, for concrete runs.\<close>

definition mk_event :: "event_id \<Rightarrow> int \<Rightarrow> event_attributes \<Rightarrow> hist_event_data" where
  "mk_event eid et attrs =
     \<lparr>hed_event = \<lparr>he_event_id = eid, he_event_time = Some (eid, 0), he_event_type = et,
                   he_worker_may_ignore = False, he_attributes = Some attrs\<rparr>,
      hed_replaying = False, hed_current_task_is_last_in_history = True\<rparr>"

lemmas concrete_events = mk_event_def event_type_of_def event_type_try_from_def event_types_def
  attribute_readers

lemmas machine_run = apply_input_def handle_command_def handle_event_def concrete_events on_event_def
  process_machine_commands_def fsm_state_get_def run_and_map_def opt_default_def transition_results no_cancel_def

section \<open>The contract of a machine with its orchestrator\<close>

text \<open>
  A machine that follows its table and whose adapter never panics on a command the step function
  can produce: its handlers then report errors as values, keep their state on a refused event or
  command, and lose it only together with an error of a handler.
\<close>

locale temporal_machine = fsm_conforms table state_name event_name step
  for table :: "('n, 'ev) transition list"
    and state_name :: "'s \<Rightarrow> 'n"
    and event_name :: "'e \<Rightarrow> 'ev"
    and step :: "'s \<Rightarrow> 'e \<Rightarrow> 'd \<Rightarrow> (('c, 's) transition_result \<times> 'd) option" +
  fixes convert_command :: "command_type \<Rightarrow> 'e option"
    and convert_event :: "hist_event_data \<Rightarrow> 'e outcome"
    and adapt :: "('s, 'd) fsm \<Rightarrow> 'c \<Rightarrow> event_info option \<Rightarrow> machine_response list outcome"
  assumes convert_no_panic: "\<not> is_panic (convert_event ed)"
    and adapt_no_panic: "step s e d = Some (TOk cs s', d') \<Longrightarrow> c \<in> set cs \<Longrightarrow>
      (\<exists>ct. convert_command ct = Some e) \<or> (\<exists>ed. convert_event ed = Ok e) \<Longrightarrow>
      \<not> is_panic (adapt \<lparr>fsm_state = Some s', fsm_shared = d'\<rparr> c ei)"
begin

lemma process_no_panic:
  assumes "on_event step m e = (Cmds cs, m')"
    and "(\<exists>ct. convert_command ct = Some e) \<or> (\<exists>ed. convert_event ed = Ok e)"
  shows "\<not> is_panic (process_machine_commands adapt m' cs ei)"
  using assms(1)
proof (rule on_event_CmdsE)
  fix s s' d
  assume "step s e (fsm_shared m) = Some (TOk cs s', d)"
    and "m' = \<lparr>fsm_state = Some s', fsm_shared = d\<rparr>"
  then show ?thesis
    unfolding process_machine_commands_def
    using assms(2) by (intro omap_concat_no_panic) (auto dest: adapt_no_panic)
qed

lemma on_event_cases:
  assumes "fsm_state m = Some s"
    and "\<forall>p d. step s e (fsm_shared m) \<noteq> Some (TPanic p, d)"
  obtains (ok) cs m' where "on_event step m e = (Cmds cs, m')"
  | (invalid) "on_event step m e = (Failed_with MInvalidTransition, m)"
  | (failed) err m' where "on_event step m e = (Failed_with (Underlying err), m')"
proof (cases "step s e (fsm_shared m)")
  case None
  then show ?thesis using assms(1) invalid by (simp add: on_event_catch_all)
next
  case (Some rd)
  obtain r d where rd: "rd = (r, d)" by (cases rd)
  with Some have "r \<noteq> InvalidTransition" using step_valid by auto
  with Some rd assms ok failed show ?thesis by (cases r) (auto simp: on_event_def)
qed

lemma handle_command_no_panic:
  assumes "fsm_state m = Some s"
    and "\<And>e. convert_command ct = Some e \<Longrightarrow> \<forall>p d. step s e (fsm_shared m) \<noteq> Some (TPanic p, d)"
  shows "\<not> is_panic (fst (handle_command convert_command step adapt m ct))"
proof (cases "convert_command ct")
  case (Some e)
  from assms(1) assms(2) [OF Some] show ?thesis
  proof (cases rule: on_event_cases)
    case (ok cs m')
    then show ?thesis
      using Some process_no_panic [of m e cs m'] by (auto simp: handle_command_def)
  qed (use Some assms(1) in \<open>auto simp: handle_command_def fsm_state_get_def\<close>)
qed (simp add: handle_command_def)

lemma handle_event_no_panic:
  assumes "fsm_state m = Some s"
    and "\<And>e. convert_event ed = Ok e \<Longrightarrow> \<forall>p d. step s e (fsm_shared m) \<noteq> Some (TPanic p, d)"
  shows "\<not> is_panic (fst (handle_event convert_event step adapt m ed))"
proof (cases "convert_event ed")
  case (Ok e)
  from assms(1) assms(2) [OF Ok] show ?thesis
  proof (cases rule: on_event_cases)
    case (ok cs m')
    then show ?thesis
      using Ok process_no_panic [of m e cs m'] by (auto simp: handle_event_def Let_def)
  qed (use Ok assms(1) in \<open>auto simp: handle_event_def Let_def fsm_state_get_def\<close>)
next
  case (Panic p)
  then show ?thesis using convert_no_panic [of ed] by simp
qed (simp add: handle_event_def)

lemma apply_input_no_panic:
  assumes "fsm_state m = Some s"
    and "\<And>e p d. step s e (fsm_shared m) \<noteq> Some (TPanic p, d)"
    and "\<And>reason. \<not> is_panic (fst (cancel reason m))"
  shows "\<not> is_panic (fst (apply_input convert_command convert_event step adapt cancel m i))"
  using assms handle_event_no_panic [of m s] handle_command_no_panic [of m s]
  by (cases i) (simp_all add: apply_input_def)

text \<open>
  Relations between a machine and all it has said, kept by every step on a converted event and by
  every cancellation, hold after every run that meets no error.
\<close>

lemma apply_told:
  assumes "apply_input convert_command convert_event step adapt cancel m i = (Ok rs, m')"
    and "R m acc"
    and step: "\<And>m acc s e cs s' d' ei rs. R m acc \<Longrightarrow> fsm_state m = Some s \<Longrightarrow>
      step s e (fsm_shared m) = Some (TOk cs s', d') \<Longrightarrow>
      (\<exists>ct. convert_command ct = Some e) \<or> (\<exists>ed. convert_event ed = Ok e) \<Longrightarrow>
      omap_concat (\<lambda>c. adapt \<lparr>fsm_state = Some s', fsm_shared = d'\<rparr> c ei) cs = Ok rs \<Longrightarrow>
      R \<lparr>fsm_state = Some s', fsm_shared = d'\<rparr> (acc @ rs)"
    and cancel: "\<And>m acc r rs m'. R m acc \<Longrightarrow> cancel r m = (Ok rs, m') \<Longrightarrow> R m' (acc @ rs)"
  shows "R m' (acc @ rs)"
  using assms(1)
proof (cases i)
  case (InEvent ed)
  with assms(1) have "handle_event convert_event step adapt m ed = (Ok rs, m')"
    by (simp add: apply_input_def)
  then show ?thesis
    by (rule handle_event_OkE) (use step assms(2) in blast)
next
  case (InCommand ct)
  with assms(1) have "handle_command convert_command step adapt m ct = (Ok rs, m')"
    by (simp add: apply_input_def)
  then show ?thesis
    by (rule handle_command_OkE) (use step assms(2) in blast)
next
  case (InRequest r)
  with assms show ?thesis by (simp add: apply_input_def)
qed

lemma run_told:
  assumes "run_inputs (apply_input convert_command convert_event step adapt cancel) m is = (Ok rs, m')"
    and "R m []"
    and "\<And>m acc s e cs s' d' ei rs. R m acc \<Longrightarrow> fsm_state m = Some s \<Longrightarrow>
      step s e (fsm_shared m) = Some (TOk cs s', d') \<Longrightarrow>
      (\<exists>ct. convert_command ct = Some e) \<or> (\<exists>ed. convert_event ed = Ok e) \<Longrightarrow>
      omap_concat (\<lambda>c. adapt \<lparr>fsm_state = Some s', fsm_shared = d'\<rparr> c ei) cs = Ok rs \<Longrightarrow>
      R \<lparr>fsm_state = Some s', fsm_shared = d'\<rparr> (acc @ rs)"
    and "\<And>m acc r rs m'. R m acc \<Longrightarrow> cancel r m = (Ok rs, m') \<Longrightarrow> R m' (acc @ rs)"
  shows "R m' rs"
proof -
  have "R m' ([] @ rs)"
    using assms(1,2)
  proof (rule run_inputs_invariant [where R = R])
    fix m acc i rs m'
    assume "R m acc" "apply_input convert_command convert_event step adapt cancel m i = (Ok rs, m')"
    then show "R m' (acc @ rs)" using apply_told [where R = R] assms(3,4) by blast
  qed
  then show ?thesis by simp
qed

lemma run_no_panic:
  assumes "R m []"
    and "\<And>m acc s e cs s' d' ei rs. R m acc \<Longrightarrow> fsm_state m = Some s \<Longrightarrow>
      step s e (fsm_shared m) = Some (TOk cs s', d') \<Longrightarrow>
      (\<exists>ct. convert_command ct = Some e) \<or> (\<exists>ed. convert_event ed = Ok e) \<Longrightarrow>
      omap_concat (\<lambda>c. adapt \<lparr>fsm_state = Some s', fsm_shared = d'\<rparr> c ei) cs = Ok rs \<Longrightarrow>
      R \<lparr>fsm_state = Some s', fsm_shared = d'\<rparr> (acc @ rs)"
    and "\<And>m acc r rs m'. R m acc \<Longrightarrow> cancel r m = (Ok rs, m') \<Longrightarrow> R m' (acc @ rs)"
    and state: "\<And>m acc. R m acc \<Longrightarrow> fsm_state m \<noteq> None"
    and total: "\<And>m acc s e p d. R m acc \<Longrightarrow> fsm_state m = Some s \<Longrightarrow>
      step s e (fsm_shared m) \<noteq> Some (TPanic p, d)"
    and cancel: "\<And>m acc r. R m acc \<Longrightarrow> \<not> is_panic (fst (cancel r m))"
  shows "\<not> is_panic (fst (run_inputs
    (apply_input convert_command convert_event step adapt cancel) m is))"
proof (rule run_inputs_no_panic [where I = "\<lambda>m. \<exists>acc. R m acc"])
  show "\<exists>acc. R m acc" using assms(1) by blast
next
  fix m i assume "\<exists>acc. R m acc"
  then obtain acc where R: "R m acc" by blast
  from state [OF R] obtain s where s: "fsm_state m = Some s" by blast
  from s total [OF R s] cancel [OF R] show "\<not> is_panic (fst (apply_input convert_command convert_event step adapt cancel m i))"
    by (rule apply_input_no_panic)
next
  fix m i rs m'
  assume "\<exists>acc. R m acc"
    and "apply_input convert_command convert_event step adapt cancel m i = (Ok rs, m')"
  then show "\<exists>acc. R m' acc" using apply_told [where R = R] assms(2,3) by blast
qed

lemma run_life:
  assumes "R m []"
    and "\<And>m acc s e cs s' d' ei rs. R m acc \<Longrightarrow> fsm_state m = Some s \<Longrightarrow>
      step s e (fsm_shared m) = Some (TOk cs s', d') \<Longrightarrow>
      (\<exists>ct. convert_command ct = Some e) \<or> (\<exists>ed. convert_event ed = Ok e) \<Longrightarrow>
      omap_concat (\<lambda>c. adapt \<lparr>fsm_state = Some s', fsm_shared = d'\<rparr> c ei) cs = Ok rs \<Longrightarrow>
      R \<lparr>fsm_state = Some s', fsm_shared = d'\<rparr> (acc @ rs)"
    and "\<And>m acc r rs m'. R m acc \<Longrightarrow> cancel r m = (Ok rs, m') \<Longrightarrow> R m' (acc @ rs)"
    and "\<And>m acc. R m acc \<Longrightarrow> fsm_state m \<noteq> None"
    and "\<And>m acc s e p d. R m acc \<Longrightarrow> fsm_state m = Some s \<Longrightarrow>
      step s e (fsm_shared m) \<noteq> Some (TPanic p, d)"
    and "\<And>m acc r. R m acc \<Longrightarrow> \<not> is_panic (fst (cancel r m))"
  shows "\<not> is_panic (fst (run_inputs
      (apply_input convert_command convert_event step adapt cancel) m is)) \<and>
    (run_inputs (apply_input convert_command convert_event step adapt cancel) m is = (Ok rs, m') \<longrightarrow>
       R m' rs)"
proof (intro conjI impI)
  show "\<not> is_panic (fst (run_inputs
      (apply_input convert_command convert_event step adapt cancel) m is))"
    using assms by (rule run_no_panic)
  assume "run_inputs (apply_input convert_command convert_event step adapt cancel) m is = (Ok rs, m')"
  then show "R m' rs" using assms(1,2,3) by (rule run_told)
qed

text \<open>A cancellation whose commands are mapped as the adapter maps them is a step like any other.\<close>

lemma run_and_map_step:
  assumes "run_and_map step f m e = (Ok rs, m')"
    and "\<And>s cs s' d' c m'. step s e (fsm_shared m) = Some (TOk cs s', d') \<Longrightarrow> c \<in> set cs \<Longrightarrow>
      f m' c = adapt m' c None"
  obtains s cs s' d' where "fsm_state m = Some s"
    "step s e (fsm_shared m) = Some (TOk cs s', d')"
    "m' = \<lparr>fsm_state = Some s', fsm_shared = d'\<rparr>"
    "omap_concat (\<lambda>c. adapt m' c None) cs = Ok rs"
  using assms(1)
proof (rule run_and_map_OkE)
  fix s cs s' d'
  assume 1: "fsm_state m = Some s" "step s e (fsm_shared m) = Some (TOk cs s', d')"
    "m' = \<lparr>fsm_state = Some s', fsm_shared = d'\<rparr>" "omap_concat (f m') cs = Ok rs"
  have "omap_concat (\<lambda>c. adapt m' c None) cs = Ok rs"
    unfolding 1(4) [symmetric] using assms(2) [OF 1(2)] by (auto intro!: omap_concat_cong)
  with 1 that show thesis by blast
qed

lemma handle_event_final:
  assumes "fsm_state m = Some s" and "is_final_state table (state_name s)"
    and "convert_event ed = Ok e"
  shows "handle_event convert_event step adapt m ed =
    (Err (Fatal ''says the transition is invalid during event''), m)"
  using assms by (simp add: handle_event_def Let_def final_rejects fsm_state_get_def)

lemma handle_command_unconverted:
  "convert_command ct = None \<Longrightarrow>
   handle_command convert_command step adapt m ct =
     (Err (Nondeterminism ''Unexpected command generated by a machine''), m)"
  by (simp add: handle_command_def)

end

end
