(* ===== verification/Timer_Machine.thy ===== *)
theory Timer_Machine
  imports Temporal_Machine
begin

text \<open>
  The timer machine (\<open>machines/timer_state_machine.rs\<close>): its transition table, one definition per
  handler, construction, cancellation and the adaptation of its commands to responses.
\<close>

section \<open>States, events, commands\<close>

datatype timer_state = Created | StartCommandCreated | StartCommandRecorded
  | CancelTimerCommandCreated | CancelTimerCommandSent | Canceled | Fired

datatype timer_event = Schedule | CommandStartTimer | TimerStarted event_id
  | Cancel | TimerFired timer_fired_attrs | CommandCancelTimer | TimerCanceled

datatype timer_event_kind = EvSchedule | EvCommandStartTimer | EvTimerStarted | EvCancel
  | EvTimerFired | EvCommandCancelTimer | EvTimerCanceled

datatype timer_command = Complete | IssueCancelCmd command_attributes

record timer_shared =
  tm_attrs :: start_timer
  tm_cancelled_before_sent :: bool

type_synonym timer_machine = "(timer_state, timer_shared) fsm"

definition timer_table :: "(timer_state, timer_event_kind) transition list" where
  "timer_table =
     [row Created EvSchedule (Some ''on_schedule'') False StartCommandCreated,
      row StartCommandCreated EvCommandStartTimer None False StartCommandCreated,
      row StartCommandCreated EvTimerStarted (Some ''on_timer_started'') False
        StartCommandRecorded,
      row StartCommandCreated EvCancel (Some ''on_cancel'') True Canceled,
      row StartCommandRecorded EvTimerFired (Some ''on_timer_fired'') True Fired,
      row StartCommandRecorded EvCancel (Some ''on_cancel'') True CancelTimerCommandCreated,
      row CancelTimerCommandCreated EvCancel None False CancelTimerCommandCreated,
      row CancelTimerCommandCreated EvCommandCancelTimer (Some ''on_command_cancel_timer'') False
        CancelTimerCommandSent,
      row CancelTimerCommandSent EvTimerCanceled None False Canceled,
      row Canceled EvCancel None False Canceled,
      row Fired EvCancel None False Fired]"

primrec timer_event_name :: "timer_event \<Rightarrow> timer_event_kind" where
  "timer_event_name Schedule = EvSchedule"
| "timer_event_name CommandStartTimer = EvCommandStartTimer"
| "timer_event_name (TimerStarted i) = EvTimerStarted"
| "timer_event_name Cancel = EvCancel"
| "timer_event_name (TimerFired a) = EvTimerFired"
| "timer_event_name CommandCancelTimer = EvCommandCancelTimer"
| "timer_event_name TimerCanceled = EvTimerCanceled"

section \<open>Handlers\<close>

type_synonym timer_transition = "(timer_command, timer_state) transition_result"

definition timer_created_on_schedule :: timer_transition where
  "timer_created_on_schedule = tr_default StartCommandCreated"

definition timer_on_command_cancel_timer :: timer_transition where
  "timer_on_command_cancel_timer = tr_ok [] CancelTimerCommandSent"

definition timer_on_timer_started :: "event_id \<Rightarrow> timer_transition" where
  "timer_on_timer_started _ = tr_default StartCommandRecorded"

definition timer_created_on_cancel :: "timer_shared \<Rightarrow> timer_transition \<times> timer_shared" where
  "timer_created_on_cancel dat =
     (tr_default Canceled, dat\<lparr>tm_cancelled_before_sent := True\<rparr>)"

definition timer_on_timer_fired ::
  "timer_shared \<Rightarrow> timer_fired_attrs \<Rightarrow> timer_transition \<times> timer_shared" where
  "timer_on_timer_fired dat attrs =
     (if show_u32 (st_seq (tm_attrs dat)) = tfd_timer_id attrs
      then tr_ok [Complete] Fired
      else TErr (Nondeterminism ''Timer fired event did not have expected timer id''), dat)"

definition timer_recorded_on_cancel :: "timer_shared \<Rightarrow> timer_transition \<times> timer_shared" where
  "timer_recorded_on_cancel dat =
     (tr_ok [IssueCancelCmd (cancel_timer_attrs (st_seq (tm_attrs dat)))]
        CancelTimerCommandCreated, dat)"

primrec timer_step :: "(timer_state, timer_event, timer_shared, timer_command) step_fun" where
  "timer_step Created e d =
     (case e of Schedule \<Rightarrow> Some (timer_created_on_schedule, d) | _ \<Rightarrow> None)"
| "timer_step StartCommandCreated e d =
     (case e of
        CommandStartTimer \<Rightarrow> Some (tr_from_state id StartCommandCreated, d)
      | TimerStarted i \<Rightarrow> Some (timer_on_timer_started i, d)
      | Cancel \<Rightarrow> Some (timer_created_on_cancel d)
      | _ \<Rightarrow> None)"
| "timer_step StartCommandRecorded e d =
     (case e of
        TimerFired attrs \<Rightarrow> Some (timer_on_timer_fired d attrs)
      | Cancel \<Rightarrow> Some (timer_recorded_on_cancel d)
      | _ \<Rightarrow> None)"
| "timer_step CancelTimerCommandCreated e d =
     (case e of
        Cancel \<Rightarrow> Some (tr_from_state id CancelTimerCommandCreated, d)
      | CommandCancelTimer \<Rightarrow> Some (timer_on_command_cancel_timer, d)
      | _ \<Rightarrow> None)"
| "timer_step CancelTimerCommandSent e d =
     (case e of TimerCanceled \<Rightarrow> Some (tr_from_state (\<lambda>_. Canceled) CancelTimerCommandSent, d) | _ \<Rightarrow> None)"
| "timer_step Canceled e d =
     (case e of Cancel \<Rightarrow> Some (tr_from_state id Canceled, d) | _ \<Rightarrow> None)"
| "timer_step Fired e d =
     (case e of Cancel \<Rightarrow> Some (tr_from_state id Fired, d) | _ \<Rightarrow> None)"

lemmas timer_handlers =
  timer_created_on_schedule_def timer_on_command_cancel_timer_def timer_on_timer_started_def
  timer_created_on_cancel_def timer_on_timer_fired_def timer_recorded_on_cancel_def

section \<open>Operations\<close>

definition timer_new :: "start_timer \<Rightarrow> timer_machine" where
  "timer_new attribs =
     from_parts Created \<lparr>tm_attrs = attribs, tm_cancelled_before_sent = False\<rparr>"

text \<open>The \<open>expect\<close> on scheduling is the panic branch.\<close>

definition timer_new_scheduled ::
  "start_timer \<Rightarrow> (timer_machine \<times> command_attributes) outcome" where
  "timer_new_scheduled attribs =
     (case on_event timer_step (timer_new attribs) Schedule of
        (Cmds _, s) \<Rightarrow> Ok (s, start_timer_attrs (tm_attrs (fsm_shared s)))
      | _ \<Rightarrow> Panic ''Scheduling timers doesn't fail'')"

definition timer_cancel :: "timer_machine \<Rightarrow> machine_response list outcome \<times> timer_machine" where
  "timer_cancel m =
     (case on_event timer_step m Cancel of
        (Cmds cmds, m') \<Rightarrow>
          (if cmds = [] then Ok []
           else case last cmds of
                  IssueCancelCmd cmd \<Rightarrow> issue_command cmd
                | Complete \<Rightarrow> Panic ''Invalid cancel event response'', m')
      | (Failed_with e, m') \<Rightarrow> (Err (wf_error_of_machine_error e), m')
      | (Panicked p, m') \<Rightarrow> (Panic p, m'))"

definition timer_was_cancelled_before_sent :: "timer_machine \<Rightarrow> bool" where
  "timer_was_cancelled_before_sent m = tm_cancelled_before_sent (fsm_shared m)"

definition timer_try_from_event :: "hist_event_data \<Rightarrow> timer_event outcome" where
  "timer_try_from_event ed =
     (let e = hed_event ed in
      if event_type_of e = ET_TimerStarted then Ok (TimerStarted (he_event_id e))
      else if event_type_of e = ET_TimerCanceled then Ok TimerCanceled
      else if event_type_of e = ET_TimerFired then
        (case attrs_timer_fired e of
           Some attrs \<Rightarrow> Ok (TimerFired attrs)
         | None \<Rightarrow> Err (Fatal ''Timer fired attribs were unset''))
      else Err (Nondeterminism ''Timer machine does not handle this event''))"

definition timer_try_from_command :: "command_type \<Rightarrow> timer_event option" where
  "timer_try_from_command c =
     (if c = CT_StartTimer then Some CommandStartTimer
      else if c = CT_CancelTimer then Some CommandCancelTimer
      else None)"

definition timer_adapt_response ::
  "timer_machine \<Rightarrow> timer_command \<Rightarrow> event_info option \<Rightarrow> machine_response list outcome" where
  "timer_adapt_response m cmd ei =
     (case cmd of
        Complete \<Rightarrow> Ok [PushWFJob (FireTimer (st_seq (tm_attrs (fsm_shared m))))]
      | IssueCancelCmd c \<Rightarrow> issue_command c)"

lemmas timer_ops =
  timer_new_def timer_new_scheduled_def timer_cancel_def timer_was_cancelled_before_sent_def
  timer_try_from_event_def timer_try_from_command_def timer_adapt_response_def

section \<open>Conformance to the table\<close>

lemma timer_conforms: "fsm_conforms timer_table (\<lambda>s. s) timer_event_name timer_step"
proof
  show "timer_step s e d = None \<longleftrightarrow> dests timer_table s (timer_event_name e) = []"
    for s e d
    by (cases s; cases e; simp add: fsm_tables timer_table_def)
next
  show "s' \<in> set (dests timer_table s (timer_event_name e))"
    if "timer_step s e d = Some (TOk cs s', d')" for s e d cs s' d'
    using that
    by (cases s; cases e; auto simp: fsm_tables timer_table_def
        timer_handlers transition_results split: if_splits)
next
  show "timer_step s e d \<noteq> Some (InvalidTransition, d')" for s e d d'
    by (cases s; cases e; simp add: timer_handlers transition_results)
next
  show "d' = d" if "timer_step s e d = Some (r, d')"
    and "\<not> mutating_row timer_table s (timer_event_name e)" for s e d r d'
    using that
    by (cases s; cases e; simp add: fsm_tables timer_table_def
        timer_handlers)
qed

lemma timer_convert_no_panic: "\<not> is_panic (timer_try_from_event ed)"
  by (simp add: timer_try_from_event_def Let_def split: option.splits)

lemma timer_adapt_no_panic:
  "timer_step s e d = Some (TOk cs s', d') \<Longrightarrow> c \<in> set cs \<Longrightarrow> \<not> is_panic (timer_adapt_response m c ei)"
  by (cases s; cases e; auto simp: timer_handlers transition_results
      timer_adapt_response_def cancel_timer_attrs_def split: if_splits)

interpretation timer: temporal_machine timer_table "\<lambda>s. s" timer_event_name timer_step
  timer_try_from_command timer_try_from_event timer_adapt_response
  by (intro temporal_machine.intro temporal_machine_axioms.intro timer_conforms
      timer_convert_no_panic timer_adapt_no_panic)

section \<open>A timer over its whole life\<close>

definition timer_apply ::
  "timer_machine \<Rightarrow> string machine_input \<Rightarrow> machine_response list outcome \<times> timer_machine" where
  "timer_apply =
     apply_input timer_try_from_command timer_try_from_event timer_step timer_adapt_response
       (\<lambda>_. timer_cancel)"

text \<open>What a timer with the given attributes has told its surroundings when it is in a state.\<close>

definition timer_told :: "start_timer \<Rightarrow> timer_machine \<Rightarrow> machine_response list \<Rightarrow> bool" where
  "timer_told a m acc \<longleftrightarrow>
     tm_attrs (fsm_shared m) = a \<and>
     (case fsm_state m of
        None \<Rightarrow> False
      | Some s \<Rightarrow>
          (tm_cancelled_before_sent (fsm_shared m) \<longrightarrow> s = Canceled) \<and>
          acc = (if s = Fired then [PushWFJob (FireTimer (st_seq a))]
                 else if s \<in> {CancelTimerCommandCreated, CancelTimerCommandSent} \<or>
                         s = Canceled \<and> \<not> tm_cancelled_before_sent (fsm_shared m)
                 then [IssueNewCommand (mk_command CT_CancelTimer (cancel_timer_attrs (st_seq a)))]
                 else []))"

lemma timer_new_scheduled_eq:
  "timer_new_scheduled a =
     Ok (\<lparr>fsm_state = Some StartCommandCreated,
          fsm_shared = \<lparr>tm_attrs = a, tm_cancelled_before_sent = False\<rparr>\<rparr>, start_timer_attrs a)"
  by (simp add: timer_new_scheduled_def timer_new_def from_parts_def on_event_def
      timer_handlers transition_results)

lemma timer_cancel_OkE:
  assumes "timer_cancel m = (Ok rs, m')"
  obtains s cs s' d' where "fsm_state m = Some s"
    "timer_step s Cancel (fsm_shared m) = Some (TOk cs s', d')"
    "m' = \<lparr>fsm_state = Some s', fsm_shared = d'\<rparr>"
    "omap_concat (\<lambda>c. timer_adapt_response m' c None) cs = Ok rs"
proof -
  from assms obtain cs where "on_event timer_step m Cancel = (Cmds cs, m')"
    by (auto simp: timer_cancel_def split: prod.splits cmds_result.splits)
  then show ?thesis
  proof (rule on_event_CmdsE)
    fix s s' d
    assume 1: "fsm_state m = Some s" "timer_step s Cancel (fsm_shared m) = Some (TOk cs s', d)"
      "m' = \<lparr>fsm_state = Some s', fsm_shared = d\<rparr>"
    have "omap_concat (\<lambda>c. timer_adapt_response m' c None) cs = Ok rs"
      using 1 assms
      by (cases s; auto simp: timer_cancel_def on_event_def timer_handlers
          transition_results timer_adapt_response_def cancel_timer_attrs_def)
    with 1 that show ?thesis by blast
  qed
qed

lemma timer_step_told:
  assumes "timer_told a m acc" "fsm_state m = Some s"
    "timer_step s e (fsm_shared m) = Some (TOk cs s', d')"
    "omap_concat (\<lambda>c. timer_adapt_response \<lparr>fsm_state = Some s', fsm_shared = d'\<rparr> c ei) cs = Ok rs"
  shows "timer_told a \<lparr>fsm_state = Some s', fsm_shared = d'\<rparr> (acc @ rs)"
  using assms
  by (cases s; cases e; auto simp: timer_told_def timer_handlers transition_results
      timer_adapt_response_def cancel_timer_attrs_def split: if_splits)

text \<open>
  C18: Whatever sequence of history events, echoed commands and cancellation requests reaches a
  scheduled timer without an error, the language layer hears exactly one \<open>FireTimer\<close> with the
  timer's own sequence number if the timer ends up fired and none otherwise, and the server hears
  exactly one cancel command if it was cancelled after it had been recorded, and none if the
  cancellation came before the start command was sent.
\<close>

theorem timer_life:
  assumes "timer_new_scheduled a = Ok (m, cmd)"
    and "run_inputs timer_apply m is = (Ok rs, m')"
    and "fsm_state m' = Some s"
  shows "rs =
    (if s = Fired then [PushWFJob (FireTimer (st_seq a))]
     else if s \<in> {CancelTimerCommandCreated, CancelTimerCommandSent} \<or>
             s = Canceled \<and> \<not> timer_was_cancelled_before_sent m'
     then [IssueNewCommand (mk_command CT_CancelTimer (cancel_timer_attrs (st_seq a)))]
     else [])"
proof -
  have "timer_told a m []"
    using assms(1) by (auto simp: timer_new_scheduled_eq timer_told_def)
  with assms(2) have "timer_told a m' rs" unfolding timer_apply_def
    by (rule timer.run_told) (auto elim!: timer_cancel_OkE intro: timer_step_told)
  then show ?thesis using assms(3) by (simp add: timer_told_def timer_was_cancelled_before_sent_def)
qed

definition wit_timer_inputs :: "string machine_input list" where
  "wit_timer_inputs =
     [InCommand CT_StartTimer,
      InEvent (mk_event 5 17 (TimerStartedEventAttributes ''1'')),
      InEvent (mk_event 6 18 (TimerFiredEventAttributes
        \<lparr>tfd_timer_id = ''1'', tfd_started_event_id = 5\<rparr>))]"

theorem timer_life_witness:
  "\<exists>m cmd m'.
     timer_new_scheduled \<lparr>st_seq = 1, st_start_to_fire_timeout = None\<rparr> = Ok (m, cmd) \<and>
     run_inputs timer_apply m wit_timer_inputs = (Ok [PushWFJob (FireTimer 1)], m') \<and>
     fsm_state m' = Some Fired"
proof -
  define a where "a = \<lparr>st_seq = 1, st_start_to_fire_timeout = None\<rparr>"
  obtain m cmd where new: "timer_new_scheduled a = Ok (m, cmd)"
    by (simp add: timer_new_scheduled_eq)
  then have m: "m = \<lparr>fsm_state = Some StartCommandCreated,
    fsm_shared = \<lparr>tm_attrs = a, tm_cancelled_before_sent = False\<rparr>\<rparr>"
    by (simp add: timer_new_scheduled_eq)
  have id: "show_u32 1 = ''1''" by code_simp
  have "\<exists>rs m'. run_inputs timer_apply m wit_timer_inputs = (Ok rs, m') \<and> fsm_state m' = Some Fired"
    by (simp add: m a_def wit_timer_inputs_def timer_apply_def
        apply_input_def handle_command_def handle_event_def concrete_events on_event_def
        timer_handlers transition_results timer_ops process_machine_commands_def id)
  then obtain rs m' where run: "run_inputs timer_apply m wit_timer_inputs = (Ok rs, m')"
    and fired: "fsm_state m' = Some Fired" by blast
  from timer_life [OF new run fired] new run fired show ?thesis by (auto simp: a_def)
qed

end
