(* ===== verification/Internal_Flags.thy ===== *)
theory Internal_Flags
  imports Protos_Events
begin

text \<open>
  Internal flags (\<open>core/src/internal_flags.rs\<close>): which history-altering code paths a run may use.
  The ordered sets of the source are sets here; where the source iterates an unordered set into a
  vector, the model lists the elements in increasing order.
\<close>

section \<open>Flags\<close>

datatype core_internal_flags = IdAndTypeDeterminismChecks | UpsertSearchAttributeOnPatch
  | MoveTerminalCommands | TooHigh

primrec flag_code :: "core_internal_flags \<Rightarrow> u32" where
  "flag_code IdAndTypeDeterminismChecks = 1"
| "flag_code UpsertSearchAttributeOnPatch = 2"
| "flag_code MoveTerminalCommands = 3"
| "flag_code TooHigh = - 1"

definition flag_from_u32 :: "u32 \<Rightarrow> core_internal_flags" where
  "flag_from_u32 v =
     (if v = 1 then IdAndTypeDeterminismChecks
      else if v = 2 then UpsertSearchAttributeOnPatch
      else if v = 3 then MoveTerminalCommands
      else TooHigh)"

definition all_flags :: "core_internal_flags list" where
  "all_flags = [IdAndTypeDeterminismChecks, UpsertSearchAttributeOnPatch, MoveTerminalCommands,
     TooHigh]"

definition all_except_too_high :: "core_internal_flags list" where
  "all_except_too_high = filter (\<lambda>f. f \<noteq> TooHigh) all_flags"

lemma flag_from_u32_code [simp]: "flag_from_u32 (flag_code f) = f"
  by (cases f) (simp_all add: flag_from_u32_def)

lemma flag_code_inj: "flag_code a = flag_code b \<Longrightarrow> a = b"
  by (metis flag_from_u32_code)

instantiation core_internal_flags :: linorder
begin

definition less_eq_core_internal_flags :: "core_internal_flags \<Rightarrow> core_internal_flags \<Rightarrow> bool" where
  "less_eq_core_internal_flags a b = (flag_code a \<le> flag_code b)"

definition less_core_internal_flags :: "core_internal_flags \<Rightarrow> core_internal_flags \<Rightarrow> bool" where
  "less_core_internal_flags a b = (flag_code a < flag_code b)"

instance
  by standard
    (auto simp: less_eq_core_internal_flags_def less_core_internal_flags_def dest: flag_code_inj)

end

section \<open>The flags of a run\<close>

record enabled_flags =
  ef_core :: "core_internal_flags set"
  ef_lang :: "u32 set"
  ef_core_since_last_complete :: "core_internal_flags set"
  ef_lang_since_last_complete :: "u32 set"
  ef_last_sdk_name :: string
  ef_last_sdk_version :: string
  ef_sdk_name :: string
  ef_sdk_version :: string

datatype internal_flags = Enabled enabled_flags | Disabled

definition flags_new :: "bool \<Rightarrow> string \<Rightarrow> string \<Rightarrow> internal_flags" where
  "flags_new server_sdk_metadata sdk_name sdk_version =
     (if server_sdk_metadata then
        Enabled \<lparr>ef_core = {}, ef_lang = {}, ef_core_since_last_complete = {},
                 ef_lang_since_last_complete = {}, ef_last_sdk_name = [],
                 ef_last_sdk_version = [], ef_sdk_name = sdk_name,
                 ef_sdk_version = sdk_version\<rparr>
      else Disabled)"

primrec add_from_complete :: "internal_flags \<Rightarrow> wft_completed_attrs \<Rightarrow> internal_flags" where
  "add_from_complete (Enabled f) e =
     (case wtc_sdk_metadata e of
        None \<Rightarrow> Enabled f
      | Some metadata \<Rightarrow>
          Enabled
            (f\<lparr>ef_core := ef_core f \<union> flag_from_u32 ` set (wcm_core_used_flags metadata),
               ef_lang := ef_lang f \<union> set (wcm_lang_used_flags metadata),
               ef_last_sdk_name :=
                 (if wcm_sdk_name metadata \<noteq> [] then wcm_sdk_name metadata
                  else ef_last_sdk_name f),
               ef_last_sdk_version :=
                 (if wcm_sdk_version metadata \<noteq> [] then wcm_sdk_version metadata
                  else ef_last_sdk_version f)\<rparr>))"
| "add_from_complete Disabled e = Disabled"

primrec add_lang_used :: "internal_flags \<Rightarrow> u32 list \<Rightarrow> internal_flags" where
  "add_lang_used (Enabled f) flags =
     Enabled (f\<lparr>ef_lang_since_last_complete := ef_lang_since_last_complete f \<union> set flags\<rparr>)"
| "add_lang_used Disabled flags = Disabled"

primrec try_use :: "internal_flags \<Rightarrow> core_internal_flags \<Rightarrow> bool \<Rightarrow> bool \<times> internal_flags" where
  "try_use (Enabled f) flag should_record =
     (if should_record
      then (True, Enabled (f\<lparr>ef_core_since_last_complete :=
                                insert flag (ef_core_since_last_complete f)\<rparr>))
      else (flag \<in> ef_core f, Enabled f))"
| "try_use Disabled flag should_record = (False, Disabled)"

primrec write_all_known :: "internal_flags \<Rightarrow> internal_flags" where
  "write_all_known (Enabled f) =
     Enabled (f\<lparr>ef_core_since_last_complete :=
                   ef_core_since_last_complete f \<union> set all_except_too_high\<rparr>)"
| "write_all_known Disabled = Disabled"

definition wft_completed_metadata_default :: wft_completed_metadata where
  "wft_completed_metadata_default =
     \<lparr>wcm_core_used_flags = [], wcm_lang_used_flags = [], wcm_sdk_name = [], wcm_sdk_version = []\<rparr>"

primrec gather_for_wft_complete :: "internal_flags \<Rightarrow> wft_completed_metadata \<times> internal_flags" where
  "gather_for_wft_complete (Enabled f) =
     (\<lparr>wcm_core_used_flags =
         map flag_code (sorted_list_of_set (ef_core_since_last_complete f - ef_core f)),
       wcm_lang_used_flags =
         sorted_list_of_set (ef_lang_since_last_complete f - ef_lang f),
       wcm_sdk_name = (if ef_last_sdk_name f \<noteq> ef_sdk_name f then ef_sdk_name f else []),
       wcm_sdk_version =
         (if ef_last_sdk_version f \<noteq> ef_sdk_version f then ef_sdk_version f else [])\<rparr>,
      Enabled (f\<lparr>ef_core := ef_core f \<union> ef_core_since_last_complete f,
                 ef_lang := ef_lang f \<union> ef_lang_since_last_complete f\<rparr>))"
| "gather_for_wft_complete Disabled = (wft_completed_metadata_default, Disabled)"

primrec all_lang :: "internal_flags \<Rightarrow> u32 list" where
  "all_lang (Enabled f) = sorted_list_of_set (ef_lang f)"
| "all_lang Disabled = []"

section \<open>Properties\<close>

text \<open>Flag sets built by the operations are finite.\<close>

primrec flags_finite :: "internal_flags \<Rightarrow> bool" where
  "flags_finite (Enabled f) \<longleftrightarrow> finite (ef_lang f) \<and> finite (ef_lang_since_last_complete f)"
| "flags_finite Disabled \<longleftrightarrow> True"

lemma finite_core_flags [simp]: "finite (s :: core_internal_flags set)"
proof (rule finite_subset)
  show "s \<subseteq> set all_flags"
    by (auto simp: all_flags_def intro: core_internal_flags.exhaust)
qed simp

lemma flags_finite_preserved:
  "flags_finite (flags_new b n v)"
  "flags_finite fl \<Longrightarrow> flags_finite (add_from_complete fl e)"
  "flags_finite fl \<Longrightarrow> flags_finite (add_lang_used fl ls)"
  "flags_finite fl \<Longrightarrow> flags_finite (snd (try_use fl flag r))"
  "flags_finite fl \<Longrightarrow> flags_finite (write_all_known fl)"
  "flags_finite fl \<Longrightarrow> flags_finite (snd (gather_for_wft_complete fl))"
  by (cases fl; auto simp: flags_new_def split: option.splits)+

lemma try_use_no_record: "snd (try_use fl flag False) = fl"
  by (cases fl) simp_all

lemma try_use_record: "fst (try_use fl flag True) \<longleftrightarrow> fl \<noteq> Disabled"
  by (cases fl) simp_all

lemma gather_core_reported:
  "fst (gather_for_wft_complete (Enabled f)) = m \<Longrightarrow>
   flag_from_u32 ` set (wcm_core_used_flags m) = ef_core_since_last_complete f - ef_core f"
  by (auto simp: image_image)

text \<open>
  C30: What a worker reports when it completes a workflow task is what a later worker needs for
  replay: if two runs start from the same known flags and the second reads the metadata the first
  gathered, both know the same core and language flags afterwards, so a flag the first recorded
  while executing is usable by the second while it replays.
\<close>

theorem flags_replay_agree:
  assumes "ef_core g = ef_core f" and "ef_lang g = ef_lang f"
    and "flags_finite (Enabled f)"
    and "gather_for_wft_complete (Enabled f) = (m, Enabled f')"
    and "wtc_sdk_metadata e = Some m"
    and "add_from_complete (Enabled g) e = Enabled g'"
  shows "ef_core g' = ef_core f' \<and> ef_lang g' = ef_lang f' \<and>
    (\<forall>flag \<in> ef_core_since_last_complete f. fst (try_use (Enabled g') flag False))"
  using assms by (auto simp: image_image)

definition wit_flags :: "core_internal_flags set \<Rightarrow> core_internal_flags set \<Rightarrow> enabled_flags" where
  "wit_flags core since =
     \<lparr>ef_core = core, ef_lang = {}, ef_core_since_last_complete = since,
      ef_lang_since_last_complete = {}, ef_last_sdk_name = [], ef_last_sdk_version = [],
      ef_sdk_name = ''core'', ef_sdk_version = ''1''\<rparr>"

theorem flags_replay_agree_witness:
  "fst (try_use
     (add_from_complete (flags_new True ''core'' ''1'')
        \<lparr>wtc_scheduled_event_id = 2,
         wtc_sdk_metadata =
           Some (fst (gather_for_wft_complete
             (snd (try_use (flags_new True ''core'' ''1'') MoveTerminalCommands True)))),
         wtc_worker_build_id = None\<rparr>)
     MoveTerminalCommands False)"
proof -
  define f where "f = wit_flags {} {MoveTerminalCommands}"
  define m where "m = fst (gather_for_wft_complete (Enabled f))"
  obtain f' where g: "gather_for_wft_complete (Enabled f) = (m, Enabled f')"
    by (simp add: m_def)
  define e where
    "e = \<lparr>wtc_scheduled_event_id = 2, wtc_sdk_metadata = Some m, wtc_worker_build_id = None\<rparr>"
  obtain g' where a: "add_from_complete (Enabled (wit_flags {} {})) e = Enabled g'"
    by (simp add: e_def)
  have "fst (try_use (Enabled g') MoveTerminalCommands False)"
    using flags_replay_agree [OF _ _ _ g _ a] by (auto simp: f_def e_def wit_flags_def)
  moreover have "Enabled (wit_flags {} {}) = flags_new True ''core'' ''1''"
    and "Enabled f = snd (try_use (flags_new True ''core'' ''1'') MoveTerminalCommands True)"
    by (simp_all add: f_def wit_flags_def flags_new_def)
  ultimately show ?thesis using a by (simp add: e_def m_def)
qed

text \<open>
  Gathering is idempotent on the reported flags: a second gathering with no use in between
  reports no core and no language flag again, and nothing is ever reported twice.
\<close>

theorem flags_gather_twice:
  "gather_for_wft_complete (snd (gather_for_wft_complete fl)) = (m, fl') \<Longrightarrow>
   wcm_core_used_flags m = [] \<and> wcm_lang_used_flags m = [] \<and>
   fl' = snd (gather_for_wft_complete fl)"
  by (cases fl) (auto simp: wft_completed_metadata_default_def)

theorem flags_gather_twice_witness:
  "wcm_core_used_flags
     (fst (gather_for_wft_complete (snd (gather_for_wft_complete
       (write_all_known (flags_new True ''core'' ''1'')))))) = []"
  using flags_gather_twice [of "write_all_known (flags_new True ''core'' ''1'')"]
  by (metis prod.collapse)

lemma try_use_recorded_is_reported:
  "try_use (Enabled f) flag True = (True, fl) \<Longrightarrow> flag \<notin> ef_core f \<Longrightarrow>
     flag_code flag \<in> set (wcm_core_used_flags (fst (gather_for_wft_complete fl)))"
  by auto

end
