(* ===== verification/Activity_Machine.thy ===== *)
theory Activity_Machine
  imports Temporal_Machine Internal_Flags
begin

text \<open>
  The activity machine (\<open>machines/activity_state_machine.rs\<close>).  The shared state holds a
  reference-counted handle to the flags of the run; \<open>act_flags\<close> is what that handle refers to.
\<close>

section \<open>States, events, commands\<close>

datatype act_state = Created | ScheduleCommandCreated | ScheduledEventRecorded | Started
  | ScheduledActivityCancelCommandCreated | ScheduledActivityCancelEventRecorded
  | StartedActivityCancelCommandCreated | StartedActivityCancelEventRecorded
  | Completed | Failed | TimedOut | Canceled

record act_task_scheduled_data =
  atd_event_id :: event_id
  atd_act_type :: string
  atd_act_id :: string
  atd_last_task_in_history :: bool

datatype act_event = Schedule | CommandScheduleActivityTask
  | ActivityTaskScheduled act_task_scheduled_data | Cancel | Abandon
  | ActivityTaskStarted event_id | ActivityTaskTimedOut act_timed_out_attrs
  | ActivityTaskCompleted act_completed_attrs | ActivityTaskFailed act_failed_attrs
  | CommandRequestCancelActivityTask | ActivityTaskCancelRequested
  | ActivityTaskCanceled act_canceled_attrs

datatype act_event_kind = EvSchedule | EvCommandScheduleActivityTask | EvActivityTaskScheduled
  | EvCancel | EvAbandon | EvActivityTaskStarted | EvActivityTaskTimedOut
  | EvActivityTaskCompleted | EvActivityTaskFailed | EvCommandRequestCancelActivityTask
  | EvActivityTaskCancelRequested | EvActivityTaskCanceled

datatype act_command = Complete "payloads option" | Fail failure
  | Cancel_cmd "act_canceled_attrs option" | RequestCancellation proto_command

record act_shared =
  act_scheduled_event_id :: event_id
  act_started_event_id :: event_id
  act_attrs :: schedule_activity
  act_cancellation_type :: activity_cancellation_type
  act_cancelled_before_sent :: bool
  act_flags :: internal_flags

type_synonym act_machine = "(act_state, act_shared) fsm"
type_synonym act_transition = "(act_command, act_state) transition_result"

definition act_table :: "(act_state, act_event_kind) transition list" where
  "act_table =
     [row Created EvSchedule (Some ''on_schedule'') False ScheduleCommandCreated,
      row ScheduleCommandCreated EvCommandScheduleActivityTask None False ScheduleCommandCreated,
      row ScheduleCommandCreated EvActivityTaskScheduled (Some ''on_activity_task_scheduled'') True
        ScheduledEventRecorded,
      row ScheduleCommandCreated EvCancel (Some ''on_canceled'') True Canceled,
      row ScheduleCommandCreated EvAbandon (Some ''on_abandoned'') True Canceled,
      row ScheduledEventRecorded EvActivityTaskStarted (Some ''on_task_started'') True Started,
      row ScheduledEventRecorded EvActivityTaskTimedOut (Some ''on_task_timed_out'') True TimedOut,
      row ScheduledEventRecorded EvCancel (Some ''on_canceled'') True
        ScheduledActivityCancelCommandCreated,
      row ScheduledEventRecorded EvAbandon (Some ''on_abandoned'') False Canceled,
      row Started EvActivityTaskCompleted (Some ''on_activity_task_completed'') False Completed,
      row Started EvActivityTaskFailed (Some ''on_activity_task_failed'') True Failed,
      row Started EvActivityTaskTimedOut (Some ''on_activity_task_timed_out'') True TimedOut,
      row Started EvCancel (Some ''on_canceled'') True StartedActivityCancelCommandCreated,
      row Started EvAbandon (Some ''on_abandoned'') False Canceled,
      row ScheduledActivityCancelCommandCreated EvCommandRequestCancelActivityTask None False
        ScheduledActivityCancelCommandCreated,
      row ScheduledActivityCancelCommandCreated EvActivityTaskCancelRequested None False
        ScheduledActivityCancelEventRecorded,
      row ScheduledActivityCancelEventRecorded EvActivityTaskCanceled
        (Some ''on_activity_task_canceled'') True Canceled,
      row ScheduledActivityCancelEventRecorded EvActivityTaskStarted None False
        StartedActivityCancelEventRecorded,
      row ScheduledActivityCancelEventRecorded EvActivityTaskTimedOut
        (Some ''on_activity_task_timed_out'') True TimedOut,
      row StartedActivityCancelCommandCreated EvCommandRequestCancelActivityTask None False
        StartedActivityCancelCommandCreated,
      row StartedActivityCancelCommandCreated EvActivityTaskCancelRequested None False
        StartedActivityCancelEventRecorded,
      row StartedActivityCancelEventRecorded EvActivityTaskFailed
        (Some ''on_activity_task_failed'') True Failed,
      row StartedActivityCancelEventRecorded EvActivityTaskCompleted
        (Some ''on_activity_task_completed'') True Completed,
      row StartedActivityCancelEventRecorded EvActivityTaskTimedOut
        (Some ''on_activity_task_timed_out'') True TimedOut,
      row StartedActivityCancelEventRecorded EvActivityTaskCanceled
        (Some ''on_activity_task_canceled'') True Canceled,
      row Canceled EvActivityTaskStarted (Some ''on_activity_task_started'') True Canceled,
      row Canceled EvActivityTaskCompleted (Some ''on_activity_task_completed'') True Canceled]"

primrec act_event_name :: "act_event \<Rightarrow> act_event_kind" where
  "act_event_name Schedule = EvSchedule"
| "act_event_name CommandScheduleActivityTask = EvCommandScheduleActivityTask"
| "act_event_name (ActivityTaskScheduled a) = EvActivityTaskScheduled"
| "act_event_name Cancel = EvCancel"
| "act_event_name Abandon = EvAbandon"
| "act_event_name (ActivityTaskStarted i) = EvActivityTaskStarted"
| "act_event_name (ActivityTaskTimedOut a) = EvActivityTaskTimedOut"
| "act_event_name (ActivityTaskCompleted a) = EvActivityTaskCompleted"
| "act_event_name (ActivityTaskFailed a) = EvActivityTaskFailed"
| "act_event_name CommandRequestCancelActivityTask = EvCommandRequestCancelActivityTask"
| "act_event_name ActivityTaskCancelRequested = EvActivityTaskCancelRequested"
| "act_event_name (ActivityTaskCanceled a) = EvActivityTaskCanceled"

section \<open>Failures and notifications\<close>

definition activity_fail_info ::
  "string \<Rightarrow> string \<Rightarrow> string option \<Rightarrow> retry_state \<Rightarrow> event_id \<Rightarrow> event_id \<Rightarrow> failure_info" where
  "activity_fail_info act_type act_id identity retry started_event_id scheduled_event_id =
     ActivityFailureInfo scheduled_event_id started_event_id (opt_default [] identity)
       (Some act_type) act_id (retry_state_code retry)"

definition act_new_failure :: "act_shared \<Rightarrow> act_failed_attrs \<Rightarrow> failure" where
  "act_new_failure dat attrs =
     mk_failure ''Activity task failed'' (afl_failure attrs)
       (Some (activity_fail_info (sa_activity_type (act_attrs dat)) (sa_activity_id (act_attrs dat))
          (Some (afl_identity attrs)) (retry_state_get (afl_retry_state attrs))
          (afl_started_event_id attrs) (afl_scheduled_event_id attrs)))"

definition act_new_timeout_failure :: "act_shared \<Rightarrow> act_timed_out_attrs \<Rightarrow> failure" where
  "act_new_timeout_failure dat attrs =
     mk_failure ''Activity task timed out'' (ato_failure attrs)
       (Some (activity_fail_info (sa_activity_type (act_attrs dat)) (sa_activity_id (act_attrs dat))
          None (retry_state_get (ato_retry_state attrs))
          (ato_started_event_id attrs) (ato_scheduled_event_id attrs)))"

definition act_new_cancel_failure :: "act_shared \<Rightarrow> act_canceled_attrs \<Rightarrow> failure" where
  "act_new_cancel_failure dat attrs =
     mk_failure ''Activity cancelled''
       (Some (mk_failure [] None (Some (CanceledFailureInfo (acn_details attrs)))))
       (Some (activity_fail_info (sa_activity_type (act_attrs dat)) (sa_activity_id (act_attrs dat))
          (Some (acn_identity attrs)) RS_CancelRequested
          (acn_started_event_id attrs) (acn_scheduled_event_id attrs)))"

definition notify_lang_activity_timed_out :: "act_shared \<Rightarrow> act_timed_out_attrs \<Rightarrow> act_transition" where
  "notify_lang_activity_timed_out dat attrs =
     tr_commands TimedOut [Fail (act_new_timeout_failure dat attrs)]"

definition notify_lang_activity_cancelled :: "act_canceled_attrs option \<Rightarrow> act_transition" where
  "notify_lang_activity_cancelled canceled_event = tr_commands Canceled [Cancel_cmd canceled_event]"

text \<open>The default destination state and the notifier; \<open>Abandon\<close> is an \<open>unreachable!\<close> panic.\<close>

definition notify_if_not_already_cancelled ::
  "act_shared \<Rightarrow> act_state \<Rightarrow> (act_shared \<Rightarrow> act_transition) \<Rightarrow> act_transition" where
  "notify_if_not_already_cancelled dat dflt notifier =
     (case act_cancellation_type dat of
        ACT_TryCancel \<Rightarrow> tr_default dflt
      | ACT_WaitCancellationCompleted \<Rightarrow> notifier dat
      | ACT_Abandon \<Rightarrow>
          TPanic ''Cancellations with type Abandon should go into terminal state immediately.'')"

definition create_request_cancel_activity_task_command ::
  "act_shared \<Rightarrow> act_state \<Rightarrow> act_transition" where
  "create_request_cancel_activity_task_command dat next_state =
     tr_ok [RequestCancellation
       \<lparr>pc_command_type = command_type_code CT_RequestCancelActivityTask,
        pc_attributes = Some (RequestCancelActivityTaskCommandAttributes (act_scheduled_event_id dat)),
        pc_user_metadata = None\<rparr>] next_state"

section \<open>Handlers\<close>

definition act_on_schedule :: act_transition where
  "act_on_schedule = tr_default ScheduleCommandCreated"

definition act_on_activity_task_scheduled ::
  "act_shared \<Rightarrow> act_task_scheduled_data \<Rightarrow> act_transition \<times> act_shared" where
  "act_on_activity_task_scheduled dat sched_dat =
     (let (used, flags) = try_use (act_flags dat) IdAndTypeDeterminismChecks
                            (atd_last_task_in_history sched_dat);
          dat = dat\<lparr>act_flags := flags\<rparr>
      in if used \<and> atd_act_id sched_dat \<noteq> sa_activity_id (act_attrs dat) then
           (TErr (Nondeterminism
              ''Activity id of scheduled event does not match activity id of activity command''), dat)
         else if used \<and> atd_act_type sched_dat \<noteq> sa_activity_type (act_attrs dat) then
           (TErr (Nondeterminism
              ''Activity type of scheduled event does not match activity type of activity command''), dat)
         else (tr_default ScheduledEventRecorded,
               dat\<lparr>act_scheduled_event_id := atd_event_id sched_dat\<rparr>))"

definition act_created_on_canceled :: "act_shared \<Rightarrow> act_transition \<times> act_shared" where
  "act_created_on_canceled dat =
     (case act_cancellation_type dat of
        ACT_Abandon \<Rightarrow> tr_default Canceled
      | _ \<Rightarrow> notify_lang_activity_cancelled None,
      dat\<lparr>act_cancelled_before_sent := True\<rparr>)"

definition act_created_on_abandoned :: "act_shared \<Rightarrow> act_transition \<times> act_shared" where
  "act_created_on_abandoned dat =
     (notify_lang_activity_cancelled None, dat\<lparr>act_cancelled_before_sent := True\<rparr>)"

definition act_on_task_started :: "act_shared \<Rightarrow> event_id \<Rightarrow> act_transition \<times> act_shared" where
  "act_on_task_started dat started_event_id =
     (tr_default Started, dat\<lparr>act_started_event_id := started_event_id\<rparr>)"

definition act_on_task_timed_out ::
  "act_shared \<Rightarrow> act_timed_out_attrs \<Rightarrow> act_transition \<times> act_shared" where
  "act_on_task_timed_out dat attrs = (notify_lang_activity_timed_out dat attrs, dat)"

definition act_scheduled_on_canceled :: "act_shared \<Rightarrow> act_transition \<times> act_shared" where
  "act_scheduled_on_canceled dat =
     (create_request_cancel_activity_task_command dat ScheduledActivityCancelCommandCreated, dat)"

definition act_on_abandoned :: act_transition where
  "act_on_abandoned = notify_lang_activity_cancelled None"

definition act_started_on_completed :: "act_completed_attrs \<Rightarrow> act_transition" where
  "act_started_on_completed attrs = tr_ok [Complete (acm_result attrs)] Completed"

definition act_started_on_failed ::
  "act_shared \<Rightarrow> act_failed_attrs \<Rightarrow> act_transition \<times> act_shared" where
  "act_started_on_failed dat attrs = (tr_ok [Fail (act_new_failure dat attrs)] Failed, dat)"

definition act_started_on_canceled :: "act_shared \<Rightarrow> act_transition \<times> act_shared" where
  "act_started_on_canceled dat =
     (create_request_cancel_activity_task_command dat StartedActivityCancelCommandCreated, dat)"

definition act_cancelling_on_canceled ::
  "act_shared \<Rightarrow> act_canceled_attrs \<Rightarrow> act_transition \<times> act_shared" where
  "act_cancelling_on_canceled dat attrs =
     (notify_if_not_already_cancelled dat Canceled
        (\<lambda>_. notify_lang_activity_cancelled (Some attrs)), dat)"

definition act_cancelling_on_timed_out ::
  "act_shared \<Rightarrow> act_timed_out_attrs \<Rightarrow> act_transition \<times> act_shared" where
  "act_cancelling_on_timed_out dat attrs =
     (notify_if_not_already_cancelled dat TimedOut
        (\<lambda>dat. notify_lang_activity_timed_out dat attrs), dat)"

definition act_cancelling_on_completed ::
  "act_shared \<Rightarrow> act_completed_attrs \<Rightarrow> act_transition \<times> act_shared" where
  "act_cancelling_on_completed dat attrs =
     (notify_if_not_already_cancelled dat Completed
        (\<lambda>_. tr_commands Completed [Complete (acm_result attrs)]), dat)"

definition act_cancelling_on_failed ::
  "act_shared \<Rightarrow> act_failed_attrs \<Rightarrow> act_transition \<times> act_shared" where
  "act_cancelling_on_failed dat attrs =
     (notify_if_not_already_cancelled dat Failed
        (\<lambda>dat. tr_commands Failed [Fail (act_new_failure dat attrs)]), dat)"

definition act_canceled_on_started :: "act_shared \<Rightarrow> event_id \<Rightarrow> act_transition \<times> act_shared" where
  "act_canceled_on_started dat seq_num =
     (if act_cancellation_type dat = ACT_Abandon then tr_default Canceled
      else TErr (Nondeterminism
        ''Non-Abandon cancel mode activities cannot be started after being cancelled.''), dat)"

definition act_canceled_on_completed ::
  "act_shared \<Rightarrow> act_completed_attrs \<Rightarrow> act_transition \<times> act_shared" where
  "act_canceled_on_completed dat attrs =
     (if act_cancellation_type dat = ACT_Abandon then tr_default Canceled
      else TErr (Nondeterminism
        ''Non-Abandon cancel mode activities cannot be completed after being cancelled''), dat)"

lemmas act_handlers =
  act_on_schedule_def act_on_activity_task_scheduled_def act_created_on_canceled_def
  act_created_on_abandoned_def act_on_task_started_def act_on_task_timed_out_def
  act_scheduled_on_canceled_def act_on_abandoned_def act_started_on_completed_def
  act_started_on_failed_def act_started_on_canceled_def act_cancelling_on_canceled_def
  act_cancelling_on_timed_out_def act_cancelling_on_completed_def act_cancelling_on_failed_def
  act_canceled_on_started_def act_canceled_on_completed_def notify_lang_activity_timed_out_def
  notify_lang_activity_cancelled_def notify_if_not_already_cancelled_def
  create_request_cancel_activity_task_command_def

section \<open>The generated dispatch\<close>

primrec act_step :: "(act_state, act_event, act_shared, act_command) step_fun" where
  "act_step Created e d =
     (case e of Schedule \<Rightarrow> Some (act_on_schedule, d) | _ \<Rightarrow> None)"
| "act_step ScheduleCommandCreated e d =
     (case e of
        CommandScheduleActivityTask \<Rightarrow> Some (tr_from_state id ScheduleCommandCreated, d)
      | ActivityTaskScheduled sd \<Rightarrow> Some (act_on_activity_task_scheduled d sd)
      | Cancel \<Rightarrow> Some (act_created_on_canceled d)
      | Abandon \<Rightarrow> Some (act_created_on_abandoned d)
      | _ \<Rightarrow> None)"
| "act_step ScheduledEventRecorded e d =
     (case e of
        ActivityTaskStarted i \<Rightarrow> Some (act_on_task_started d i)
      | ActivityTaskTimedOut a \<Rightarrow> Some (act_on_task_timed_out d a)
      | Cancel \<Rightarrow> Some (act_scheduled_on_canceled d)
      | Abandon \<Rightarrow> Some (act_on_abandoned, d)
      | _ \<Rightarrow> None)"
| "act_step Started e d =
     (case e of
        ActivityTaskCompleted a \<Rightarrow> Some (act_started_on_completed a, d)
      | ActivityTaskFailed a \<Rightarrow> Some (act_started_on_failed d a)
      | ActivityTaskTimedOut a \<Rightarrow> Some (act_on_task_timed_out d a)
      | Cancel \<Rightarrow> Some (act_started_on_canceled d)
      | Abandon \<Rightarrow> Some (act_on_abandoned, d)
      | _ \<Rightarrow> None)"
| "act_step ScheduledActivityCancelCommandCreated e d =
     (case e of
        CommandRequestCancelActivityTask \<Rightarrow> Some (tr_from_state id ScheduledActivityCancelCommandCreated, d)
      | ActivityTaskCancelRequested \<Rightarrow>
          Some (tr_from_state (\<lambda>_. ScheduledActivityCancelEventRecorded) ScheduledActivityCancelCommandCreated, d)
      | _ \<Rightarrow> None)"
| "act_step ScheduledActivityCancelEventRecorded e d =
     (case e of
        ActivityTaskCanceled a \<Rightarrow> Some (act_cancelling_on_canceled d a)
      | ActivityTaskStarted i \<Rightarrow>
          Some (tr_from_state (\<lambda>_. StartedActivityCancelEventRecorded) ScheduledActivityCancelEventRecorded, d)
      | ActivityTaskTimedOut a \<Rightarrow> Some (act_cancelling_on_timed_out d a)
      | _ \<Rightarrow> None)"
| "act_step StartedActivityCancelCommandCreated e d =
     (case e of
        CommandRequestCancelActivityTask \<Rightarrow> Some (tr_from_state id StartedActivityCancelCommandCreated, d)
      | ActivityTaskCancelRequested \<Rightarrow>
          Some (tr_from_state (\<lambda>_. StartedActivityCancelEventRecorded) StartedActivityCancelCommandCreated, d)
      | _ \<Rightarrow> None)"
| "act_step StartedActivityCancelEventRecorded e d =
     (case e of
        ActivityTaskFailed a \<Rightarrow> Some (act_cancelling_on_failed d a)
      | ActivityTaskCompleted a \<Rightarrow> Some (act_cancelling_on_completed d a)
      | ActivityTaskTimedOut a \<Rightarrow> Some (act_cancelling_on_timed_out d a)
      | ActivityTaskCanceled a \<Rightarrow> Some (act_cancelling_on_canceled d a)
      | _ \<Rightarrow> None)"
| "act_step Canceled e d =
     (case e of
        ActivityTaskStarted i \<Rightarrow> Some (act_canceled_on_started d i)
      | ActivityTaskCompleted a \<Rightarrow> Some (act_canceled_on_completed d a)
      | _ \<Rightarrow> None)"
| "act_step Completed e d = None"
| "act_step Failed e d = None"
| "act_step TimedOut e d = None"

section \<open>Operations\<close>

definition act_new_scheduled ::
  "schedule_activity \<Rightarrow> internal_flags \<Rightarrow> bool \<Rightarrow> (act_machine \<times> command_attributes) outcome" where
  "act_new_scheduled attrs internal_flags use_compatible_version =
     (let s = from_parts Created
            \<lparr>act_scheduled_event_id = 0, act_started_event_id = 0, act_attrs = attrs,
             act_cancellation_type =
               opt_default ACT_TryCancel
                 (activity_cancellation_type_try_from (sa_cancellation_type attrs)),
             act_cancelled_before_sent = False, act_flags = internal_flags\<rparr>
      in case on_event act_step s Schedule of
           (Cmds _, s') \<Rightarrow>
             Ok (s', schedule_activity_cmd_to_api (act_attrs (fsm_shared s')) use_compatible_version)
         | _ \<Rightarrow> Panic ''Scheduling activities doesn't fail'')"

definition act_canceled_attrs_default :: act_canceled_attrs where
  "act_canceled_attrs_default =
     \<lparr>acn_details = None, acn_scheduled_event_id = 0, acn_started_event_id = 0, acn_identity = []\<rparr>"

definition act_create_cancelation_resolve ::
  "act_machine \<Rightarrow> act_canceled_attrs option \<Rightarrow> resolve_activity" where
  "act_create_cancelation_resolve m attrs =
     \<lparr>ra_seq = sa_seq (act_attrs (fsm_shared m)),
      ra_result = Some (AR_Cancelled (Some (act_new_cancel_failure (fsm_shared m)
                    (opt_default act_canceled_attrs_default attrs)))),
      ra_is_local = False\<rparr>"

definition act_responses_from_cancel_request ::
  "act_machine \<Rightarrow> proto_command \<Rightarrow> machine_response list" where
  "act_responses_from_cancel_request m cancel_cmd =
     IssueNewCommand cancel_cmd #
     (if act_cancellation_type (fsm_shared m) \<noteq> ACT_WaitCancellationCompleted
      then [PushWFJob (ResolveActivity (act_create_cancelation_resolve m None))] else [])"

definition act_map_cancel_command ::
  "act_machine \<Rightarrow> act_command \<Rightarrow> machine_response list outcome" where
  "act_map_cancel_command m amc =
     (case amc of
        RequestCancellation cmd \<Rightarrow> Ok (act_responses_from_cancel_request m cmd)
      | Cancel_cmd details \<Rightarrow>
          Ok [PushWFJob (ResolveActivity (act_create_cancelation_resolve m details))]
      | _ \<Rightarrow> Panic ''Invalid cancel event response'')"

definition act_cancel :: "act_machine \<Rightarrow> machine_response list outcome \<times> act_machine" where
  "act_cancel m =
     (case fsm_state_get m of
        Ok s \<Rightarrow>
          (if s \<in> {Completed, Canceled, Failed, TimedOut} then (Ok [], m)
           else run_and_map act_step act_map_cancel_command m
                  (if act_cancellation_type (fsm_shared m) = ACT_Abandon then Abandon else Cancel))
      | Err e \<Rightarrow> (Err e, m)
      | Panic p \<Rightarrow> (Panic p, m))"

definition act_was_cancelled_before_sent :: "act_machine \<Rightarrow> bool" where
  "act_was_cancelled_before_sent m = act_cancelled_before_sent (fsm_shared m)"

definition act_try_from_event :: "hist_event_data \<Rightarrow> act_event outcome" where
  "act_try_from_event ed =
     (let last_task_in_history = hed_current_task_is_last_in_history ed; e = hed_event ed in
      if event_type_of e = ET_ActivityTaskScheduled then
        (case attrs_activity_task_scheduled e of
           Some attrs \<Rightarrow>
             Ok (ActivityTaskScheduled
               \<lparr>atd_event_id = he_event_id e,
                atd_act_type = opt_default [] (asc_activity_type attrs),
                atd_act_id = asc_activity_id attrs,
                atd_last_task_in_history = last_task_in_history\<rparr>)
         | None \<Rightarrow> Err (Fatal ''Activity scheduled attributes were unset''))
      else if event_type_of e = ET_ActivityTaskStarted then Ok (ActivityTaskStarted (he_event_id e))
      else if event_type_of e = ET_ActivityTaskCompleted then
        (case attrs_activity_task_completed e of
           Some attrs \<Rightarrow> Ok (ActivityTaskCompleted attrs)
         | None \<Rightarrow> Err (Fatal ''Activity completion attributes were unset''))
      else if event_type_of e = ET_ActivityTaskFailed then
        (case attrs_activity_task_failed e of
           Some attrs \<Rightarrow> Ok (ActivityTaskFailed attrs)
         | None \<Rightarrow> Err (Fatal ''Activity failure attributes were unset''))
      else if event_type_of e = ET_ActivityTaskTimedOut then
        (case attrs_activity_task_timed_out e of
           Some attrs \<Rightarrow> Ok (ActivityTaskTimedOut attrs)
         | None \<Rightarrow> Err (Fatal ''Activity timeout attributes were unset''))
      else if event_type_of e = ET_ActivityTaskCancelRequested then Ok ActivityTaskCancelRequested
      else if event_type_of e = ET_ActivityTaskCanceled then
        (case attrs_activity_task_canceled e of
           Some attrs \<Rightarrow> Ok (ActivityTaskCanceled attrs)
         | None \<Rightarrow> Err (Fatal ''Activity cancellation attributes were unset''))
      else Err (Nondeterminism ''Activity machine does not handle this event''))"

definition act_try_from_command :: "command_type \<Rightarrow> act_event option" where
  "act_try_from_command c =
     (if c = CT_ScheduleActivityTask then Some CommandScheduleActivityTask
      else if c = CT_RequestCancelActivityTask then Some CommandRequestCancelActivityTask
      else None)"

definition act_adapt_response ::
  "act_machine \<Rightarrow> act_command \<Rightarrow> event_info option \<Rightarrow> machine_response list outcome" where
  "act_adapt_response m cmd ei =
     (case cmd of
        Complete result \<Rightarrow>
          obind (convert_payloads ''Not exactly one payload in activity result'' result) (\<lambda>r.
            Ok [PushWFJob (ResolveActivity
              \<lparr>ra_seq = sa_seq (act_attrs (fsm_shared m)),
               ra_result = Some (AR_Completed r), ra_is_local = False\<rparr>)])
      | Fail f \<Rightarrow>
          Ok [PushWFJob (ResolveActivity
            \<lparr>ra_seq = sa_seq (act_attrs (fsm_shared m)),
             ra_result = Some (AR_Failed (Some f)), ra_is_local = False\<rparr>)]
      | RequestCancellation c \<Rightarrow> Ok (act_responses_from_cancel_request m c)
      | Cancel_cmd attrs \<Rightarrow>
          Ok [PushWFJob (ResolveActivity (act_create_cancelation_resolve m attrs))])"

lemmas act_ops =
  act_map_cancel_command_def act_adapt_response_def act_responses_from_cancel_request_def
  act_create_cancelation_resolve_def act_try_from_command_def

section \<open>Conformance to the table\<close>

lemma act_conforms: "fsm_conforms act_table (\<lambda>s. s) act_event_name act_step"
proof
  show "act_step s e d = None \<longleftrightarrow> dests act_table s (act_event_name e) = []" for s e d
    by (cases s; cases e; simp add: fsm_tables act_table_def)
next
  show "s' \<in> set (dests act_table s (act_event_name e))"
    if "act_step s e d = Some (TOk cs s', d')" for s e d cs s' d'
    using that
    by (cases s; cases e; (simp; fail)?; auto simp: fsm_tables act_table_def
        act_handlers transition_results Let_def
        split: if_splits prod.splits activity_cancellation_type.splits)
next
  show "act_step s e d \<noteq> Some (InvalidTransition, d')" for s e d d'
    by (cases s; cases e; simp add: act_handlers transition_results Let_def
        split: prod.splits activity_cancellation_type.splits)
next
  show "d' = d" if "act_step s e d = Some (r, d')"
    and "\<not> mutating_row act_table s (act_event_name e)" for s e d r d'
    using that by (cases s; cases e; (simp; fail)?; simp add: fsm_tables act_table_def)
qed

lemma act_convert_no_panic: "\<not> is_panic (act_try_from_event ed)"
  by (simp add: act_try_from_event_def Let_def split: option.splits)

lemma act_adapt_no_panic: "\<not> is_panic (act_adapt_response m c ei)"
  by (cases c) (auto simp: act_ops is_panic_obind)

interpretation activity: temporal_machine act_table "\<lambda>s. s" act_event_name act_step
  act_try_from_command act_try_from_event act_adapt_response
  by (intro temporal_machine.intro temporal_machine_axioms.intro act_conforms
      act_convert_no_panic act_adapt_no_panic)

section \<open>An activity over its whole life\<close>

definition act_apply ::
  "act_machine \<Rightarrow> string machine_input \<Rightarrow> machine_response list outcome \<times> act_machine" where
  "act_apply =
     apply_input act_try_from_command act_try_from_event act_step act_adapt_response
       (\<lambda>_. act_cancel)"

definition act_cancelling :: "act_state \<Rightarrow> bool" where
  "act_cancelling s \<longleftrightarrow>
     s \<in> {ScheduledActivityCancelCommandCreated, ScheduledActivityCancelEventRecorded,
          StartedActivityCancelCommandCreated, StartedActivityCancelEventRecorded}"

text \<open>The states in which the language layer knows the outcome of the activity.\<close>

definition act_resolved :: "activity_cancellation_type \<Rightarrow> act_state \<Rightarrow> bool" where
  "act_resolved ct s \<longleftrightarrow>
     s \<in> {Completed, Failed, TimedOut, Canceled} \<or>
     act_cancelling s \<and> ct \<noteq> ACT_WaitCancellationCompleted"

definition act_told ::
  "activity_cancellation_type \<Rightarrow> u32 \<Rightarrow> act_machine \<Rightarrow> machine_response list \<Rightarrow> bool" where
  "act_told ct seq m acc \<longleftrightarrow>
     act_cancellation_type (fsm_shared m) = ct \<and> sa_seq (act_attrs (fsm_shared m)) = seq \<and>
     (case fsm_state m of
        None \<Rightarrow> False
      | Some s \<Rightarrow>
          (act_cancelling s \<longrightarrow> ct \<noteq> ACT_Abandon) \<and>
          (if act_resolved ct s
           then \<exists>r. pushed_jobs acc =
                  [ResolveActivity \<lparr>ra_seq = seq, ra_result = Some r, ra_is_local = False\<rparr>]
           else pushed_jobs acc = []) \<and>
          length (issued_commands acc) \<le>
            (if s \<in> {Created, ScheduleCommandCreated, ScheduledEventRecorded, Started} then 0 else 1))"

lemmas act_told_defs = act_told_def act_resolved_def act_cancelling_def

lemma act_new_scheduled_eq:
  "act_new_scheduled a fl ucv =
     Ok (\<lparr>fsm_state = Some ScheduleCommandCreated,
          fsm_shared = \<lparr>act_scheduled_event_id = 0, act_started_event_id = 0, act_attrs = a,
            act_cancellation_type =
              opt_default ACT_TryCancel (activity_cancellation_type_try_from (sa_cancellation_type a)),
            act_cancelled_before_sent = False, act_flags = fl\<rparr>\<rparr>,
         schedule_activity_cmd_to_api a ucv)"
  by (simp add: act_new_scheduled_def from_parts_def on_event_def act_handlers transition_results)

lemma act_step_told:
  assumes "act_told ct seq m acc" "fsm_state m = Some s"
    "act_step s e (fsm_shared m) = Some (TOk cs s', d')"
    "omap_concat (\<lambda>c. act_adapt_response \<lparr>fsm_state = Some s', fsm_shared = d'\<rparr> c ei) cs = Ok rs"
    "e = Cancel \<longrightarrow> ct \<noteq> ACT_Abandon"
  shows "act_told ct seq \<lparr>fsm_state = Some s', fsm_shared = d'\<rparr> (acc @ rs)"
  using assms
  by (cases s; cases e; (simp; fail)?; auto simp: act_told_defs act_handlers transition_results
      act_ops Let_def
      split: if_splits prod.splits activity_cancellation_type.splits)

lemma act_cancel_commands:
  assumes "act_step s e d = Some (TOk cs s', d')" and "e \<in> {Cancel, Abandon}" and "c \<in> set cs"
  shows "act_map_cancel_command m c = act_adapt_response m c ei"
  using assms
  by (cases s; auto simp: act_handlers transition_results act_ops
      split: activity_cancellation_type.splits)

lemma act_cancel_told:
  assumes "act_told ct seq m acc" and "act_cancel m = (Ok rs, m')"
  shows "act_told ct seq m' (acc @ rs)"
proof (cases "m' = m \<and> rs = []")
  case False
  define e where "e = (if ct = ACT_Abandon then Abandon else Cancel)"
  have "run_and_map act_step act_map_cancel_command m e = (Ok rs, m')"
    using assms False
    by (auto simp: act_cancel_def fsm_state_get_def e_def act_told_def split: option.splits if_splits)
  then show ?thesis
    by (rule activity.run_and_map_step [OF _ act_cancel_commands])
      (auto simp: e_def intro: act_step_told [OF assms(1)])
qed (use assms in simp)

lemma act_converted:
  "act_try_from_command c \<noteq> Some Cancel" "act_try_from_event ed \<noteq> Ok Cancel"
  by (auto simp: act_try_from_command_def act_try_from_event_def Let_def
      split: option.splits)

lemma act_input_told:
  assumes "act_told ct seq m acc" "fsm_state m = Some s"
    "act_step s e (fsm_shared m) = Some (TOk cs s', d')"
    "(\<exists>c. act_try_from_command c = Some e) \<or> (\<exists>ed. act_try_from_event ed = Ok e)"
    "omap_concat (\<lambda>c. act_adapt_response \<lparr>fsm_state = Some s', fsm_shared = d'\<rparr> c ei) cs = Ok rs"
  shows "act_told ct seq \<lparr>fsm_state = Some s', fsm_shared = d'\<rparr> (acc @ rs)"
  using assms(1,2,3,5)
proof (rule act_step_told)
  show "e = Cancel \<longrightarrow> ct \<noteq> ACT_Abandon" using assms(4) act_converted by blast
qed

lemma act_step_no_panic:
  assumes "act_told ct seq m acc" "fsm_state m = Some s"
  shows "act_step s e (fsm_shared m) \<noteq> Some (TPanic p, d')"
  using assms
  by (cases s; cases e; (simp; fail)?; auto simp: act_told_defs act_handlers transition_results
      Let_def split: if_splits prod.splits activity_cancellation_type.splits)

lemma act_told_state: "act_told ct seq m acc \<Longrightarrow> fsm_state m \<noteq> None"
  by (auto simp: act_told_def split: option.splits)

lemma act_cancel_no_panic:
  assumes "act_told ct seq m acc"
  shows "\<not> is_panic (fst (act_cancel m))"
proof -
  from assms obtain s where s: "fsm_state m = Some s"
    by (auto simp: act_told_def split: option.splits)
  have "\<not> is_panic (fst (run_and_map act_step act_map_cancel_command m e))"
    if "e \<in> {Cancel, Abandon}" for e
    using s act_step_no_panic [OF assms s]
  proof (rule run_and_map_no_panic)
    fix cs s' d' c
    assume "act_step s e (fsm_shared m) = Some (TOk cs s', d')" and "c \<in> set cs"
    from act_cancel_commands [OF this(1) that this(2)]
    show "\<not> is_panic (act_map_cancel_command \<lparr>fsm_state = Some s', fsm_shared = d'\<rparr> c)"
      using act_adapt_no_panic by metis
  qed
  then show ?thesis using s by (simp add: act_cancel_def fsm_state_get_def)
qed

text \<open>
  C17: Whatever sequence of history events, echoed commands and cancellation requests reaches a
  scheduled activity without an error, the language layer is sent exactly one resolution of that
  activity's sequence number once the activity is resolved (it ended, or its cancellation was
  requested and the cancellation type is not to wait for it) and none before, and the server is
  sent at most one cancellation command.
\<close>

theorem activity_life:
  assumes "act_new_scheduled a fl ucv = Ok (m, cmd)"
    and "run_inputs act_apply m is = (Ok rs, m')" and "fsm_state m' = Some s"
  shows "(if act_resolved (act_cancellation_type (fsm_shared m)) s
          then \<exists>r. pushed_jobs rs =
                 [ResolveActivity \<lparr>ra_seq = sa_seq a, ra_result = Some r, ra_is_local = False\<rparr>]
          else pushed_jobs rs = []) \<and>
         length (issued_commands rs) \<le> 1"
proof -
  let ?R = "act_told (act_cancellation_type (fsm_shared m)) (sa_seq a)"
  have "?R m []" using assms(1) by (auto simp: act_new_scheduled_eq act_told_defs)
  with assms(2) have "?R m' rs" unfolding act_apply_def
    by (rule activity.run_told) (erule (4) act_input_told, erule (1) act_cancel_told)
  then show ?thesis using assms(3) by (auto simp: act_told_def split: if_splits)
qed

definition wit_activity :: schedule_activity where
  "wit_activity =
     \<lparr>sa_seq = 1, sa_activity_id = ''a'', sa_activity_type = ''t'', sa_task_queue = ''q'',
      sa_headers = [], sa_arguments = [], sa_schedule_to_close_timeout = None,
      sa_schedule_to_start_timeout = None, sa_start_to_close_timeout = Some (5, 0),
      sa_heartbeat_timeout = None, sa_retry_policy = None, sa_cancellation_type = 1,
      sa_do_not_eagerly_execute = False, sa_versioning_intent = 0\<rparr>"

definition wit_activity_inputs :: "string machine_input list" where
  "wit_activity_inputs =
     [InCommand CT_ScheduleActivityTask,
      InEvent (mk_event 5 10 (ActivityTaskScheduledEventAttributes
        \<lparr>asc_activity_id = ''a'', asc_activity_type = Some ''t''\<rparr>)),
      InEvent (mk_event 6 11 (ActivityTaskStartedEventAttributes 5)),
      InRequest ''done'',
      InCommand CT_RequestCancelActivityTask,
      InEvent (mk_event 8 15 (ActivityTaskCancelRequestedEventAttributes 5)),
      InEvent (mk_event 9 16 (ActivityTaskCanceledEventAttributes
        \<lparr>acn_details = None, acn_scheduled_event_id = 5, acn_started_event_id = 6,
         acn_identity = ''w''\<rparr>))]"

theorem activity_life_witness:
  "\<exists>m cmd rs m'.
     act_new_scheduled wit_activity (flags_new True ''core'' ''1'') False = Ok (m, cmd) \<and>
     run_inputs act_apply m wit_activity_inputs = (Ok rs, m') \<and> fsm_state m' = Some Canceled \<and>
     length (pushed_jobs rs) = 1"
proof -
  obtain m cmd where
    new: "act_new_scheduled wit_activity (flags_new True ''core'' ''1'') False = Ok (m, cmd)"
    and m: "m = \<lparr>fsm_state = Some ScheduleCommandCreated,
      fsm_shared = \<lparr>act_scheduled_event_id = 0, act_started_event_id = 0, act_attrs = wit_activity,
        act_cancellation_type = ACT_WaitCancellationCompleted,
        act_cancelled_before_sent = False, act_flags = flags_new True ''core'' ''1''\<rparr>\<rparr>"
    by (simp add: act_new_scheduled_eq wit_activity_def activity_cancellation_type_try_from_def
        opt_default_def)
  have "\<exists>rs m'. run_inputs act_apply m wit_activity_inputs = (Ok rs, m') \<and>
          fsm_state m' = Some Canceled"
    by (simp add: m wit_activity_def wit_activity_inputs_def act_apply_def flags_new_def
        apply_input_def handle_command_def handle_event_def concrete_events on_event_def
        act_handlers transition_results act_ops act_cancel_def act_try_from_event_def
        fsm_state_get_def run_and_map_def process_machine_commands_def opt_default_def)
  then obtain rs m' where run: "run_inputs act_apply m wit_activity_inputs = (Ok rs, m')"
    and c: "fsm_state m' = Some Canceled" by blast
  from activity_life [OF new run c] new run c show ?thesis
    by (auto simp: act_resolved_def)
qed

text \<open>
  No sequence of history events, echoed commands and cancellation requests makes a scheduled
  activity panic: the \<open>unreachable!\<close> for abandoned activities in a cancelling state, the panics of
  \<open>cancel\<close> on an unexpected command and the \<open>unwrap\<close>s of the state are all dead code.
\<close>

theorem activity_never_panics:
  assumes "act_new_scheduled a fl ucv = Ok (m, cmd)"
  shows "\<not> is_panic (fst (run_inputs act_apply m is))"
proof -
  let ?R = "act_told (act_cancellation_type (fsm_shared m)) (sa_seq a)"
  have "?R m []" using assms by (auto simp: act_new_scheduled_eq act_told_defs)
  then show ?thesis unfolding act_apply_def
    by (rule activity.run_no_panic)
      (erule (4) act_input_told, erule (1) act_cancel_told, erule act_told_state,
       erule (1) act_step_no_panic, erule act_cancel_no_panic)
qed

theorem activity_never_panics_witness:
  "\<exists>m cmd. act_new_scheduled wit_activity Disabled False = Ok (m, cmd) \<and>
     \<not> is_panic (fst (run_inputs act_apply m wit_activity_inputs))"
  using activity_never_panics [of wit_activity Disabled False]
  by (simp add: act_new_scheduled_eq)

end
