(* ===== verification/Child_Workflow_Machine.thy ===== *)
theory Child_Workflow_Machine
  imports Temporal_Machine Internal_Flags
begin

text \<open>
  The child workflow machine (\<open>machines/child_workflow_state_machine.rs\<close>).
\<close>

section \<open>States, events, commands\<close>

datatype child_state = Created | StartCommandCreated | StartEventRecorded | StartFailed | Started
  | Completed | Failed | TimedOut | Terminated
  | Cancelled (seen_cancelled_event: bool)

datatype child_state_kind = StCreated | StStartCommandCreated | StStartEventRecorded
  | StStartFailed | StStarted | StCompleted | StFailed | StTimedOut | StTerminated | StCancelled

primrec child_state_name :: "child_state \<Rightarrow> child_state_kind" where
  "child_state_name Created = StCreated"
| "child_state_name StartCommandCreated = StStartCommandCreated"
| "child_state_name StartEventRecorded = StStartEventRecorded"
| "child_state_name StartFailed = StStartFailed"
| "child_state_name Started = StStarted"
| "child_state_name Completed = StCompleted"
| "child_state_name Failed = StFailed"
| "child_state_name TimedOut = StTimedOut"
| "child_state_name Terminated = StTerminated"
| "child_state_name (Cancelled seen) = StCancelled"

record child_initiated_data =
  cid_event_id :: event_id
  cid_wf_type :: string
  cid_wf_id :: string
  cid_last_task_in_history :: bool

datatype child_event = Schedule | CommandStartChildWorkflowExecution
  | StartChildWorkflowExecutionInitiated child_initiated_data
  | Cancel string
  | ChildWorkflowExecutionStarted workflow_execution event_id
  | StartChildWorkflowExecutionFailed start_child_failed_cause
  | ChildWorkflowExecutionCompleted "payloads option"
  | ChildWorkflowExecutionFailed child_failed_attrs
  | ChildWorkflowExecutionTimedOut retry_state
  | ChildWorkflowExecutionCancelled
  | ChildWorkflowExecutionTerminated
  | CommandRequestCancelExternalWorkflowExecution

datatype child_event_kind = EvSchedule | EvCommandStartChildWorkflowExecution
  | EvStartChildWorkflowExecutionInitiated | EvCancel | EvChildWorkflowExecutionStarted
  | EvStartChildWorkflowExecutionFailed | EvChildWorkflowExecutionCompleted
  | EvChildWorkflowExecutionFailed | EvChildWorkflowExecutionTimedOut
  | EvChildWorkflowExecutionCancelled | EvChildWorkflowExecutionTerminated
  | EvCommandRequestCancelExternalWorkflowExecution

primrec child_event_name :: "child_event \<Rightarrow> child_event_kind" where
  "child_event_name Schedule = EvSchedule"
| "child_event_name CommandStartChildWorkflowExecution = EvCommandStartChildWorkflowExecution"
| "child_event_name (StartChildWorkflowExecutionInitiated d) = EvStartChildWorkflowExecutionInitiated"
| "child_event_name (Cancel r) = EvCancel"
| "child_event_name (ChildWorkflowExecutionStarted we i) = EvChildWorkflowExecutionStarted"
| "child_event_name (StartChildWorkflowExecutionFailed c) = EvStartChildWorkflowExecutionFailed"
| "child_event_name (ChildWorkflowExecutionCompleted p) = EvChildWorkflowExecutionCompleted"
| "child_event_name (ChildWorkflowExecutionFailed a) = EvChildWorkflowExecutionFailed"
| "child_event_name (ChildWorkflowExecutionTimedOut r) = EvChildWorkflowExecutionTimedOut"
| "child_event_name ChildWorkflowExecutionCancelled = EvChildWorkflowExecutionCancelled"
| "child_event_name ChildWorkflowExecutionTerminated = EvChildWorkflowExecutionTerminated"
| "child_event_name CommandRequestCancelExternalWorkflowExecution =
     EvCommandRequestCancelExternalWorkflowExecution"

datatype child_command = Start workflow_execution | Complete "payloads option" | Fail failure
  | Cancel_cmd | StartFail start_child_failed_cause | StartCancel failure
  | IssueCancelAfterStarted string

record child_shared =
  ch_initiated_event_id :: event_id
  ch_started_event_id :: event_id
  ch_lang_sequence_number :: u32
  ch_namespace :: string
  ch_workflow_id :: string
  ch_run_id :: string
  ch_workflow_type :: string
  ch_cancelled_before_sent :: bool
  ch_cancel_type :: child_workflow_cancellation_type
  ch_flags :: internal_flags

type_synonym child_machine = "(child_state, child_shared) fsm"
type_synonym child_transition = "(child_command, child_state) transition_result"

definition child_table :: "(child_state_kind, child_event_kind) transition list" where
  "child_table =
     [row StCreated EvSchedule (Some ''on_schedule'') False StStartCommandCreated,
      row StStartCommandCreated EvCommandStartChildWorkflowExecution None False
        StStartCommandCreated,
      row StStartCommandCreated EvStartChildWorkflowExecutionInitiated
        (Some ''on_start_child_workflow_execution_initiated'') True StStartEventRecorded,
      row StStartCommandCreated EvCancel (Some ''on_cancelled'') True StCancelled,
      row StStartEventRecorded EvChildWorkflowExecutionStarted
        (Some ''on_child_workflow_execution_started'') True StStarted,
      row StStartEventRecorded EvStartChildWorkflowExecutionFailed
        (Some ''on_start_child_workflow_execution_failed'') False StStartFailed,
      row StStarted EvChildWorkflowExecutionCompleted
        (Some ''on_child_workflow_execution_completed'') False StCompleted,
      row StStarted EvChildWorkflowExecutionFailed
        (Some ''on_child_workflow_execution_failed'') True StFailed,
      row StStarted EvChildWorkflowExecutionTimedOut
        (Some ''on_child_workflow_execution_timed_out'') True StTimedOut,
      row StStarted EvChildWorkflowExecutionCancelled
        (Some ''on_child_workflow_execution_cancelled'') False StCancelled,
      row StStarted EvChildWorkflowExecutionTerminated
        (Some ''on_child_workflow_execution_terminated'') True StTerminated,
      row StStarted EvCancel (Some ''on_cancelled'') True StStarted,
      row StStarted EvCancel (Some ''on_cancelled'') True StCancelled,
      row StStarted EvCommandRequestCancelExternalWorkflowExecution None False StStarted,
      row StCancelled EvCancel None False StCancelled,
      row StCancelled EvChildWorkflowExecutionCancelled
        (Some ''on_child_workflow_execution_cancelled'') False StCancelled,
      row StCancelled EvChildWorkflowExecutionCompleted
        (Some ''on_child_workflow_execution_completed'') True StCancelled,
      row StCancelled EvChildWorkflowExecutionFailed
        (Some ''on_child_workflow_execution_failed'') True StCancelled,
      row StCancelled EvChildWorkflowExecutionTimedOut
        (Some ''on_child_workflow_execution_timed_out'') True StCancelled,
      row StCancelled EvChildWorkflowExecutionTerminated
        (Some ''on_child_workflow_execution_terminated'') True StCancelled,
      row StFailed EvCancel None False StFailed,
      row StStartFailed EvCancel None False StStartFailed,
      row StTimedOut EvCancel None False StTimedOut,
      row StCompleted EvCancel None False StCompleted]"

section \<open>Failures\<close>

definition child_failure_info_from_state :: "child_shared \<Rightarrow> retry_state \<Rightarrow> failure_info option" where
  "child_failure_info_from_state state retry =
     Some (ChildWorkflowExecutionFailureInfo (ch_namespace state)
       (Some \<lparr>we_workflow_id = ch_workflow_id state, we_run_id = ch_run_id state\<rparr>)
       (Some (ch_workflow_type state)) (ch_initiated_event_id state) (ch_started_event_id state)
       (retry_state_code retry))"

definition canceled_cause :: "failure option" where
  "canceled_cause = Some (mk_failure [] None (Some (CanceledFailureInfo None)))"

definition child_abandons :: "child_shared \<Rightarrow> bool" where
  "child_abandons state \<longleftrightarrow> ch_cancel_type state = CWCT_Abandon"

definition completion_of_not_abandoned_err :: wf_error where
  "completion_of_not_abandoned_err =
     Nondeterminism ''Child workflows which don't have the ABANDON cancellation type cannot complete after being cancelled.''"

section \<open>Handlers\<close>

definition child_on_schedule :: child_transition where
  "child_on_schedule = tr_default StartCommandCreated"

definition child_cancelled_on_cancelled :: "child_state \<Rightarrow> child_transition" where
  "child_cancelled_on_cancelled s =
     (if seen_cancelled_event s then
        TErr (Fatal ''Child workflow has already seen a ChildWorkflowExecutionCanceledEvent, and now another is being applied! This is a bug, please report.'')
      else tr_ok [] (Cancelled True))"

definition child_cancelled_on_completed ::
  "child_state \<Rightarrow> child_shared \<Rightarrow> payloads option \<Rightarrow> child_transition \<times> child_shared" where
  "child_cancelled_on_completed s state _ =
     (if \<not> child_abandons state then TErr completion_of_not_abandoned_err else tr_ok [] s, state)"

definition child_cancelled_on_failed ::
  "child_state \<Rightarrow> child_shared \<Rightarrow> child_failed_attrs \<Rightarrow> child_transition \<times> child_shared" where
  "child_cancelled_on_failed s state _ =
     (if \<not> child_abandons state then TErr completion_of_not_abandoned_err else tr_ok [] s, state)"

definition child_cancelled_on_timed_out ::
  "child_state \<Rightarrow> child_shared \<Rightarrow> retry_state \<Rightarrow> child_transition \<times> child_shared" where
  "child_cancelled_on_timed_out s state _ =
     (if \<not> child_abandons state then TErr completion_of_not_abandoned_err else tr_ok [] s, state)"

definition child_cancelled_on_terminated ::
  "child_state \<Rightarrow> child_shared \<Rightarrow> child_transition \<times> child_shared" where
  "child_cancelled_on_terminated s state =
     (if \<not> child_abandons state then TErr completion_of_not_abandoned_err else tr_ok [] s, state)"

definition child_on_initiated ::
  "child_shared \<Rightarrow> child_initiated_data \<Rightarrow> child_transition \<times> child_shared" where
  "child_on_initiated state event_dat =
     (let (used, flags) = try_use (ch_flags state) IdAndTypeDeterminismChecks
                            (cid_last_task_in_history event_dat);
          state = state\<lparr>ch_flags := flags\<rparr>
      in if used \<and> cid_wf_id event_dat \<noteq> ch_workflow_id state then
           (TErr (Nondeterminism
              ''Child workflow id of scheduled event does not match child workflow id of command''), state)
         else if used \<and> cid_wf_type event_dat \<noteq> ch_workflow_type state then
           (TErr (Nondeterminism
              ''Child workflow type of scheduled event does not match child workflow type of command''), state)
         else (tr_default StartEventRecorded,
               state\<lparr>ch_initiated_event_id := cid_event_id event_dat\<rparr>))"

definition child_created_on_cancelled ::
  "child_shared \<Rightarrow> string \<Rightarrow> child_transition \<times> child_shared" where
  "child_created_on_cancelled state reason =
     (let state = state\<lparr>ch_cancelled_before_sent := True\<rparr> in
      (tr_commands (Cancelled False)
        [StartCancel (mk_failure (''Child Workflow Execution cancelled before scheduled: '' @ reason)
           canceled_cause (child_failure_info_from_state state RS_NonRetryableFailure))], state))"

definition child_on_started ::
  "child_shared \<Rightarrow> workflow_execution \<Rightarrow> event_id \<Rightarrow> child_transition \<times> child_shared" where
  "child_on_started state we started_event_id =
     (tr_commands Started [Start we],
      state\<lparr>ch_started_event_id := started_event_id, ch_run_id := we_run_id we\<rparr>)"

definition child_on_start_failed :: "start_child_failed_cause \<Rightarrow> child_transition" where
  "child_on_start_failed cause = tr_ok [StartFail cause] StartFailed"

definition child_started_on_completed :: "payloads option \<Rightarrow> child_transition" where
  "child_started_on_completed result = tr_ok [Complete result] Completed"

definition child_started_on_failed ::
  "child_shared \<Rightarrow> child_failed_attrs \<Rightarrow> child_transition \<times> child_shared" where
  "child_started_on_failed state attrs =
     (tr_ok [Fail (mk_failure ''Child Workflow execution failed'' (cwf_failure attrs)
        (child_failure_info_from_state state (retry_state_get (cwf_retry_state attrs))))] Failed, state)"

definition child_started_on_timed_out ::
  "child_shared \<Rightarrow> retry_state \<Rightarrow> child_transition \<times> child_shared" where
  "child_started_on_timed_out state retry =
     (tr_ok [Fail (mk_failure ''Child Workflow execution timed out''
        (Some (mk_failure ''Timed out'' None
           (Some (TimeoutFailureInfo (timeout_type_code TT_StartToClose) None))))
        (child_failure_info_from_state state retry))] TimedOut, state)"

definition child_started_on_cancelled :: child_transition where
  "child_started_on_cancelled = tr_ok [Cancel_cmd] (Cancelled True)"

definition child_started_on_terminated :: "child_shared \<Rightarrow> child_transition \<times> child_shared" where
  "child_started_on_terminated state =
     (tr_ok [Fail (mk_failure ''Child Workflow execution terminated''
        (Some (mk_failure ''Terminated'' None (Some TerminatedFailureInfo)))
        (child_failure_info_from_state state RS_NonRetryableFailure))] Terminated, state)"

definition child_started_on_cancel_request ::
  "child_shared \<Rightarrow> string \<Rightarrow> child_transition \<times> child_shared" where
  "child_started_on_cancel_request state reason =
     (tr_ok [IssueCancelAfterStarted reason]
        (if ch_cancel_type state \<in> {CWCT_Abandon, CWCT_TryCancel} then Cancelled False else Started),
      state)"

lemmas child_handlers =
  child_on_schedule_def child_cancelled_on_cancelled_def child_cancelled_on_completed_def
  child_cancelled_on_failed_def child_cancelled_on_timed_out_def child_cancelled_on_terminated_def
  child_on_initiated_def child_created_on_cancelled_def child_on_started_def
  child_on_start_failed_def child_started_on_completed_def child_started_on_failed_def
  child_started_on_timed_out_def child_started_on_cancelled_def child_started_on_terminated_def
  child_started_on_cancel_request_def

section \<open>The generated dispatch\<close>

primrec child_step :: "(child_state, child_event, child_shared, child_command) step_fun" where
  "child_step Created e d =
     (case e of Schedule \<Rightarrow> Some (child_on_schedule, d) | _ \<Rightarrow> None)"
| "child_step StartCommandCreated e d =
     (case e of
        CommandStartChildWorkflowExecution \<Rightarrow> Some (tr_from_state id StartCommandCreated, d)
      | StartChildWorkflowExecutionInitiated dat \<Rightarrow> Some (child_on_initiated d dat)
      | Cancel reason \<Rightarrow> Some (child_created_on_cancelled d reason)
      | _ \<Rightarrow> None)"
| "child_step StartEventRecorded e d =
     (case e of
        ChildWorkflowExecutionStarted we i \<Rightarrow> Some (child_on_started d we i)
      | StartChildWorkflowExecutionFailed c \<Rightarrow> Some (child_on_start_failed c, d)
      | _ \<Rightarrow> None)"
| "child_step Started e d =
     (case e of
        ChildWorkflowExecutionCompleted r \<Rightarrow> Some (child_started_on_completed r, d)
      | ChildWorkflowExecutionFailed a \<Rightarrow> Some (child_started_on_failed d a)
      | ChildWorkflowExecutionTimedOut r \<Rightarrow> Some (child_started_on_timed_out d r)
      | ChildWorkflowExecutionCancelled \<Rightarrow> Some (child_started_on_cancelled, d)
      | ChildWorkflowExecutionTerminated \<Rightarrow> Some (child_started_on_terminated d)
      | Cancel reason \<Rightarrow> Some (child_started_on_cancel_request d reason)
      | CommandRequestCancelExternalWorkflowExecution \<Rightarrow> Some (tr_from_state id Started, d)
      | _ \<Rightarrow> None)"
| "child_step (Cancelled seen) e d =
     (case e of
        Cancel reason \<Rightarrow> Some (tr_from_state id (Cancelled seen), d)
      | ChildWorkflowExecutionCancelled \<Rightarrow> Some (child_cancelled_on_cancelled (Cancelled seen), d)
      | ChildWorkflowExecutionCompleted r \<Rightarrow>
          Some (child_cancelled_on_completed (Cancelled seen) d r)
      | ChildWorkflowExecutionFailed a \<Rightarrow> Some (child_cancelled_on_failed (Cancelled seen) d a)
      | ChildWorkflowExecutionTimedOut r \<Rightarrow>
          Some (child_cancelled_on_timed_out (Cancelled seen) d r)
      | ChildWorkflowExecutionTerminated \<Rightarrow> Some (child_cancelled_on_terminated (Cancelled seen) d)
      | _ \<Rightarrow> None)"
| "child_step Failed e d =
     (case e of Cancel reason \<Rightarrow> Some (tr_from_state id Failed, d) | _ \<Rightarrow> None)"
| "child_step StartFailed e d =
     (case e of Cancel reason \<Rightarrow> Some (tr_from_state id StartFailed, d) | _ \<Rightarrow> None)"
| "child_step TimedOut e d =
     (case e of Cancel reason \<Rightarrow> Some (tr_from_state id TimedOut, d) | _ \<Rightarrow> None)"
| "child_step Completed e d =
     (case e of Cancel reason \<Rightarrow> Some (tr_from_state id Completed, d) | _ \<Rightarrow> None)"
| "child_step Terminated e d = None"

section \<open>Operations\<close>

definition child_new_scheduled ::
  "start_child_workflow \<Rightarrow> internal_flags \<Rightarrow> bool \<Rightarrow> (child_machine \<times> command_attributes) outcome" where
  "child_new_scheduled attribs internal_flags use_compatible_version =
     (let s = from_parts Created
            \<lparr>ch_initiated_event_id = 0, ch_started_event_id = 0,
             ch_lang_sequence_number = scw_seq attribs, ch_namespace = scw_namespace attribs,
             ch_workflow_id = scw_workflow_id attribs, ch_run_id = [],
             ch_workflow_type = scw_workflow_type attribs, ch_cancelled_before_sent = False,
             ch_cancel_type = child_workflow_cancellation_type_get (scw_cancellation_type attribs),
             ch_flags = internal_flags\<rparr>
      in case on_event child_step s Schedule of
           (Cmds _, s') \<Rightarrow>
             Ok (s', start_child_workflow_cmd_to_api attribs use_compatible_version)
         | _ \<Rightarrow> Panic ''Scheduling child workflows doesn't fail'')"

definition child_resolve_cancelled_msg :: "child_machine \<Rightarrow> job_variant" where
  "child_resolve_cancelled_msg m =
     ResolveChildWorkflowExecution (ch_lang_sequence_number (fsm_shared m))
       (Some (CRS_Cancelled (Some (mk_failure ''Child Workflow execution cancelled'' canceled_cause
          (child_failure_info_from_state (fsm_shared m) RS_NonRetryableFailure)))))"

definition child_adapt_response ::
  "child_machine \<Rightarrow> child_command \<Rightarrow> event_info option \<Rightarrow> machine_response list outcome" where
  "child_adapt_response m cmd ei =
     (let d = fsm_shared m; seq = ch_lang_sequence_number d in
      case cmd of
        Start we \<Rightarrow>
          Ok [PushWFJob (ResolveChildWorkflowExecutionStart seq (Some (CSS_Succeeded (we_run_id we))))]
      | StartFail cause \<Rightarrow>
          Ok [PushWFJob (ResolveChildWorkflowExecutionStart seq
            (Some (CSS_Failed (ch_workflow_id d) (ch_workflow_type d)
                     (start_child_failed_cause_code cause))))]
      | StartCancel f \<Rightarrow>
          Ok [PushWFJob (ResolveChildWorkflowExecutionStart seq (Some (CSS_Cancelled (Some f))))]
      | Complete result \<Rightarrow>
          obind (convert_payloads ''Not exactly one payload in child workflow result'' result) (\<lambda>r.
            Ok [PushWFJob (ResolveChildWorkflowExecution seq (Some (CRS_Completed r)))])
      | Fail f \<Rightarrow>
          Ok [PushWFJob (ResolveChildWorkflowExecution seq (Some (CRS_Failed (Some f))))]
      | Cancel_cmd \<Rightarrow> Ok [PushWFJob (child_resolve_cancelled_msg m)]
      | IssueCancelAfterStarted reason \<Rightarrow>
          Ok ((if ch_cancel_type d \<noteq> CWCT_Abandon then
                 [NewCoreOriginatedCommand (RequestCancelExternalWorkflowExecutionCommandAttributes
                    \<lparr>rce_namespace = ch_namespace d, rce_workflow_id = ch_workflow_id d,
                     rce_run_id = ch_run_id d, rce_control = [], rce_child_workflow_only = True,
                     rce_reason = reason\<rparr>)]
               else []) @
              (if ch_cancel_type d \<in> {CWCT_Abandon, CWCT_TryCancel}
               then [PushWFJob (child_resolve_cancelled_msg m)] else [])))"

definition child_map_cancel_command ::
  "child_machine \<Rightarrow> child_command \<Rightarrow> machine_response list outcome" where
  "child_map_cancel_command m mc =
     (case mc of
        StartCancel _ \<Rightarrow> child_adapt_response m mc None
      | IssueCancelAfterStarted _ \<Rightarrow> child_adapt_response m mc None
      | _ \<Rightarrow> Panic ''Invalid cancel event response'')"

definition child_cancel ::
  "string \<Rightarrow> child_machine \<Rightarrow> machine_response list outcome \<times> child_machine" where
  "child_cancel reason m = run_and_map child_step child_map_cancel_command m (Cancel reason)"

definition child_was_cancelled_before_sent :: "child_machine \<Rightarrow> bool" where
  "child_was_cancelled_before_sent m = ch_cancelled_before_sent (fsm_shared m)"

definition child_try_from_event :: "hist_event_data \<Rightarrow> child_event outcome" where
  "child_try_from_event ed =
     (let last_task_in_history = hed_current_task_is_last_in_history ed; e = hed_event ed in
      case event_type_try_from (he_event_type e) of
        None \<Rightarrow> Err (Nondeterminism ''Child workflow machine does not handle this event'')
      | Some et \<Rightarrow>
      if et = ET_StartChildWorkflowExecutionInitiated then
        (case attrs_start_child_workflow_execution_initiated e of
           Some (wf_id, wf_type) \<Rightarrow>
             Ok (StartChildWorkflowExecutionInitiated
               \<lparr>cid_event_id = he_event_id e, cid_wf_type = opt_default [] wf_type,
                cid_wf_id = wf_id, cid_last_task_in_history = last_task_in_history\<rparr>)
         | None \<Rightarrow> Err (Fatal ''StartChildWorkflowExecutionInitiated attributes were unset''))
      else if et = ET_StartChildWorkflowExecutionFailed then
        (case attrs_start_child_workflow_execution_failed e of
           Some (cause, _) \<Rightarrow>
             (case start_child_failed_cause_try_from cause of
                None \<Rightarrow> Err (Fatal ''Invalid StartChildWorkflowExecutionFailedCause'')
              | Some c \<Rightarrow> Ok (StartChildWorkflowExecutionFailed c))
         | None \<Rightarrow> Err (Fatal ''StartChildWorkflowExecutionFailed attributes were unset''))
      else if et = ET_ChildWorkflowExecutionStarted then
        (case attrs_child_workflow_execution_started e of
           Some (Some we, _) \<Rightarrow> Ok (ChildWorkflowExecutionStarted we (he_event_id e))
         | _ \<Rightarrow> Err (Fatal ''ChildWorkflowExecutionStarted attributes were unset or malformed''))
      else if et = ET_ChildWorkflowExecutionCompleted then
        (case attrs_child_workflow_execution_completed e of
           Some (result, _) \<Rightarrow> Ok (ChildWorkflowExecutionCompleted result)
         | None \<Rightarrow> Err (Fatal ''ChildWorkflowExecutionCompleted attributes were unset or malformed''))
      else if et = ET_ChildWorkflowExecutionFailed then
        (case attrs_child_workflow_execution_failed e of
           Some attrs \<Rightarrow> Ok (ChildWorkflowExecutionFailed attrs)
         | None \<Rightarrow> Err (Fatal ''ChildWorkflowExecutionFailed attributes were unset''))
      else if et = ET_ChildWorkflowExecutionTimedOut then
        (case attrs_child_workflow_execution_timed_out e of
           Some (retry, _) \<Rightarrow> Ok (ChildWorkflowExecutionTimedOut (retry_state_get retry))
         | None \<Rightarrow> Err (Fatal ''ChildWorkflowExecutionTimedOut attributes were unset or malformed''))
      else if et = ET_ChildWorkflowExecutionTerminated then Ok ChildWorkflowExecutionTerminated
      else if et = ET_ChildWorkflowExecutionCanceled then Ok ChildWorkflowExecutionCancelled
      else Err (Nondeterminism ''Child workflow machine does not handle this event''))"

definition child_try_from_command :: "command_type \<Rightarrow> child_event option" where
  "child_try_from_command c =
     (if c = CT_StartChildWorkflowExecution then Some CommandStartChildWorkflowExecution
      else if c = CT_RequestCancelExternalWorkflowExecution
      then Some CommandRequestCancelExternalWorkflowExecution
      else None)"

lemmas child_ops = child_adapt_response_def child_resolve_cancelled_msg_def
  child_map_cancel_command_def child_try_from_command_def

section \<open>Conformance to the table\<close>

lemma child_conforms: "fsm_conforms child_table child_state_name child_event_name child_step"
proof
  show "child_step s e d = None \<longleftrightarrow>
      dests child_table (child_state_name s) (child_event_name e) = []" for s e d
    by (cases s; cases e; simp add: fsm_tables child_table_def)
next
  show "child_state_name s' \<in> set (dests child_table (child_state_name s) (child_event_name e))"
    if "child_step s e d = Some (TOk cs s', d')" for s e d cs s' d'
    using that
    by (cases s; cases e; (simp; fail)?; auto simp: fsm_tables child_table_def child_handlers
        transition_results Let_def split: if_splits prod.splits)
next
  show "child_step s e d \<noteq> Some (InvalidTransition, d')" for s e d d'
    by (cases s; cases e; simp add: child_handlers transition_results Let_def split: prod.splits)
next
  show "d' = d" if "child_step s e d = Some (r, d')"
    and "\<not> mutating_row child_table (child_state_name s) (child_event_name e)" for s e d r d'
    using that by (cases s; cases e; (simp; fail)?; simp add: fsm_tables child_table_def)
qed

lemma child_convert_no_panic: "\<not> is_panic (child_try_from_event ed)"
  by (simp add: child_try_from_event_def Let_def split: option.splits)

lemma child_adapt_no_panic: "\<not> is_panic (child_adapt_response m c ei)"
  by (cases c) (auto simp: child_ops is_panic_obind Let_def)

interpretation child_wf: temporal_machine child_table child_state_name child_event_name child_step
  child_try_from_command child_try_from_event child_adapt_response
  by (intro temporal_machine.intro temporal_machine_axioms.intro child_conforms
      child_convert_no_panic child_adapt_no_panic)

section \<open>A child workflow over its whole life\<close>

definition child_apply ::
  "child_machine \<Rightarrow> string machine_input \<Rightarrow> machine_response list outcome \<times> child_machine" where
  "child_apply =
     apply_input child_try_from_command child_try_from_event child_step child_adapt_response
       child_cancel"

text \<open>The jobs the language layer has been sent when the child is in a state.\<close>

definition child_jobs_ok :: "child_state \<Rightarrow> child_shared \<Rightarrow> job_variant list \<Rightarrow> bool" where
  "child_jobs_ok s d jobs \<longleftrightarrow>
     (let start = ResolveChildWorkflowExecutionStart (ch_lang_sequence_number d);
          started = start (Some (CSS_Succeeded (ch_run_id d)))
      in case s of
        Created \<Rightarrow> jobs = []
      | StartCommandCreated \<Rightarrow> jobs = []
      | StartEventRecorded \<Rightarrow> jobs = []
      | StartFailed \<Rightarrow>
          (\<exists>cause. jobs = [start (Some (CSS_Failed (ch_workflow_id d) (ch_workflow_type d) cause))])
      | Started \<Rightarrow> jobs = [started]
      | Cancelled seen \<Rightarrow>
          if ch_cancelled_before_sent d then \<exists>f. jobs = [start (Some (CSS_Cancelled (Some f)))]
          else \<exists>f. jobs = [started,
            ResolveChildWorkflowExecution (ch_lang_sequence_number d) (Some (CRS_Cancelled (Some f)))]
      | Completed \<Rightarrow>
          (\<exists>r. jobs = [started,
            ResolveChildWorkflowExecution (ch_lang_sequence_number d) (Some (CRS_Completed r))])
      | _ \<Rightarrow>
          (\<exists>f. jobs = [started,
            ResolveChildWorkflowExecution (ch_lang_sequence_number d) (Some (CRS_Failed (Some f)))]))"

definition child_told ::
  "child_workflow_cancellation_type \<Rightarrow> u32 \<Rightarrow> child_machine \<Rightarrow> machine_response list \<Rightarrow> bool" where
  "child_told ct seq m acc \<longleftrightarrow>
     ch_cancel_type (fsm_shared m) = ct \<and> ch_lang_sequence_number (fsm_shared m) = seq \<and>
     (case fsm_state m of
        None \<Rightarrow> False
      | Some s \<Rightarrow>
          child_jobs_ok s (fsm_shared m) (pushed_jobs acc) \<and>
          (ch_cancelled_before_sent (fsm_shared m) \<longrightarrow> child_state_name s = StCancelled) \<and>
          (child_was_cancelled_before_sent m \<or> ct = CWCT_Abandon \<longrightarrow> core_commands acc = []) \<and>
          (s \<in> {Created, StartCommandCreated, StartEventRecorded} \<longrightarrow> core_commands acc = []) \<and>
          (ct = CWCT_TryCancel \<longrightarrow>
             length (core_commands acc) \<le> (if child_state_name s = StCancelled then 1 else 0)))"

lemmas child_told_defs = child_told_def child_jobs_ok_def child_was_cancelled_before_sent_def

lemma child_new_scheduled_eq:
  "child_new_scheduled a fl ucv =
     Ok (\<lparr>fsm_state = Some StartCommandCreated,
          fsm_shared = \<lparr>ch_initiated_event_id = 0, ch_started_event_id = 0,
             ch_lang_sequence_number = scw_seq a, ch_namespace = scw_namespace a,
             ch_workflow_id = scw_workflow_id a, ch_run_id = [],
             ch_workflow_type = scw_workflow_type a, ch_cancelled_before_sent = False,
             ch_cancel_type = child_workflow_cancellation_type_get (scw_cancellation_type a),
             ch_flags = fl\<rparr>\<rparr>,
         start_child_workflow_cmd_to_api a ucv)"
  by (simp add: child_new_scheduled_def from_parts_def on_event_def child_handlers
      transition_results)

lemma child_step_told:
  assumes "child_told ct seq m acc" "fsm_state m = Some s"
    "child_step s e (fsm_shared m) = Some (TOk cs s', d')"
    "omap_concat (\<lambda>c. child_adapt_response \<lparr>fsm_state = Some s', fsm_shared = d'\<rparr> c ei) cs = Ok rs"
  shows "child_told ct seq \<lparr>fsm_state = Some s', fsm_shared = d'\<rparr> (acc @ rs)"
  using assms
  by (cases s; cases e; (simp; fail)?; auto simp: child_told_defs child_handlers
      transition_results child_ops Let_def split: if_splits prod.splits)

lemma child_cancel_commands:
  assumes "child_step s (Cancel r) d = Some (TOk cs s', d')" and "c \<in> set cs"
  shows "child_map_cancel_command m c = child_adapt_response m c None"
  using assms
  by (cases s; auto simp: child_handlers transition_results child_map_cancel_command_def Let_def)

lemma child_cancel_told:
  assumes "child_told ct seq m acc" and "child_cancel r m = (Ok rs, m')"
  shows "child_told ct seq m' (acc @ rs)"
  using assms(2) unfolding child_cancel_def
  by (rule child_wf.run_and_map_step [OF _ child_cancel_commands])
    (auto intro: child_step_told [OF assms(1)])

lemma child_step_no_panic: "child_step s e d \<noteq> Some (TPanic p, d')"
  by (cases s; cases e; (simp; fail)?; auto simp: child_handlers transition_results Let_def
      split: if_splits prod.splits)

lemma child_told_state: "child_told ct seq m acc \<Longrightarrow> fsm_state m \<noteq> None"
  by (auto simp: child_told_def split: option.splits)

lemma child_cancel_no_panic:
  assumes "child_told ct seq m acc"
  shows "\<not> is_panic (fst (child_cancel r m))"
proof -
  from child_told_state [OF assms] obtain s where "fsm_state m = Some s" by blast
  then show ?thesis unfolding child_cancel_def using child_step_no_panic
  proof (rule run_and_map_no_panic)
    fix cs s' d' c
    assume "child_step s (Cancel r) (fsm_shared m) = Some (TOk cs s', d')" and "c \<in> set cs"
    from child_cancel_commands [OF this]
    show "\<not> is_panic (child_map_cancel_command \<lparr>fsm_state = Some s', fsm_shared = d'\<rparr> c)"
      using child_adapt_no_panic by metis
  qed
qed

text \<open>
  C19: Whatever sequence of history events, echoed commands and cancellation requests reaches a
  scheduled child workflow without an error, the language layer hears nothing before the start is
  settled, then exactly one start resolution, and exactly one result after a successful start and
  none after a failed or cancelled one; an abandoned child and a child cancelled before its start
  was sent never ask the server for a cancellation, and a try-cancel child asks at most once.
\<close>

theorem child_workflow_life:
  assumes "child_new_scheduled a fl ucv = Ok (m, cmd)"
    and "run_inputs child_apply m is = (Ok rs, m')" and "fsm_state m' = Some s"
  shows "child_jobs_ok s (fsm_shared m') (pushed_jobs rs) \<and>
         ch_lang_sequence_number (fsm_shared m') = scw_seq a \<and>
         (child_was_cancelled_before_sent m' \<or> ch_cancel_type (fsm_shared m) = CWCT_Abandon \<longrightarrow>
            core_commands rs = []) \<and>
         (ch_cancel_type (fsm_shared m) = CWCT_TryCancel \<longrightarrow> length (core_commands rs) \<le> 1)"
proof -
  let ?R = "child_told (ch_cancel_type (fsm_shared m)) (scw_seq a)"
  have "?R m []" using assms(1) by (auto simp: child_new_scheduled_eq child_told_defs)
  with assms(2) have "?R m' rs" unfolding child_apply_def
    by (rule child_wf.run_told) (erule (3) child_step_told, erule (1) child_cancel_told)
  then show ?thesis using assms(3) by (auto simp: child_told_def split: if_splits)
qed

definition wit_child :: start_child_workflow where
  "wit_child =
     \<lparr>scw_seq = 3, scw_namespace = ''ns'', scw_workflow_id = ''child'', scw_workflow_type = ''t'',
      scw_task_queue = ''q'', scw_input = [], scw_workflow_execution_timeout = None,
      scw_workflow_run_timeout = None, scw_workflow_task_timeout = None,
      scw_parent_close_policy = 0, scw_workflow_id_reuse_policy = 0, scw_retry_policy = None,
      scw_cron_schedule = [], scw_headers = [], scw_memo = [], scw_search_attributes = [],
      scw_cancellation_type = 1, scw_versioning_intent = 0\<rparr>"

definition wit_child_inputs :: "string machine_input list" where
  "wit_child_inputs =
     [InCommand CT_StartChildWorkflowExecution,
      InEvent (mk_event 5 29 (StartChildWorkflowExecutionInitiatedEventAttributes ''child'' (Some ''t''))),
      InEvent (mk_event 6 31 (ChildWorkflowExecutionStartedEventAttributes
        (Some \<lparr>we_workflow_id = ''child'', we_run_id = ''r1''\<rparr>) 5)),
      InRequest ''stop'',
      InEvent (mk_event 9 34 (ChildWorkflowExecutionCanceledEventAttributes 5))]"

theorem child_workflow_life_witness:
  "\<exists>m cmd rs m' f.
     child_new_scheduled wit_child (flags_new True ''core'' ''1'') False = Ok (m, cmd) \<and>
     run_inputs child_apply m wit_child_inputs = (Ok rs, m') \<and> fsm_state m' = Some (Cancelled True) \<and>
     pushed_jobs rs =
       [ResolveChildWorkflowExecutionStart 3 (Some (CSS_Succeeded ''r1'')),
        ResolveChildWorkflowExecution 3 (Some (CRS_Cancelled (Some f)))] \<and>
     length (core_commands rs) \<le> 1"
proof -
  obtain m cmd where
    new: "child_new_scheduled wit_child (flags_new True ''core'' ''1'') False = Ok (m, cmd)"
    and m: "m = \<lparr>fsm_state = Some StartCommandCreated,
      fsm_shared = \<lparr>ch_initiated_event_id = 0, ch_started_event_id = 0,
         ch_lang_sequence_number = 3, ch_namespace = ''ns'', ch_workflow_id = ''child'',
         ch_run_id = [], ch_workflow_type = ''t'', ch_cancelled_before_sent = False,
         ch_cancel_type = CWCT_TryCancel, ch_flags = flags_new True ''core'' ''1''\<rparr>\<rparr>"
    by (simp add: child_new_scheduled_eq wit_child_def child_workflow_cancellation_type_get_def)
  have "\<exists>rs m'. run_inputs child_apply m wit_child_inputs = (Ok rs, m') \<and>
      fsm_state m' = Some (Cancelled True) \<and> ch_run_id (fsm_shared m') = ''r1'' \<and>
      \<not> ch_cancelled_before_sent (fsm_shared m')"
    by (simp add: m wit_child_inputs_def child_apply_def flags_new_def machine_run child_handlers
        child_ops child_cancel_def child_try_from_event_def)
  then obtain rs m' where run: "run_inputs child_apply m wit_child_inputs = (Ok rs, m')"
    and c: "fsm_state m' = Some (Cancelled True)" and r: "ch_run_id (fsm_shared m') = ''r1''"
    and b: "\<not> ch_cancelled_before_sent (fsm_shared m')" by blast
  from child_workflow_life [OF new run c] r b
  have "\<exists>f. pushed_jobs rs =
       [ResolveChildWorkflowExecutionStart 3 (Some (CSS_Succeeded ''r1'')),
        ResolveChildWorkflowExecution 3 (Some (CRS_Cancelled (Some f)))]"
    and "length (core_commands rs) \<le> 1"
    by (auto simp: child_jobs_ok_def wit_child_def m)
  with new run c show ?thesis by blast
qed

text \<open>
  No sequence of history events, echoed commands and cancellation requests makes a scheduled
  child workflow panic; in particular the panic of \<open>cancel\<close> on an unexpected command is dead code.
\<close>

theorem child_workflow_never_panics:
  assumes "child_new_scheduled a fl ucv = Ok (m, cmd)"
  shows "\<not> is_panic (fst (run_inputs child_apply m is))"
proof -
  let ?R = "child_told (ch_cancel_type (fsm_shared m)) (scw_seq a)"
  have "?R m []" using assms by (auto simp: child_new_scheduled_eq child_told_defs)
  then show ?thesis unfolding child_apply_def
    by (rule child_wf.run_no_panic)
      (erule (3) child_step_told, erule (1) child_cancel_told, erule child_told_state,
       rule child_step_no_panic, erule child_cancel_no_panic)
qed

theorem child_workflow_never_panics_witness:
  "\<exists>m cmd. child_new_scheduled wit_child Disabled False = Ok (m, cmd) \<and>
     \<not> is_panic (fst (run_inputs child_apply m wit_child_inputs))"
  using child_workflow_never_panics [of wit_child Disabled False]
  by (simp add: child_new_scheduled_eq)

end
