(* ===== verification/Signal_External_Machine.thy ===== *)
theory Signal_External_Machine
  imports Temporal_Machine
begin

text \<open>
  The machine for signals to other workflows (\<open>machines/signal_external_state_machine.rs\<close>).
\<close>

section \<open>States, events, commands\<close>

datatype sig_state = Created | SignalExternalCommandCreated | SignalExternalCommandRecorded
  | Cancelled | Signaled | Failed

datatype sig_event = Schedule | CommandSignalExternalWorkflowExecution | Cancel
  | SignalExternalWorkflowExecutionInitiated | ExternalWorkflowExecutionSignaled
  | SignalExternalWorkflowExecutionFailed signal_external_failed_cause

datatype sig_event_kind = EvSchedule | EvCommandSignalExternalWorkflowExecution | EvCancel
  | EvSignalExternalWorkflowExecutionInitiated | EvExternalWorkflowExecutionSignaled
  | EvSignalExternalWorkflowExecutionFailed

primrec sig_event_name :: "sig_event \<Rightarrow> sig_event_kind" where
  "sig_event_name Schedule = EvSchedule"
| "sig_event_name CommandSignalExternalWorkflowExecution = EvCommandSignalExternalWorkflowExecution"
| "sig_event_name Cancel = EvCancel"
| "sig_event_name SignalExternalWorkflowExecutionInitiated =
     EvSignalExternalWorkflowExecutionInitiated"
| "sig_event_name ExternalWorkflowExecutionSignaled = EvExternalWorkflowExecutionSignaled"
| "sig_event_name (SignalExternalWorkflowExecutionFailed c) = EvSignalExternalWorkflowExecutionFailed"

datatype sig_command = Signaled_cmd | Failed_cmd signal_external_failed_cause | Cancelled_cmd

record sig_shared =
  sig_seq :: u32

type_synonym sig_machine = "(sig_state, sig_shared) fsm"
type_synonym sig_transition = "(sig_command, sig_state) transition_result"

definition sig_table :: "(sig_state, sig_event_kind) transition list" where
  "sig_table =
     [row Created EvSchedule (Some ''on_schedule'') False SignalExternalCommandCreated,
      row SignalExternalCommandCreated EvCommandSignalExternalWorkflowExecution None False
        SignalExternalCommandCreated,
      row SignalExternalCommandCreated EvCancel (Some ''on_cancel'') False Cancelled,
      row SignalExternalCommandCreated EvSignalExternalWorkflowExecutionInitiated
        (Some ''on_signal_external_workflow_execution_initiated'') False
        SignalExternalCommandRecorded,
      row SignalExternalCommandRecorded EvCancel None False SignalExternalCommandRecorded,
      row SignalExternalCommandRecorded EvExternalWorkflowExecutionSignaled
        (Some ''on_external_workflow_execution_signaled'') False Signaled,
      row SignalExternalCommandRecorded EvSignalExternalWorkflowExecutionFailed
        (Some ''on_signal_external_workflow_execution_failed'') False Failed,
      row Cancelled EvCancel None False Cancelled,
      row Signaled EvCancel None False Signaled]"

section \<open>Handlers\<close>

definition sig_on_schedule :: sig_transition where
  "sig_on_schedule = tr_default SignalExternalCommandCreated"

definition sig_on_cancel :: sig_transition where
  "sig_on_cancel = tr_commands Cancelled [Cancelled_cmd]"

definition sig_on_initiated :: sig_transition where
  "sig_on_initiated = tr_default SignalExternalCommandRecorded"

definition sig_on_signaled :: sig_transition where
  "sig_on_signaled = tr_commands Signaled [Signaled_cmd]"

definition sig_on_failed :: "signal_external_failed_cause \<Rightarrow> sig_transition" where
  "sig_on_failed cause = tr_commands Failed [Failed_cmd cause]"

lemmas sig_handlers = sig_on_schedule_def sig_on_cancel_def sig_on_initiated_def sig_on_signaled_def
  sig_on_failed_def

primrec sig_step :: "(sig_state, sig_event, sig_shared, sig_command) step_fun" where
  "sig_step Created e d =
     (case e of Schedule \<Rightarrow> Some (sig_on_schedule, d) | _ \<Rightarrow> None)"
| "sig_step SignalExternalCommandCreated e d =
     (case e of
        CommandSignalExternalWorkflowExecution \<Rightarrow>
          Some (tr_from_state id SignalExternalCommandCreated, d)
      | Cancel \<Rightarrow> Some (sig_on_cancel, d)
      | SignalExternalWorkflowExecutionInitiated \<Rightarrow> Some (sig_on_initiated, d)
      | _ \<Rightarrow> None)"
| "sig_step SignalExternalCommandRecorded e d =
     (case e of
        Cancel \<Rightarrow> Some (tr_from_state id SignalExternalCommandRecorded, d)
      | ExternalWorkflowExecutionSignaled \<Rightarrow> Some (sig_on_signaled, d)
      | SignalExternalWorkflowExecutionFailed c \<Rightarrow> Some (sig_on_failed c, d)
      | _ \<Rightarrow> None)"
| "sig_step Cancelled e d = (case e of Cancel \<Rightarrow> Some (tr_from_state id Cancelled, d) | _ \<Rightarrow> None)"
| "sig_step Signaled e d = (case e of Cancel \<Rightarrow> Some (tr_from_state id Signaled, d) | _ \<Rightarrow> None)"
| "sig_step Failed e d = None"

section \<open>Operations\<close>

definition new_external_signal ::
  "signal_external_cmd \<Rightarrow> string \<Rightarrow> (sig_machine \<times> command_attributes) outcome" where
  "new_external_signal attrs this_namespace =
     obind (case sec_target attrs of
              None \<Rightarrow> Err (Fatal ''Signal external workflow command had empty target field'')
            | Some (SigChildWorkflowId wfid) \<Rightarrow>
                Ok (\<lparr>nwe_namespace = this_namespace, nwe_workflow_id = wfid, nwe_run_id = []\<rparr>, True)
            | Some (SigWorkflowExecution we) \<Rightarrow> Ok (we, False))
       (\<lambda>(we, only_child).
          case on_event sig_step (from_parts Created \<lparr>sig_seq = sec_seq attrs\<rparr>) Schedule of
            (Cmds _, s) \<Rightarrow>
              Ok (s, SignalExternalWorkflowExecutionCommandAttributes
                \<lparr>sea_namespace = nwe_namespace we,
                 sea_execution =
                   Some \<lparr>we_workflow_id = nwe_workflow_id we, we_run_id = nwe_run_id we\<rparr>,
                 sea_signal_name = sec_signal_name attrs,
                 sea_input = into_payloads (sec_args attrs),
                 sea_control = [],
                 sea_child_workflow_only = only_child,
                 sea_header = none_if_empty (sec_headers attrs)\<rparr>)
          | _ \<Rightarrow> Panic ''Scheduling signal external wf command doesn't fail'')"

definition sig_try_from_command :: "command_type \<Rightarrow> sig_event option" where
  "sig_try_from_command c =
     (if c = CT_SignalExternalWorkflowExecution then Some CommandSignalExternalWorkflowExecution
      else None)"

definition sig_try_from_event :: "hist_event_data \<Rightarrow> sig_event outcome" where
  "sig_try_from_event ed =
     (let e = hed_event ed in
      if event_type_of e = ET_ExternalWorkflowExecutionSignaled then
        Ok ExternalWorkflowExecutionSignaled
      else if event_type_of e = ET_SignalExternalWorkflowExecutionInitiated then
        Ok SignalExternalWorkflowExecutionInitiated
      else if event_type_of e = ET_SignalExternalWorkflowExecutionFailed then
        (case attrs_signal_external_workflow_execution_failed e of
           Some (cause, _) \<Rightarrow>
             Ok (SignalExternalWorkflowExecutionFailed (signal_external_failed_cause_get cause))
         | None \<Rightarrow> Err (Fatal ''Signal workflow failed attributes were unset''))
      else Err (Nondeterminism ''Signal external WF machine does not handle this event''))"

primrec sig_cause_reason :: "signal_external_failed_cause \<Rightarrow> string" where
  "sig_cause_reason SEF_Unspecified = ''unknown''"
| "sig_cause_reason SEF_ExternalWorkflowExecutionNotFound = ''it was not found''"
| "sig_cause_reason SEF_NamespaceNotFound = ''it was not found''"
| "sig_cause_reason SEF_SignalCountLimitExceeded = ''The per-workflow signal limit was exceeded''"

text \<open>\<open>f.to_string()\<close> on the cause.\<close>

primrec sig_cause_name :: "signal_external_failed_cause \<Rightarrow> string" where
  "sig_cause_name SEF_Unspecified = ''Unspecified''"
| "sig_cause_name SEF_ExternalWorkflowExecutionNotFound = ''ExternalWorkflowExecutionNotFound''"
| "sig_cause_name SEF_NamespaceNotFound = ''NamespaceNotFound''"
| "sig_cause_name SEF_SignalCountLimitExceeded = ''SignalCountLimitExceeded''"

definition sig_adapt_response ::
  "sig_machine \<Rightarrow> sig_command \<Rightarrow> event_info option \<Rightarrow> machine_response list outcome" where
  "sig_adapt_response m cmd ei =
     (let seq = sig_seq (fsm_shared m) in
      case cmd of
        Signaled_cmd \<Rightarrow> Ok [PushWFJob (ResolveSignalExternalWorkflow seq None)]
      | Failed_cmd f \<Rightarrow>
          Ok [PushWFJob (ResolveSignalExternalWorkflow seq
            (Some (mk_failure (''Unable to signal external workflow because '' @ sig_cause_reason f) None
                     (Some (ApplicationFailureInfo (sig_cause_name f) False)))))]
      | Cancelled_cmd \<Rightarrow>
          Panic ''Cancelled command not expected as part of non-cancel transition'')"

definition SIG_CANCEL_MSG :: string where
  "SIG_CANCEL_MSG = ''Signal was cancelled before being sent''"

definition sig_cancel :: "sig_machine \<Rightarrow> machine_response list outcome \<times> sig_machine" where
  "sig_cancel m =
     (case on_event sig_step m Cancel of
        (Cmds res, m') \<Rightarrow>
          (case res of
             [] \<Rightarrow> Ok []
           | Cancelled_cmd # _ \<Rightarrow>
               Ok [PushWFJob (ResolveSignalExternalWorkflow (sig_seq (fsm_shared m'))
                 (Some (mk_failure SIG_CANCEL_MSG None (Some (CanceledFailureInfo None)))))]
           | _ \<Rightarrow> Panic ''Signal external machine cancel produced unexpected result'', m')
      | (Failed_with e, m') \<Rightarrow> (Err (wf_error_of_machine_error e), m')
      | (Panicked p, m') \<Rightarrow> (Panic p, m'))"

definition sig_was_cancelled_before_sent :: "sig_machine \<Rightarrow> bool outcome" where
  "sig_was_cancelled_before_sent m = obind (fsm_state_get m) (\<lambda>s. Ok (s = Cancelled))"

lemmas sig_ops = sig_try_from_command_def sig_try_from_event_def sig_adapt_response_def
  sig_cancel_def

section \<open>Conformance to the table\<close>

lemma sig_conforms: "fsm_conforms sig_table (\<lambda>s. s) sig_event_name sig_step"
proof
  show "sig_step s e d = None \<longleftrightarrow> dests sig_table s (sig_event_name e) = []" for s e d
    by (cases s; cases e; simp add: fsm_tables sig_table_def)
next
  show "s' \<in> set (dests sig_table s (sig_event_name e))"
    if "sig_step s e d = Some (TOk cs s', d')" for s e d cs s' d'
    using that
    by (cases s; cases e; (simp; fail)?; simp add: fsm_tables sig_table_def sig_handlers
        transition_results)
next
  show "sig_step s e d \<noteq> Some (InvalidTransition, d')" for s e d d'
    by (cases s; cases e; simp add: sig_handlers transition_results)
next
  show "d' = d" if "sig_step s e d = Some (r, d')" for s e d r d'
    using that by (cases s; cases e; simp)
qed

lemma sig_convert_no_panic: "\<not> is_panic (sig_try_from_event ed)"
  by (simp add: sig_try_from_event_def Let_def split: option.splits)

lemma sig_converted: "sig_try_from_command c \<noteq> Some Cancel" "sig_try_from_event ed \<noteq> Ok Cancel"
  by (auto simp: sig_ops Let_def split: option.splits)

lemma sig_adapt_no_panic:
  assumes "sig_step s e d = Some (TOk cs s', d')" "c \<in> set cs"
    "(\<exists>ct. sig_try_from_command ct = Some e) \<or> (\<exists>ed. sig_try_from_event ed = Ok e)"
  shows "\<not> is_panic (sig_adapt_response m c ei)"
proof -
  from assms(3) sig_converted have "e \<noteq> Cancel" by auto
  with assms(1,2) show ?thesis
    by (cases s; cases e; (simp; fail)?; auto simp: sig_handlers transition_results sig_ops Let_def)
qed

interpretation signal_external: temporal_machine sig_table "\<lambda>s. s" sig_event_name sig_step
  sig_try_from_command sig_try_from_event sig_adapt_response
  by (intro temporal_machine.intro temporal_machine_axioms.intro sig_conforms
      sig_convert_no_panic sig_adapt_no_panic)

section \<open>A signal over its whole life\<close>

definition sig_apply ::
  "sig_machine \<Rightarrow> string machine_input \<Rightarrow> machine_response list outcome \<times> sig_machine" where
  "sig_apply =
     apply_input sig_try_from_command sig_try_from_event sig_step sig_adapt_response (\<lambda>_. sig_cancel)"

definition sig_told :: "u32 \<Rightarrow> sig_machine \<Rightarrow> machine_response list \<Rightarrow> bool" where
  "sig_told seq m acc \<longleftrightarrow>
     sig_seq (fsm_shared m) = seq \<and>
     (case fsm_state m of
        None \<Rightarrow> False
      | Some s \<Rightarrow>
          if s = Signaled then acc = [PushWFJob (ResolveSignalExternalWorkflow seq None)]
          else if s \<in> {Failed, Cancelled}
          then \<exists>f. acc = [PushWFJob (ResolveSignalExternalWorkflow seq (Some f))]
          else acc = [])"

lemma sig_step_told:
  assumes "sig_told seq m acc" "fsm_state m = Some s"
    "sig_step s e (fsm_shared m) = Some (TOk cs s', d')"
    "omap_concat (\<lambda>c. sig_adapt_response \<lparr>fsm_state = Some s', fsm_shared = d'\<rparr> c ei) cs = Ok rs"
  shows "sig_told seq \<lparr>fsm_state = Some s', fsm_shared = d'\<rparr> (acc @ rs)"
  using assms
  by (cases s; cases e; (simp; fail)?; auto simp: sig_told_def sig_handlers transition_results
      sig_adapt_response_def Let_def)

lemma sig_cancel_eq:
  assumes "fsm_state m = Some s"
  shows "sig_cancel m =
    (if s = SignalExternalCommandCreated then
       (Ok [PushWFJob (ResolveSignalExternalWorkflow (sig_seq (fsm_shared m))
          (Some (mk_failure SIG_CANCEL_MSG None (Some (CanceledFailureInfo None)))))],
        \<lparr>fsm_state = Some Cancelled, fsm_shared = fsm_shared m\<rparr>)
     else if s \<in> {SignalExternalCommandRecorded, Cancelled, Signaled} then
       (Ok [], \<lparr>fsm_state = Some s, fsm_shared = fsm_shared m\<rparr>)
     else (Err (wf_error_of_machine_error MInvalidTransition), m))"
  using assms
  by (cases s; simp add: sig_cancel_def on_event_def sig_handlers transition_results)

lemma sig_cancel_told:
  assumes "sig_told seq m acc" and "sig_cancel m = (Ok rs, m')"
  shows "sig_told seq m' (acc @ rs)"
proof -
  from assms(1) obtain s where "fsm_state m = Some s" by (auto simp: sig_told_def split: option.splits)
  with assms show ?thesis
    by (auto simp: sig_told_def sig_cancel_eq split: if_splits)
qed

lemma sig_told_state: "sig_told seq m acc \<Longrightarrow> fsm_state m \<noteq> None"
  by (auto simp: sig_told_def split: option.splits)

lemma sig_cancel_no_panic: "sig_told seq m acc \<Longrightarrow> \<not> is_panic (fst (sig_cancel m))"
  using sig_told_state [of seq m acc] by (auto simp: sig_cancel_eq split: if_splits)

lemma sig_step_no_panic: "sig_step s e d \<noteq> Some (TPanic p, d')"
  by (cases s; cases e; simp add: sig_handlers transition_results)

lemma new_external_signal_Ok:
  "new_external_signal a ns = Ok (m, cmd) \<Longrightarrow>
   m = \<lparr>fsm_state = Some SignalExternalCommandCreated, fsm_shared = \<lparr>sig_seq = sec_seq a\<rparr>\<rparr>"
  by (auto simp: new_external_signal_def on_event_def from_parts_def sig_handlers transition_results
      split: option.splits signal_target.splits)

text \<open>
  C24: Whatever sequence of history events, echoed commands and cancellation requests reaches a
  scheduled external signal, it never panics, and when no error is met the language layer is sent
  exactly one resolution once the signal is delivered, failed or cancelled before sending (with a
  failure exactly when it was not delivered) and none before.
\<close>

theorem signal_external_life:
  assumes "new_external_signal a ns = Ok (m, cmd)"
  shows "\<not> is_panic (fst (run_inputs sig_apply m is)) \<and>
    (run_inputs sig_apply m is = (Ok rs, m') \<longrightarrow> fsm_state m' = Some s \<longrightarrow>
       (if s = Signaled then rs = [PushWFJob (ResolveSignalExternalWorkflow (sec_seq a) None)]
        else if s \<in> {Failed, Cancelled}
        then \<exists>f. rs = [PushWFJob (ResolveSignalExternalWorkflow (sec_seq a) (Some f))]
        else rs = []))"
proof -
  have "sig_told (sec_seq a) m []" using new_external_signal_Ok [OF assms] by (simp add: sig_told_def)
  then have "\<not> is_panic (fst (run_inputs sig_apply m is)) \<and>
    (run_inputs sig_apply m is = (Ok rs, m') \<longrightarrow> sig_told (sec_seq a) m' rs)"
    unfolding sig_apply_def
    by (rule signal_external.run_life)
      (erule (3) sig_step_told, erule (1) sig_cancel_told, erule sig_told_state,
       rule sig_step_no_panic, erule sig_cancel_no_panic)
  then show ?thesis by (auto simp: sig_told_def)
qed

definition wit_signal :: signal_external_cmd where
  "wit_signal =
     \<lparr>sec_seq = 4, sec_target = Some (SigChildWorkflowId ''c''), sec_signal_name = ''s'',
      sec_args = [], sec_headers = []\<rparr>"

definition wit_signal_inputs :: "string machine_input list" where
  "wit_signal_inputs =
     [InCommand CT_SignalExternalWorkflowExecution,
      InEvent (mk_event 5 37 SignalExternalWorkflowExecutionInitiatedEventAttributes),
      InRequest [],
      InEvent (mk_event 6 39 (ExternalWorkflowExecutionSignaledEventAttributes 5)),
      InRequest []]"

theorem signal_external_life_witness:
  "\<exists>m cmd m'. new_external_signal wit_signal ''ns'' = Ok (m, cmd) \<and>
     run_inputs sig_apply m wit_signal_inputs =
       (Ok [PushWFJob (ResolveSignalExternalWorkflow 4 None)], m') \<and> fsm_state m' = Some Signaled"
proof -
  obtain m cmd where new: "new_external_signal wit_signal ''ns'' = Ok (m, cmd)"
    by (simp add: new_external_signal_def wit_signal_def on_event_def from_parts_def sig_handlers
        transition_results)
  have m: "m = \<lparr>fsm_state = Some SignalExternalCommandCreated, fsm_shared = \<lparr>sig_seq = 4\<rparr>\<rparr>"
    using new_external_signal_Ok [OF new] by (simp add: wit_signal_def)
  have "\<exists>rs m'. run_inputs sig_apply m wit_signal_inputs = (Ok rs, m') \<and> fsm_state m' = Some Signaled"
    by (simp add: m wit_signal_inputs_def sig_apply_def machine_run sig_handlers sig_ops Let_def)
  then obtain rs m' where "run_inputs sig_apply m wit_signal_inputs = (Ok rs, m')"
    and "fsm_state m' = Some Signaled" by blast
  with signal_external_life [OF new, of wit_signal_inputs rs m' Signaled] new
  show ?thesis by (auto simp: wit_signal_def)
qed

end
