(* ===== verification/Cancel_External_Machine.thy ===== *)
theory Cancel_External_Machine
  imports Temporal_Machine
begin

text \<open>
  The machine for cancellation requests to other workflows
  (\<open>machines/cancel_external_state_machine.rs\<close>).
\<close>

section \<open>States, events, commands\<close>

datatype cext_state = Created | RequestCancelExternalCommandCreated
  | RequestCancelExternalCommandRecorded | CancelRequested | RequestCancelFailed

datatype cext_event = Schedule | CommandRequestCancelExternalWorkflowExecution
  | RequestCancelExternalWorkflowExecutionInitiated | ExternalWorkflowExecutionCancelRequested
  | RequestCancelExternalWorkflowExecutionFailed cancel_external_failed_cause

datatype cext_event_kind = EvSchedule | EvCommandRequestCancelExternalWorkflowExecution
  | EvRequestCancelExternalWorkflowExecutionInitiated | EvExternalWorkflowExecutionCancelRequested
  | EvRequestCancelExternalWorkflowExecutionFailed

primrec cext_event_name :: "cext_event \<Rightarrow> cext_event_kind" where
  "cext_event_name Schedule = EvSchedule"
| "cext_event_name CommandRequestCancelExternalWorkflowExecution =
     EvCommandRequestCancelExternalWorkflowExecution"
| "cext_event_name RequestCancelExternalWorkflowExecutionInitiated =
     EvRequestCancelExternalWorkflowExecutionInitiated"
| "cext_event_name ExternalWorkflowExecutionCancelRequested =
     EvExternalWorkflowExecutionCancelRequested"
| "cext_event_name (RequestCancelExternalWorkflowExecutionFailed c) =
     EvRequestCancelExternalWorkflowExecutionFailed"

datatype cext_command = Requested | Failed cancel_external_failed_cause

record cext_shared =
  cext_seq :: u32

type_synonym cext_machine = "(cext_state, cext_shared) fsm"
type_synonym cext_transition = "(cext_command, cext_state) transition_result"

definition cext_table :: "(cext_state, cext_event_kind) transition list" where
  "cext_table =
     [row Created EvSchedule (Some ''on_schedule'') False RequestCancelExternalCommandCreated,
      row RequestCancelExternalCommandCreated EvCommandRequestCancelExternalWorkflowExecution None
        False RequestCancelExternalCommandCreated,
      row RequestCancelExternalCommandCreated EvRequestCancelExternalWorkflowExecutionInitiated
        (Some ''on_request_cancel_external_workflow_execution_initiated'') False
        RequestCancelExternalCommandRecorded,
      row RequestCancelExternalCommandRecorded EvExternalWorkflowExecutionCancelRequested
        (Some ''on_external_workflow_execution_cancel_requested'') False CancelRequested,
      row RequestCancelExternalCommandRecorded EvRequestCancelExternalWorkflowExecutionFailed
        (Some ''on_request_cancel_external_workflow_execution_failed'') False RequestCancelFailed]"

section \<open>Handlers\<close>

definition cext_on_schedule :: cext_transition where
  "cext_on_schedule = tr_default RequestCancelExternalCommandCreated"

definition cext_on_initiated :: cext_transition where
  "cext_on_initiated = tr_default RequestCancelExternalCommandRecorded"

definition cext_on_cancel_requested :: cext_transition where
  "cext_on_cancel_requested = tr_commands CancelRequested [Requested]"

definition cext_on_failed :: "cancel_external_failed_cause \<Rightarrow> cext_transition" where
  "cext_on_failed cause = tr_commands RequestCancelFailed [Failed cause]"

lemmas cext_handlers = cext_on_schedule_def cext_on_initiated_def cext_on_cancel_requested_def
  cext_on_failed_def

primrec cext_step :: "(cext_state, cext_event, cext_shared, cext_command) step_fun" where
  "cext_step Created e d = (case e of Schedule \<Rightarrow> Some (cext_on_schedule, d) | _ \<Rightarrow> None)"
| "cext_step RequestCancelExternalCommandCreated e d =
     (case e of
        CommandRequestCancelExternalWorkflowExecution \<Rightarrow>
          Some (tr_from_state id RequestCancelExternalCommandCreated, d)
      | RequestCancelExternalWorkflowExecutionInitiated \<Rightarrow> Some (cext_on_initiated, d)
      | _ \<Rightarrow> None)"
| "cext_step RequestCancelExternalCommandRecorded e d =
     (case e of
        ExternalWorkflowExecutionCancelRequested \<Rightarrow> Some (cext_on_cancel_requested, d)
      | RequestCancelExternalWorkflowExecutionFailed c \<Rightarrow> Some (cext_on_failed c, d)
      | _ \<Rightarrow> None)"
| "cext_step CancelRequested e d = None"
| "cext_step RequestCancelFailed e d = None"

section \<open>Operations\<close>

definition new_external_cancel ::
  "u32 \<Rightarrow> namespaced_workflow_execution \<Rightarrow> bool \<Rightarrow> string \<Rightarrow>
   (cext_machine \<times> command_attributes) outcome" where
  "new_external_cancel seq we only_child reason =
     (case on_event cext_step (from_parts Created \<lparr>cext_seq = seq\<rparr>) Schedule of
        (Cmds _, s) \<Rightarrow>
          Ok (s, RequestCancelExternalWorkflowExecutionCommandAttributes
            \<lparr>rce_namespace = nwe_namespace we, rce_workflow_id = nwe_workflow_id we,
             rce_run_id = nwe_run_id we, rce_control = [], rce_child_workflow_only = only_child,
             rce_reason = reason\<rparr>)
      | _ \<Rightarrow> Panic ''Scheduling cancel external wf command doesn't fail'')"

definition cext_try_from_command :: "command_type \<Rightarrow> cext_event option" where
  "cext_try_from_command c =
     (if c = CT_RequestCancelExternalWorkflowExecution
      then Some CommandRequestCancelExternalWorkflowExecution else None)"

definition cext_try_from_event :: "hist_event_data \<Rightarrow> cext_event outcome" where
  "cext_try_from_event ed =
     (let e = hed_event ed in
      if event_type_of e = ET_ExternalWorkflowExecutionCancelRequested then
        Ok ExternalWorkflowExecutionCancelRequested
      else if event_type_of e = ET_RequestCancelExternalWorkflowExecutionInitiated then
        Ok RequestCancelExternalWorkflowExecutionInitiated
      else if event_type_of e = ET_RequestCancelExternalWorkflowExecutionFailed then
        (case attrs_request_cancel_external_workflow_execution_failed e of
           Some (cause, _) \<Rightarrow>
             Ok (RequestCancelExternalWorkflowExecutionFailed (cancel_external_failed_cause_get cause))
         | None \<Rightarrow> Err (Fatal ''Cancelworkflow failed attributes were unset''))
      else Err (Nondeterminism ''Cancel external WF machine does not handle this event''))"

primrec cext_cause_reason :: "cancel_external_failed_cause \<Rightarrow> string" where
  "cext_cause_reason CEF_Unspecified = ''unknown''"
| "cext_cause_reason CEF_ExternalWorkflowExecutionNotFound = ''not found''"
| "cext_cause_reason CEF_NamespaceNotFound = ''not found''"

text \<open>\<open>f.to_string()\<close> on the cause.\<close>

primrec cext_cause_name :: "cancel_external_failed_cause \<Rightarrow> string" where
  "cext_cause_name CEF_Unspecified = ''Unspecified''"
| "cext_cause_name CEF_ExternalWorkflowExecutionNotFound = ''ExternalWorkflowExecutionNotFound''"
| "cext_cause_name CEF_NamespaceNotFound = ''NamespaceNotFound''"

definition cext_adapt_response ::
  "cext_machine \<Rightarrow> cext_command \<Rightarrow> event_info option \<Rightarrow> machine_response list outcome" where
  "cext_adapt_response m cmd ei =
     (let seq = cext_seq (fsm_shared m) in
      case cmd of
        Requested \<Rightarrow> Ok [PushWFJob (ResolveRequestCancelExternalWorkflow seq None)]
      | Failed f \<Rightarrow>
          Ok [PushWFJob (ResolveRequestCancelExternalWorkflow seq
            (Some (mk_failure (''Unable to cancel external workflow because '' @ cext_cause_reason f)
                     None (Some (ApplicationFailureInfo (cext_cause_name f) False)))))])"

lemmas cext_ops = cext_try_from_command_def cext_try_from_event_def cext_adapt_response_def

section \<open>Conformance to the table\<close>

lemma cext_conforms: "fsm_conforms cext_table (\<lambda>s. s) cext_event_name cext_step"
proof
  show "cext_step s e d = None \<longleftrightarrow> dests cext_table s (cext_event_name e) = []" for s e d
    by (cases s; cases e; simp add: fsm_tables cext_table_def)
next
  show "s' \<in> set (dests cext_table s (cext_event_name e))"
    if "cext_step s e d = Some (TOk cs s', d')" for s e d cs s' d'
    using that
    by (cases s; cases e; (simp; fail)?; simp add: fsm_tables cext_table_def cext_handlers
        transition_results)
next
  show "cext_step s e d \<noteq> Some (InvalidTransition, d')" for s e d d'
    by (cases s; cases e; simp add: cext_handlers transition_results)
next
  show "d' = d" if "cext_step s e d = Some (r, d')" for s e d r d'
    using that by (cases s; cases e; simp)
qed

lemma cext_convert_no_panic: "\<not> is_panic (cext_try_from_event ed)"
  by (simp add: cext_try_from_event_def Let_def split: option.splits)

lemma cext_adapt_no_panic: "\<not> is_panic (cext_adapt_response m c ei)"
  by (cases c) (simp_all add: cext_adapt_response_def Let_def)

interpretation cancel_external: temporal_machine cext_table "\<lambda>s. s" cext_event_name cext_step
  cext_try_from_command cext_try_from_event cext_adapt_response
  by (intro temporal_machine.intro temporal_machine_axioms.intro cext_conforms
      cext_convert_no_panic cext_adapt_no_panic)

section \<open>A cancellation request over its whole life\<close>

definition cext_apply ::
  "cext_machine \<Rightarrow> string machine_input \<Rightarrow> machine_response list outcome \<times> cext_machine" where
  "cext_apply =
     apply_input cext_try_from_command cext_try_from_event cext_step cext_adapt_response no_cancel"

definition cext_told :: "u32 \<Rightarrow> cext_machine \<Rightarrow> machine_response list \<Rightarrow> bool" where
  "cext_told seq m acc \<longleftrightarrow>
     cext_seq (fsm_shared m) = seq \<and>
     (case fsm_state m of
        None \<Rightarrow> False
      | Some s \<Rightarrow>
          if s = CancelRequested
          then acc = [PushWFJob (ResolveRequestCancelExternalWorkflow seq None)]
          else if s = RequestCancelFailed
          then \<exists>f. acc = [PushWFJob (ResolveRequestCancelExternalWorkflow seq (Some f))]
          else acc = [])"

lemma cext_step_told:
  assumes "cext_told seq m acc" "fsm_state m = Some s"
    "cext_step s e (fsm_shared m) = Some (TOk cs s', d')"
    "omap_concat (\<lambda>c. cext_adapt_response \<lparr>fsm_state = Some s', fsm_shared = d'\<rparr> c ei) cs = Ok rs"
  shows "cext_told seq \<lparr>fsm_state = Some s', fsm_shared = d'\<rparr> (acc @ rs)"
  using assms
  by (cases s; cases e; (simp; fail)?; auto simp: cext_told_def cext_handlers transition_results
      cext_adapt_response_def Let_def)

lemma cext_told_state: "cext_told seq m acc \<Longrightarrow> fsm_state m \<noteq> None"
  by (auto simp: cext_told_def split: option.splits)

lemma cext_step_no_panic: "cext_step s e d \<noteq> Some (TPanic p, d')"
  by (cases s; cases e; simp add: cext_handlers transition_results)

lemma new_external_cancel_eq:
  "\<exists>cmd. new_external_cancel seq we oc reason =
     Ok (\<lparr>fsm_state = Some RequestCancelExternalCommandCreated, fsm_shared = \<lparr>cext_seq = seq\<rparr>\<rparr>, cmd)"
  by (simp add: new_external_cancel_def on_event_def from_parts_def cext_handlers transition_results)

text \<open>
  C34: Whatever sequence of history events and echoed commands reaches a request to cancel another
  workflow, it never panics, and when no error is met the language layer is sent exactly one
  resolution once the server has answered (a failure exactly when the request failed) and none
  before.
\<close>

theorem cancel_external_life:
  assumes "new_external_cancel seq we oc reason = Ok (m, cmd)"
  shows "\<not> is_panic (fst (run_inputs cext_apply m is)) \<and>
    (run_inputs cext_apply m is = (Ok rs, m') \<longrightarrow> fsm_state m' = Some s \<longrightarrow>
       (if s = CancelRequested
        then rs = [PushWFJob (ResolveRequestCancelExternalWorkflow seq None)]
        else if s = RequestCancelFailed
        then \<exists>f. rs = [PushWFJob (ResolveRequestCancelExternalWorkflow seq (Some f))]
        else rs = []))"
proof -
  have "cext_told seq m []"
    using new_external_cancel_eq [of seq we oc reason] assms by (auto simp: cext_told_def)
  then have "\<not> is_panic (fst (run_inputs cext_apply m is)) \<and>
    (run_inputs cext_apply m is = (Ok rs, m') \<longrightarrow> cext_told seq m' rs)"
    unfolding cext_apply_def
    by (rule cancel_external.run_life)
      (erule (3) cext_step_told, erule (1) no_cancel_told, erule cext_told_state,
       rule cext_step_no_panic, rule no_cancel_no_panic)
  then show ?thesis by (auto simp: cext_told_def)
qed

definition wit_cancel_inputs :: "string machine_input list" where
  "wit_cancel_inputs =
     [InCommand CT_RequestCancelExternalWorkflowExecution,
      InEvent (mk_event 5 22 RequestCancelExternalWorkflowExecutionInitiatedEventAttributes),
      InEvent (mk_event 6 23 (RequestCancelExternalWorkflowExecutionFailedEventAttributes 1 5))]"

theorem cancel_external_life_witness:
  "\<exists>m cmd f m'. new_external_cancel 4
       \<lparr>nwe_namespace = ''n'', nwe_workflow_id = ''w'', nwe_run_id = ''r''\<rparr> False [] = Ok (m, cmd) \<and>
     run_inputs cext_apply m wit_cancel_inputs =
       (Ok [PushWFJob (ResolveRequestCancelExternalWorkflow 4 (Some f))], m')"
proof -
  let ?we = "\<lparr>nwe_namespace = ''n'', nwe_workflow_id = ''w'', nwe_run_id = ''r''\<rparr>"
  define m :: cext_machine where
    "m = \<lparr>fsm_state = Some RequestCancelExternalCommandCreated, fsm_shared = \<lparr>cext_seq = 4\<rparr>\<rparr>"
  obtain cmd where new: "new_external_cancel 4 ?we False [] = Ok (m, cmd)"
    using new_external_cancel_eq [of 4 ?we False "[]"] by (auto simp: m_def)
  have "\<exists>rs m'. run_inputs cext_apply m wit_cancel_inputs = (Ok rs, m') \<and>
      fsm_state m' = Some RequestCancelFailed"
    by (simp add: m_def wit_cancel_inputs_def cext_apply_def machine_run cext_handlers cext_ops Let_def)
  then obtain rs m' where "run_inputs cext_apply m wit_cancel_inputs = (Ok rs, m')"
    and "fsm_state m' = Some RequestCancelFailed" by blast
  with cancel_external_life [OF new, of wit_cancel_inputs rs m' RequestCancelFailed] new
  show ?thesis by auto
qed

end
