(* ===== verification/Nexus_Operation_Machine.thy ===== *)
theory Nexus_Operation_Machine
  imports Temporal_Machine
begin

text \<open>
  The Nexus operation machine (\<open>machines/nexus_operation_state_machine.rs\<close>).
\<close>

section \<open>States, events, commands\<close>

datatype nexus_state = ScheduleCommandCreated | ScheduledEventRecorded | Started
  | Completed | Failed | TimedOut | Cancelled

datatype nexus_event = CommandScheduleNexusOperation | NexusOperationScheduled event_id | Cancel
  | CommandRequestCancelNexusOperation | NexusOperationCancelRequested
  | NexusOperationCompleted nexus_completed_attrs | NexusOperationFailed nexus_ended_attrs
  | NexusOperationCanceled nexus_ended_attrs | NexusOperationTimedOut nexus_ended_attrs
  | NexusOperationStarted nexus_started_attrs

datatype nexus_event_kind = EvCommandScheduleNexusOperation | EvNexusOperationScheduled | EvCancel
  | EvCommandRequestCancelNexusOperation | EvNexusOperationCancelRequested
  | EvNexusOperationCompleted | EvNexusOperationFailed | EvNexusOperationCanceled
  | EvNexusOperationTimedOut | EvNexusOperationStarted

primrec nexus_event_name :: "nexus_event \<Rightarrow> nexus_event_kind" where
  "nexus_event_name CommandScheduleNexusOperation = EvCommandScheduleNexusOperation"
| "nexus_event_name (NexusOperationScheduled i) = EvNexusOperationScheduled"
| "nexus_event_name Cancel = EvCancel"
| "nexus_event_name CommandRequestCancelNexusOperation = EvCommandRequestCancelNexusOperation"
| "nexus_event_name NexusOperationCancelRequested = EvNexusOperationCancelRequested"
| "nexus_event_name (NexusOperationCompleted a) = EvNexusOperationCompleted"
| "nexus_event_name (NexusOperationFailed a) = EvNexusOperationFailed"
| "nexus_event_name (NexusOperationCanceled a) = EvNexusOperationCanceled"
| "nexus_event_name (NexusOperationTimedOut a) = EvNexusOperationTimedOut"
| "nexus_event_name (NexusOperationStarted a) = EvNexusOperationStarted"

datatype nexus_command = Start string | CancelBeforeStart | Complete "payload option"
  | Fail failure | Cancel_cmd failure | TimedOut_cmd failure | IssueCancel

record nexus_shared =
  nx_lang_seq_num :: u32
  nx_scheduled_event_id :: event_id
  nx_endpoint :: string
  nx_service :: string
  nx_operation :: string
  nx_cancelled_before_sent :: bool
  nx_cancel_sent :: bool

type_synonym nexus_machine = "(nexus_state, nexus_shared) fsm"
type_synonym nexus_transition = "(nexus_command, nexus_state) transition_result"

definition nexus_table :: "(nexus_state, nexus_event_kind) transition list" where
  "nexus_table =
     [row ScheduleCommandCreated EvCommandScheduleNexusOperation None False ScheduleCommandCreated,
      row ScheduleCommandCreated EvNexusOperationScheduled (Some ''on_scheduled'') True
        ScheduledEventRecorded,
      row ScheduleCommandCreated EvCancel (Some ''on_cancelled'') True Cancelled,
      row ScheduledEventRecorded EvCancel (Some ''on_issue_cancel'') True ScheduledEventRecorded,
      row ScheduledEventRecorded EvCommandRequestCancelNexusOperation None False
        ScheduledEventRecorded,
      row ScheduledEventRecorded EvNexusOperationCancelRequested None False ScheduledEventRecorded,
      row ScheduledEventRecorded EvNexusOperationCompleted (Some ''on_completed'') False Completed,
      row ScheduledEventRecorded EvNexusOperationFailed (Some ''on_failed'') False Failed,
      row ScheduledEventRecorded EvNexusOperationCanceled (Some ''on_canceled'') False Cancelled,
      row ScheduledEventRecorded EvNexusOperationTimedOut (Some ''on_timed_out'') False TimedOut,
      row ScheduledEventRecorded EvNexusOperationStarted (Some ''on_started'') False Started,
      row Started EvCancel (Some ''on_issue_cancel'') True Started,
      row Started EvCommandRequestCancelNexusOperation None False Started,
      row Started EvNexusOperationCancelRequested None False Started,
      row Started EvNexusOperationCompleted (Some ''on_completed'') False Completed,
      row Started EvNexusOperationFailed (Some ''on_failed'') False Failed,
      row Started EvNexusOperationCanceled (Some ''on_canceled'') False Cancelled,
      row Started EvNexusOperationTimedOut (Some ''on_timed_out'') False TimedOut,
      row Completed EvCancel None False Completed,
      row Failed EvCancel None False Failed,
      row Cancelled EvCancel None False Cancelled,
      row TimedOut EvCancel None False TimedOut]"

section \<open>Handlers\<close>

definition nexus_on_scheduled ::
  "nexus_shared \<Rightarrow> event_id \<Rightarrow> nexus_transition \<times> nexus_shared" where
  "nexus_on_scheduled state eid =
     (tr_default ScheduledEventRecorded, state\<lparr>nx_scheduled_event_id := eid\<rparr>)"

definition nexus_on_cancelled :: "nexus_shared \<Rightarrow> nexus_transition \<times> nexus_shared" where
  "nexus_on_cancelled state =
     (tr_commands Cancelled [CancelBeforeStart], state\<lparr>nx_cancelled_before_sent := True\<rparr>)"

definition nexus_scheduled_on_issue_cancel ::
  "nexus_shared \<Rightarrow> nexus_transition \<times> nexus_shared" where
  "nexus_scheduled_on_issue_cancel ss =
     (if \<not> nx_cancel_sent ss
      then (tr_commands ScheduledEventRecorded [IssueCancel], ss\<lparr>nx_cancel_sent := True\<rparr>)
      else (tr_default ScheduledEventRecorded, ss))"

definition nexus_failure_or :: "string \<Rightarrow> failure option \<Rightarrow> failure" where
  "nexus_failure_or msg f = opt_default (mk_failure msg None None) f"

definition nexus_scheduled_on_completed :: "nexus_completed_attrs \<Rightarrow> nexus_transition" where
  "nexus_scheduled_on_completed ca = tr_commands Completed [Start [], Complete (ncm_result ca)]"

definition nexus_scheduled_on_failed :: "nexus_ended_attrs \<Rightarrow> nexus_transition" where
  "nexus_scheduled_on_failed fa =
     tr_commands Failed [Start [], Fail (nexus_failure_or
       ''Nexus operation failed but failure field was not populated'' (nen_failure fa))]"

definition nexus_scheduled_on_canceled :: "nexus_ended_attrs \<Rightarrow> nexus_transition" where
  "nexus_scheduled_on_canceled ca =
     tr_commands Cancelled [Start [], Cancel_cmd (nexus_failure_or
       ''Nexus operation was cancelled but failure field was not populated'' (nen_failure ca))]"

definition nexus_scheduled_on_timed_out :: "nexus_ended_attrs \<Rightarrow> nexus_transition" where
  "nexus_scheduled_on_timed_out toa =
     tr_commands TimedOut [Start [], TimedOut_cmd (nexus_failure_or
       ''Nexus operation timed out but failure field was not populated'' (nen_failure toa))]"

definition nexus_on_started :: "nexus_started_attrs \<Rightarrow> nexus_transition" where
  "nexus_on_started sa = tr_commands Started [Start (nst_operation_id sa)]"

definition nexus_started_on_issue_cancel :: "nexus_shared \<Rightarrow> nexus_transition \<times> nexus_shared" where
  "nexus_started_on_issue_cancel ss =
     (if \<not> nx_cancel_sent ss
      then (tr_commands Started [IssueCancel], ss\<lparr>nx_cancel_sent := True\<rparr>)
      else (tr_default Started, ss))"

definition nexus_started_on_completed :: "nexus_completed_attrs \<Rightarrow> nexus_transition" where
  "nexus_started_on_completed ca = tr_commands Completed [Complete (ncm_result ca)]"

definition nexus_started_on_failed :: "nexus_ended_attrs \<Rightarrow> nexus_transition" where
  "nexus_started_on_failed fa =
     tr_commands Failed [Fail (nexus_failure_or
       ''Nexus operation failed but failure field was not populated'' (nen_failure fa))]"

definition nexus_started_on_canceled :: "nexus_ended_attrs \<Rightarrow> nexus_transition" where
  "nexus_started_on_canceled ca =
     tr_commands Cancelled [Cancel_cmd (nexus_failure_or
       ''Nexus operation was cancelled but failure field was not populated'' (nen_failure ca))]"

definition nexus_started_on_timed_out :: "nexus_ended_attrs \<Rightarrow> nexus_transition" where
  "nexus_started_on_timed_out toa =
     tr_commands TimedOut [TimedOut_cmd (nexus_failure_or
       ''Nexus operation timed out but failure field was not populated'' (nen_failure toa))]"

lemmas nexus_handlers = nexus_on_scheduled_def nexus_on_cancelled_def
  nexus_scheduled_on_issue_cancel_def nexus_scheduled_on_completed_def nexus_scheduled_on_failed_def
  nexus_scheduled_on_canceled_def nexus_scheduled_on_timed_out_def nexus_on_started_def
  nexus_started_on_issue_cancel_def nexus_started_on_completed_def nexus_started_on_failed_def
  nexus_started_on_canceled_def nexus_started_on_timed_out_def

primrec nexus_step :: "(nexus_state, nexus_event, nexus_shared, nexus_command) step_fun" where
  "nexus_step ScheduleCommandCreated e d =
     (case e of
        CommandScheduleNexusOperation \<Rightarrow> Some (tr_from_state id ScheduleCommandCreated, d)
      | NexusOperationScheduled i \<Rightarrow> Some (nexus_on_scheduled d i)
      | Cancel \<Rightarrow> Some (nexus_on_cancelled d)
      | _ \<Rightarrow> None)"
| "nexus_step ScheduledEventRecorded e d =
     (case e of
        Cancel \<Rightarrow> Some (nexus_scheduled_on_issue_cancel d)
      | CommandRequestCancelNexusOperation \<Rightarrow> Some (tr_from_state id ScheduledEventRecorded, d)
      | NexusOperationCancelRequested \<Rightarrow> Some (tr_from_state id ScheduledEventRecorded, d)
      | NexusOperationCompleted a \<Rightarrow> Some (nexus_scheduled_on_completed a, d)
      | NexusOperationFailed a \<Rightarrow> Some (nexus_scheduled_on_failed a, d)
      | NexusOperationCanceled a \<Rightarrow> Some (nexus_scheduled_on_canceled a, d)
      | NexusOperationTimedOut a \<Rightarrow> Some (nexus_scheduled_on_timed_out a, d)
      | NexusOperationStarted a \<Rightarrow> Some (nexus_on_started a, d)
      | _ \<Rightarrow> None)"
| "nexus_step Started e d =
     (case e of
        Cancel \<Rightarrow> Some (nexus_started_on_issue_cancel d)
      | CommandRequestCancelNexusOperation \<Rightarrow> Some (tr_from_state id Started, d)
      | NexusOperationCancelRequested \<Rightarrow> Some (tr_from_state id Started, d)
      | NexusOperationCompleted a \<Rightarrow> Some (nexus_started_on_completed a, d)
      | NexusOperationFailed a \<Rightarrow> Some (nexus_started_on_failed a, d)
      | NexusOperationCanceled a \<Rightarrow> Some (nexus_started_on_canceled a, d)
      | NexusOperationTimedOut a \<Rightarrow> Some (nexus_started_on_timed_out a, d)
      | _ \<Rightarrow> None)"
| "nexus_step Completed e d = (case e of Cancel \<Rightarrow> Some (tr_from_state id Completed, d) | _ \<Rightarrow> None)"
| "nexus_step Failed e d = (case e of Cancel \<Rightarrow> Some (tr_from_state id Failed, d) | _ \<Rightarrow> None)"
| "nexus_step TimedOut e d = (case e of Cancel \<Rightarrow> Some (tr_from_state id TimedOut, d) | _ \<Rightarrow> None)"
| "nexus_step Cancelled e d = (case e of Cancel \<Rightarrow> Some (tr_from_state id Cancelled, d) | _ \<Rightarrow> None)"

section \<open>Operations\<close>

definition nexus_new_scheduled :: "schedule_nexus_operation \<Rightarrow> nexus_machine \<times> command_attributes" where
  "nexus_new_scheduled attribs =
     (from_parts ScheduleCommandCreated
        \<lparr>nx_lang_seq_num = sno_seq attribs, nx_scheduled_event_id = 0,
         nx_endpoint = sno_endpoint attribs, nx_service = sno_service attribs,
         nx_operation = sno_operation attribs, nx_cancelled_before_sent = False,
         nx_cancel_sent = False\<rparr>,
      schedule_nexus_operation_attrs attribs)"

definition nexus_cancelled_failure :: "nexus_machine \<Rightarrow> string \<Rightarrow> failure" where
  "nexus_cancelled_failure m message =
     mk_failure message (Some (mk_failure [] None (Some (CanceledFailureInfo None))))
       (Some (NexusOperationExecutionFailureInfo (nx_scheduled_event_id (fsm_shared m))
          (nx_endpoint (fsm_shared m)) (nx_service (fsm_shared m)) (nx_operation (fsm_shared m)) []))"

definition nexus_adapt_response ::
  "nexus_machine \<Rightarrow> nexus_command \<Rightarrow> event_info option \<Rightarrow> machine_response list outcome" where
  "nexus_adapt_response m cmd ei =
     (let seq = nx_lang_seq_num (fsm_shared m);
          before = nexus_cancelled_failure m ''Nexus Operation cancelled before scheduled''
      in case cmd of
        Start operation_id \<Rightarrow>
          Ok [PushWFJob (ResolveNexusOperationStart seq (Some (NSS_OperationId operation_id)))]
      | CancelBeforeStart \<Rightarrow>
          Ok [PushWFJob (ResolveNexusOperationStart seq (Some (NSS_CancelledBeforeStart before))),
              PushWFJob (ResolveNexusOperation seq (Some (NRS_Cancelled before)))]
      | Complete c \<Rightarrow>
          Ok [PushWFJob (ResolveNexusOperation seq (Some (NRS_Completed (opt_default payload_default c))))]
      | Fail f \<Rightarrow> Ok [PushWFJob (ResolveNexusOperation seq (Some (NRS_Failed f)))]
      | Cancel_cmd f \<Rightarrow> Ok [PushWFJob (ResolveNexusOperation seq (Some (NRS_Cancelled f)))]
      | TimedOut_cmd f \<Rightarrow> Ok [PushWFJob (ResolveNexusOperation seq (Some (NRS_TimedOut f)))]
      | IssueCancel \<Rightarrow>
          issue_command (RequestCancelNexusOperationCommandAttributes
            (nx_scheduled_event_id (fsm_shared m))))"

definition nexus_cancel :: "nexus_machine \<Rightarrow> machine_response list outcome \<times> nexus_machine" where
  "nexus_cancel m = run_and_map nexus_step (\<lambda>m' mc. nexus_adapt_response m' mc None) m Cancel"

definition nexus_was_cancelled_before_sent :: "nexus_machine \<Rightarrow> bool" where
  "nexus_was_cancelled_before_sent m = nx_cancelled_before_sent (fsm_shared m)"

definition is_nexus_operation_scheduled :: "history_event \<Rightarrow> bool" where
  "is_nexus_operation_scheduled e =
     (case he_attributes e of Some NexusOperationScheduledEventAttributes \<Rightarrow> True | _ \<Rightarrow> False)"

definition nexus_try_from_event :: "hist_event_data \<Rightarrow> nexus_event outcome" where
  "nexus_try_from_event ed =
     (let e = hed_event ed in
      case event_type_try_from (he_event_type e) of
        None \<Rightarrow> Err (Nondeterminism ''Nexus operation machine does not handle this event'')
      | Some et \<Rightarrow>
      if et = ET_NexusOperationScheduled then
        (if is_nexus_operation_scheduled e then Ok (NexusOperationScheduled (he_event_id e))
         else Err (Nondeterminism ''NexusOperationScheduled attributes were unset or malformed''))
      else if et = ET_NexusOperationStarted then
        (case attrs_nexus_operation_started e of
           Some sa \<Rightarrow> Ok (NexusOperationStarted sa)
         | None \<Rightarrow> Err (Nondeterminism ''NexusOperationStarted attributes were unset or malformed''))
      else if et = ET_NexusOperationCompleted then
        (case attrs_nexus_operation_completed e of
           Some ca \<Rightarrow> Ok (NexusOperationCompleted ca)
         | None \<Rightarrow> Err (Nondeterminism ''NexusOperationCompleted attributes were unset or malformed''))
      else if et = ET_NexusOperationFailed then
        (case attrs_nexus_operation_failed e of
           Some fa \<Rightarrow> Ok (NexusOperationFailed fa)
         | None \<Rightarrow> Err (Nondeterminism ''NexusOperationFailed attributes were unset or malformed''))
      else if et = ET_NexusOperationCanceled then
        (case attrs_nexus_operation_canceled e of
           Some ca \<Rightarrow> Ok (NexusOperationCanceled ca)
         | None \<Rightarrow> Err (Nondeterminism ''NexusOperationCanceled attributes were unset or malformed''))
      else if et = ET_NexusOperationTimedOut then
        (case attrs_nexus_operation_timed_out e of
           Some toa \<Rightarrow> Ok (NexusOperationTimedOut toa)
         | None \<Rightarrow> Err (Nondeterminism ''NexusOperationTimedOut attributes were unset or malformed''))
      else if et = ET_NexusOperationCancelRequested then Ok NexusOperationCancelRequested
      else Err (Nondeterminism ''Nexus operation machine does not handle this event''))"

definition nexus_try_from_command :: "command_type \<Rightarrow> nexus_event option" where
  "nexus_try_from_command c =
     (if c = CT_ScheduleNexusOperation then Some CommandScheduleNexusOperation
      else if c = CT_RequestCancelNexusOperation then Some CommandRequestCancelNexusOperation
      else None)"

lemmas nexus_ops = nexus_adapt_response_def nexus_cancel_def nexus_try_from_event_def
  nexus_try_from_command_def

section \<open>Conformance to the table\<close>

lemma nexus_conforms: "fsm_conforms nexus_table (\<lambda>s. s) nexus_event_name nexus_step"
proof
  show "nexus_step s e d = None \<longleftrightarrow> dests nexus_table s (nexus_event_name e) = []" for s e d
    by (cases s; cases e; simp add: fsm_tables nexus_table_def)
next
  show "s' \<in> set (dests nexus_table s (nexus_event_name e))"
    if "nexus_step s e d = Some (TOk cs s', d')" for s e d cs s' d'
    using that
    by (cases s; cases e; (simp; fail)?; simp add: fsm_tables nexus_table_def nexus_handlers
        transition_results split: if_splits)
next
  show "nexus_step s e d \<noteq> Some (InvalidTransition, d')" for s e d d'
    by (cases s; cases e; simp add: nexus_handlers transition_results)
next
  show "d' = d" if "nexus_step s e d = Some (r, d')"
    and "\<not> mutating_row nexus_table s (nexus_event_name e)" for s e d r d'
    using that by (cases s; cases e; (simp; fail)?; simp add: fsm_tables nexus_table_def)
qed

lemma nexus_convert_no_panic: "\<not> is_panic (nexus_try_from_event ed)"
  by (simp add: nexus_try_from_event_def Let_def split: option.splits)

lemma nexus_adapt_no_panic: "\<not> is_panic (nexus_adapt_response m c ei)"
  by (cases c) (simp_all add: nexus_adapt_response_def Let_def)

interpretation nexus: temporal_machine nexus_table "\<lambda>s. s" nexus_event_name nexus_step
  nexus_try_from_command nexus_try_from_event nexus_adapt_response
  by (intro temporal_machine.intro temporal_machine_axioms.intro nexus_conforms
      nexus_convert_no_panic nexus_adapt_no_panic)

section \<open>A Nexus operation over its whole life\<close>

definition nexus_apply ::
  "nexus_machine \<Rightarrow> string machine_input \<Rightarrow> machine_response list outcome \<times> nexus_machine" where
  "nexus_apply =
     apply_input nexus_try_from_command nexus_try_from_event nexus_step nexus_adapt_response
       (\<lambda>_. nexus_cancel)"

text \<open>The start and the result the language layer has been sent, by state.\<close>

definition nexus_jobs_ok :: "nexus_state \<Rightarrow> u32 \<Rightarrow> bool \<Rightarrow> job_variant list \<Rightarrow> bool" where
  "nexus_jobs_ok s seq before jobs \<longleftrightarrow>
     (case s of
        ScheduleCommandCreated \<Rightarrow> jobs = []
      | ScheduledEventRecorded \<Rightarrow> jobs = []
      | Started \<Rightarrow> (\<exists>i. jobs = [ResolveNexusOperationStart seq (Some (NSS_OperationId i))])
      | Cancelled \<Rightarrow>
          (\<exists>st f. jobs = [ResolveNexusOperationStart seq (Some st),
             ResolveNexusOperation seq (Some (NRS_Cancelled f))] \<and>
             (before \<longleftrightarrow> (\<exists>f. st = NSS_CancelledBeforeStart f)))
      | _ \<Rightarrow>
          (\<exists>i r. jobs = [ResolveNexusOperationStart seq (Some (NSS_OperationId i)),
             ResolveNexusOperation seq (Some r)]))"

definition nexus_told :: "u32 \<Rightarrow> nexus_machine \<Rightarrow> machine_response list \<Rightarrow> bool" where
  "nexus_told seq m acc \<longleftrightarrow>
     nx_lang_seq_num (fsm_shared m) = seq \<and>
     length (issued_commands acc) = (if nx_cancel_sent (fsm_shared m) then 1 else 0) \<and>
     (nx_cancel_sent (fsm_shared m) \<longrightarrow> issued_commands acc =
        [mk_command CT_RequestCancelNexusOperation
          (RequestCancelNexusOperationCommandAttributes (nx_scheduled_event_id (fsm_shared m)))]) \<and>
     (case fsm_state m of
        None \<Rightarrow> False
      | Some s \<Rightarrow>
          nexus_jobs_ok s seq (nx_cancelled_before_sent (fsm_shared m)) (pushed_jobs acc) \<and>
          (nx_cancelled_before_sent (fsm_shared m) \<longrightarrow> s = Cancelled \<and> \<not> nx_cancel_sent (fsm_shared m)) \<and>
          (s = ScheduleCommandCreated \<longrightarrow> \<not> nx_cancel_sent (fsm_shared m)))"

lemmas nexus_told_defs = nexus_told_def nexus_jobs_ok_def

lemma nexus_step_told:
  assumes "nexus_told seq m acc" "fsm_state m = Some s"
    "nexus_step s e (fsm_shared m) = Some (TOk cs s', d')"
    "omap_concat (\<lambda>c. nexus_adapt_response \<lparr>fsm_state = Some s', fsm_shared = d'\<rparr> c ei) cs = Ok rs"
  shows "nexus_told seq \<lparr>fsm_state = Some s', fsm_shared = d'\<rparr> (acc @ rs)"
  using assms
  by (cases s; cases e; (simp; fail)?; auto simp: nexus_told_defs nexus_handlers transition_results
      nexus_adapt_response_def Let_def split: if_splits)

lemma nexus_cancel_told:
  assumes "nexus_told seq m acc" and "nexus_cancel m = (Ok rs, m')"
  shows "nexus_told seq m' (acc @ rs)"
  using assms(2) unfolding nexus_cancel_def
  by (rule nexus.run_and_map_step) (auto intro: nexus_step_told [OF assms(1)])

lemma nexus_told_state: "nexus_told seq m acc \<Longrightarrow> fsm_state m \<noteq> None"
  by (auto simp: nexus_told_def split: option.splits)

lemma nexus_step_no_panic: "nexus_step s e d \<noteq> Some (TPanic p, d')"
  by (cases s; cases e; simp add: nexus_handlers transition_results)

lemma nexus_cancel_no_panic:
  assumes "nexus_told seq m acc"
  shows "\<not> is_panic (fst (nexus_cancel m))"
proof -
  from nexus_told_state [OF assms] obtain s where "fsm_state m = Some s" by blast
  then show ?thesis unfolding nexus_cancel_def
    using nexus_step_no_panic nexus_adapt_no_panic by (rule run_and_map_no_panic)
qed

text \<open>
  Whether a request for cancellation meets the operation between its scheduled event and its end.
\<close>

fun cancel_asked :: "nexus_machine \<Rightarrow> string machine_input list \<Rightarrow> bool" where
  "cancel_asked m [] \<longleftrightarrow> False"
| "cancel_asked m (i # is) \<longleftrightarrow>
     (case i of
        InRequest _ \<Rightarrow> fsm_state m = Some ScheduledEventRecorded \<or> fsm_state m = Some Started
      | _ \<Rightarrow> False) \<or>
     cancel_asked (snd (nexus_apply m i)) is"

lemma nexus_apply_cancel_sent:
  assumes "nexus_apply m i = (Ok rs, m')"
  shows "nx_cancel_sent (fsm_shared m') \<longleftrightarrow> nx_cancel_sent (fsm_shared m) \<or>
    (case i of
       InRequest _ \<Rightarrow> fsm_state m = Some ScheduledEventRecorded \<or> fsm_state m = Some Started
     | _ \<Rightarrow> False)"
proof -
  have other: "nx_cancel_sent d' = nx_cancel_sent d"
    if "nexus_step s e d = Some (TOk cs s', d')" "e \<noteq> Cancel" for s e d cs s' d'
    using that by (cases s; cases e; (simp; fail)?; auto simp: nexus_handlers transition_results)
  show ?thesis
  proof (cases i)
    case (InEvent ed)
    with assms have "handle_event nexus_try_from_event nexus_step nexus_adapt_response m ed = (Ok rs, m')"
      by (simp add: nexus_apply_def apply_input_def)
    then show ?thesis
    proof (rule handle_event_OkE)
      fix e s cs s' d'
      assume 1: "nexus_try_from_event ed = Ok e" "nexus_step s e (fsm_shared m) = Some (TOk cs s', d')"
        "m' = \<lparr>fsm_state = Some s', fsm_shared = d'\<rparr>"
      then have "e \<noteq> Cancel"
        by (auto simp: nexus_try_from_event_def Let_def split: if_splits option.splits)
      with 1 other InEvent show ?thesis by simp
    qed
  next
    case (InCommand ct)
    with assms have "handle_command nexus_try_from_command nexus_step nexus_adapt_response m ct = (Ok rs, m')"
      by (simp add: nexus_apply_def apply_input_def)
    then show ?thesis
    proof (rule handle_command_OkE)
      fix e s cs s' d'
      assume 1: "nexus_try_from_command ct = Some e" "nexus_step s e (fsm_shared m) = Some (TOk cs s', d')"
        "m' = \<lparr>fsm_state = Some s', fsm_shared = d'\<rparr>"
      then have "e \<noteq> Cancel" by (auto simp: nexus_try_from_command_def split: if_splits)
      with 1 other InCommand show ?thesis by simp
    qed
  next
    case (InRequest r)
    with assms have "nexus_cancel m = (Ok rs, m')" by (simp add: nexus_apply_def apply_input_def)
    then show ?thesis
      unfolding nexus_cancel_def
    proof (rule run_and_map_OkE)
      fix s cs s' d'
      assume "fsm_state m = Some s" "nexus_step s Cancel (fsm_shared m) = Some (TOk cs s', d')"
        "m' = \<lparr>fsm_state = Some s', fsm_shared = d'\<rparr>"
      with InRequest show ?thesis
        by (cases s) (auto simp: nexus_handlers transition_results split: if_splits)
    qed
  qed
qed

lemma nexus_run_cancel_sent:
  assumes "run_inputs nexus_apply m is = (Ok rs, m')"
  shows "nx_cancel_sent (fsm_shared m') \<longleftrightarrow> nx_cancel_sent (fsm_shared m) \<or> cancel_asked m is"
  using assms
proof (induction "is" arbitrary: m rs)
  case (Cons i "is")
  then obtain r1 m1 r2 where 1: "nexus_apply m i = (Ok r1, m1)" "run_inputs nexus_apply m1 is = (Ok r2, m')"
    by (auto split: prod.splits outcome.splits)
  from nexus_apply_cancel_sent [OF 1(1)] Cons.IH [OF 1(2)] 1(1) show ?case by auto
qed simp

text \<open>
  C20: Whatever sequence of history events, echoed commands and cancellation requests reaches a
  scheduled Nexus operation, it never panics, and when no error is met the language layer is sent
  at most one start resolution and, after it, exactly one result once the operation has ended, all
  for its own sequence number; the server is sent exactly one command to cancel the operation, with
  the id of its scheduled event, if some cancellation was requested after the operation had been
  recorded and before it had ended, and no command otherwise, so none when it was cancelled before
  being sent.
\<close>

theorem nexus_operation_life:
  assumes "nexus_new_scheduled a = (m, cmd)"
  shows "\<not> is_panic (fst (run_inputs nexus_apply m is)) \<and>
    (run_inputs nexus_apply m is = (Ok rs, m') \<longrightarrow> fsm_state m' = Some s \<longrightarrow>
       nexus_jobs_ok s (sno_seq a) (nexus_was_cancelled_before_sent m') (pushed_jobs rs) \<and>
       issued_commands rs = (if cancel_asked m is then [mk_command CT_RequestCancelNexusOperation
          (RequestCancelNexusOperationCommandAttributes (nx_scheduled_event_id (fsm_shared m')))]
         else []) \<and>
       (nexus_was_cancelled_before_sent m' \<longrightarrow> issued_commands rs = []))"
proof -
  have new: "nexus_told (sno_seq a) m []" "\<not> nx_cancel_sent (fsm_shared m)"
    using assms by (auto simp: nexus_new_scheduled_def from_parts_def nexus_told_defs)
  from new(1) have "\<not> is_panic (fst (run_inputs nexus_apply m is)) \<and>
    (run_inputs nexus_apply m is = (Ok rs, m') \<longrightarrow> nexus_told (sno_seq a) m' rs)"
    unfolding nexus_apply_def
    by (rule nexus.run_life)
      (erule (3) nexus_step_told, erule (1) nexus_cancel_told, erule nexus_told_state,
       rule nexus_step_no_panic, erule nexus_cancel_no_panic)
  then show ?thesis
    using nexus_run_cancel_sent [of m "is" rs m'] new(2)
    by (auto simp: nexus_told_def nexus_was_cancelled_before_sent_def)
qed

definition wit_nexus :: schedule_nexus_operation where
  "wit_nexus =
     \<lparr>sno_seq = 7, sno_endpoint = ''e'', sno_service = ''s'', sno_operation = ''o'',
      sno_input = None, sno_schedule_to_close_timeout = None, sno_nexus_header = []\<rparr>"

definition wit_nexus_inputs :: "string machine_input list" where
  "wit_nexus_inputs =
     [InCommand CT_ScheduleNexusOperation,
      InEvent (mk_event 5 48 NexusOperationScheduledEventAttributes),
      InRequest [],
      InCommand CT_RequestCancelNexusOperation,
      InEvent (mk_event 6 54 (NexusOperationCancelRequestedEventAttributes 5)),
      InRequest [],
      InEvent (mk_event 7 52 (NexusOperationCanceledEventAttributes
        \<lparr>nen_scheduled_event_id = 5, nen_failure = None\<rparr>))]"

theorem nexus_operation_life_witness:
  "\<exists>rs m'. run_inputs nexus_apply (fst (nexus_new_scheduled wit_nexus)) wit_nexus_inputs = (Ok rs, m') \<and>
     fsm_state m' = Some Cancelled \<and> length (pushed_jobs rs) = 2 \<and>
     issued_commands rs = [mk_command CT_RequestCancelNexusOperation
       (RequestCancelNexusOperationCommandAttributes 5)]"
proof -
  obtain m cmd where new: "nexus_new_scheduled wit_nexus = (m, cmd)" by (cases "nexus_new_scheduled wit_nexus")
  then have m: "m = fst (nexus_new_scheduled wit_nexus)" by simp
  have "\<exists>rs m'. run_inputs nexus_apply m wit_nexus_inputs = (Ok rs, m') \<and>
      fsm_state m' = Some Cancelled \<and> nx_scheduled_event_id (fsm_shared m') = 5 \<and>
      cancel_asked m wit_nexus_inputs \<and> \<not> nx_cancelled_before_sent (fsm_shared m')"
    by (simp add: m nexus_new_scheduled_def wit_nexus_def from_parts_def wit_nexus_inputs_def
        nexus_apply_def machine_run nexus_handlers nexus_ops is_nexus_operation_scheduled_def Let_def)
  then obtain rs m' where run: "run_inputs nexus_apply m wit_nexus_inputs = (Ok rs, m')"
    and c: "fsm_state m' = Some Cancelled" "nx_scheduled_event_id (fsm_shared m') = 5"
      "cancel_asked m wit_nexus_inputs" "\<not> nx_cancelled_before_sent (fsm_shared m')" by blast
  from nexus_operation_life [OF new, of wit_nexus_inputs rs m' Cancelled] run c
  show ?thesis unfolding m by (auto simp: nexus_jobs_ok_def)
qed

end
