(* ===== verification/Update_Machine.thy ===== *)
theory Update_Machine
  imports Temporal_Machine
begin

text \<open>
  The workflow update machine (\<open>machines/update_state_machine.rs\<close>).  Encoding a message to bytes is
  code of the protobuf library and a field of \<open>externals\<close>.
\<close>

section \<open>States, events, commands\<close>

datatype upd_state = RequestInitiated (original_request: update_request_pb) | Accepted | Rejected
  | AcceptCommandCreated | AcceptCommandRecorded | Completed | CompletedCommandCreated
  | CompletedCommandRecorded | CompletedImmediately | CompletedImmediatelyAcceptCreated
  | CompletedImmediatelyCompleteCreated

datatype upd_state_kind = StRequestInitiated | StAccepted | StRejected | StAcceptCommandCreated
  | StAcceptCommandRecorded | StCompleted | StCompletedCommandCreated | StCompletedCommandRecorded
  | StCompletedImmediately | StCompletedImmediatelyAcceptCreated
  | StCompletedImmediatelyCompleteCreated

primrec upd_state_name :: "upd_state \<Rightarrow> upd_state_kind" where
  "upd_state_name (RequestInitiated r) = StRequestInitiated"
| "upd_state_name Accepted = StAccepted"
| "upd_state_name Rejected = StRejected"
| "upd_state_name AcceptCommandCreated = StAcceptCommandCreated"
| "upd_state_name AcceptCommandRecorded = StAcceptCommandRecorded"
| "upd_state_name Completed = StCompleted"
| "upd_state_name CompletedCommandCreated = StCompletedCommandCreated"
| "upd_state_name CompletedCommandRecorded = StCompletedCommandRecorded"
| "upd_state_name CompletedImmediately = StCompletedImmediately"
| "upd_state_name CompletedImmediatelyAcceptCreated = StCompletedImmediatelyAcceptCreated"
| "upd_state_name CompletedImmediatelyCompleteCreated = StCompletedImmediatelyCompleteCreated"

datatype upd_event = Accept | Reject failure | Complete payload | CommandProtocolMessage
  | WorkflowExecutionUpdateAccepted | WorkflowExecutionUpdateCompleted

datatype upd_event_kind = EvAccept | EvReject | EvComplete | EvCommandProtocolMessage
  | EvWorkflowExecutionUpdateAccepted | EvWorkflowExecutionUpdateCompleted

primrec upd_event_name :: "upd_event \<Rightarrow> upd_event_kind" where
  "upd_event_name Accept = EvAccept"
| "upd_event_name (Reject f) = EvReject"
| "upd_event_name (Complete p) = EvComplete"
| "upd_event_name CommandProtocolMessage = EvCommandProtocolMessage"
| "upd_event_name WorkflowExecutionUpdateAccepted = EvWorkflowExecutionUpdateAccepted"
| "upd_event_name WorkflowExecutionUpdateCompleted = EvWorkflowExecutionUpdateCompleted"

datatype upd_command = Accept_cmd update_request_pb | Reject_cmd update_request_pb failure
  | Complete_cmd payload | Fail_cmd failure

record upd_shared =
  up_message_id :: string
  up_instance_id :: string
  up_event_seq_id :: event_id
  up_meta :: update_meta

type_synonym upd_machine = "(upd_state, upd_shared) fsm"
type_synonym upd_transition = "(upd_command, upd_state) transition_result"

definition upd_table :: "(upd_state_kind, upd_event_kind) transition list" where
  "upd_table =
     [row StRequestInitiated EvAccept (Some ''on_accept'') False StAccepted,
      row StRequestInitiated EvReject (Some ''on_reject'') False StRejected,
      row StAccepted EvComplete (Some ''on_complete'') False StCompletedImmediately,
      row StAccepted EvReject (Some ''on_fail'') False StCompletedImmediately,
      row StAccepted EvCommandProtocolMessage None False StAcceptCommandCreated,
      row StAcceptCommandCreated EvWorkflowExecutionUpdateAccepted None False
        StAcceptCommandRecorded,
      row StAcceptCommandCreated EvComplete (Some ''on_complete'') False
        StCompletedImmediatelyAcceptCreated,
      row StAcceptCommandCreated EvReject (Some ''on_fail'') False
        StCompletedImmediatelyAcceptCreated,
      row StAcceptCommandRecorded EvComplete (Some ''on_complete'') False StCompleted,
      row StAcceptCommandRecorded EvReject (Some ''on_fail'') False StCompleted,
      row StCompleted EvCommandProtocolMessage None False StCompletedCommandCreated,
      row StCompletedCommandCreated EvWorkflowExecutionUpdateCompleted None False
        StCompletedCommandRecorded,
      row StCompletedImmediately EvCommandProtocolMessage None False
        StCompletedImmediatelyAcceptCreated,
      row StCompletedImmediatelyAcceptCreated EvCommandProtocolMessage None False
        StCompletedImmediatelyCompleteCreated,
      row StCompletedImmediatelyCompleteCreated EvWorkflowExecutionUpdateAccepted None False
        StCompletedCommandCreated]"

section \<open>Handlers\<close>

definition upd_on_accept :: "update_request_pb \<Rightarrow> upd_transition" where
  "upd_on_accept orig = tr_commands Accepted [Accept_cmd orig]"

definition upd_on_reject :: "update_request_pb \<Rightarrow> failure \<Rightarrow> upd_transition" where
  "upd_on_reject orig fail = tr_commands Rejected [Reject_cmd orig fail]"

definition upd_accepted_on_complete :: "payload \<Rightarrow> upd_transition" where
  "upd_accepted_on_complete p = tr_commands CompletedImmediately [Complete_cmd p]"

definition upd_accepted_on_fail :: "failure \<Rightarrow> upd_transition" where
  "upd_accepted_on_fail f = tr_commands CompletedImmediately [Fail_cmd f]"

definition upd_created_on_complete :: "payload \<Rightarrow> upd_transition" where
  "upd_created_on_complete p = tr_commands CompletedImmediatelyAcceptCreated [Complete_cmd p]"

definition upd_created_on_fail :: "failure \<Rightarrow> upd_transition" where
  "upd_created_on_fail f = tr_commands CompletedImmediatelyAcceptCreated [Fail_cmd f]"

definition upd_recorded_on_complete :: "payload \<Rightarrow> upd_transition" where
  "upd_recorded_on_complete p = tr_commands Completed [Complete_cmd p]"

definition upd_recorded_on_fail :: "failure \<Rightarrow> upd_transition" where
  "upd_recorded_on_fail f = tr_commands Completed [Fail_cmd f]"

lemmas upd_handlers = upd_on_accept_def upd_on_reject_def upd_accepted_on_complete_def
  upd_accepted_on_fail_def upd_created_on_complete_def upd_created_on_fail_def
  upd_recorded_on_complete_def upd_recorded_on_fail_def

primrec upd_step :: "(upd_state, upd_event, upd_shared, upd_command) step_fun" where
  "upd_step (RequestInitiated orig) e d =
     (case e of
        Accept \<Rightarrow> Some (upd_on_accept orig, d)
      | Reject f \<Rightarrow> Some (upd_on_reject orig f, d)
      | _ \<Rightarrow> None)"
| "upd_step Accepted e d =
     (case e of
        Complete p \<Rightarrow> Some (upd_accepted_on_complete p, d)
      | Reject f \<Rightarrow> Some (upd_accepted_on_fail f, d)
      | CommandProtocolMessage \<Rightarrow> Some (tr_from_state (\<lambda>_. AcceptCommandCreated) Accepted, d)
      | _ \<Rightarrow> None)"
| "upd_step AcceptCommandCreated e d =
     (case e of
        WorkflowExecutionUpdateAccepted \<Rightarrow>
          Some (tr_from_state (\<lambda>_. AcceptCommandRecorded) AcceptCommandCreated, d)
      | Complete p \<Rightarrow> Some (upd_created_on_complete p, d)
      | Reject f \<Rightarrow> Some (upd_created_on_fail f, d)
      | _ \<Rightarrow> None)"
| "upd_step AcceptCommandRecorded e d =
     (case e of
        Complete p \<Rightarrow> Some (upd_recorded_on_complete p, d)
      | Reject f \<Rightarrow> Some (upd_recorded_on_fail f, d)
      | _ \<Rightarrow> None)"
| "upd_step Completed e d =
     (case e of
        CommandProtocolMessage \<Rightarrow> Some (tr_from_state (\<lambda>_. CompletedCommandCreated) Completed, d)
      | _ \<Rightarrow> None)"
| "upd_step CompletedCommandCreated e d =
     (case e of
        WorkflowExecutionUpdateCompleted \<Rightarrow>
          Some (tr_from_state (\<lambda>_. CompletedCommandRecorded) CompletedCommandCreated, d)
      | _ \<Rightarrow> None)"
| "upd_step CompletedImmediately e d =
     (case e of
        CommandProtocolMessage \<Rightarrow>
          Some (tr_from_state (\<lambda>_. CompletedImmediatelyAcceptCreated) CompletedImmediately, d)
      | _ \<Rightarrow> None)"
| "upd_step CompletedImmediatelyAcceptCreated e d =
     (case e of
        CommandProtocolMessage \<Rightarrow>
          Some (tr_from_state (\<lambda>_. CompletedImmediatelyCompleteCreated)
                  CompletedImmediatelyAcceptCreated, d)
      | _ \<Rightarrow> None)"
| "upd_step CompletedImmediatelyCompleteCreated e d =
     (case e of
        WorkflowExecutionUpdateAccepted \<Rightarrow>
          Some (tr_from_state (\<lambda>_. CompletedCommandCreated) CompletedImmediatelyCompleteCreated, d)
      | _ \<Rightarrow> None)"
| "upd_step Rejected e d = None"
| "upd_step CompletedCommandRecorded e d = None"

section \<open>Operations\<close>

definition upd_init ::
  "string \<Rightarrow> string \<Rightarrow> event_id \<Rightarrow> update_request \<Rightarrow> bool \<Rightarrow>
   (upd_machine \<times> machine_response) outcome" where
  "upd_init message_id instance_id event_seq_id request replaying =
     obind (update_request_meta request) (\<lambda>meta.
     obind (update_request_name request) (\<lambda>name.
     obind (update_request_input request) (\<lambda>input.
     obind (update_request_headers request) (\<lambda>headers.
       Ok (from_parts (RequestInitiated (ur_original request))
             \<lparr>up_message_id = message_id, up_instance_id = instance_id,
              up_event_seq_id = event_seq_id, up_meta = meta\<rparr>,
           PushWFJob (DoUpdate
             \<lparr>du_id = um_update_id meta, du_protocol_instance_id = instance_id, du_name = name,
              du_input = input, du_headers = headers, du_meta = Some meta,
              du_run_validator = (\<not> replaying)\<rparr>))))))"

primrec upd_msg_type_url :: "update_msg \<Rightarrow> string" where
  "upd_msg_type_url (UM_Accept i s r) = ''type.googleapis.com/temporal.api.update.v1.Acceptance''"
| "upd_msg_type_url (UM_Reject i s r f) = ''type.googleapis.com/temporal.api.update.v1.Rejection''"
| "upd_msg_type_url (UM_Response m oc) = ''type.googleapis.com/temporal.api.update.v1.Response''"

definition upd_pack :: "externals \<Rightarrow> update_msg \<Rightarrow> any_pb option" where
  "upd_pack x msg =
     map_option (\<lambda>b. \<lparr>any_type_url = upd_msg_type_url msg, any_value = b\<rparr>) (x_encode_msg x msg)"

definition upd_build_msg ::
  "externals \<Rightarrow> upd_machine \<Rightarrow> string \<Rightarrow> update_msg \<Rightarrow> machine_response outcome" where
  "upd_build_msg x m outgoing_id msg =
     (case upd_pack x msg of
        None \<Rightarrow> Err (Fatal ''Failed to serialize update response'')
      | Some accept_body \<Rightarrow>
          Ok (IssueNewMessage
            \<lparr>pm_id = outgoing_id, pm_protocol_instance_id = up_instance_id (fsm_shared m),
             pm_sequencing_id = None, pm_body = Some accept_body\<rparr>))"

definition upd_build_command_msg ::
  "externals \<Rightarrow> upd_machine \<Rightarrow> string \<Rightarrow> update_msg \<Rightarrow> machine_response list outcome" where
  "upd_build_command_msg x m outgoing_id msg =
     obind (upd_build_msg x m outgoing_id msg) (\<lambda>r.
     obind (issue_command (ProtocolMessageCommandAttributes outgoing_id)) (\<lambda>c. Ok (r # c)))"

definition upd_adapt_response ::
  "externals \<Rightarrow> upd_machine \<Rightarrow> upd_command \<Rightarrow> event_info option \<Rightarrow> machine_response list outcome" where
  "upd_adapt_response x m cmd ei =
     (let d = fsm_shared m in
      case cmd of
        Accept_cmd orig \<Rightarrow>
          upd_build_command_msg x m (up_message_id d @ ''/accept'')
            (UM_Accept (up_message_id d) (up_event_seq_id d) (Some orig))
      | Reject_cmd orig fail \<Rightarrow>
          obind (upd_build_msg x m (up_message_id d @ ''/reject'')
            (UM_Reject (up_message_id d) (up_event_seq_id d) (Some orig) (Some fail))) (\<lambda>r. Ok [r])
      | Complete_cmd p \<Rightarrow>
          upd_build_command_msg x m (up_message_id d @ ''/complete'')
            (UM_Response (Some (up_meta d)) (Some (OutcomeSuccess [p])))
      | Fail_cmd f \<Rightarrow>
          upd_build_command_msg x m (up_message_id d @ ''/complete'')
            (UM_Response (Some (up_meta d)) (Some (OutcomeFailure f))))"

primrec upd_response_event :: "update_response_kind \<Rightarrow> upd_event" where
  "upd_response_event UR_Accepted = Accept"
| "upd_response_event (UR_Rejected f) = Reject f"
| "upd_response_event (UR_Completed p) = Complete p"

definition upd_handle_response ::
  "externals \<Rightarrow> update_response \<Rightarrow> upd_machine \<Rightarrow> machine_response list outcome \<times> upd_machine" where
  "upd_handle_response x resp m =
     (case upr_response resp of
        None \<Rightarrow>
          (Err (Fatal ''Update response had an empty result, this is a lang layer bug.''), m)
      | Some r \<Rightarrow>
          (case on_event upd_step m (upd_response_event r) of
             (Cmds cmds, m') \<Rightarrow> (omap_concat (\<lambda>c. upd_adapt_response x m' c None) cmds, m')
           | (Failed_with MInvalidTransition, m') \<Rightarrow>
               (obind (fsm_state_get m') (\<lambda>_.
                  Err (Nondeterminism ''Invalid transition while handling update response'')), m')
           | (Failed_with (Underlying e), m') \<Rightarrow> (Err e, m')
           | (Panicked p, m') \<Rightarrow> (Panic p, m')))"

definition upd_try_from_event :: "hist_event_data \<Rightarrow> upd_event outcome" where
  "upd_try_from_event ed =
     (let e = hed_event ed in
      if event_type_of e = ET_WorkflowExecutionUpdateAccepted then Ok WorkflowExecutionUpdateAccepted
      else if event_type_of e = ET_WorkflowExecutionUpdateCompleted then
        Ok WorkflowExecutionUpdateCompleted
      else Err (Nondeterminism ''Update machine does not handle this event''))"

definition upd_try_from_command :: "command_type \<Rightarrow> upd_event option" where
  "upd_try_from_command c = (if c = CT_ProtocolMessage then Some CommandProtocolMessage else None)"

lemmas upd_ops = upd_adapt_response_def upd_build_command_msg_def upd_build_msg_def upd_pack_def

section \<open>Conformance to the table\<close>

lemma upd_conforms: "fsm_conforms upd_table upd_state_name upd_event_name upd_step"
proof
  show "upd_step s e d = None \<longleftrightarrow> dests upd_table (upd_state_name s) (upd_event_name e) = []"
    for s e d
    by (cases s; cases e; simp add: fsm_tables upd_table_def)
next
  show "upd_state_name s' \<in> set (dests upd_table (upd_state_name s) (upd_event_name e))"
    if "upd_step s e d = Some (TOk cs s', d')" for s e d cs s' d'
    using that
    by (cases s; cases e; (simp; fail)?; auto simp: fsm_tables upd_table_def upd_handlers
        transition_results)
next
  show "upd_step s e d \<noteq> Some (InvalidTransition, d')" for s e d d'
    by (cases s; cases e; simp add: upd_handlers transition_results)
next
  show "d' = d" if "upd_step s e d = Some (r, d')" for s e d r d'
    using that by (cases s; cases e; simp)
qed

lemma upd_convert_no_panic: "\<not> is_panic (upd_try_from_event ed)"
  by (simp add: upd_try_from_event_def Let_def)

lemma upd_adapt_no_panic: "\<not> is_panic (upd_adapt_response x m c ei)"
  by (cases c) (auto simp: upd_ops is_panic_obind Let_def split: option.splits)

interpretation update: temporal_machine upd_table upd_state_name upd_event_name upd_step
  upd_try_from_command upd_try_from_event "upd_adapt_response x" for x
  by (intro temporal_machine.intro temporal_machine_axioms.intro upd_conforms
      upd_convert_no_panic upd_adapt_no_panic)

section \<open>An update over its whole life\<close>

definition upd_apply ::
  "externals \<Rightarrow> upd_machine \<Rightarrow> update_response machine_input \<Rightarrow>
   machine_response list outcome \<times> upd_machine" where
  "upd_apply x =
     apply_input upd_try_from_command upd_try_from_event upd_step (upd_adapt_response x)
       (upd_handle_response x)"

text \<open>A protocol message with the given suffix and the command that makes room for it.\<close>

definition upd_message :: "upd_shared \<Rightarrow> string \<Rightarrow> any_pb \<Rightarrow> machine_response" where
  "upd_message d suffix body =
     IssueNewMessage \<lparr>pm_id = up_message_id d @ suffix, pm_protocol_instance_id = up_instance_id d,
       pm_sequencing_id = None, pm_body = Some body\<rparr>"

definition upd_command_for :: "upd_shared \<Rightarrow> string \<Rightarrow> machine_response" where
  "upd_command_for d suffix =
     IssueNewCommand (mk_command CT_ProtocolMessage
       (ProtocolMessageCommandAttributes (up_message_id d @ suffix)))"

definition upd_sent_ok :: "upd_state \<Rightarrow> upd_shared \<Rightarrow> machine_response list \<Rightarrow> bool" where
  "upd_sent_ok s d rs \<longleftrightarrow>
     (case upd_state_name s of
        StRequestInitiated \<Rightarrow> rs = []
      | StRejected \<Rightarrow> (\<exists>b. rs = [upd_message d ''/reject'' b])
      | st \<Rightarrow>
          if st \<in> {StAccepted, StAcceptCommandCreated, StAcceptCommandRecorded}
          then \<exists>b. rs = [upd_message d ''/accept'' b, upd_command_for d ''/accept'']
          else \<exists>b b'. rs = [upd_message d ''/accept'' b, upd_command_for d ''/accept'',
                 upd_message d ''/complete'' b', upd_command_for d ''/complete''])"

definition upd_told :: "upd_shared \<Rightarrow> upd_machine \<Rightarrow> machine_response list \<Rightarrow> bool" where
  "upd_told d m acc \<longleftrightarrow>
     fsm_shared m = d \<and> (case fsm_state m of None \<Rightarrow> False | Some s \<Rightarrow> upd_sent_ok s d acc)"

lemma upd_step_told:
  assumes "upd_told d m acc" "fsm_state m = Some s"
    "upd_step s e (fsm_shared m) = Some (TOk cs s', d')"
    "omap_concat (\<lambda>c. upd_adapt_response x \<lparr>fsm_state = Some s', fsm_shared = d'\<rparr> c ei) cs = Ok rs"
  shows "upd_told d \<lparr>fsm_state = Some s', fsm_shared = d'\<rparr> (acc @ rs)"
  using assms
  by (cases s; cases e; (simp; fail)?; auto simp: upd_told_def upd_sent_ok_def upd_handlers
      transition_results upd_ops Let_def upd_message_def upd_command_for_def split: option.splits)

lemma upd_handle_response_told:
  assumes "upd_told d m acc" and "upd_handle_response x r m = (Ok rs, m')"
  shows "upd_told d m' (acc @ rs)"
proof -
  from assms(2) obtain e cs where "on_event upd_step m e = (Cmds cs, m')"
    and "omap_concat (\<lambda>c. upd_adapt_response x m' c None) cs = Ok rs"
    by (auto simp: upd_handle_response_def split: option.splits prod.splits cmds_result.splits
        machine_error.splits)
  then show ?thesis by (auto elim!: on_event_CmdsE intro: upd_step_told [OF assms(1)])
qed

lemma upd_told_state: "upd_told d m acc \<Longrightarrow> fsm_state m \<noteq> None"
  by (auto simp: upd_told_def split: option.splits)

lemma upd_step_no_panic: "upd_step s e d \<noteq> Some (TPanic p, d')"
  by (cases s; cases e; simp add: upd_handlers transition_results)

lemma upd_handle_response_no_panic:
  assumes "upd_told d m acc"
  shows "\<not> is_panic (fst (upd_handle_response x r m))"
proof (cases "upr_response r")
  case (Some k)
  from upd_told_state [OF assms] obtain s where s: "fsm_state m = Some s" by blast
  from s have "\<forall>p d. upd_step s (upd_response_event k) (fsm_shared m) \<noteq> Some (TPanic p, d)"
    by (simp add: upd_step_no_panic)
  with s show ?thesis
  proof (cases rule: update.on_event_cases)
    case (ok cs m')
    have "\<not> is_panic (omap_concat (\<lambda>c. upd_adapt_response x m' c None) cs)"
      by (rule omap_concat_no_panic) (rule upd_adapt_no_panic)
    then show ?thesis using ok Some by (simp add: upd_handle_response_def)
  qed (use s Some in \<open>auto simp: upd_handle_response_def fsm_state_get_def\<close>)
qed (simp add: upd_handle_response_def)

lemma upd_init_Ok:
  assumes "upd_init mid iid eid req rep = Ok (m, r)"
  obtains meta where "update_request_meta req = Ok meta"
    "m = \<lparr>fsm_state = Some (RequestInitiated (ur_original req)),
      fsm_shared = \<lparr>up_message_id = mid, up_instance_id = iid, up_event_seq_id = eid, up_meta = meta\<rparr>\<rparr>"
  using assms by (auto simp: upd_init_def from_parts_def)

text \<open>
  C21: Whatever sequence of answers of the language layer, history events and echoed commands
  reaches an update, it never panics, and when no error is met the messages sent for it are, in
  this order and with the ids derived from the request's message id, nothing while it is
  undecided, only a rejection (without a command) once rejected, an acceptance with its command
  once accepted, and after that exactly one completion with its command once completed.
\<close>

theorem update_life:
  assumes "upd_init mid iid eid req rep = Ok (m, r)"
  shows "\<not> is_panic (fst (run_inputs (upd_apply x) m is)) \<and>
    (run_inputs (upd_apply x) m is = (Ok rs, m') \<longrightarrow> fsm_state m' = Some s \<longrightarrow>
       upd_sent_ok s (fsm_shared m) rs \<and>
       up_message_id (fsm_shared m) = mid \<and> up_instance_id (fsm_shared m) = iid)"
proof -
  from assms obtain meta where m: "m = \<lparr>fsm_state = Some (RequestInitiated (ur_original req)),
      fsm_shared = \<lparr>up_message_id = mid, up_instance_id = iid, up_event_seq_id = eid, up_meta = meta\<rparr>\<rparr>"
    by (rule upd_init_Ok)
  then have "upd_told (fsm_shared m) m []" by (simp add: upd_told_def upd_sent_ok_def)
  then have "\<not> is_panic (fst (run_inputs (upd_apply x) m is)) \<and>
    (run_inputs (upd_apply x) m is = (Ok rs, m') \<longrightarrow> upd_told (fsm_shared m) m' rs)"
    unfolding upd_apply_def
    by (rule update.run_life)
      (erule (3) upd_step_told, erule (1) upd_handle_response_told, erule upd_told_state,
       rule upd_step_no_panic, erule upd_handle_response_no_panic)
  then show ?thesis using m by (auto simp: upd_told_def)
qed

definition wit_update_request :: update_request where
  "wit_update_request =
     \<lparr>ur_original = \<lparr>ur_meta = Some \<lparr>um_update_id = ''u'', um_identity = ''me''\<rparr>,
        ur_input = Some \<lparr>ui_header = None, ui_name = ''upd'', ui_args = None\<rparr>\<rparr>\<rparr>"

definition wit_update_inputs :: "update_response machine_input list" where
  "wit_update_inputs =
     [InRequest \<lparr>upr_protocol_instance_id = ''u'', upr_response = Some UR_Accepted\<rparr>,
      InRequest \<lparr>upr_protocol_instance_id = ''u'',
        upr_response = Some (UR_Completed payload_default)\<rparr>,
      InCommand CT_ProtocolMessage, InCommand CT_ProtocolMessage,
      InEvent (mk_event 5 41 (WorkflowExecutionUpdateAcceptedEventAttributes
        \<lparr>uac_protocol_instance_id = ''u'', uac_accepted_request_message_id = ''u/request'',
         uac_accepted_request_sequencing_event_id = 3, uac_accepted_request = None\<rparr>)),
      InEvent (mk_event 6 43 WorkflowExecutionUpdateCompletedEventAttributes)]"

theorem update_life_witness:
  "\<exists>m r rs m'. upd_init ''u/request'' ''u'' 3 wit_update_request False = Ok (m, r) \<and>
     run_inputs (upd_apply wit_externals) m wit_update_inputs = (Ok rs, m') \<and>
     fsm_state m' = Some CompletedCommandRecorded \<and> length rs = 4"
proof -
  obtain m r where new: "upd_init ''u/request'' ''u'' 3 wit_update_request False = Ok (m, r)"
    and m: "m = \<lparr>fsm_state = Some (RequestInitiated (ur_original wit_update_request)),
      fsm_shared = \<lparr>up_message_id = ''u/request'', up_instance_id = ''u'', up_event_seq_id = 3,
        up_meta = \<lparr>um_update_id = ''u'', um_identity = ''me''\<rparr>\<rparr>\<rparr>"
    by (simp add: upd_init_def wit_update_request_def update_request_meta_def from_parts_def
        update_request_name_def update_request_input_def update_request_headers_def
        update_input_of_def)
  have "\<exists>rs m'. run_inputs (upd_apply wit_externals) m wit_update_inputs = (Ok rs, m') \<and>
      fsm_state m' = Some CompletedCommandRecorded"
    by (simp add: m wit_update_inputs_def upd_apply_def machine_run upd_handlers upd_ops
        upd_handle_response_def upd_try_from_command_def upd_try_from_event_def Let_def
        wit_externals_def)
  then obtain rs m' where run: "run_inputs (upd_apply wit_externals) m wit_update_inputs = (Ok rs, m')"
    and c: "fsm_state m' = Some CompletedCommandRecorded" by blast
  from update_life [OF new, of wit_externals wit_update_inputs rs m' CompletedCommandRecorded] run c
  have "length rs = 4" by (auto simp: upd_sent_ok_def)
  with new run c show ?thesis by blast
qed

end
