(* ===== verification/Workflow_Task_Machine.thy ===== *)
theory Workflow_Task_Machine
  imports Temporal_Machine
begin

text \<open>
  The workflow task machine (\<open>machines/workflow_task_state_machine.rs\<close>), which tells the
  orchestrator when the workflow code may run.
\<close>

section \<open>States, events, commands\<close>

datatype wft_state = Created | Scheduled
  | Started (wft_current_time: system_time) (wft_started_event_id: event_id)
  | TimedOut | Completed | Failed

datatype wft_state_kind = StCreated | StScheduled | StStarted | StTimedOut | StCompleted | StFailed

primrec wft_state_name :: "wft_state \<Rightarrow> wft_state_kind" where
  "wft_state_name Created = StCreated"
| "wft_state_name Scheduled = StScheduled"
| "wft_state_name (Started t i) = StStarted"
| "wft_state_name TimedOut = StTimedOut"
| "wft_state_name Completed = StCompleted"
| "wft_state_name Failed = StFailed"

datatype wft_event = WorkflowTaskScheduled | WorkflowTaskStarted system_time event_id
  | WorkflowTaskTimedOut | WorkflowTaskCompleted | WorkflowTaskFailed "string option"

datatype wft_event_kind = EvWorkflowTaskScheduled | EvWorkflowTaskStarted | EvWorkflowTaskTimedOut
  | EvWorkflowTaskCompleted | EvWorkflowTaskFailed

primrec wft_event_name :: "wft_event \<Rightarrow> wft_event_kind" where
  "wft_event_name WorkflowTaskScheduled = EvWorkflowTaskScheduled"
| "wft_event_name (WorkflowTaskStarted t i) = EvWorkflowTaskStarted"
| "wft_event_name WorkflowTaskTimedOut = EvWorkflowTaskTimedOut"
| "wft_event_name WorkflowTaskCompleted = EvWorkflowTaskCompleted"
| "wft_event_name (WorkflowTaskFailed r) = EvWorkflowTaskFailed"

datatype wft_command = WFTaskStartedTrigger event_id system_time
  | RunIdOnWorkflowResetUpdate string

record wft_shared =
  wft_task_started_event_id :: event_id

type_synonym wft_machine = "(wft_state, wft_shared) fsm"
type_synonym wft_transition = "(wft_command, wft_state) transition_result"

definition wft_table :: "(wft_state_kind, wft_event_kind) transition list" where
  "wft_table =
     [row StCreated EvWorkflowTaskScheduled None False StScheduled,
      row StScheduled EvWorkflowTaskStarted (Some ''on_workflow_task_started'') True StStarted,
      row StScheduled EvWorkflowTaskTimedOut None False StTimedOut,
      row StStarted EvWorkflowTaskCompleted (Some ''on_workflow_task_completed'') False StCompleted,
      row StStarted EvWorkflowTaskFailed (Some ''on_workflow_task_failed'') False StFailed,
      row StStarted EvWorkflowTaskTimedOut None False StTimedOut]"

section \<open>Handlers\<close>

definition wft_on_started ::
  "wft_shared \<Rightarrow> system_time \<Rightarrow> event_id \<Rightarrow> wft_transition \<times> wft_shared" where
  "wft_on_started shared current_time_millis started_event_id =
     (tr_ok [WFTaskStartedTrigger (wft_task_started_event_id shared) current_time_millis]
        (Started current_time_millis started_event_id), shared)"

definition wft_on_completed :: "wft_state \<Rightarrow> wft_transition" where
  "wft_on_completed s =
     tr_commands Completed [WFTaskStartedTrigger (wft_started_event_id s) (wft_current_time s)]"

definition wft_on_failed :: "string option \<Rightarrow> wft_transition" where
  "wft_on_failed new_run_id =
     tr_commands Failed
       (case new_run_id of Some run_id \<Rightarrow> [RunIdOnWorkflowResetUpdate run_id] | None \<Rightarrow> [])"

lemmas wft_handlers = wft_on_started_def wft_on_completed_def wft_on_failed_def

primrec wft_step :: "(wft_state, wft_event, wft_shared, wft_command) step_fun" where
  "wft_step Created e d =
     (case e of WorkflowTaskScheduled \<Rightarrow> Some (tr_from_state (\<lambda>_. Scheduled) Created, d) | _ \<Rightarrow> None)"
| "wft_step Scheduled e d =
     (case e of
        WorkflowTaskStarted t i \<Rightarrow> Some (wft_on_started d t i)
      | WorkflowTaskTimedOut \<Rightarrow> Some (tr_from_state (\<lambda>_. TimedOut) Scheduled, d)
      | _ \<Rightarrow> None)"
| "wft_step (Started t i) e d =
     (case e of
        WorkflowTaskCompleted \<Rightarrow> Some (wft_on_completed (Started t i), d)
      | WorkflowTaskFailed r \<Rightarrow> Some (wft_on_failed r, d)
      | WorkflowTaskTimedOut \<Rightarrow> Some (tr_from_state (\<lambda>_. TimedOut) (Started t i), d)
      | _ \<Rightarrow> None)"
| "wft_step TimedOut e d = None"
| "wft_step Completed e d = None"
| "wft_step Failed e d = None"

section \<open>Operations\<close>

definition wft_new :: "event_id \<Rightarrow> wft_machine" where
  "wft_new wf_task_started_event_id =
     from_parts Created \<lparr>wft_task_started_event_id = wf_task_started_event_id\<rparr>"

definition wft_adapt_response ::
  "wft_machine \<Rightarrow> wft_command \<Rightarrow> event_info option \<Rightarrow> machine_response list outcome" where
  "wft_adapt_response m cmd ei =
     (case cmd of
        WFTaskStartedTrigger task_started_event_id time \<Rightarrow>
          (case ei of
             None \<Rightarrow> Err (Fatal ''WF Task machine should never issue a task started trigger command in response to non-history events'')
           | Some e \<Rightarrow>
               if ei_event_type e = ET_WorkflowTaskStarted \<and> \<not> ei_event_id e \<ge> task_started_event_id
               then Ok []
               else Ok [TriggerWFTaskStarted task_started_event_id time])
      | RunIdOnWorkflowResetUpdate run_id \<Rightarrow> Ok [UpdateRunIdOnWorkflowReset run_id])"

text \<open>The code of \<open>WorkflowTaskFailedCause::ResetWorkflow\<close>.\<close>

definition RESET_WORKFLOW :: int where
  "RESET_WORKFLOW = 20"

definition wft_try_from_event :: "externals \<Rightarrow> hist_event_data \<Rightarrow> wft_event outcome" where
  "wft_try_from_event x ed =
     (let e = hed_event ed in
      if event_type_of e = ET_WorkflowTaskScheduled then Ok WorkflowTaskScheduled
      else if event_type_of e = ET_WorkflowTaskStarted then
        (case he_event_time e of
           None \<Rightarrow> Err (Fatal ''Workflow task started event must contain timestamp'')
         | Some ts \<Rightarrow>
             (case x_systime x ts of
                None \<Rightarrow> Err (Fatal ''Workflow task started event timestamp was inconvertible'')
              | Some time \<Rightarrow> Ok (WorkflowTaskStarted time (he_event_id e))))
      else if event_type_of e = ET_WorkflowTaskTimedOut then Ok WorkflowTaskTimedOut
      else if event_type_of e = ET_WorkflowTaskCompleted then Ok WorkflowTaskCompleted
      else if event_type_of e = ET_WorkflowTaskFailed then
        (if he_attributes e = None
         then Err (Fatal ''Workflow task failed is missing attributes'')
         else case attrs_workflow_task_failed e of
                Some a \<Rightarrow>
                  Ok (WorkflowTaskFailed
                    (if wtf_cause a = RESET_WORKFLOW then Some (wtf_new_run_id a) else None))
              | None \<Rightarrow> Ok (WorkflowTaskFailed None))
      else Err (Nondeterminism ''Event does not apply to a wf task machine''))"

definition wft_try_from_command :: "command_type \<Rightarrow> wft_event option" where
  "wft_try_from_command _ = None"

section \<open>Conformance to the table\<close>

lemma wft_conforms: "fsm_conforms wft_table wft_state_name wft_event_name wft_step"
proof
  show "wft_step s e d = None \<longleftrightarrow> dests wft_table (wft_state_name s) (wft_event_name e) = []"
    for s e d
    by (cases s; cases e; simp add: fsm_tables wft_table_def)
next
  show "wft_state_name s' \<in> set (dests wft_table (wft_state_name s) (wft_event_name e))"
    if "wft_step s e d = Some (TOk cs s', d')" for s e d cs s' d'
    using that
    by (cases s; cases e; (simp; fail)?; auto simp: fsm_tables wft_table_def wft_handlers
        transition_results)
next
  show "wft_step s e d \<noteq> Some (InvalidTransition, d')" for s e d d'
    by (cases s; cases e; simp add: wft_handlers transition_results)
next
  show "d' = d" if "wft_step s e d = Some (r, d')" for s e d r d'
    using that by (cases s; cases e; simp add: wft_handlers)
qed

lemma wft_convert_no_panic: "\<not> is_panic (wft_try_from_event x ed)"
  by (simp add: wft_try_from_event_def Let_def split: option.splits)

lemma wft_adapt_no_panic: "\<not> is_panic (wft_adapt_response m c ei)"
  by (cases c) (simp_all add: wft_adapt_response_def split: option.splits)

interpretation workflow_task: temporal_machine wft_table wft_state_name wft_event_name wft_step
  wft_try_from_command "wft_try_from_event x" wft_adapt_response for x
  by (intro temporal_machine.intro temporal_machine_axioms.intro wft_conforms
      wft_convert_no_panic wft_adapt_no_panic)

section \<open>When the workflow code may run\<close>

definition wft_handle_event ::
  "externals \<Rightarrow> wft_machine \<Rightarrow> hist_event_data \<Rightarrow> machine_response list outcome \<times> wft_machine" where
  "wft_handle_event x = handle_event (wft_try_from_event x) wft_step wft_adapt_response"

lemmas wft_run = wft_handle_event_def handle_event_def on_event_def wft_try_from_event_def Let_def
  process_machine_commands_def transition_results wft_handlers wft_adapt_response_def

text \<open>
  C33: A completed workflow task makes the workflow run with the time of its started event: exactly
  once, on its completion, when it is not the task the machine was created for (its started event
  lies before the expected one), and already on its started event when it is.
\<close>

theorem workflow_task_triggers:
  assumes "event_type_of (hed_event e1) = ET_WorkflowTaskScheduled"
    and "event_type_of (hed_event e2) = ET_WorkflowTaskStarted"
    and "event_type_of (hed_event e3) = ET_WorkflowTaskCompleted"
    and "he_event_time (hed_event e2) = Some ts" and "x_systime x ts = Some time"
  shows "run_inputs (wft_handle_event x) (wft_new wid) [e1, e2, e3] =
    (Ok ((if wid \<le> he_event_id (hed_event e2) then [TriggerWFTaskStarted wid time] else []) @
         [TriggerWFTaskStarted (he_event_id (hed_event e2)) time]),
     \<lparr>fsm_state = Some Completed, fsm_shared = \<lparr>wft_task_started_event_id = wid\<rparr>\<rparr>)"
  using assms by (simp add: wft_run wft_new_def from_parts_def)

theorem workflow_task_triggers_witness:
  "run_inputs (wft_handle_event wit_externals) (wft_new 9)
     [mk_event 2 5 WorkflowTaskScheduledEventAttributes,
      mk_event 3 6 (WorkflowTaskStartedEventAttributes
        \<lparr>wts_scheduled_event_id = 2, wts_history_size_bytes = 0, wts_suggest_continue_as_new = False\<rparr>),
      mk_event 4 7 (WorkflowTaskCompletedEventAttributes
        \<lparr>wtc_scheduled_event_id = 2, wtc_sdk_metadata = None, wtc_worker_build_id = None\<rparr>)] =
   (Ok [TriggerWFTaskStarted 3 3000000000],
    \<lparr>fsm_state = Some Completed, fsm_shared = \<lparr>wft_task_started_event_id = 9\<rparr>\<rparr>)"
  by (subst workflow_task_triggers [where ts = "(3, 0)" and time = 3000000000])
    (simp_all add: concrete_events wit_externals_def)

end
