(* ===== verification/Patch_Machine.thy ===== *)
theory Patch_Machine
  imports Temporal_Machine Internal_Flags "HOL-Library.List_Lexorder" "HOL-Library.Char_ord"
begin

text \<open>
  The patch machine (\<open>machines/patch_state_machine.rs\<close>).  Its command type has no constructors in
  the source; here it is \<open>unit\<close>, and no handler produces one.
\<close>

section \<open>States, events\<close>

datatype patch_state = Executing | Replaying | MarkerCommandCreated | MarkerCommandCreatedReplaying
  | Notified | MarkerCommandRecorded

datatype patch_event = Schedule | CommandRecordMarker | MarkerRecorded string

datatype patch_event_kind = EvSchedule | EvCommandRecordMarker | EvMarkerRecorded

primrec patch_event_name :: "patch_event \<Rightarrow> patch_event_kind" where
  "patch_event_name Schedule = EvSchedule"
| "patch_event_name CommandRecordMarker = EvCommandRecordMarker"
| "patch_event_name (MarkerRecorded i) = EvMarkerRecorded"

record patch_shared =
  pa_patch_id :: string

type_synonym patch_machine = "(patch_state, patch_shared) fsm"
type_synonym patch_transition = "(unit, patch_state) transition_result"

definition patch_table :: "(patch_state, patch_event_kind) transition list" where
  "patch_table =
     [row Executing EvSchedule (Some ''on_schedule'') False MarkerCommandCreated,
      row Replaying EvSchedule (Some ''on_schedule'') False MarkerCommandCreatedReplaying,
      row MarkerCommandCreated EvCommandRecordMarker (Some ''on_command_record_marker'') False Notified,
      row MarkerCommandCreatedReplaying EvCommandRecordMarker None False Notified,
      row Notified EvMarkerRecorded (Some ''on_marker_recorded'') True MarkerCommandRecorded]"

section \<open>Handlers\<close>

definition patch_executing_on_schedule :: patch_transition where
  "patch_executing_on_schedule = tr_default MarkerCommandCreated"

definition patch_replaying_on_schedule :: patch_transition where
  "patch_replaying_on_schedule = tr_default MarkerCommandCreatedReplaying"

definition patch_on_command_record_marker :: patch_transition where
  "patch_on_command_record_marker = tr_default Notified"

definition patch_on_marker_recorded ::
  "patch_shared \<Rightarrow> string \<Rightarrow> patch_transition \<times> patch_shared" where
  "patch_on_marker_recorded dat i =
     (if i \<noteq> pa_patch_id dat then TErr (Nondeterminism ''Change id does not match expected id'')
      else tr_default MarkerCommandRecorded, dat)"

lemmas patch_handlers = patch_executing_on_schedule_def patch_replaying_on_schedule_def
  patch_on_command_record_marker_def patch_on_marker_recorded_def

primrec patch_step :: "(patch_state, patch_event, patch_shared, unit) step_fun" where
  "patch_step Executing e d =
     (case e of Schedule \<Rightarrow> Some (patch_executing_on_schedule, d) | _ \<Rightarrow> None)"
| "patch_step Replaying e d =
     (case e of Schedule \<Rightarrow> Some (patch_replaying_on_schedule, d) | _ \<Rightarrow> None)"
| "patch_step MarkerCommandCreated e d =
     (case e of CommandRecordMarker \<Rightarrow> Some (patch_on_command_record_marker, d) | _ \<Rightarrow> None)"
| "patch_step MarkerCommandCreatedReplaying e d =
     (case e of
        CommandRecordMarker \<Rightarrow> Some (tr_from_state (\<lambda>_. Notified) MarkerCommandCreatedReplaying, d)
      | _ \<Rightarrow> None)"
| "patch_step Notified e d =
     (case e of MarkerRecorded i \<Rightarrow> Some (patch_on_marker_recorded d i) | _ \<Rightarrow> None)"
| "patch_step MarkerCommandRecorded e d = None"

section \<open>Operations\<close>

definition MAX_SEARCH_ATTR_PAYLOAD_SIZE :: nat where
  "MAX_SEARCH_ATTR_PAYLOAD_SIZE = 2048"

text \<open>
  \<open>has_change\<close>: the machine with its marker command, the search attribute upsert that goes with it,
  and the flags afterwards.  The identifiers are put in a \<open>BTreeSet\<close>: sorted, without duplicates.
\<close>

definition patch_upsert ::
  "externals \<Rightarrow> string \<Rightarrow> string list \<Rightarrow> machine_response list outcome" where
  "patch_upsert x patch_id existing_patch_ids =
     (case x_strings_to_json x (sort (remdups (patch_id # existing_patch_ids))) of
        None \<Rightarrow> Err (Fatal ''Could not serialize search attribute value for patch machine'')
      | Some data \<Rightarrow>
          if length data \<ge> MAX_SEARCH_ATTR_PAYLOAD_SIZE then Ok []
          else Ok [NewCoreOriginatedCommand (UpsertWorkflowSearchAttributesCommandAttributes
                 (Some (map_insert VERSION_SEARCH_ATTR_KEY (json_payload data) [])))])"

definition has_change ::
  "externals \<Rightarrow> string \<Rightarrow> bool \<Rightarrow> bool \<Rightarrow> bool \<Rightarrow> string list \<Rightarrow> internal_flags \<Rightarrow>
   (patch_machine \<times> command_attributes \<times> machine_response list) outcome \<times> internal_flags" where
  "has_change x patch_id replaying_when_invoked deprecated seen_in_peekahead existing_patch_ids
       internal_flags =
     (case build_has_change_marker_details x patch_id deprecated of
        None \<Rightarrow> (Err (Fatal ''While encoding patch marker details''), internal_flags)
      | Some details \<Rightarrow>
          (let initial_state = (if replaying_when_invoked then Replaying else Executing);
               command = RecordMarkerCommandAttributes
                 \<lparr>rma_marker_name = PATCH_MARKER_NAME, rma_details = details, rma_header = None,
                  rma_failure = None\<rparr>
           in case on_event patch_step (from_parts initial_state \<lparr>pa_patch_id = patch_id\<rparr>) Schedule of
                (Cmds _, machine) \<Rightarrow>
                  (let (can_use, flags) = try_use internal_flags UpsertSearchAttributeOnPatch
                                            (\<not> replaying_when_invoked)
                   in (obind (if replaying_when_invoked \<and> \<not> seen_in_peekahead \<or> \<not> can_use then Ok []
                              else patch_upsert x patch_id existing_patch_ids)
                         (\<lambda>upsert. Ok (machine, command, upsert)), flags))
              | _ \<Rightarrow> (Panic ''Patch machine scheduling doesn't fail'', internal_flags)))"

definition patch_adapt_response ::
  "patch_machine \<Rightarrow> unit \<Rightarrow> event_info option \<Rightarrow> machine_response list outcome" where
  "patch_adapt_response m cmd ei = Panic ''Patch machine does not produce commands''"

definition patch_try_from_command :: "command_type \<Rightarrow> patch_event option" where
  "patch_try_from_command c = (if c = CT_RecordMarker then Some CommandRecordMarker else None)"

definition patch_try_from_event :: "externals \<Rightarrow> hist_event_data \<Rightarrow> patch_event outcome" where
  "patch_try_from_event x ed =
     (case get_patch_marker_details x (hed_event ed) of
        Some (i, _) \<Rightarrow> Ok (MarkerRecorded i)
      | None \<Rightarrow> Err (Nondeterminism ''Change machine cannot handle this event''))"

definition matches_patch :: "patch_machine \<Rightarrow> string \<Rightarrow> bool" where
  "matches_patch m i \<longleftrightarrow> pa_patch_id (fsm_shared m) = i"

section \<open>Conformance to the table\<close>

lemma patch_conforms: "fsm_conforms patch_table (\<lambda>s. s) patch_event_name patch_step"
proof
  show "patch_step s e d = None \<longleftrightarrow> dests patch_table s (patch_event_name e) = []" for s e d
    by (cases s; cases e; simp add: fsm_tables patch_table_def)
next
  show "s' \<in> set (dests patch_table s (patch_event_name e))"
    if "patch_step s e d = Some (TOk cs s', d')" for s e d cs s' d'
    using that
    by (cases s; cases e; (simp; fail)?; auto simp: fsm_tables patch_table_def patch_handlers
        transition_results split: if_splits)
next
  show "patch_step s e d \<noteq> Some (InvalidTransition, d')" for s e d d'
    by (cases s; cases e; simp add: patch_handlers transition_results)
next
  show "d' = d" if "patch_step s e d = Some (r, d')" for s e d r d'
    using that by (cases s; cases e; simp add: patch_handlers)
qed

lemma patch_no_commands: "patch_step s e d = Some (TOk cs s', d') \<Longrightarrow> cs = []"
  by (cases s; cases e; auto simp: patch_handlers transition_results split: if_splits)

lemma patch_convert_no_panic: "\<not> is_panic (patch_try_from_event x ed)"
  by (simp add: patch_try_from_event_def split: option.splits)

lemma patch_adapt_no_panic:
  "patch_step s e d = Some (TOk cs s', d') \<Longrightarrow> c \<in> set cs \<Longrightarrow> \<not> is_panic (patch_adapt_response m c ei)"
  by (auto dest: patch_no_commands)

interpretation patch: temporal_machine patch_table "\<lambda>s. s" patch_event_name patch_step
  patch_try_from_command "patch_try_from_event x" patch_adapt_response for x
  by (intro temporal_machine.intro temporal_machine_axioms.intro patch_conforms
      patch_convert_no_panic patch_adapt_no_panic)

section \<open>Patches and their markers\<close>

definition patch_apply ::
  "externals \<Rightarrow> patch_machine \<Rightarrow> string machine_input \<Rightarrow>
   machine_response list outcome \<times> patch_machine" where
  "patch_apply x =
     apply_input patch_try_from_command (patch_try_from_event x) patch_step patch_adapt_response
       no_cancel"

lemma has_change_Ok:
  assumes "has_change x i rep dep seen ids fl = (Ok (m, cmd, ups), fl')"
  obtains details where "build_has_change_marker_details x i dep = Some details"
    "cmd = RecordMarkerCommandAttributes
       \<lparr>rma_marker_name = PATCH_MARKER_NAME, rma_details = details, rma_header = None,
        rma_failure = None\<rparr>"
    "m = \<lparr>fsm_state = Some (if rep then MarkerCommandCreatedReplaying else MarkerCommandCreated),
      fsm_shared = \<lparr>pa_patch_id = i\<rparr>\<rparr>"
    "fl' = snd (try_use fl UpsertSearchAttributeOnPatch (\<not> rep))"
    "if rep \<and> \<not> seen \<or> \<not> fst (try_use fl UpsertSearchAttributeOnPatch (\<not> rep)) then ups = []
     else patch_upsert x i ids = Ok ups"
  using assms
  by (cases rep) (auto simp: has_change_def from_parts_def on_event_def patch_handlers Let_def
      transition_results split: option.splits prod.splits if_splits)

text \<open>
  C31: The marker a patch call records is the marker its machine accepts: with a JSON codec that
  decodes what it encodes, the machine of a patch call takes the echo of its own marker command and
  then the history event with exactly the details it put in the command, without a response, and
  ends in its final state; an event with another patch id is refused as nondeterminism.
\<close>

theorem patch_marker_round_trip:
  assumes new: "has_change x i rep dep seen ids fl =
      (Ok (m, RecordMarkerCommandAttributes ra, ups), fl')"
    and codec: "\<And>d bs. x_patch_to_json x d = Some bs \<Longrightarrow>
      x_patch_of_json x bs = Some d \<and> x_from_utf8 x bs \<noteq> None"
    and marker: "attrs = \<lparr>mrk_marker_name = rma_marker_name ra, mrk_details = rma_details ra,
      mrk_failure = rma_failure ra\<rparr>"
  shows "run_inputs (patch_apply x) m
      [InCommand CT_RecordMarker, InEvent (mk_event eid 25 (MarkerRecordedEventAttributes attrs))] =
    (Ok [], \<lparr>fsm_state = Some MarkerCommandRecorded, fsm_shared = \<lparr>pa_patch_id = i\<rparr>\<rparr>) \<and>
    (decode_change_marker_details x details' = Some (j, dep') \<longrightarrow> j \<noteq> i \<longrightarrow>
      (\<exists>msg. fst (run_inputs (patch_apply x) m
        [InCommand CT_RecordMarker, InEvent (mk_event eid 25 (MarkerRecordedEventAttributes
          (attrs\<lparr>mrk_details := details'\<rparr>)))]) = Err (Nondeterminism msg)))"
proof -
  from new obtain details where d: "build_has_change_marker_details x i dep = Some details"
    and ra: "ra = \<lparr>rma_marker_name = PATCH_MARKER_NAME, rma_details = details, rma_header = None,
        rma_failure = None\<rparr>"
    and m: "m = \<lparr>fsm_state = Some (if rep then MarkerCommandCreatedReplaying else MarkerCommandCreated),
      fsm_shared = \<lparr>pa_patch_id = i\<rparr>\<rparr>"
    by (rule has_change_Ok) auto
  from d codec have "decode_change_marker_details x details = Some (i, dep)"
    by (auto simp: build_has_change_marker_details_def decode_change_marker_details_def
        split: option.splits dest!: codec)
  then show ?thesis
    by (simp add: m ra marker patch_apply_def machine_run patch_handlers patch_try_from_command_def
        patch_try_from_event_def get_patch_marker_details_def)
qed

theorem patch_marker_round_trip_witness:
  "\<exists>m ra. has_change wit_externals ''p'' False False False [] (flags_new True [] []) =
     (Ok (m, RecordMarkerCommandAttributes ra,
        [NewCoreOriginatedCommand (UpsertWorkflowSearchAttributesCommandAttributes
           (Some [(VERSION_SEARCH_ATTR_KEY, json_payload [112])]))]),
      snd (try_use (flags_new True [] []) UpsertSearchAttributeOnPatch True)) \<and>
   run_inputs (patch_apply wit_externals) m
      [InCommand CT_RecordMarker, InEvent (mk_event 5 25 (MarkerRecordedEventAttributes
        \<lparr>mrk_marker_name = rma_marker_name ra, mrk_details = rma_details ra,
         mrk_failure = rma_failure ra\<rparr>))] =
    (Ok [], \<lparr>fsm_state = Some MarkerCommandRecorded, fsm_shared = \<lparr>pa_patch_id = ''p''\<rparr>\<rparr>)"
proof -
  obtain m ra where new: "has_change wit_externals ''p'' False False False [] (flags_new True [] []) =
     (Ok (m, RecordMarkerCommandAttributes ra,
        [NewCoreOriginatedCommand (UpsertWorkflowSearchAttributesCommandAttributes
           (Some [(VERSION_SEARCH_ATTR_KEY, json_payload [112])]))]),
      snd (try_use (flags_new True [] []) UpsertSearchAttributeOnPatch True))"
    by (simp add: has_change_def build_has_change_marker_details_def wit_externals_def from_parts_def
        on_event_def patch_handlers transition_results flags_new_def patch_upsert_def
        MAX_SEARCH_ATTR_PAYLOAD_SIZE_def map_insert_def)
  from patch_marker_round_trip [OF new _ refl] wit_externals_patch_codec new
  show ?thesis by (auto simp: wit_externals_def)
qed

text \<open>
  C32: The search attribute a patch call upserts does not depend on the order (or the repetition) in
  which the already known patch ids are handed over, which come out of a hash map and so in no
  fixed order, and its serialized value is always below the size the server permits.
\<close>

theorem patch_upsert_deterministic:
  assumes "set ids = set ids'"
  shows "has_change x i rep dep seen ids fl = has_change x i rep dep seen ids' fl \<and>
    (\<forall>m cmd ups fl' key p. has_change x i rep dep seen ids fl = (Ok (m, cmd, ups), fl') \<longrightarrow>
       NewCoreOriginatedCommand (UpsertWorkflowSearchAttributesCommandAttributes (Some [(key, p)]))
         \<in> set ups \<longrightarrow>
       length (pl_data p) < 2048)"
proof -
  have "set (i # ids) = set (i # ids')" using assms by simp
  then have "sort (remdups (i # ids)) = sort (remdups (i # ids'))"
    by (metis sorted_list_of_set_sort_remdups)
  then have same: "patch_upsert x i ids = patch_upsert x i ids'" unfolding patch_upsert_def by (rule arg_cong)
  have "length (pl_data p) < 2048"
    if "has_change x i rep dep seen ids fl = (Ok (m, cmd, ups), fl')"
      and "NewCoreOriginatedCommand (UpsertWorkflowSearchAttributesCommandAttributes (Some [(key, p)]))
        \<in> set ups" for m cmd ups fl' key p
  proof -
    from that(1) have "if rep \<and> \<not> seen \<or> \<not> fst (try_use fl UpsertSearchAttributeOnPatch (\<not> rep))
      then ups = [] else patch_upsert x i ids = Ok ups"
      by (rule has_change_Ok)
    with that(2) have "patch_upsert x i ids = Ok ups" by (auto split: if_splits)
    with that(2) show ?thesis
      by (auto simp: patch_upsert_def MAX_SEARCH_ATTR_PAYLOAD_SIZE_def map_insert_def
          split: option.splits if_splits)
  qed
  moreover have "has_change x i rep dep seen ids fl = has_change x i rep dep seen ids' fl"
    unfolding has_change_def same by (rule refl)
  ultimately show ?thesis by blast
qed

theorem patch_upsert_deterministic_witness:
  "has_change wit_externals ''p'' False False False [''b'', ''a'', ''b''] (flags_new True [] []) =
   has_change wit_externals ''p'' False False False [''a'', ''b''] (flags_new True [] [])"
  using patch_upsert_deterministic [of "[''b'', ''a'', ''b'']" "[''a'', ''b'']" wit_externals "''p''"]
  by auto

end
