(* ===== verification/Terminal_Machines.thy ===== *)
theory Terminal_Machines
  imports Temporal_Machine
begin

text \<open>
  The four machines whose command ends a workflow run: completion, failure, continue as new and
  cancellation.  Each is created with its command, sees the echo of that command, and is done once
  the matching event is recorded.
\<close>

section \<open>Completing a workflow (\<open>machines/complete_workflow_state_machine.rs\<close>)\<close>

datatype complete_state = complete_Created "payload option" | CompleteWorkflowCommandCreated | CompleteWorkflowCommandRecorded

datatype complete_state_kind = complete_StCreated | StCompleteWorkflowCommandCreated | StCompleteWorkflowCommandRecorded

primrec complete_state_name :: "complete_state \<Rightarrow> complete_state_kind" where
  "complete_state_name (complete_Created a) = complete_StCreated"
| "complete_state_name CompleteWorkflowCommandCreated = StCompleteWorkflowCommandCreated"
| "complete_state_name CompleteWorkflowCommandRecorded = StCompleteWorkflowCommandRecorded"

datatype complete_event = complete_Schedule | CommandCompleteWorkflowExecution | WorkflowExecutionCompleted

datatype complete_event_kind = complete_EvSchedule | EvCommandCompleteWorkflowExecution | EvWorkflowExecutionCompleted

primrec complete_event_name :: "complete_event \<Rightarrow> complete_event_kind" where
  "complete_event_name complete_Schedule = complete_EvSchedule"
| "complete_event_name CommandCompleteWorkflowExecution = EvCommandCompleteWorkflowExecution"
| "complete_event_name WorkflowExecutionCompleted = EvWorkflowExecutionCompleted"

datatype complete_command = complete_AddCommand command_attributes

type_synonym complete_machine = "(complete_state, unit) fsm"

definition complete_table :: "(complete_state_kind, complete_event_kind) transition list" where
  "complete_table =
     [row complete_StCreated complete_EvSchedule (Some ''on_schedule'') False StCompleteWorkflowCommandCreated,
      row StCompleteWorkflowCommandCreated EvCommandCompleteWorkflowExecution None False
        StCompleteWorkflowCommandCreated,
      row StCompleteWorkflowCommandCreated EvWorkflowExecutionCompleted None False
        StCompleteWorkflowCommandRecorded]"

definition complete_on_schedule :: "payload option \<Rightarrow> (complete_command, complete_state) transition_result" where
  "complete_on_schedule attribs = tr_commands CompleteWorkflowCommandCreated [complete_AddCommand (complete_workflow_attrs attribs)]"

primrec complete_step :: "(complete_state, complete_event, unit, complete_command) step_fun" where
  "complete_step (complete_Created a) e d = (case e of complete_Schedule \<Rightarrow> Some (complete_on_schedule a, d) | _ \<Rightarrow> None)"
| "complete_step CompleteWorkflowCommandCreated e d =
     (case e of
        CommandCompleteWorkflowExecution \<Rightarrow> Some (tr_from_state id CompleteWorkflowCommandCreated, d)
      | WorkflowExecutionCompleted \<Rightarrow>
          Some (tr_from_state (\<lambda>_. CompleteWorkflowCommandRecorded) CompleteWorkflowCommandCreated, d)
      | _ \<Rightarrow> None)"
| "complete_step CompleteWorkflowCommandRecorded e d = None"

definition complete_workflow ::
  "payload option \<Rightarrow> (complete_machine \<times> command_attributes) outcome" where
  "complete_workflow attribs =
     (case on_event complete_step (from_parts (complete_Created attribs) ()) complete_Schedule of
        (Cmds cmds, machine) \<Rightarrow>
          (if cmds = [] then Panic ''complete wf machine on_schedule must produce command''
           else case last cmds of complete_AddCommand c \<Rightarrow> Ok (machine, c))
      | _ \<Rightarrow> Panic ''Scheduling complete wf machines doesn't fail'')"

definition complete_try_from_event :: "hist_event_data \<Rightarrow> complete_event outcome" where
  "complete_try_from_event ed =
     (if event_type_of (hed_event ed) = ET_WorkflowExecutionCompleted then Ok WorkflowExecutionCompleted
      else Err (Nondeterminism ''Complete workflow machine does not handle this event''))"

definition complete_try_from_command :: "command_type \<Rightarrow> complete_event option" where
  "complete_try_from_command c = (if c = CT_CompleteWorkflowExecution then Some CommandCompleteWorkflowExecution else None)"

definition complete_adapt_response ::
  "complete_machine \<Rightarrow> complete_command \<Rightarrow> event_info option \<Rightarrow> machine_response list outcome" where
  "complete_adapt_response m cmd ei = Ok []"

lemma complete_conforms: "fsm_conforms complete_table complete_state_name complete_event_name complete_step"
proof
  show "complete_step s e d = None \<longleftrightarrow> dests complete_table (complete_state_name s) (complete_event_name e) = []" for s e d
    by (cases s; cases e; simp add: fsm_tables complete_table_def)
next
  show "complete_state_name s' \<in> set (dests complete_table (complete_state_name s) (complete_event_name e))"
    if "complete_step s e d = Some (TOk cs s', d')" for s e d cs s' d'
    using that
    by (cases s; cases e; (simp; fail)?; auto simp: fsm_tables complete_table_def complete_on_schedule_def
        transition_results)
next
  show "complete_step s e d \<noteq> Some (InvalidTransition, d')" for s e d d'
    by (cases s; cases e; simp add: complete_on_schedule_def transition_results)
next
  show "d' = d" if "complete_step s e d = Some (r, d')" for s e d r d'
    using that by (cases s; cases e; simp)
qed

interpretation complete_wf: temporal_machine complete_table complete_state_name complete_event_name complete_step
  complete_try_from_command complete_try_from_event complete_adapt_response
  by (intro temporal_machine.intro temporal_machine_axioms.intro complete_conforms)
    (simp_all add: complete_try_from_event_def complete_adapt_response_def)

section \<open>Failing a workflow (\<open>machines/fail_workflow_state_machine.rs\<close>)\<close>

datatype failwf_state = failwf_Created "failure option" | FailWorkflowCommandCreated | FailWorkflowCommandRecorded

datatype failwf_state_kind = failwf_StCreated | StFailWorkflowCommandCreated | StFailWorkflowCommandRecorded

primrec failwf_state_name :: "failwf_state \<Rightarrow> failwf_state_kind" where
  "failwf_state_name (failwf_Created a) = failwf_StCreated"
| "failwf_state_name FailWorkflowCommandCreated = StFailWorkflowCommandCreated"
| "failwf_state_name FailWorkflowCommandRecorded = StFailWorkflowCommandRecorded"

datatype failwf_event = failwf_Schedule | CommandFailWorkflowExecution | WorkflowExecutionFailed

datatype failwf_event_kind = failwf_EvSchedule | EvCommandFailWorkflowExecution | EvWorkflowExecutionFailed

primrec failwf_event_name :: "failwf_event \<Rightarrow> failwf_event_kind" where
  "failwf_event_name failwf_Schedule = failwf_EvSchedule"
| "failwf_event_name CommandFailWorkflowExecution = EvCommandFailWorkflowExecution"
| "failwf_event_name WorkflowExecutionFailed = EvWorkflowExecutionFailed"

datatype failwf_command = failwf_AddCommand command_attributes

type_synonym failwf_machine = "(failwf_state, unit) fsm"

definition failwf_table :: "(failwf_state_kind, failwf_event_kind) transition list" where
  "failwf_table =
     [row failwf_StCreated failwf_EvSchedule (Some ''on_schedule'') False StFailWorkflowCommandCreated,
      row StFailWorkflowCommandCreated EvCommandFailWorkflowExecution None False
        StFailWorkflowCommandCreated,
      row StFailWorkflowCommandCreated EvWorkflowExecutionFailed None False
        StFailWorkflowCommandRecorded]"

definition failwf_on_schedule :: "failure option \<Rightarrow> (failwf_command, failwf_state) transition_result" where
  "failwf_on_schedule attribs = tr_commands FailWorkflowCommandCreated [failwf_AddCommand (fail_workflow_attrs attribs)]"

primrec failwf_step :: "(failwf_state, failwf_event, unit, failwf_command) step_fun" where
  "failwf_step (failwf_Created a) e d = (case e of failwf_Schedule \<Rightarrow> Some (failwf_on_schedule a, d) | _ \<Rightarrow> None)"
| "failwf_step FailWorkflowCommandCreated e d =
     (case e of
        CommandFailWorkflowExecution \<Rightarrow> Some (tr_from_state id FailWorkflowCommandCreated, d)
      | WorkflowExecutionFailed \<Rightarrow>
          Some (tr_from_state (\<lambda>_. FailWorkflowCommandRecorded) FailWorkflowCommandCreated, d)
      | _ \<Rightarrow> None)"
| "failwf_step FailWorkflowCommandRecorded e d = None"

definition fail_workflow ::
  "failure option \<Rightarrow> (failwf_machine \<times> command_attributes) outcome" where
  "fail_workflow attribs =
     (case on_event failwf_step (from_parts (failwf_Created attribs) ()) failwf_Schedule of
        (Cmds cmds, machine) \<Rightarrow>
          (if cmds = [] then Panic ''Fail wf machine on_schedule must produce command''
           else case last cmds of failwf_AddCommand c \<Rightarrow> Ok (machine, c))
      | _ \<Rightarrow> Panic ''Scheduling fail wf machines doesn't fail'')"

definition failwf_try_from_event :: "hist_event_data \<Rightarrow> failwf_event outcome" where
  "failwf_try_from_event ed =
     (if event_type_of (hed_event ed) = ET_WorkflowExecutionFailed then Ok WorkflowExecutionFailed
      else Err (Nondeterminism ''Fail workflow machine does not handle this event''))"

definition failwf_try_from_command :: "command_type \<Rightarrow> failwf_event option" where
  "failwf_try_from_command c = (if c = CT_FailWorkflowExecution then Some CommandFailWorkflowExecution else None)"

definition failwf_adapt_response ::
  "failwf_machine \<Rightarrow> failwf_command \<Rightarrow> event_info option \<Rightarrow> machine_response list outcome" where
  "failwf_adapt_response m cmd ei = Ok []"

lemma failwf_conforms: "fsm_conforms failwf_table failwf_state_name failwf_event_name failwf_step"
proof
  show "failwf_step s e d = None \<longleftrightarrow> dests failwf_table (failwf_state_name s) (failwf_event_name e) = []" for s e d
    by (cases s; cases e; simp add: fsm_tables failwf_table_def)
next
  show "failwf_state_name s' \<in> set (dests failwf_table (failwf_state_name s) (failwf_event_name e))"
    if "failwf_step s e d = Some (TOk cs s', d')" for s e d cs s' d'
    using that
    by (cases s; cases e; (simp; fail)?; auto simp: fsm_tables failwf_table_def failwf_on_schedule_def
        transition_results)
next
  show "failwf_step s e d \<noteq> Some (InvalidTransition, d')" for s e d d'
    by (cases s; cases e; simp add: failwf_on_schedule_def transition_results)
next
  show "d' = d" if "failwf_step s e d = Some (r, d')" for s e d r d'
    using that by (cases s; cases e; simp)
qed

interpretation failwf_wf: temporal_machine failwf_table failwf_state_name failwf_event_name failwf_step
  failwf_try_from_command failwf_try_from_event failwf_adapt_response
  by (intro temporal_machine.intro temporal_machine_axioms.intro failwf_conforms)
    (simp_all add: failwf_try_from_event_def failwf_adapt_response_def)

section \<open>Continuing as new (\<open>machines/continue_as_new_workflow_state_machine.rs\<close>)\<close>

datatype can_state = can_Created | ContinueAsNewWorkflowCommandCreated | ContinueAsNewWorkflowCommandRecorded

datatype can_state_kind = can_StCreated | StContinueAsNewWorkflowCommandCreated | StContinueAsNewWorkflowCommandRecorded

primrec can_state_name :: "can_state \<Rightarrow> can_state_kind" where
  "can_state_name can_Created = can_StCreated"
| "can_state_name ContinueAsNewWorkflowCommandCreated = StContinueAsNewWorkflowCommandCreated"
| "can_state_name ContinueAsNewWorkflowCommandRecorded = StContinueAsNewWorkflowCommandRecorded"

datatype can_event = can_Schedule | CommandContinueAsNewWorkflowExecution | WorkflowExecutionContinuedAsNew

datatype can_event_kind = can_EvSchedule | EvCommandContinueAsNewWorkflowExecution | EvWorkflowExecutionContinuedAsNew

primrec can_event_name :: "can_event \<Rightarrow> can_event_kind" where
  "can_event_name can_Schedule = can_EvSchedule"
| "can_event_name CommandContinueAsNewWorkflowExecution = EvCommandContinueAsNewWorkflowExecution"
| "can_event_name WorkflowExecutionContinuedAsNew = EvWorkflowExecutionContinuedAsNew"

type_synonym can_machine = "(can_state, unit) fsm"

definition can_table :: "(can_state_kind, can_event_kind) transition list" where
  "can_table =
     [row can_StCreated can_EvSchedule (Some ''on_schedule'') False StContinueAsNewWorkflowCommandCreated,
      row StContinueAsNewWorkflowCommandCreated EvCommandContinueAsNewWorkflowExecution None False
        StContinueAsNewWorkflowCommandCreated,
      row StContinueAsNewWorkflowCommandCreated EvWorkflowExecutionContinuedAsNew None False
        StContinueAsNewWorkflowCommandRecorded]"

definition can_on_schedule :: "(unit, can_state) transition_result" where
  "can_on_schedule = tr_default ContinueAsNewWorkflowCommandCreated"

primrec can_step :: "(can_state, can_event, unit, unit) step_fun" where
  "can_step can_Created e d = (case e of can_Schedule \<Rightarrow> Some (can_on_schedule, d) | _ \<Rightarrow> None)"
| "can_step ContinueAsNewWorkflowCommandCreated e d =
     (case e of
        CommandContinueAsNewWorkflowExecution \<Rightarrow> Some (tr_from_state id ContinueAsNewWorkflowCommandCreated, d)
      | WorkflowExecutionContinuedAsNew \<Rightarrow>
          Some (tr_from_state (\<lambda>_. ContinueAsNewWorkflowCommandRecorded) ContinueAsNewWorkflowCommandCreated, d)
      | _ \<Rightarrow> None)"
| "can_step ContinueAsNewWorkflowCommandRecorded e d = None"

definition continue_as_new ::
  "continue_as_new_cmd \<Rightarrow> bool \<Rightarrow> (can_machine \<times> command_attributes) outcome" where
  "continue_as_new attribs use_compatible_version =
     (case on_event can_step (from_parts can_Created ()) can_Schedule of
        (Cmds _, machine) \<Rightarrow> Ok (machine, continue_as_new_cmd_to_api attribs use_compatible_version)
      | _ \<Rightarrow> Panic ''Scheduling continue as new machine doesn't fail'')"

definition can_try_from_event :: "hist_event_data \<Rightarrow> can_event outcome" where
  "can_try_from_event ed =
     (if event_type_of (hed_event ed) = ET_WorkflowExecutionContinuedAsNew then Ok WorkflowExecutionContinuedAsNew
      else Err (Nondeterminism ''Continue as new workflow machine does not handle this event''))"

definition can_try_from_command :: "command_type \<Rightarrow> can_event option" where
  "can_try_from_command c = (if c = CT_ContinueAsNewWorkflowExecution then Some CommandContinueAsNewWorkflowExecution else None)"

definition can_adapt_response ::
  "can_machine \<Rightarrow> unit \<Rightarrow> event_info option \<Rightarrow> machine_response list outcome" where
  "can_adapt_response m cmd ei = Ok []"

lemma can_conforms: "fsm_conforms can_table can_state_name can_event_name can_step"
proof
  show "can_step s e d = None \<longleftrightarrow> dests can_table (can_state_name s) (can_event_name e) = []" for s e d
    by (cases s; cases e; simp add: fsm_tables can_table_def)
next
  show "can_state_name s' \<in> set (dests can_table (can_state_name s) (can_event_name e))"
    if "can_step s e d = Some (TOk cs s', d')" for s e d cs s' d'
    using that
    by (cases s; cases e; (simp; fail)?; auto simp: fsm_tables can_table_def can_on_schedule_def
        transition_results)
next
  show "can_step s e d \<noteq> Some (InvalidTransition, d')" for s e d d'
    by (cases s; cases e; simp add: can_on_schedule_def transition_results)
next
  show "d' = d" if "can_step s e d = Some (r, d')" for s e d r d'
    using that by (cases s; cases e; simp)
qed

interpretation can_wf: temporal_machine can_table can_state_name can_event_name can_step
  can_try_from_command can_try_from_event can_adapt_response
  by (intro temporal_machine.intro temporal_machine_axioms.intro can_conforms)
    (simp_all add: can_try_from_event_def can_adapt_response_def)

section \<open>Cancelling a workflow (\<open>machines/cancel_workflow_state_machine.rs\<close>)\<close>

datatype cancelwf_state = cancelwf_Created | CancelWorkflowCommandCreated | CancelWorkflowCommandRecorded

datatype cancelwf_state_kind = cancelwf_StCreated | StCancelWorkflowCommandCreated | StCancelWorkflowCommandRecorded

primrec cancelwf_state_name :: "cancelwf_state \<Rightarrow> cancelwf_state_kind" where
  "cancelwf_state_name cancelwf_Created = cancelwf_StCreated"
| "cancelwf_state_name CancelWorkflowCommandCreated = StCancelWorkflowCommandCreated"
| "cancelwf_state_name CancelWorkflowCommandRecorded = StCancelWorkflowCommandRecorded"

datatype cancelwf_event = cancelwf_Schedule | CommandCancelWorkflowExecution | WorkflowExecutionCanceled

datatype cancelwf_event_kind = cancelwf_EvSchedule | EvCommandCancelWorkflowExecution | EvWorkflowExecutionCanceled

primrec cancelwf_event_name :: "cancelwf_event \<Rightarrow> cancelwf_event_kind" where
  "cancelwf_event_name cancelwf_Schedule = cancelwf_EvSchedule"
| "cancelwf_event_name CommandCancelWorkflowExecution = EvCommandCancelWorkflowExecution"
| "cancelwf_event_name WorkflowExecutionCanceled = EvWorkflowExecutionCanceled"

type_synonym cancelwf_machine = "(cancelwf_state, unit) fsm"

definition cancelwf_table :: "(cancelwf_state_kind, cancelwf_event_kind) transition list" where
  "cancelwf_table =
     [row cancelwf_StCreated cancelwf_EvSchedule (Some ''on_schedule'') False StCancelWorkflowCommandCreated,
      row StCancelWorkflowCommandCreated EvCommandCancelWorkflowExecution None False
        StCancelWorkflowCommandCreated,
      row StCancelWorkflowCommandCreated EvWorkflowExecutionCanceled None False
        StCancelWorkflowCommandRecorded]"

definition cancelwf_on_schedule :: "(unit, cancelwf_state) transition_result" where
  "cancelwf_on_schedule = tr_default CancelWorkflowCommandCreated"

primrec cancelwf_step :: "(cancelwf_state, cancelwf_event, unit, unit) step_fun" where
  "cancelwf_step cancelwf_Created e d = (case e of cancelwf_Schedule \<Rightarrow> Some (cancelwf_on_schedule, d) | _ \<Rightarrow> None)"
| "cancelwf_step CancelWorkflowCommandCreated e d =
     (case e of
        CommandCancelWorkflowExecution \<Rightarrow> Some (tr_from_state id CancelWorkflowCommandCreated, d)
      | WorkflowExecutionCanceled \<Rightarrow>
          Some (tr_from_state (\<lambda>_. CancelWorkflowCommandRecorded) CancelWorkflowCommandCreated, d)
      | _ \<Rightarrow> None)"
| "cancelwf_step CancelWorkflowCommandRecorded e d = None"

definition cancel_workflow :: "(cancelwf_machine \<times> command_attributes) outcome" where
  "cancel_workflow =
     (case on_event cancelwf_step (from_parts cancelwf_Created ()) cancelwf_Schedule of
        (Cmds _, machine) \<Rightarrow> Ok (machine, cancel_workflow_attrs)
      | _ \<Rightarrow> Panic ''Scheduling continue as new machine doesn't fail'')"

definition cancelwf_try_from_event :: "hist_event_data \<Rightarrow> cancelwf_event outcome" where
  "cancelwf_try_from_event ed =
     (if event_type_try_from (he_event_type (hed_event ed)) = Some ET_WorkflowExecutionCanceled then Ok WorkflowExecutionCanceled
      else Err (Nondeterminism ''Cancel workflow machine does not handle this event''))"

definition cancelwf_try_from_command :: "command_type \<Rightarrow> cancelwf_event option" where
  "cancelwf_try_from_command c = (if c = CT_CancelWorkflowExecution then Some CommandCancelWorkflowExecution else None)"

definition cancelwf_adapt_response ::
  "cancelwf_machine \<Rightarrow> unit \<Rightarrow> event_info option \<Rightarrow> machine_response list outcome" where
  "cancelwf_adapt_response m cmd ei = Ok []"

lemma cancelwf_conforms: "fsm_conforms cancelwf_table cancelwf_state_name cancelwf_event_name cancelwf_step"
proof
  show "cancelwf_step s e d = None \<longleftrightarrow> dests cancelwf_table (cancelwf_state_name s) (cancelwf_event_name e) = []" for s e d
    by (cases s; cases e; simp add: fsm_tables cancelwf_table_def)
next
  show "cancelwf_state_name s' \<in> set (dests cancelwf_table (cancelwf_state_name s) (cancelwf_event_name e))"
    if "cancelwf_step s e d = Some (TOk cs s', d')" for s e d cs s' d'
    using that
    by (cases s; cases e; (simp; fail)?; auto simp: fsm_tables cancelwf_table_def cancelwf_on_schedule_def
        transition_results)
next
  show "cancelwf_step s e d \<noteq> Some (InvalidTransition, d')" for s e d d'
    by (cases s; cases e; simp add: cancelwf_on_schedule_def transition_results)
next
  show "d' = d" if "cancelwf_step s e d = Some (r, d')" for s e d r d'
    using that by (cases s; cases e; simp)
qed

interpretation cancelwf_wf: temporal_machine cancelwf_table cancelwf_state_name cancelwf_event_name cancelwf_step
  cancelwf_try_from_command cancelwf_try_from_event cancelwf_adapt_response
  by (intro temporal_machine.intro temporal_machine_axioms.intro cancelwf_conforms)
    (simp_all add: cancelwf_try_from_event_def cancelwf_adapt_response_def)

section \<open>Ending a workflow\<close>

text \<open>
  The four ways to end a workflow agree: creating the machine never panics and yields exactly
  the command the language layer asked for; the machine then takes the echo of its command and the
  matching history event without any response and is final, and it refuses every later event.
\<close>

theorem terminal_machines_end:
  "(\<exists>m. complete_workflow r = Ok (m, complete_workflow_attrs r) \<and>
      run_inputs (apply_input complete_try_from_command complete_try_from_event complete_step
        complete_adapt_response no_cancel) m
        [InCommand CT_CompleteWorkflowExecution, InEvent (mk_event i 2 a)] =
      (Ok [], \<lparr>fsm_state = Some CompleteWorkflowCommandRecorded, fsm_shared = ()\<rparr>)) \<and>
   (\<exists>m. fail_workflow f = Ok (m, fail_workflow_attrs f) \<and>
      run_inputs (apply_input failwf_try_from_command failwf_try_from_event failwf_step
        failwf_adapt_response no_cancel) m
        [InCommand CT_FailWorkflowExecution, InEvent (mk_event i 3 a)] =
      (Ok [], \<lparr>fsm_state = Some FailWorkflowCommandRecorded, fsm_shared = ()\<rparr>)) \<and>
   (\<exists>m. continue_as_new c u = Ok (m, continue_as_new_cmd_to_api c u) \<and>
      run_inputs (apply_input can_try_from_command can_try_from_event can_step
        can_adapt_response no_cancel) m
        [InCommand CT_ContinueAsNewWorkflowExecution, InEvent (mk_event i 28 a)] =
      (Ok [], \<lparr>fsm_state = Some ContinueAsNewWorkflowCommandRecorded, fsm_shared = ()\<rparr>)) \<and>
   (\<exists>m. cancel_workflow = Ok (m, cancel_workflow_attrs) \<and>
      run_inputs (apply_input cancelwf_try_from_command cancelwf_try_from_event cancelwf_step
        cancelwf_adapt_response no_cancel) m
        [InCommand CT_CancelWorkflowExecution, InEvent (mk_event i 21 a)] =
      (Ok [], \<lparr>fsm_state = Some CancelWorkflowCommandRecorded, fsm_shared = ()\<rparr>)) \<and>
   is_final_state complete_table StCompleteWorkflowCommandRecorded \<and>
   is_final_state failwf_table StFailWorkflowCommandRecorded \<and>
   is_final_state can_table StContinueAsNewWorkflowCommandRecorded \<and>
   is_final_state cancelwf_table StCancelWorkflowCommandRecorded"
proof -
  note defs = machine_run from_parts_def fsm_tables
  have 1: "\<exists>m. complete_workflow r = Ok (m, complete_workflow_attrs r) \<and>
      run_inputs (apply_input complete_try_from_command complete_try_from_event complete_step
        complete_adapt_response no_cancel) m
        [InCommand CT_CompleteWorkflowExecution, InEvent (mk_event i 2 a)] =
      (Ok [], \<lparr>fsm_state = Some CompleteWorkflowCommandRecorded, fsm_shared = ()\<rparr>)"
    by (simp add: defs complete_workflow_def complete_on_schedule_def complete_try_from_command_def
        complete_try_from_event_def)
  have 2: "\<exists>m. fail_workflow f = Ok (m, fail_workflow_attrs f) \<and>
      run_inputs (apply_input failwf_try_from_command failwf_try_from_event failwf_step
        failwf_adapt_response no_cancel) m
        [InCommand CT_FailWorkflowExecution, InEvent (mk_event i 3 a)] =
      (Ok [], \<lparr>fsm_state = Some FailWorkflowCommandRecorded, fsm_shared = ()\<rparr>)"
    by (simp add: defs fail_workflow_def failwf_on_schedule_def failwf_try_from_command_def
        failwf_try_from_event_def)
  have 3: "\<exists>m. continue_as_new c u = Ok (m, continue_as_new_cmd_to_api c u) \<and>
      run_inputs (apply_input can_try_from_command can_try_from_event can_step
        can_adapt_response no_cancel) m
        [InCommand CT_ContinueAsNewWorkflowExecution, InEvent (mk_event i 28 a)] =
      (Ok [], \<lparr>fsm_state = Some ContinueAsNewWorkflowCommandRecorded, fsm_shared = ()\<rparr>)"
    by (simp add: defs continue_as_new_def can_on_schedule_def can_try_from_command_def
        can_try_from_event_def)
  have 4: "\<exists>m. cancel_workflow = Ok (m, cancel_workflow_attrs) \<and>
      run_inputs (apply_input cancelwf_try_from_command cancelwf_try_from_event cancelwf_step
        cancelwf_adapt_response no_cancel) m
        [InCommand CT_CancelWorkflowExecution, InEvent (mk_event i 21 a)] =
      (Ok [], \<lparr>fsm_state = Some CancelWorkflowCommandRecorded, fsm_shared = ()\<rparr>)"
    by (simp add: defs cancel_workflow_def cancelwf_on_schedule_def cancelwf_try_from_command_def
        cancelwf_try_from_event_def)
  from 1 2 3 4 show ?thesis
    by (simp add: fsm_tables complete_table_def failwf_table_def can_table_def cancelwf_table_def)
qed

end
