(* ===== verification/Property_Machines.thy ===== *)
theory Property_Machines
  imports Temporal_Machine Internal_Flags
begin

text \<open>
  The machines that change what the server stores beside a workflow: its memo
  (\<open>machines/modify_workflow_properties_state_machine.rs\<close>) and its search attributes
  (\<open>machines/upsert_search_attributes_state_machine.rs\<close>).  Both command types are empty in the
  source and \<open>unit\<close> here.
\<close>

section \<open>Modifying workflow properties\<close>

datatype modify_state = modify_Created | modify_CommandIssued | modify_Done

datatype modify_event = modify_CommandScheduled | modify_CommandRecorded

type_synonym modify_machine = "(modify_state, unit) fsm"

definition modify_table :: "(modify_state, modify_event) transition list" where
  "modify_table =
     [row modify_Created modify_CommandScheduled None False modify_CommandIssued,
      row modify_CommandIssued modify_CommandRecorded None False modify_Done]"

primrec modify_step :: "(modify_state, modify_event, unit, unit) step_fun" where
  "modify_step modify_Created e d =
     (case e of
        modify_CommandScheduled \<Rightarrow> Some (tr_from_state (\<lambda>_. modify_CommandIssued) modify_Created, d)
      | _ \<Rightarrow> None)"
| "modify_step modify_CommandIssued e d =
     (case e of
        modify_CommandRecorded \<Rightarrow> Some (tr_from_state (\<lambda>_. modify_Done) modify_CommandIssued, d)
      | _ \<Rightarrow> None)"
| "modify_step modify_Done e d = None"

definition modify_workflow_properties ::
  "payload str_map option \<Rightarrow> modify_machine \<times> command_attributes" where
  "modify_workflow_properties lang_cmd =
     (from_parts modify_Created (), modify_properties_attrs lang_cmd)"

definition modify_adapt_response ::
  "modify_machine \<Rightarrow> unit \<Rightarrow> event_info option \<Rightarrow> machine_response list outcome" where
  "modify_adapt_response m cmd ei =
     Err (Nondeterminism ''ModifyWorkflowProperties does not use state machine commands'')"

definition modify_try_from_event :: "hist_event_data \<Rightarrow> modify_event outcome" where
  "modify_try_from_event ed =
     (if event_type_of (hed_event ed) = ET_WorkflowPropertiesModified then Ok modify_CommandRecorded
      else Err (Nondeterminism ''ModifyWorkflowPropertiesMachine does not handle''))"

definition modify_try_from_command :: "command_type \<Rightarrow> modify_event option" where
  "modify_try_from_command c =
     (if c = CT_ModifyWorkflowProperties then Some modify_CommandScheduled else None)"

lemma modify_conforms: "fsm_conforms modify_table (\<lambda>s. s) (\<lambda>e. e) modify_step"
proof
  show "modify_step s e d = None \<longleftrightarrow> dests modify_table s e = []" for s e d
    by (cases s; cases e; simp add: fsm_tables modify_table_def)
next
  show "s' \<in> set (dests modify_table s e)" if "modify_step s e d = Some (TOk cs s', d')"
    for s e d cs s' d'
    using that
    by (cases s; cases e; (simp; fail)?; simp add: fsm_tables modify_table_def transition_results)
next
  show "modify_step s e d \<noteq> Some (InvalidTransition, d')" for s e d d'
    by (cases s; cases e; simp add: transition_results)
next
  show "d' = d" if "modify_step s e d = Some (r, d')" for s e d r d'
    using that by (cases s; cases e; simp)
qed

interpretation modify: temporal_machine modify_table "\<lambda>s. s" "\<lambda>e. e" modify_step
  modify_try_from_command modify_try_from_event modify_adapt_response
  by (intro temporal_machine.intro temporal_machine_axioms.intro modify_conforms)
    (simp_all add: modify_try_from_event_def modify_adapt_response_def)

section \<open>Upserting search attributes\<close>

datatype upsert_state = upsert_Created | upsert_CommandIssued | upsert_Done

datatype upsert_event = upsert_CommandScheduled | upsert_CommandRecorded

type_synonym upsert_machine = "(upsert_state, unit) fsm"

definition upsert_table :: "(upsert_state, upsert_event) transition list" where
  "upsert_table =
     [row upsert_Created upsert_CommandScheduled None False upsert_CommandIssued,
      row upsert_CommandIssued upsert_CommandRecorded (Some ''on_command_recorded'') False upsert_Done]"

definition upsert_on_command_recorded :: "(unit, upsert_state) transition_result" where
  "upsert_on_command_recorded = tr_default upsert_Done"

primrec upsert_step :: "(upsert_state, upsert_event, unit, unit) step_fun" where
  "upsert_step upsert_Created e d =
     (case e of
        upsert_CommandScheduled \<Rightarrow> Some (tr_from_state (\<lambda>_. upsert_CommandIssued) upsert_Created, d)
      | _ \<Rightarrow> None)"
| "upsert_step upsert_CommandIssued e d =
     (case e of upsert_CommandRecorded \<Rightarrow> Some (upsert_on_command_recorded, d) | _ \<Rightarrow> None)"
| "upsert_step upsert_Done e d = None"

definition upsert_create_new :: "payload str_map \<Rightarrow> upsert_machine \<times> command_attributes" where
  "upsert_create_new sa_map =
     (from_parts upsert_Created (), UpsertWorkflowSearchAttributesCommandAttributes (Some sa_map))"

definition upsert_search_attrs ::
  "payload str_map \<Rightarrow> internal_flags \<Rightarrow> bool \<Rightarrow>
   (upsert_machine \<times> command_attributes) \<times> internal_flags" where
  "upsert_search_attrs search_attributes internal_flags replaying =
     (let (has_flag, flags) = try_use internal_flags UpsertSearchAttributeOnPatch (\<not> replaying)
      in (if has_flag \<and> contains_key search_attributes VERSION_SEARCH_ATTR_KEY
          then upsert_create_new []
          else upsert_create_new search_attributes, flags))"

definition upsert_search_attrs_internal ::
  "payload str_map option \<Rightarrow> upsert_machine \<times> command_attributes" where
  "upsert_search_attrs_internal attribs = upsert_create_new (opt_default [] attribs)"

definition upsert_adapt_response ::
  "upsert_machine \<Rightarrow> unit \<Rightarrow> event_info option \<Rightarrow> machine_response list outcome" where
  "upsert_adapt_response m cmd ei =
     Err (Nondeterminism ''UpsertWorkflowSearchAttributesMachine does not use commands'')"

definition upsert_try_from_event :: "hist_event_data \<Rightarrow> upsert_event outcome" where
  "upsert_try_from_event ed =
     (case attrs_upsert_workflow_search_attributes (hed_event ed) of
        Some _ \<Rightarrow> Ok upsert_CommandRecorded
      | None \<Rightarrow> Err (Nondeterminism ''UpsertWorkflowSearchAttributesMachine does not handle''))"

definition upsert_try_from_command :: "command_type \<Rightarrow> upsert_event option" where
  "upsert_try_from_command c =
     (if c = CT_UpsertWorkflowSearchAttributes then Some upsert_CommandScheduled else None)"

lemma upsert_conforms: "fsm_conforms upsert_table (\<lambda>s. s) (\<lambda>e. e) upsert_step"
proof
  show "upsert_step s e d = None \<longleftrightarrow> dests upsert_table s e = []" for s e d
    by (cases s; cases e; simp add: fsm_tables upsert_table_def)
next
  show "s' \<in> set (dests upsert_table s e)" if "upsert_step s e d = Some (TOk cs s', d')"
    for s e d cs s' d'
    using that
    by (cases s; cases e; (simp; fail)?; simp add: fsm_tables upsert_table_def transition_results
        upsert_on_command_recorded_def)
next
  show "upsert_step s e d \<noteq> Some (InvalidTransition, d')" for s e d d'
    by (cases s; cases e; simp add: transition_results upsert_on_command_recorded_def)
next
  show "d' = d" if "upsert_step s e d = Some (r, d')" for s e d r d'
    using that by (cases s; cases e; simp)
qed

interpretation upsert: temporal_machine upsert_table "\<lambda>s. s" "\<lambda>e. e" upsert_step
  upsert_try_from_command upsert_try_from_event upsert_adapt_response
  by (intro temporal_machine.intro temporal_machine_axioms.intro upsert_conforms)
    (simp_all add: upsert_try_from_event_def upsert_adapt_response_def split: option.splits)

section \<open>Properties\<close>

text \<open>
  C35: Workflow code does not overwrite the search attribute reserved for patches, and replay does
  what the execution did.  An upsert that contains the reserved key is sent as an empty upsert when
  flags are enabled and the run is live, or replays a history whose flags include the one that guards
  this; every other upsert, and every upsert of a run without flags or of a replay without that flag,
  is sent unchanged.  When a live run with flags enabled reports its flags with the completion of the
  task, and a worker that knew the same core flags before reads them back from the event, replaying
  the upsert yields the same command.
\<close>

theorem upsert_never_touches_patches:
  assumes "upsert_search_attrs sas fl replaying = ((m, cmd), fl')"
  shows "cmd = UpsertWorkflowSearchAttributesCommandAttributes
      (Some (if VERSION_SEARCH_ATTR_KEY \<in> fst ` set sas \<and>
                (case fl of Enabled f \<Rightarrow> \<not> replaying \<or> UpsertSearchAttributeOnPatch \<in> ef_core f
                 | Disabled \<Rightarrow> False) then [] else sas)) \<and>
    (\<not> replaying \<longrightarrow> fl = Enabled f \<longrightarrow> ef_core g = ef_core f \<longrightarrow>
       wtc_sdk_metadata e = Some (fst (gather_for_wft_complete fl')) \<longrightarrow>
       snd (fst (upsert_search_attrs sas (add_from_complete (Enabled g) e) True)) = cmd)"
  using assms
  by (cases fl) (auto simp: upsert_search_attrs_def upsert_create_new_def from_parts_def
      contains_key_def map_of_eq_None_iff image_image split: prod.splits if_splits)

theorem upsert_never_touches_patches_witness:
  "\<exists>m fl'. upsert_search_attrs [(''TemporalChangeVersion'', payload_default)] (flags_new True [] []) False =
     ((m, UpsertWorkflowSearchAttributesCommandAttributes (Some [])), fl') \<and>
   snd (fst (upsert_search_attrs [(''TemporalChangeVersion'', payload_default)]
     (add_from_complete (flags_new True [] [])
        \<lparr>wtc_scheduled_event_id = 2, wtc_sdk_metadata = Some (fst (gather_for_wft_complete fl')),
         wtc_worker_build_id = None\<rparr>) True)) =
     UpsertWorkflowSearchAttributesCommandAttributes (Some [])"
proof -
  obtain f where f: "flags_new True [] [] = Enabled f" by (simp add: flags_new_def)
  obtain m cmd fl' where u: "upsert_search_attrs [(''TemporalChangeVersion'', payload_default)]
      (flags_new True [] []) False = ((m, cmd), fl')"
    by (metis prod.exhaust)
  show ?thesis
    using upsert_never_touches_patches [OF u, of f f "\<lparr>wtc_scheduled_event_id = 2,
        wtc_sdk_metadata = Some (fst (gather_for_wft_complete fl')), wtc_worker_build_id = None\<rparr>"] u f
    by (simp add: VERSION_SEARCH_ATTR_KEY_def)
qed

end
