(* ===== verification/Local_Activity_Machine.thy ===== *)
theory Local_Activity_Machine
  imports Activity_Machine
begin

text \<open>
  The local activity machine (\<open>machines/local_activity_state_machine.rs\<close>).  A local activity runs
  inside the worker: its result is told to the language layer at once and recorded for replay as a
  marker.  The machine has an execution path (run, resolve, record the marker, see it in history)
  and a replay path (wait for the marker, resolve from it).
\<close>

section \<open>States, events, commands\<close>

record resolve_dat =
  rd_result :: la_execution_result
  rd_complete_time :: "system_time option"
  rd_attempt :: u32
  rd_backoff :: "duration_pb option"
  rd_original_schedule_time :: "system_time option"

datatype result_type = RT_Completed | RT_Cancelled | RT_Failed

datatype la_state = La_Executing | La_Replaying | La_ReplayingPreResolved resolve_dat
  | La_RequestSent | La_WaitingMarkerEvent (already_resolved: bool)
  | La_WaitingMarkerEventPreResolved | La_MarkerCommandCreated result_type
  | La_ResultNotified result_type | La_MarkerCommandRecorded

datatype la_state_kind = StExecuting | StReplaying | StReplayingPreResolved | StRequestSent
  | StWaitingMarkerEvent | StWaitingMarkerEventPreResolved | StMarkerCommandCreated
  | StResultNotified | StMarkerCommandRecorded

primrec la_state_name :: "la_state \<Rightarrow> la_state_kind" where
  "la_state_name La_Executing = StExecuting"
| "la_state_name La_Replaying = StReplaying"
| "la_state_name (La_ReplayingPreResolved dat) = StReplayingPreResolved"
| "la_state_name La_RequestSent = StRequestSent"
| "la_state_name (La_WaitingMarkerEvent r) = StWaitingMarkerEvent"
| "la_state_name La_WaitingMarkerEventPreResolved = StWaitingMarkerEventPreResolved"
| "la_state_name (La_MarkerCommandCreated rt) = StMarkerCommandCreated"
| "la_state_name (La_ResultNotified rt) = StResultNotified"
| "la_state_name La_MarkerCommandRecorded = StMarkerCommandRecorded"

datatype la_event = La_Schedule | La_HandleResult resolve_dat | La_HandleKnownResult resolve_dat
  | La_Cancel | La_NoWaitCancel activity_cancellation_type | La_CommandRecordMarker
  | La_MarkerRecorded complete_la_data | La_StartedNonReplayWFT

datatype la_event_kind = EvLaSchedule | EvHandleResult | EvHandleKnownResult | EvLaCancel
  | EvNoWaitCancel | EvCommandRecordMarker | EvMarkerRecorded | EvStartedNonReplayWFT

primrec la_event_name :: "la_event \<Rightarrow> la_event_kind" where
  "la_event_name La_Schedule = EvLaSchedule"
| "la_event_name (La_HandleResult dat) = EvHandleResult"
| "la_event_name (La_HandleKnownResult dat) = EvHandleKnownResult"
| "la_event_name La_Cancel = EvLaCancel"
| "la_event_name (La_NoWaitCancel ct) = EvNoWaitCancel"
| "la_event_name La_CommandRecordMarker = EvCommandRecordMarker"
| "la_event_name (La_MarkerRecorded dat) = EvMarkerRecorded"
| "la_event_name La_StartedNonReplayWFT = EvStartedNonReplayWFT"

datatype la_command = RequestActivityExecution valid_schedule_la | Resolved resolve_dat
  | FakeMarker | RequestCancel

record la_shared =
  la_attrs :: valid_schedule_la
  la_replaying_when_invoked :: bool
  la_wf_time_when_started :: "system_time option"
  la_internal_flags :: internal_flags

type_synonym la_machine = "(la_state, la_shared) fsm"
type_synonym la_transition = "(la_command, la_state) transition_result"

definition la_table :: "(la_state_kind, la_event_kind) transition list" where
  "la_table =
     [row StExecuting EvLaSchedule (Some ''on_schedule'') True StRequestSent,
      row StReplaying EvLaSchedule (Some ''on_schedule'') False StWaitingMarkerEvent,
      row StReplayingPreResolved EvLaSchedule (Some ''on_schedule'') False
        StWaitingMarkerEventPreResolved,
      row StRequestSent EvHandleResult (Some ''on_handle_result'') False StMarkerCommandCreated,
      row StRequestSent EvLaCancel (Some ''on_cancel_requested'') False StRequestSent,
      row StRequestSent EvNoWaitCancel (Some ''on_no_wait_cancel'') True StMarkerCommandCreated,
      row StMarkerCommandCreated EvCommandRecordMarker (Some ''on_command_record_marker'') False
        StResultNotified,
      row StResultNotified EvMarkerRecorded (Some ''on_marker_recorded'') True
        StMarkerCommandRecorded,
      row StWaitingMarkerEvent EvMarkerRecorded (Some ''on_marker_recorded'') True
        StMarkerCommandRecorded,
      row StWaitingMarkerEvent EvLaCancel (Some ''on_cancel_requested'') False
        StWaitingMarkerEvent,
      row StWaitingMarkerEvent EvHandleKnownResult (Some ''on_handle_result'') False
        StWaitingMarkerEvent,
      row StWaitingMarkerEvent EvNoWaitCancel (Some ''on_no_wait_cancel'') False
        StWaitingMarkerEvent,
      row StWaitingMarkerEvent EvStartedNonReplayWFT (Some ''on_started_non_replay_wft'') True
        StRequestSent,
      row StWaitingMarkerEventPreResolved EvMarkerRecorded (Some ''on_marker_recorded'') True
        StMarkerCommandRecorded,
      row StWaitingMarkerEventPreResolved EvLaCancel None False StWaitingMarkerEventPreResolved,
      row StWaitingMarkerEventPreResolved EvNoWaitCancel None False
        StWaitingMarkerEventPreResolved,
      row StMarkerCommandRecorded EvLaCancel (Some ''on_cancel_requested'') False
        StMarkerCommandRecorded,
      row StMarkerCommandRecorded EvNoWaitCancel (Some ''on_no_wait_cancel'') False
        StMarkerCommandRecorded,
      row StMarkerCommandCreated EvHandleResult None False StMarkerCommandCreated,
      row StResultNotified EvHandleResult None False StResultNotified,
      row StMarkerCommandRecorded EvHandleResult None False StMarkerCommandRecorded]"

section \<open>Handlers\<close>

definition is_canceled_info :: "failure_info option \<Rightarrow> bool" where
  "is_canceled_info i = (case i of Some (CanceledFailureInfo _) \<Rightarrow> True | _ \<Rightarrow> False)"

definition is_timeout_info :: "failure_info option \<Rightarrow> bool" where
  "is_timeout_info i = (case i of Some (TimeoutFailureInfo _ _) \<Rightarrow> True | _ \<Rightarrow> False)"

text \<open>\<open>From<CompleteLocalActivityData> for ResolveDat\<close>: what a marker says about the result.\<close>

definition resolve_dat_of_marker :: "externals \<Rightarrow> complete_la_data \<Rightarrow> resolve_dat" where
  "resolve_dat_of_marker x d =
     \<lparr>rd_result =
        (case cla_result d of
           Inr res \<Rightarrow> LA_Completed (Some res)
         | Inl fail \<Rightarrow>
             if is_canceled_info (f_info fail) \<or>
                is_canceled_info (Option.bind (f_cause fail) f_info)
             then LA_Cancelled (Some fail) else LA_Failed (Some fail)),
      rd_complete_time =
        try_into_or_none (x_systime x) (lmd_complete_time (cla_marker_dat d)),
      rd_attempt = lmd_attempt (cla_marker_dat d),
      rd_backoff = lmd_backoff (cla_marker_dat d),
      rd_original_schedule_time =
        try_into_or_none (x_systime x) (lmd_original_schedule_time (cla_marker_dat d))\<rparr>"

definition produce_no_wait_cancel_resolve_dat :: "la_shared \<Rightarrow> resolve_dat" where
  "produce_no_wait_cancel_resolve_dat dat =
     \<lparr>rd_result = empty_cancel, rd_complete_time = None, rd_attempt = vla_attempt (la_attrs dat),
      rd_backoff = None,
      rd_original_schedule_time = vla_original_schedule_time (la_attrs dat)\<rparr>"

definition verify_marker_data_matches ::
  "la_shared \<Rightarrow> complete_la_data \<Rightarrow> wf_error option \<times> la_shared" where
  "verify_marker_data_matches shared dat =
     (if vla_seq (la_attrs shared) \<noteq> lmd_seq (cla_marker_dat dat)
      then (Some (Nondeterminism ''Local activity marker data has a different sequence number''),
            shared)
      else
        case try_use (la_internal_flags shared) IdAndTypeDeterminismChecks
               (\<not> la_replaying_when_invoked shared) of
          (checks, flags) \<Rightarrow>
            (if checks then
               if lmd_activity_id (cla_marker_dat dat) \<noteq> vla_activity_id (la_attrs shared)
               then Some (Nondeterminism ''Activity id of recorded marker does not match'')
               else if lmd_activity_type (cla_marker_dat dat) \<noteq> vla_activity_type (la_attrs shared)
               then Some (Nondeterminism ''Activity type of recorded marker does not match'')
               else None
             else None,
             shared\<lparr>la_internal_flags := flags\<rparr>))"

text \<open>The macro \<open>verify_marker_dat!\<close>.\<close>

definition verify_marker_dat ::
  "la_shared \<Rightarrow> complete_la_data \<Rightarrow> la_transition \<Rightarrow> la_transition \<times> la_shared" where
  "verify_marker_dat shared dat ok_expr =
     (case verify_marker_data_matches shared dat of
        (Some err, shared') \<Rightarrow> (TErr err, shared')
      | (None, shared') \<Rightarrow> (ok_expr, shared'))"

definition la_executing_on_schedule :: "la_shared \<Rightarrow> la_transition \<times> la_shared" where
  "la_executing_on_schedule dat =
     (tr_commands La_RequestSent [RequestActivityExecution (la_attrs dat)], dat)"

definition la_replaying_on_schedule :: la_transition where
  "la_replaying_on_schedule = tr_ok [] (La_WaitingMarkerEvent False)"

definition la_pre_resolved_on_schedule :: "resolve_dat \<Rightarrow> la_transition" where
  "la_pre_resolved_on_schedule dat =
     tr_ok [FakeMarker, Resolved dat] La_WaitingMarkerEventPreResolved"

definition la_sent_on_handle_result :: "resolve_dat \<Rightarrow> la_transition" where
  "la_sent_on_handle_result dat =
     (let rt = (case rd_result dat of
                  LA_Completed _ \<Rightarrow> RT_Completed
                | LA_Failed _ \<Rightarrow> RT_Failed
                | LA_TimedOut _ \<Rightarrow> RT_Failed
                | LA_Cancelled _ \<Rightarrow> RT_Cancelled)
      in tr_ok [Resolved dat] (La_MarkerCommandCreated rt))"

definition la_sent_on_cancel_requested :: la_transition where
  "la_sent_on_cancel_requested = tr_ok [RequestCancel] La_RequestSent"

definition la_sent_on_no_wait_cancel ::
  "la_shared \<Rightarrow> activity_cancellation_type \<Rightarrow> la_transition \<times> la_shared" where
  "la_sent_on_no_wait_cancel shared cancel_type =
     (tr_ok ((if cancel_type = ACT_TryCancel then [RequestCancel] else []) @
             [Resolved (produce_no_wait_cancel_resolve_dat shared)])
        (La_MarkerCommandCreated RT_Cancelled), shared)"

definition la_on_command_record_marker :: "result_type \<Rightarrow> la_transition" where
  "la_on_command_record_marker rt = tr_from_state La_ResultNotified rt"

definition la_notified_on_marker_recorded ::
  "result_type \<Rightarrow> la_shared \<Rightarrow> complete_la_data \<Rightarrow> la_transition \<times> la_shared" where
  "la_notified_on_marker_recorded rt shared dat =
     (if rt = RT_Completed \<and> isl (cla_result dat) then
        (TErr (Nondeterminism
           ''Local activity completed successfully locally, but history said it failed!''), shared)
      else if rt = RT_Failed \<and> \<not> isl (cla_result dat) then
        (TErr (Nondeterminism
           ''Local activity failed locally, but history said it completed!''), shared)
      else verify_marker_dat shared dat (tr_default La_MarkerCommandRecorded))"

definition la_waiting_on_marker_recorded ::
  "externals \<Rightarrow> bool \<Rightarrow> la_shared \<Rightarrow> complete_la_data \<Rightarrow> la_transition \<times> la_shared" where
  "la_waiting_on_marker_recorded x resolved shared dat =
     verify_marker_dat shared dat
       (tr_commands La_MarkerCommandRecorded
          (if resolved then [] else [Resolved (resolve_dat_of_marker x dat)]))"

definition la_waiting_on_handle_result :: "resolve_dat \<Rightarrow> la_transition" where
  "la_waiting_on_handle_result dat = tr_ok [Resolved dat] (La_WaitingMarkerEvent True)"

definition la_on_started_non_replay_wft :: "la_shared \<Rightarrow> la_transition \<times> la_shared" where
  "la_on_started_non_replay_wft dat =
     (tr_commands La_RequestSent [RequestActivityExecution (la_attrs dat)],
      dat\<lparr>la_replaying_when_invoked := False\<rparr>)"

definition la_waiting_on_cancel_requested :: "bool \<Rightarrow> la_transition" where
  "la_waiting_on_cancel_requested resolved = tr_ok [RequestCancel] (La_WaitingMarkerEvent resolved)"

definition la_waiting_on_no_wait_cancel ::
  "bool \<Rightarrow> activity_cancellation_type \<Rightarrow> la_transition" where
  "la_waiting_on_no_wait_cancel resolved _ = la_waiting_on_cancel_requested resolved"

definition la_pre_resolved_on_marker_recorded ::
  "la_shared \<Rightarrow> complete_la_data \<Rightarrow> la_transition \<times> la_shared" where
  "la_pre_resolved_on_marker_recorded shared dat =
     verify_marker_dat shared dat (tr_default La_MarkerCommandRecorded)"

definition la_recorded_on_cancel_requested :: la_transition where
  "la_recorded_on_cancel_requested = tr_ok [RequestCancel] La_MarkerCommandRecorded"

definition la_recorded_on_no_wait_cancel :: "activity_cancellation_type \<Rightarrow> la_transition" where
  "la_recorded_on_no_wait_cancel cancel_type =
     (if cancel_type = ACT_TryCancel then tr_ok [RequestCancel] La_MarkerCommandRecorded
      else tr_default La_MarkerCommandRecorded)"

lemmas la_handlers =
  la_executing_on_schedule_def la_replaying_on_schedule_def la_pre_resolved_on_schedule_def
  la_sent_on_handle_result_def la_sent_on_cancel_requested_def la_sent_on_no_wait_cancel_def
  la_on_command_record_marker_def la_notified_on_marker_recorded_def
  la_waiting_on_marker_recorded_def la_waiting_on_handle_result_def
  la_on_started_non_replay_wft_def la_waiting_on_cancel_requested_def
  la_waiting_on_no_wait_cancel_def la_pre_resolved_on_marker_recorded_def
  la_recorded_on_cancel_requested_def la_recorded_on_no_wait_cancel_def

primrec la_step :: "externals \<Rightarrow> (la_state, la_event, la_shared, la_command) step_fun" where
  "la_step x La_Executing e d =
     (case e of La_Schedule \<Rightarrow> Some (la_executing_on_schedule d) | _ \<Rightarrow> None)"
| "la_step x La_Replaying e d =
     (case e of La_Schedule \<Rightarrow> Some (la_replaying_on_schedule, d) | _ \<Rightarrow> None)"
| "la_step x (La_ReplayingPreResolved dat) e d =
     (case e of La_Schedule \<Rightarrow> Some (la_pre_resolved_on_schedule dat, d) | _ \<Rightarrow> None)"
| "la_step x La_RequestSent e d =
     (case e of
        La_HandleResult dat \<Rightarrow> Some (la_sent_on_handle_result dat, d)
      | La_Cancel \<Rightarrow> Some (la_sent_on_cancel_requested, d)
      | La_NoWaitCancel ct \<Rightarrow> Some (la_sent_on_no_wait_cancel d ct)
      | _ \<Rightarrow> None)"
| "la_step x (La_MarkerCommandCreated rt) e d =
     (case e of
        La_CommandRecordMarker \<Rightarrow> Some (la_on_command_record_marker rt, d)
      | La_HandleResult _ \<Rightarrow> Some (tr_from_state id (La_MarkerCommandCreated rt), d)
      | _ \<Rightarrow> None)"
| "la_step x (La_ResultNotified rt) e d =
     (case e of
        La_MarkerRecorded dat \<Rightarrow> Some (la_notified_on_marker_recorded rt d dat)
      | La_HandleResult _ \<Rightarrow> Some (tr_from_state id (La_ResultNotified rt), d)
      | _ \<Rightarrow> None)"
| "la_step x (La_WaitingMarkerEvent r) e d =
     (case e of
        La_MarkerRecorded dat \<Rightarrow> Some (la_waiting_on_marker_recorded x r d dat)
      | La_Cancel \<Rightarrow> Some (la_waiting_on_cancel_requested r, d)
      | La_HandleKnownResult dat \<Rightarrow> Some (la_waiting_on_handle_result dat, d)
      | La_NoWaitCancel ct \<Rightarrow> Some (la_waiting_on_no_wait_cancel r ct, d)
      | La_StartedNonReplayWFT \<Rightarrow> Some (la_on_started_non_replay_wft d)
      | _ \<Rightarrow> None)"
| "la_step x La_WaitingMarkerEventPreResolved e d =
     (case e of
        La_MarkerRecorded dat \<Rightarrow> Some (la_pre_resolved_on_marker_recorded d dat)
      | La_Cancel \<Rightarrow> Some (tr_from_state id La_WaitingMarkerEventPreResolved, d)
      | La_NoWaitCancel _ \<Rightarrow> Some (tr_from_state id La_WaitingMarkerEventPreResolved, d)
      | _ \<Rightarrow> None)"
| "la_step x La_MarkerCommandRecorded e d =
     (case e of
        La_Cancel \<Rightarrow> Some (la_recorded_on_cancel_requested, d)
      | La_NoWaitCancel ct \<Rightarrow> Some (la_recorded_on_no_wait_cancel ct, d)
      | La_HandleResult _ \<Rightarrow> Some (tr_from_state id La_MarkerCommandRecorded, d)
      | _ \<Rightarrow> None)"

section \<open>Responses\<close>

text \<open>The macro \<open>wrap_fail!\<close>: cancellations and timeouts are wrapped in an activity failure.\<close>

definition la_wrap_fail ::
  "la_shared \<Rightarrow> string \<Rightarrow> (failure_info option \<Rightarrow> bool) \<Rightarrow> failure option \<Rightarrow> failure option" where
  "la_wrap_fail dat msg matches fail =
     (if matches (Option.bind fail f_info)
      then Some (mk_failure msg fail
             (Some (activity_fail_info (vla_activity_type (la_attrs dat))
                (vla_activity_id (la_attrs dat)) None RS_CancelRequested 0 0)))
      else fail)"

text \<open>
  The resolution told to the language layer.  The attempt of a backoff is \<open>u32\<close> arithmetic as
  release builds perform it.
\<close>

definition la_resolution ::
  "externals \<Rightarrow> la_shared \<Rightarrow> resolve_dat \<Rightarrow> activity_resolution_status" where
  "la_resolution x dat rd =
     (case rd_backoff rd of
        Some b \<Rightarrow>
          AR_Backoff (rd_attempt rd + 1) (Some b)
            (map_option (x_timestamp x) (rd_original_schedule_time rd))
      | None \<Rightarrow>
          (case rd_result rd of
             LA_Completed c \<Rightarrow> AR_Completed c
           | LA_Failed f \<Rightarrow> AR_Failed f
           | LA_TimedOut f \<Rightarrow>
               AR_Failed (la_wrap_fail dat ''Local Activity timed out'' is_timeout_info f)
           | LA_Cancelled f \<Rightarrow>
               AR_Cancelled (la_wrap_fail dat ''Local Activity cancelled'' is_canceled_info f)))"

definition la_ok_result :: "la_execution_result \<Rightarrow> payload option" where
  "la_ok_result r = (case r of LA_Completed c \<Rightarrow> c | _ \<Rightarrow> None)"

definition la_failure_of :: "la_execution_result \<Rightarrow> failure option" where
  "la_failure_of r =
     (case r of LA_Completed _ \<Rightarrow> None | LA_Failed f \<Rightarrow> f | LA_TimedOut f \<Rightarrow> f | LA_Cancelled f \<Rightarrow> f)"

definition la_will_not_run_again :: "la_execution_result \<Rightarrow> bool" where
  "la_will_not_run_again r =
     (case r of LA_Completed _ \<Rightarrow> False | LA_Failed _ \<Rightarrow> False | LA_TimedOut _ \<Rightarrow> True
      | LA_Cancelled _ \<Rightarrow> True)"

definition la_marker_data_of :: "externals \<Rightarrow> la_shared \<Rightarrow> resolve_dat \<Rightarrow> la_marker_data" where
  "la_marker_data_of x dat rd =
     \<lparr>lmd_seq = vla_seq (la_attrs dat), lmd_attempt = rd_attempt rd,
      lmd_activity_id = vla_activity_id (la_attrs dat),
      lmd_activity_type = vla_activity_type (la_attrs dat),
      lmd_complete_time = map_option (x_timestamp x) (rd_complete_time rd),
      lmd_backoff = rd_backoff rd,
      lmd_original_schedule_time = map_option (x_timestamp x) (rd_original_schedule_time rd)\<rparr>"

definition la_marker_attrs ::
  "externals \<Rightarrow> la_shared \<Rightarrow> resolve_dat \<Rightarrow> record_marker_attrs" where
  "la_marker_attrs x dat rd =
     \<lparr>rma_marker_name = LOCAL_ACTIVITY_MARKER_NAME,
      rma_details =
        build_local_activity_marker_details x (la_marker_data_of x dat rd)
          (la_ok_result (rd_result rd)),
      rma_header = None,
      rma_failure = la_failure_of (rd_result rd)\<rparr>"

text \<open>The responses to a resolution, except for the marker command.\<close>

definition la_resolved_responses ::
  "externals \<Rightarrow> la_shared \<Rightarrow> resolve_dat \<Rightarrow> machine_response list" where
  "la_resolved_responses x dat rd =
     [PushWFJob (ResolveActivity
        \<lparr>ra_seq = vla_seq (la_attrs dat), ra_result = Some (la_resolution x dat rd),
         ra_is_local = True\<rparr>),
      UpdateWFTime (rd_complete_time rd)] @
     (if la_will_not_run_again (rd_result rd) \<and> vla_cancellation_type (la_attrs dat) = ACT_Abandon
      then [AbandonLocalActivity (vla_seq (la_attrs dat))] else [])"

definition la_adapt_response ::
  "externals \<Rightarrow> la_machine \<Rightarrow> la_command \<Rightarrow> event_info option \<Rightarrow> machine_response list outcome" where
  "la_adapt_response x m my_command ei =
     (let dat = fsm_shared m; seq = vla_seq (la_attrs dat) in
      case my_command of
        RequestActivityExecution act \<Rightarrow> Ok [QueueLocalActivity act]
      | Resolved rd \<Rightarrow>
          obind (if la_replaying_when_invoked dat then Ok []
                 else issue_command (RecordMarkerCommandAttributes (la_marker_attrs x dat rd)))
            (\<lambda>marker. Ok (la_resolved_responses x dat rd @ marker))
      | FakeMarker \<Rightarrow> Ok [IssueFakeLocalActivityMarker seq]
      | RequestCancel \<Rightarrow> Ok [RequestCancelLocalActivity seq])"

section \<open>Operations\<close>

definition la_try_from_command :: "command_type \<Rightarrow> la_event option" where
  "la_try_from_command c = (if c = CT_RecordMarker then Some La_CommandRecordMarker else None)"

definition la_try_from_event :: "externals \<Rightarrow> hist_event_data \<Rightarrow> la_event outcome" where
  "la_try_from_event x ed =
     (let e = hed_event ed in
      if event_type_of e \<noteq> ET_MarkerRecorded
      then Err (Nondeterminism ''Local activity machine cannot handle this event'')
      else case into_local_activity_marker_details x e of
             Some marker_dat \<Rightarrow> Ok (La_MarkerRecorded marker_dat)
           | None \<Rightarrow>
               Err (Nondeterminism ''Local activity machine encountered an unparsable marker''))"

text \<open>An error where the code calls \<open>expect\<close> is a panic.\<close>

primrec expect_ok :: "string \<Rightarrow> 'a outcome \<Rightarrow> 'a outcome" where
  "expect_ok msg (Ok y) = Ok y"
| "expect_ok msg (Err e) = Panic msg"
| "expect_ok msg (Panic p) = Panic p"

text \<open>
  The clock (\<open>SystemTime::now()\<close>) is the parameter \<open>now\<close>.  Only the last of the commands that
  scheduling produces is adapted (\<open>res.pop()\<close>).
\<close>

definition new_local_activity ::
  "externals \<Rightarrow> system_time \<Rightarrow> valid_schedule_la \<Rightarrow> bool \<Rightarrow> resolve_dat option \<Rightarrow>
   system_time option \<Rightarrow> internal_flags \<Rightarrow> (la_machine \<times> machine_response list) outcome" where
  "new_local_activity x now attrs replaying maybe_pre_resolved wf_time flags =
     (if \<not> replaying \<and> maybe_pre_resolved \<noteq> None
      then Err (Nondeterminism
             ''Local activity cannot be created as pre-resolved while not replaying'')
      else
        let initial = (if replaying
                       then (case maybe_pre_resolved of
                               Some dat \<Rightarrow> La_ReplayingPreResolved dat | None \<Rightarrow> La_Replaying)
                       else La_Executing);
            attrs' = attrs\<lparr>vla_original_schedule_time :=
                             Some (opt_default now (vla_original_schedule_time attrs))\<rparr>;
            machine = from_parts initial
              \<lparr>la_attrs = attrs', la_replaying_when_invoked = replaying,
               la_wf_time_when_started = wf_time, la_internal_flags = flags\<rparr>
        in case on_event (la_step x) machine La_Schedule of
             (Cmds res, machine') \<Rightarrow>
               obind (if res = [] then Ok []
                      else expect_ok ''Adapting LA schedule response doesn't fail''
                             (la_adapt_response x machine' (last res) None))
                 (\<lambda>mr. Ok (machine', mr))
           | (_, machine') \<Rightarrow> Panic ''Scheduling local activities doesn't fail'')"

definition marker_should_get_special_handling :: "la_machine \<Rightarrow> bool outcome" where
  "marker_should_get_special_handling m =
     obind (fsm_state_get m) (\<lambda>s.
       case s of
         La_ResultNotified _ \<Rightarrow> Ok False
       | La_WaitingMarkerEvent _ \<Rightarrow> Ok True
       | La_WaitingMarkerEventPreResolved \<Rightarrow> Ok True
       | _ \<Rightarrow> Err (Fatal ''Attempted to check for LA marker handling in invalid state''))"

definition will_accept_resolve_marker :: "la_machine \<Rightarrow> bool outcome" where
  "will_accept_resolve_marker m =
     obind (fsm_state_get m) (\<lambda>s. Ok (la_state_name s = StWaitingMarkerEvent))"

text \<open>
  Running an event whose refusal is reported with the state in the message: a refused event keeps
  the state, an error of a handler loses it.
\<close>

definition la_run_event ::
  "externals \<Rightarrow> string \<Rightarrow> la_machine \<Rightarrow> la_event \<Rightarrow> la_command list outcome \<times> la_machine" where
  "la_run_event x msg m ev =
     (case on_event (la_step x) m ev of
        (Cmds c, m') \<Rightarrow> (Ok c, m')
      | (Failed_with MInvalidTransition, m') \<Rightarrow>
          (obind (fsm_state_get m') (\<lambda>_. Err (Fatal msg)), m')
      | (Failed_with (Underlying e), m') \<Rightarrow> (Err e, m')
      | (Panicked p, m') \<Rightarrow> (Panic p, m'))"

definition encountered_non_replay_wft ::
  "externals \<Rightarrow> la_machine \<Rightarrow> machine_response list outcome \<times> la_machine" where
  "encountered_non_replay_wft x m =
     (case will_accept_resolve_marker m of
        Ok True \<Rightarrow>
          (case la_run_event x ''Invalid transition while notifying local activity'' m
                  La_StartedNonReplayWFT of
             (r, m') \<Rightarrow>
               (obind r (\<lambda>res.
                  if res = [] then Panic ''Always produces one response''
                  else expect_ok ''Adapting LA wft-non-replay response doesn't fail''
                         (la_adapt_response x m' (last res) None)), m'))
      | Ok False \<Rightarrow> (Ok [], m)
      | Err e \<Rightarrow> (Err e, m)
      | Panic p \<Rightarrow> (Panic p, m))"

definition la_try_resolve_dat ::
  "externals \<Rightarrow> la_machine \<Rightarrow> resolve_dat \<Rightarrow> bool \<Rightarrow> machine_response list outcome \<times> la_machine" where
  "la_try_resolve_dat x m dat from_marker =
     (case la_run_event x ''Invalid transition resolving local activity'' m
             (if from_marker then La_HandleKnownResult dat else La_HandleResult dat) of
        (r, m') \<Rightarrow>
          (obind r (omap_concat (\<lambda>c.
             expect_ok ''Adapting LA resolve response doesn't fail''
               (la_adapt_response x m' c None))), m'))"

text \<open>
  A \<open>SystemTime\<close> is a number of nanoseconds since the epoch whose seconds are an \<open>i64\<close>.  Adding a
  \<open>Duration\<close> that leads out of this range panics.
\<close>

definition system_time_end :: system_time where
  "system_time_end = 2 ^ 63 * 10 ^ 9"

definition time_add :: "system_time \<Rightarrow> duration \<Rightarrow> system_time outcome" where
  "time_add t d =
     (if t < system_time_end \<and> system_time_end \<le> t + d
      then Panic ''overflow when adding duration to instant'' else Ok (t + d))"

definition complete_time :: "system_time option \<Rightarrow> duration \<Rightarrow> system_time option outcome" where
  "complete_time wf_time_when_started runtime =
     (case wf_time_when_started of
        None \<Rightarrow> Ok None
      | Some t \<Rightarrow> obind (time_add t runtime) (\<lambda>t. Ok (Some t)))"

definition executed_resolve_dat ::
  "la_machine \<Rightarrow> la_execution_result \<Rightarrow> duration \<Rightarrow> u32 \<Rightarrow> duration_pb option \<Rightarrow>
   system_time option \<Rightarrow> resolve_dat outcome" where
  "executed_resolve_dat m result runtime attempt backoff original_schedule_time =
     obind (complete_time (la_wf_time_when_started (fsm_shared m)) runtime) (\<lambda>t.
       Ok \<lparr>rd_result = result, rd_complete_time = t, rd_attempt = attempt, rd_backoff = backoff,
           rd_original_schedule_time = original_schedule_time\<rparr>)"

definition la_try_resolve ::
  "externals \<Rightarrow> la_machine \<Rightarrow> la_execution_result \<Rightarrow> duration \<Rightarrow> u32 \<Rightarrow> duration_pb option \<Rightarrow>
   system_time option \<Rightarrow> machine_response list outcome \<times> la_machine" where
  "la_try_resolve x m result runtime attempt backoff original_schedule_time =
     (case executed_resolve_dat m result runtime attempt backoff original_schedule_time of
        Ok dat \<Rightarrow> la_try_resolve_dat x m dat False
      | Err e \<Rightarrow> (Err e, m)
      | Panic p \<Rightarrow> (Panic p, m))"

definition la_try_resolve_with_dat ::
  "externals \<Rightarrow> la_machine \<Rightarrow> resolve_dat \<Rightarrow> machine_response list outcome \<times> la_machine" where
  "la_try_resolve_with_dat x m dat = la_try_resolve_dat x m dat True"

definition la_cancel :: "externals \<Rightarrow> la_machine \<Rightarrow> machine_response list outcome \<times> la_machine" where
  "la_cancel x m =
     (let ct = vla_cancellation_type (la_attrs (fsm_shared m)) in
      run_and_map (la_step x) (\<lambda>m' c. la_adapt_response x m' c None) m
        (if ct = ACT_TryCancel \<or> ct = ACT_Abandon then La_NoWaitCancel ct else La_Cancel))"

definition la_was_cancelled_before_sent :: "la_machine \<Rightarrow> bool" where
  "la_was_cancelled_before_sent m = False"

lemmas la_ops =
  la_adapt_response_def la_try_from_command_def la_try_from_event_def new_local_activity_def
  marker_should_get_special_handling_def will_accept_resolve_marker_def la_run_event_def
  encountered_non_replay_wft_def la_try_resolve_dat_def la_try_resolve_def
  complete_time_def executed_resolve_dat_def time_add_def system_time_end_def la_try_resolve_with_dat_def la_cancel_def

lemma time_add_zero [simp]: "time_add t 0 = Ok t"
  by (simp add: time_add_def)

section \<open>Conformance to the table\<close>

lemma verify_marker_dat_cases:
  assumes "verify_marker_dat d dat r = (r', d')"
  obtains err where "r' = TErr err" | "r' = r"
  using assms by (auto simp: verify_marker_dat_def split: prod.splits option.splits)

lemma la_conforms: "fsm_conforms la_table la_state_name la_event_name (la_step x)"
proof
  show "la_step x s e d = None \<longleftrightarrow> dests la_table (la_state_name s) (la_event_name e) = []"
    for s e d
    by (cases s; cases e; simp add: fsm_tables la_table_def)
next
  show "la_state_name s' \<in> set (dests la_table (la_state_name s) (la_event_name e))"
    if "la_step x s e d = Some (TOk cs s', d')" for s e d cs s' d'
    using that
    by (cases s; cases e; (simp; fail)?; auto simp: fsm_tables la_table_def la_handlers
        transition_results Let_def split: if_splits elim!: verify_marker_dat_cases)
next
  show "la_step x s e d \<noteq> Some (InvalidTransition, d')" for s e d d'
    by (cases s; cases e; auto simp: la_handlers transition_results Let_def split: if_splits
        elim!: verify_marker_dat_cases)
next
  show "d' = d" if "la_step x s e d = Some (r, d')"
    and "\<not> mutating_row la_table (la_state_name s) (la_event_name e)" for s e d r d'
    using that
    by (cases s; cases e; (simp; fail)?; simp add: fsm_tables la_table_def la_handlers)
qed

lemma la_convert_no_panic: "\<not> is_panic (la_try_from_event x ed)"
  by (simp add: la_try_from_event_def Let_def split: option.splits)

lemma la_adapt_no_panic: "\<not> is_panic (la_adapt_response x m c ei)"
  by (simp add: la_adapt_response_def Let_def split: la_command.splits)

interpretation local_activity: temporal_machine la_table la_state_name la_event_name "la_step x"
  la_try_from_command "la_try_from_event x" "la_adapt_response x" for x
  by (intro temporal_machine.intro temporal_machine_axioms.intro la_conforms
      la_convert_no_panic la_adapt_no_panic)

section \<open>A local activity over its whole life\<close>

text \<open>What reaches the machine besides events and commands.\<close>

datatype la_request = LaCancel
  | LaResolve la_execution_result duration u32 "duration_pb option" "system_time option"
  | LaKnown resolve_dat
  | LaNonReplay

primrec la_handle_request :: "externals \<Rightarrow> la_request \<Rightarrow> la_machine \<Rightarrow>
  machine_response list outcome \<times> la_machine" where
  "la_handle_request x LaCancel m = la_cancel x m"
| "la_handle_request x (LaResolve r rt a b t) m = la_try_resolve x m r rt a b t"
| "la_handle_request x (LaKnown dat) m = la_try_resolve_with_dat x m dat"
| "la_handle_request x LaNonReplay m = encountered_non_replay_wft x m"

definition la_apply ::
  "externals \<Rightarrow> la_machine \<Rightarrow> la_request machine_input \<Rightarrow>
   machine_response list outcome \<times> la_machine" where
  "la_apply x =
     apply_input la_try_from_command (la_try_from_event x) (la_step x) (la_adapt_response x)
       (la_handle_request x)"

definition is_known :: "la_request machine_input \<Rightarrow> bool" where
  "is_known i = (case i of InRequest (LaKnown _) \<Rightarrow> True | _ \<Rightarrow> False)"

text \<open>Whether the machine may still resolve the activity of its own accord.\<close>

definition la_unresolved :: "la_machine \<Rightarrow> bool" where
  "la_unresolved m =
     (case fsm_state m of
        Some s \<Rightarrow> la_state_name s \<in> {StExecuting, StReplaying, StReplayingPreResolved,
                    StRequestSent, StWaitingMarkerEvent}
      | None \<Rightarrow> False)"

definition la_credit :: "la_machine \<Rightarrow> nat" where
  "la_credit m = (if la_unresolved m then 1 else 0)"

definition is_own_resolution :: "u32 \<Rightarrow> job_variant \<Rightarrow> bool" where
  "is_own_resolution seq j =
     (\<exists>r. j = ResolveActivity \<lparr>ra_seq = seq, ra_result = Some r, ra_is_local = True\<rparr>)"

lemma la_adapt_jobs:
  "\<exists>rs. la_adapt_response x m c ei = Ok rs \<and>
     pushed_jobs rs =
       (case c of
          Resolved rd \<Rightarrow>
            [ResolveActivity \<lparr>ra_seq = vla_seq (la_attrs (fsm_shared m)),
               ra_result = Some (la_resolution x (fsm_shared m) rd), ra_is_local = True\<rparr>]
        | _ \<Rightarrow> [])"
  by (cases c) (simp_all add: la_adapt_response_def la_resolved_responses_def Let_def)

lemma la_adapt_all_jobs:
  assumes "omap_concat (\<lambda>c. la_adapt_response x m c ei) cs = Ok rs"
  shows "length (pushed_jobs rs) = length (filter (\<lambda>c. \<exists>rd. c = Resolved rd) cs) \<and>
    (\<forall>j \<in> set (pushed_jobs rs). is_own_resolution (vla_seq (la_attrs (fsm_shared m))) j)"
  using assms
proof (induction cs arbitrary: rs)
  case (Cons c cs)
  from Cons.prems obtain r1 r2 where r: "la_adapt_response x m c ei = Ok r1"
    "omap_concat (\<lambda>c. la_adapt_response x m c ei) cs = Ok r2" "rs = r1 @ r2"
    by auto
  with la_adapt_jobs [of x m c ei] have "pushed_jobs r1 =
    (case c of Resolved rd \<Rightarrow>
       [ResolveActivity \<lparr>ra_seq = vla_seq (la_attrs (fsm_shared m)),
          ra_result = Some (la_resolution x (fsm_shared m) rd), ra_is_local = True\<rparr>]
     | _ \<Rightarrow> [])" by auto
  with Cons.IH [OF r(2)] r(3) show ?case
    by (auto simp: is_own_resolution_def split: la_command.splits)
qed simp

text \<open>Every resolution uses up the machine's one credit, unless the result was handed to it.\<close>

lemma la_step_credit:
  assumes "la_step x s e d = Some (TOk cs s', d')"
  shows "length (filter (\<lambda>c. \<exists>rd. c = Resolved rd) cs) +
           la_credit \<lparr>fsm_state = Some s', fsm_shared = d'\<rparr> \<le>
         la_credit \<lparr>fsm_state = Some s, fsm_shared = d\<rparr> +
           (if la_event_name e = EvHandleKnownResult then 1 else 0)"
    and "la_event_name e \<noteq> EvHandleKnownResult \<Longrightarrow> s \<noteq> La_WaitingMarkerEvent True \<Longrightarrow>
         length (filter (\<lambda>c. \<exists>rd. c = Resolved rd) cs) +
           la_credit \<lparr>fsm_state = Some s', fsm_shared = d'\<rparr> =
         la_credit \<lparr>fsm_state = Some s, fsm_shared = d\<rparr> \<and> s' \<noteq> La_WaitingMarkerEvent True"
    and "la_attrs d' = la_attrs d"
    and "la_wf_time_when_started d' = la_wf_time_when_started d"
proof -
  show "length (filter (\<lambda>c. \<exists>rd. c = Resolved rd) cs) +
           la_credit \<lparr>fsm_state = Some s', fsm_shared = d'\<rparr> \<le>
         la_credit \<lparr>fsm_state = Some s, fsm_shared = d\<rparr> +
           (if la_event_name e = EvHandleKnownResult then 1 else 0)"
    using assms
    by (cases s; cases e; (simp; fail)?; auto simp: la_handlers transition_results Let_def
        la_credit_def la_unresolved_def verify_marker_dat_def
        split: if_splits prod.splits option.splits)
  show "length (filter (\<lambda>c. \<exists>rd. c = Resolved rd) cs) +
           la_credit \<lparr>fsm_state = Some s', fsm_shared = d'\<rparr> =
         la_credit \<lparr>fsm_state = Some s, fsm_shared = d\<rparr> \<and> s' \<noteq> La_WaitingMarkerEvent True"
    if "la_event_name e \<noteq> EvHandleKnownResult" "s \<noteq> La_WaitingMarkerEvent True"
    using assms that
    by (cases s; cases e; (simp; fail)?; auto simp: la_handlers transition_results Let_def
        la_credit_def la_unresolved_def verify_marker_dat_def
        split: if_splits prod.splits option.splits)
  show "la_attrs d' = la_attrs d"
    and "la_wf_time_when_started d' = la_wf_time_when_started d"
    using assms
    by (cases s; cases e; (simp; fail)?; auto simp: la_handlers transition_results Let_def
        verify_marker_dat_def verify_marker_data_matches_def
        split: if_splits prod.splits option.splits)+
qed

text \<open>A request is refused, has no effect, or is a step like any other.\<close>

lemma expect_ok_adapt [simp]:
  "expect_ok msg (la_adapt_response x m c ei) = la_adapt_response x m c ei"
  using la_adapt_jobs [of x m c ei] by auto

lemma la_run_event_OkE:
  assumes "la_run_event x msg m e = (Ok cs, m')"
  obtains s s' d' where "fsm_state m = Some s"
    "la_step x s e (fsm_shared m) = Some (TOk cs s', d')"
    "m' = \<lparr>fsm_state = Some s', fsm_shared = d'\<rparr>"
proof -
  from assms have "on_event (la_step x) m e = (Cmds cs, m')"
    by (auto simp: la_run_event_def split: prod.splits cmds_result.splits machine_error.splits)
  with that show ?thesis by (elim on_event_CmdsE)
qed

lemma la_request_OkE:
  assumes "la_handle_request x r m = (Ok rs, m')"
  obtains (idle) "rs = []" "m' = m" "fsm_state m \<noteq> None"
  | (step) s e cs s' d' where "fsm_state m = Some s"
    "la_step x s e (fsm_shared m) = Some (TOk cs s', d')"
    "m' = \<lparr>fsm_state = Some s', fsm_shared = d'\<rparr>"
    "omap_concat (\<lambda>c. la_adapt_response x m' c None) cs = Ok rs"
    "la_event_name e = EvHandleKnownResult \<longleftrightarrow> (\<exists>dat. r = LaKnown dat)"
proof (cases r)
  case LaCancel
  with assms show ?thesis
    by (auto simp: la_cancel_def Let_def elim!: run_and_map_OkE intro!: step split: if_splits)
next
  case (LaResolve res rt a b t)
  with assms show ?thesis
    by (auto simp: la_try_resolve_def la_try_resolve_dat_def split: prod.splits outcome.splits
        elim!: la_run_event_OkE intro!: step)
next
  case (LaKnown dat)
  with assms show ?thesis
    by (auto simp: la_try_resolve_with_dat_def la_try_resolve_dat_def split: prod.splits
        elim!: la_run_event_OkE intro!: step)
next
  case LaNonReplay
  show ?thesis
  proof (cases "will_accept_resolve_marker m")
    case (Ok b)
    show ?thesis
    proof (cases b)
      case True
      with assms LaNonReplay Ok obtain cs where
        run: "la_run_event x ''Invalid transition while notifying local activity'' m
          La_StartedNonReplayWFT = (outcome.Ok cs, m')"
        and rs: "la_adapt_response x m' (last cs) None = outcome.Ok rs"
        by (auto simp: encountered_non_replay_wft_def split: prod.splits if_splits)
      from run show ?thesis
      proof (rule la_run_event_OkE)
        fix s s' d'
        assume 1: "fsm_state m = Some s"
          "la_step x s La_StartedNonReplayWFT (fsm_shared m) = Some (TOk cs s', d')"
          "m' = \<lparr>fsm_state = Some s', fsm_shared = d'\<rparr>"
        then have "\<exists>c. cs = [c]" by (cases s) (auto simp: la_handlers transition_results)
        with 1 rs LaNonReplay show ?thesis by (auto intro!: step)
      qed
    next
      case False
      with assms LaNonReplay Ok have "rs = []" "m' = m"
        by (simp_all add: encountered_non_replay_wft_def)
      moreover have "fsm_state m \<noteq> None"
        using Ok by (auto simp: will_accept_resolve_marker_def fsm_state_get_def
            split: option.splits)
      ultimately show ?thesis by (rule idle)
    qed
  qed (use assms LaNonReplay in \<open>auto simp: encountered_non_replay_wft_def\<close>)
qed

lemma la_apply_OkE:
  assumes "la_apply x m i = (Ok rs, m')"
  obtains (idle) "rs = []" "m' = m" "fsm_state m \<noteq> None"
  | (step) s e cs s' d' ei where "fsm_state m = Some s"
    "la_step x s e (fsm_shared m) = Some (TOk cs s', d')"
    "m' = \<lparr>fsm_state = Some s', fsm_shared = d'\<rparr>"
    "omap_concat (\<lambda>c. la_adapt_response x m' c ei) cs = Ok rs"
    "la_event_name e = EvHandleKnownResult \<longleftrightarrow> is_known i"
proof (cases i)
  case (InEvent ed)
  with assms have "handle_event (la_try_from_event x) (la_step x) (la_adapt_response x) m ed
    = (Ok rs, m')" by (simp add: la_apply_def apply_input_def)
  then show ?thesis
  proof (rule handle_event_OkE)
    fix e s cs s' d' ei
    assume 1: "la_try_from_event x ed = Ok e" "fsm_state m = Some s"
      "la_step x s e (fsm_shared m) = Some (TOk cs s', d')"
      "m' = \<lparr>fsm_state = Some s', fsm_shared = d'\<rparr>"
      "omap_concat (\<lambda>c. la_adapt_response x m' c (Some ei)) cs = Ok rs"
    then have "la_event_name e \<noteq> EvHandleKnownResult" "\<not> is_known i"
      by (auto simp: InEvent is_known_def la_try_from_event_def Let_def
          split: if_splits option.splits)
    with 1 show ?thesis by (auto intro: step)
  qed
next
  case (InCommand ct)
  with assms have "handle_command la_try_from_command (la_step x) (la_adapt_response x) m ct
    = (Ok rs, m')" by (simp add: la_apply_def apply_input_def)
  then show ?thesis
  proof (rule handle_command_OkE)
    fix e s cs s' d'
    assume 1: "la_try_from_command ct = Some e" "fsm_state m = Some s"
      "la_step x s e (fsm_shared m) = Some (TOk cs s', d')"
      "m' = \<lparr>fsm_state = Some s', fsm_shared = d'\<rparr>"
      "omap_concat (\<lambda>c. la_adapt_response x m' c None) cs = Ok rs"
    then have "la_event_name e \<noteq> EvHandleKnownResult" "\<not> is_known i"
      by (auto simp: InCommand is_known_def la_try_from_command_def split: if_splits)
    with 1 show ?thesis by (auto intro: step)
  qed
next
  case (InRequest r)
  with assms have "la_handle_request x r m = (Ok rs, m')" by (simp add: la_apply_def apply_input_def)
  then show ?thesis
  proof (cases rule: la_request_OkE)
    case (step s e cs s' d')
    then have "la_event_name e = EvHandleKnownResult \<longleftrightarrow> is_known i"
      by (auto simp: InRequest is_known_def split: la_request.splits)
    with step that(2) show ?thesis by blast
  qed (rule idle)
qed

lemma la_apply_credit:
  assumes "la_apply x m i = (Ok rs, m')"
  shows "length (pushed_jobs rs) + la_credit m' \<le> la_credit m + (if is_known i then 1 else 0)"
  using assms
proof (cases rule: la_apply_OkE)
  case (step s e cs s' d' ei)
  from la_step_credit(1) [OF step(2)] la_adapt_all_jobs [OF step(4)] step(1,3,5)
  show ?thesis by (simp add: la_credit_def la_unresolved_def)
qed simp

text \<open>A machine that no result was handed to, and all it has said.\<close>

definition la_told :: "u32 \<Rightarrow> la_machine \<Rightarrow> machine_response list \<Rightarrow> bool" where
  "la_told seq m acc \<longleftrightarrow>
     fsm_state m \<noteq> None \<and> vla_seq (la_attrs (fsm_shared m)) = seq \<and>
     (\<forall>j \<in> set (pushed_jobs acc). is_own_resolution seq j)"

definition la_alone :: "la_machine \<Rightarrow> machine_response list \<Rightarrow> bool" where
  "la_alone m acc \<longleftrightarrow>
     fsm_state m \<noteq> Some (La_WaitingMarkerEvent True) \<and>
     length (pushed_jobs acc) + la_credit m = 1"

lemma la_apply_told:
  assumes "la_told seq m acc" and "la_apply x m i = (Ok rs, m')"
  shows "la_told seq m' (acc @ rs)"
  using assms(2)
proof (cases rule: la_apply_OkE)
  case (step s e cs s' d' ei)
  with la_step_credit(3) [OF step(2)] la_adapt_all_jobs [OF step(4)] assms(1)
  show ?thesis by (auto simp: la_told_def)
qed (use assms(1) in simp)

lemma la_apply_alone:
  assumes "la_alone m acc" and "la_apply x m i = (Ok rs, m')" and "\<not> is_known i"
  shows "la_alone m' (acc @ rs)"
  using assms(2)
proof (cases rule: la_apply_OkE)
  case (step s e cs s' d' ei)
  with la_step_credit(2) [OF step(2)] la_adapt_all_jobs [OF step(4)] assms(1,3)
  show ?thesis by (simp add: la_alone_def la_credit_def la_unresolved_def)
qed (use assms(1) in simp)

lemma new_local_activity_told:
  assumes "new_local_activity x now a replaying pre wf_time flags = Ok (m, mr)"
  shows "la_told (vla_seq a) m mr" and "la_alone m mr"
  using assms
  by (auto simp: new_local_activity_def from_parts_def on_event_def la_handlers transition_results
      la_told_def la_alone_def la_credit_def la_unresolved_def la_adapt_response_def Let_def
      la_resolved_responses_def
      is_own_resolution_def split: if_splits option.splits)

lemma la_apply_time:
  assumes "la_apply x m i = (Ok rs, m')"
  shows "la_wf_time_when_started (fsm_shared m') = la_wf_time_when_started (fsm_shared m)"
  using assms
  by (cases rule: la_apply_OkE) (use la_step_credit(4) in auto)

lemma new_local_activity_time:
  assumes "new_local_activity x now a replaying pre wf_time flags = Ok (m, mr)"
  shows "la_wf_time_when_started (fsm_shared m) = wf_time"
  using assms
  by (auto simp: new_local_activity_def from_parts_def on_event_def la_handlers transition_results
      la_adapt_response_def Let_def split: if_splits option.splits)

text \<open>
  The time at which an execution that took \<open>runtime\<close> was complete is a \<open>SystemTime\<close> the machine can
  represent.
\<close>

fun time_fits :: "system_time option \<Rightarrow> la_request \<Rightarrow> bool" where
  "time_fits (Some t) (LaResolve r runtime a b orig) \<longleftrightarrow> t + runtime < system_time_end"
| "time_fits wf_time r \<longleftrightarrow> True"

definition input_fits :: "system_time option \<Rightarrow> la_request machine_input \<Rightarrow> bool" where
  "input_fits wf_time i \<longleftrightarrow> (\<forall>r. i = InRequest r \<longrightarrow> time_fits wf_time r)"

lemma complete_time_fits:
  assumes "time_fits wf_time (LaResolve r runtime a b orig)"
  shows "\<exists>t. complete_time wf_time runtime = Ok t"
  using assms by (cases wf_time) (simp_all add: complete_time_def time_add_def)

lemma la_step_no_panic: "la_step x s e d \<noteq> Some (TPanic p, d')"
  by (cases s; cases e; (simp; fail)?; auto simp: la_handlers transition_results Let_def
      verify_marker_dat_def split: if_splits prod.splits option.splits)

lemma la_request_no_panic:
  assumes "fsm_state m = Some s"
    and "\<And>rt a b c t. r = LaResolve a rt b c t \<Longrightarrow>
      \<exists>t. complete_time (la_wf_time_when_started (fsm_shared m)) rt = Ok t"
  shows "\<not> is_panic (fst (la_handle_request x r m))"
proof -
  note step = la_step_no_panic [where x = x]
  have run: "\<not> is_panic (fst (la_run_event x msg m e))" for msg e
  proof -
    have "\<forall>p d. la_step x s e (fsm_shared m) \<noteq> Some (TPanic p, d)" using step by blast
    with assms(1) show ?thesis
      by (cases rule: local_activity.on_event_cases)
        (use assms(1) in \<open>auto simp: la_run_event_def fsm_state_get_def\<close>)
  qed
  have dat: "\<not> is_panic (fst (la_try_resolve_dat x m d b))" for d b
    using run [of "''Invalid transition resolving local activity''"
        "if b then La_HandleKnownResult d else La_HandleResult d"]
    by (auto simp: la_try_resolve_dat_def is_panic_obind la_adapt_no_panic
        intro!: omap_concat_no_panic split: prod.splits)
  have cancel: "\<not> is_panic (fst (la_cancel x m))"
    unfolding la_cancel_def Let_def using assms(1) step
    by (rule run_and_map_no_panic) (rule la_adapt_no_panic)
  have nr: "\<not> is_panic (fst (encountered_non_replay_wft x m))"
  proof (cases "la_state_name s = StWaitingMarkerEvent")
    case True
    then show ?thesis using assms(1)
      by (cases s) (auto simp: encountered_non_replay_wft_def will_accept_resolve_marker_def
          fsm_state_get_def la_run_event_def on_event_def la_handlers transition_results
          la_adapt_no_panic)
  qed (use assms(1) in \<open>simp add: encountered_non_replay_wft_def will_accept_resolve_marker_def
         fsm_state_get_def\<close>)
  show ?thesis
    using dat cancel nr assms(2)
    by (cases r) (auto simp: la_try_resolve_with_dat_def la_try_resolve_def executed_resolve_dat_def)
qed

lemma la_apply_no_panic:
  assumes "fsm_state m = Some s"
    and "input_fits (la_wf_time_when_started (fsm_shared m)) i"
  shows "\<not> is_panic (fst (la_apply x m i))"
proof (cases i)
  case (InRequest r)
  with assms(2) have "\<not> is_panic (fst (la_handle_request x r m))"
    by (auto simp: input_fits_def intro!: la_request_no_panic [OF assms(1)] complete_time_fits)
  then show ?thesis by (simp add: la_apply_def apply_input_def InRequest)
next
  case (InEvent ed)
  have "\<not> is_panic (fst (apply_input la_try_from_command (la_try_from_event x) (la_step x)
      (la_adapt_response x) (\<lambda>_ m. (Ok [], m)) m i))"
    using assms(1) la_step_no_panic by (rule local_activity.apply_input_no_panic) simp
  then show ?thesis by (simp add: la_apply_def apply_input_def InEvent)
next
  case (InCommand c)
  have "\<not> is_panic (fst (apply_input la_try_from_command (la_try_from_event x) (la_step x)
      (la_adapt_response x) (\<lambda>_ m. (Ok [], m)) m i))"
    using assms(1) la_step_no_panic by (rule local_activity.apply_input_no_panic) simp
  then show ?thesis by (simp add: la_apply_def apply_input_def InCommand)
qed

text \<open>
  C22: Whatever sequence of marker events, echoed commands, cancellations, execution results,
  results found by looking ahead in history and non-replay workflow tasks reaches a local activity,
  its machine does not panic, as long as the workflow time at which it was scheduled plus the
  runtime of each execution is a time the platform can represent (the sum is a \<open>SystemTime\<close>
  addition, which panics beyond that); all it tells the language layer are resolutions of this very local
  activity; it tells at most one, and one more for each result handed to it from history; and when
  none was handed to it, it has told exactly one once it is no longer waiting for a result or for
  its marker, and none before.
\<close>

theorem local_activity_life:
  assumes "new_local_activity x now a replaying pre wf_time flags = Ok (m, mr)"
  shows "(list_all (input_fits wf_time) is \<longrightarrow> \<not> is_panic (fst (run_inputs (la_apply x) m is))) \<and>
    (run_inputs (la_apply x) m is = (Ok rs, m') \<longrightarrow>
      (\<forall>j \<in> set (pushed_jobs (mr @ rs)). is_own_resolution (vla_seq a) j) \<and>
      length (pushed_jobs (mr @ rs)) \<le> 1 + length (filter is_known is) \<and>
      (\<not> list_ex is_known is \<longrightarrow>
         length (pushed_jobs (mr @ rs)) = (if la_unresolved m' then 0 else 1)))"
proof (rule conjI; (rule impI)?)
  note new = new_local_activity_told [OF assms]
  assume "list_all (input_fits wf_time) is"
  with new(1) new_local_activity_time [OF assms]
  show "\<not> is_panic (fst (run_inputs (la_apply x) m is))"
  proof (induction "is" arbitrary: m mr)
    case (Cons i "is")
    from Cons.prems have "\<not> is_panic (fst (la_apply x m i))"
      by (auto simp: la_told_def dest: la_apply_no_panic)
    moreover have "\<not> is_panic (fst (run_inputs (la_apply x) m' is))" if "la_apply x m i = (Ok rs, m')"
      for rs m'
      using Cons.prems la_apply_told [OF Cons.prems(1) that] la_apply_time [OF that]
      by (intro Cons.IH) simp_all
    ultimately show ?case by (auto split: prod.splits outcome.splits)
  qed simp
next
  assume run: "run_inputs (la_apply x) m is = (Ok rs, m')"
  note new = new_local_activity_told [OF assms]
  from run new(1) have "la_told (vla_seq a) m' (mr @ rs)"
    by (rule run_inputs_invariant) (erule (1) la_apply_told)
  moreover have "length (pushed_jobs rs) + la_credit m' \<le>
    la_credit m + sum_list (map (\<lambda>i. if is_known i then 1 else 0) is)"
    using run by (rule run_inputs_credit) (erule la_apply_credit, simp_all)
  moreover have "sum_list (map (\<lambda>i. if is_known i then 1 else 0) is) = length (filter is_known is)"
    by (induction "is") auto
  moreover have "length (pushed_jobs mr) + la_credit m = 1" using new(2) by (simp add: la_alone_def)
  moreover have "la_alone m' (mr @ rs)" if "\<not> list_ex is_known is"
    using run new(2)
    by (rule run_inputs_invariant_on) (use that in \<open>auto simp: list_ex_iff intro: la_apply_alone\<close>)
  ultimately show "(\<forall>j \<in> set (pushed_jobs (mr @ rs)). is_own_resolution (vla_seq a) j) \<and>
      length (pushed_jobs (mr @ rs)) \<le> 1 + length (filter is_known is) \<and>
      (\<not> list_ex is_known is \<longrightarrow>
         length (pushed_jobs (mr @ rs)) = (if la_unresolved m' then 0 else 1))"
    by (auto simp: la_told_def la_alone_def la_credit_def split: if_splits)
qed

section \<open>Replaying what was executed\<close>

text \<open>
  What the code relies on: reading back the JSON of the marker data, and the time stamps in it.
\<close>

definition la_codec :: "externals \<Rightarrow> la_marker_data \<Rightarrow> bool" where
  "la_codec x md \<longleftrightarrow>
     (\<exists>bytes. x_la_to_json x md = Some bytes \<and> x_from_utf8 x bytes \<noteq> None \<and>
        x_la_of_json x bytes = Some md)"

definition time_codec :: "externals \<Rightarrow> bool" where
  "time_codec x \<longleftrightarrow> (\<forall>t. x_systime x (x_timestamp x t) = Some t)"

text \<open>The event by which the server records a marker command.\<close>

definition records_marker :: "record_marker_attrs \<Rightarrow> hist_event_data \<Rightarrow> bool" where
  "records_marker ma ed \<longleftrightarrow>
     event_type_of (hed_event ed) = ET_MarkerRecorded \<and>
     he_attributes (hed_event ed) =
       Some (MarkerRecordedEventAttributes
         \<lparr>mrk_marker_name = rma_marker_name ma, mrk_details = rma_details ma,
          mrk_failure = rma_failure ma\<rparr>)"

text \<open>Results whose marker says what they were.\<close>

definition mentions_cancel :: "failure \<Rightarrow> bool" where
  "mentions_cancel f \<longleftrightarrow>
     is_canceled_info (f_info f) \<or> is_canceled_info (Option.bind (f_cause f) f_info)"

definition la_replayable :: "la_execution_result \<Rightarrow> bool" where
  "la_replayable r =
     (case r of
        LA_Completed c \<Rightarrow> c \<noteq> None
      | LA_Failed (Some f) \<Rightarrow> \<not> mentions_cancel f
      | LA_Cancelled (Some f) \<Rightarrow> mentions_cancel f
      | _ \<Rightarrow> False)"

lemma new_la_executing:
  "new_local_activity x now a False None wf_time flags =
     Ok (\<lparr>fsm_state = Some La_RequestSent,
          fsm_shared = \<lparr>la_attrs = a\<lparr>vla_original_schedule_time :=
                          Some (opt_default now (vla_original_schedule_time a))\<rparr>,
                        la_replaying_when_invoked = False, la_wf_time_when_started = wf_time,
                        la_internal_flags = flags\<rparr>\<rparr>,
         [QueueLocalActivity (a\<lparr>vla_original_schedule_time :=
            Some (opt_default now (vla_original_schedule_time a))\<rparr>)])"
  by (simp add: new_local_activity_def from_parts_def on_event_def la_handlers transition_results
      la_adapt_response_def Let_def)

lemma new_la_replaying:
  "new_local_activity x now a True None wf_time flags =
     Ok (\<lparr>fsm_state = Some (La_WaitingMarkerEvent False),
          fsm_shared = \<lparr>la_attrs = a\<lparr>vla_original_schedule_time :=
                          Some (opt_default now (vla_original_schedule_time a))\<rparr>,
                        la_replaying_when_invoked = True, la_wf_time_when_started = wf_time,
                        la_internal_flags = flags\<rparr>\<rparr>, [])"
  by (simp add: new_local_activity_def from_parts_def on_event_def la_handlers transition_results
      Let_def)

lemma new_la_executingD:
  assumes "new_local_activity x now a False None wf_time flags = Ok (m, mr)"
  shows "fsm_state m = Some La_RequestSent" "\<not> la_replaying_when_invoked (fsm_shared m)"
    "vla_seq (la_attrs (fsm_shared m)) = vla_seq a"
    "vla_activity_id (la_attrs (fsm_shared m)) = vla_activity_id a"
    "vla_activity_type (la_attrs (fsm_shared m)) = vla_activity_type a"
    "vla_cancellation_type (la_attrs (fsm_shared m)) = vla_cancellation_type a"
  using assms by (auto simp: new_la_executing)

lemma new_la_replayingD:
  assumes "new_local_activity x now a True None wf_time flags = Ok (m, mr)"
  shows "fsm_state m = Some (La_WaitingMarkerEvent False)"
    "la_replaying_when_invoked (fsm_shared m)"
    "vla_seq (la_attrs (fsm_shared m)) = vla_seq a"
    "vla_activity_id (la_attrs (fsm_shared m)) = vla_activity_id a"
    "vla_activity_type (la_attrs (fsm_shared m)) = vla_activity_type a"
    "vla_cancellation_type (la_attrs (fsm_shared m)) = vla_cancellation_type a"
  using assms by (auto simp: new_la_replaying)

lemma la_resolve_executing:
  assumes "fsm_state m = Some La_RequestSent" "\<not> la_replaying_when_invoked (fsm_shared m)"
  shows "fst (la_try_resolve_dat x m rd False) =
    Ok (la_resolved_responses x (fsm_shared m) rd @
        [IssueNewCommand (mk_command CT_RecordMarker (RecordMarkerCommandAttributes
           (la_marker_attrs x (fsm_shared m) rd)))])"
  using assms
  by (simp add: la_try_resolve_dat_def la_run_event_def on_event_def la_handlers transition_results
      la_adapt_response_def Let_def)

lemma la_resolved_responses_cong:
  assumes "vla_seq (la_attrs dat) = vla_seq (la_attrs dat')"
    "vla_activity_id (la_attrs dat) = vla_activity_id (la_attrs dat')"
    "vla_activity_type (la_attrs dat) = vla_activity_type (la_attrs dat')"
    "vla_cancellation_type (la_attrs dat) = vla_cancellation_type (la_attrs dat')"
  shows "la_resolved_responses x dat rd = la_resolved_responses x dat' rd"
  unfolding la_resolved_responses_def la_resolution_def la_wrap_fail_def assms by (rule refl)

lemma verify_marker_same:
  assumes "lmd_seq (cla_marker_dat d) = vla_seq (la_attrs dat)"
    "lmd_activity_id (cla_marker_dat d) = vla_activity_id (la_attrs dat)"
    "lmd_activity_type (cla_marker_dat d) = vla_activity_type (la_attrs dat)"
  shows "\<exists>flags. verify_marker_dat dat d r = (r, dat\<lparr>la_internal_flags := flags\<rparr>)"
  using assms
  by (auto simp: verify_marker_dat_def verify_marker_data_matches_def split: prod.splits)

text \<open>A machine that waits for its marker resolves by what the marker says.\<close>

lemma la_marker_replay:
  assumes m: "fsm_state m = Some (La_WaitingMarkerEvent False)"
    "la_replaying_when_invoked (fsm_shared m)"
    and ed: "la_try_from_event x ed = Ok (La_MarkerRecorded d)"
    and "lmd_seq (cla_marker_dat d) = vla_seq (la_attrs (fsm_shared m))"
    "lmd_activity_id (cla_marker_dat d) = vla_activity_id (la_attrs (fsm_shared m))"
    "lmd_activity_type (cla_marker_dat d) = vla_activity_type (la_attrs (fsm_shared m))"
  shows "fst (la_apply x m (InEvent ed)) =
    Ok (la_resolved_responses x (fsm_shared m) (resolve_dat_of_marker x d))"
proof -
  have eq: "la_resolved_responses x (dat\<lparr>la_internal_flags := flags\<rparr>) rd =
      la_resolved_responses x dat rd" for dat flags rd
    by (rule la_resolved_responses_cong) simp_all
  from verify_marker_same [OF assms(4-6)] obtain flags where
    "verify_marker_dat (fsm_shared m) d
       (tr_commands La_MarkerCommandRecorded [Resolved (resolve_dat_of_marker x d)]) =
     (tr_commands La_MarkerCommandRecorded [Resolved (resolve_dat_of_marker x d)],
      (fsm_shared m)\<lparr>la_internal_flags := flags\<rparr>)" by blast
  with m ed show ?thesis
    by (simp add: la_apply_def apply_input_def handle_event_def Let_def on_event_def
        la_waiting_on_marker_recorded_def transition_results process_machine_commands_def
        la_adapt_response_def eq)
qed

text \<open>The marker of a result, read back.\<close>

definition marker_result :: "la_execution_result \<Rightarrow> failure + payload" where
  "marker_result r =
     (case (la_ok_result r, la_failure_of r) of
        (Some p, None) \<Rightarrow> Inr p
      | (_, Some f) \<Rightarrow> Inl f
      | (None, None) \<Rightarrow> Inr payload_default)"

lemma la_marker_read_back:
  assumes "la_codec x (la_marker_data_of x dat rd)"
    and "records_marker (la_marker_attrs x dat rd) ed"
  shows "la_try_from_event x ed =
    Ok (La_MarkerRecorded \<lparr>cla_marker_dat = la_marker_data_of x dat rd,
                           cla_result = marker_result (rd_result rd)\<rparr>)"
proof -
  from assms(1) obtain bytes where "x_la_to_json x (la_marker_data_of x dat rd) = Some bytes"
    "x_from_utf8 x bytes \<noteq> None" "x_la_of_json x bytes = Some (la_marker_data_of x dat rd)"
    by (auto simp: la_codec_def)
  with assms(2) show ?thesis
    by (auto simp: la_try_from_event_def Let_def records_marker_def la_marker_attrs_def
        into_local_activity_marker_details_def extract_local_activity_marker_details_def
        extract_la_marker_data_of_details_def build_local_activity_marker_details_def
        first_payload_def map_insert_def json_payload_def marker_result_def
        split: option.splits)
qed

lemma time_read_back:
  "time_codec x \<Longrightarrow> try_into_or_none (x_systime x) (map_option (x_timestamp x) t) = t"
  by (cases t) (simp_all add: time_codec_def try_into_or_none_def)

lemma resolve_dat_read_back:
  assumes "time_codec x" and "la_replayable (rd_result rd)"
  shows "resolve_dat_of_marker x
    \<lparr>cla_marker_dat = la_marker_data_of x dat rd, cla_result = marker_result (rd_result rd)\<rparr> = rd"
  using assms
  by (cases rd; cases "rd_result rd")
    (auto simp: resolve_dat_of_marker_def la_marker_data_of_def marker_result_def la_replayable_def
      mentions_cancel_def la_ok_result_def la_failure_of_def time_read_back split: option.splits)

text \<open>
  C23: A local activity that is executed and one that is replayed say the same.  Take a local
  activity that ran and was resolved with its result: the responses end with the command that
  records its marker.  When the same local activity is scheduled again while replaying and meets
  the event of that marker, it tells the language layer the same resolution, sets the same workflow
  time and drops the same bookkeeping as the execution did.  The result must be one that its marker
  describes: a completion with a payload, a failure that does not mention a cancellation, or a
  cancellation that does.
\<close>

theorem local_activity_replay:
  assumes exec: "new_local_activity x now a False None wf_time flags = Ok (m, mr)"
    and res: "la_try_resolve x m result runtime attempt backoff orig = (Ok rs, m')"
    and replay: "new_local_activity x now' a True None wf_time' flags' = Ok (m2, mr2)"
    and "la_replayable result"
    and "time_codec x"
    and dat: "executed_resolve_dat m result runtime attempt backoff orig = Ok rd"
    and "la_codec x (la_marker_data_of x (fsm_shared m) rd)"
  shows "\<exists>rs' ma.
    rs = rs' @ [IssueNewCommand (mk_command CT_RecordMarker (RecordMarkerCommandAttributes ma))] \<and>
    (\<forall>ed. records_marker ma ed \<longrightarrow> fst (la_apply x m2 (InEvent ed)) = Ok rs')"
proof -
  define md where "md = la_marker_data_of x (fsm_shared m) rd"
  note m = new_la_executingD [OF exec]
  note m2 = new_la_replayingD [OF replay]
  have rd: "rd_result rd = result" using dat by (auto simp: executed_resolve_dat_def)
  have read: "resolve_dat_of_marker x \<lparr>cla_marker_dat = md, cla_result = marker_result result\<rparr> = rd"
    using resolve_dat_read_back [of x rd "fsm_shared m"] assms(4,5) by (simp add: md_def rd)
  have rs: "rs = la_resolved_responses x (fsm_shared m) rd @
      [IssueNewCommand (mk_command CT_RecordMarker (RecordMarkerCommandAttributes
         (la_marker_attrs x (fsm_shared m) rd)))]"
    using res la_resolve_executing [OF m(1,2), of x rd] by (simp add: la_try_resolve_def dat)
  have "fst (la_apply x m2 (InEvent ed)) = Ok (la_resolved_responses x (fsm_shared m) rd)"
    if ed: "records_marker (la_marker_attrs x (fsm_shared m) rd) ed" for ed
  proof -
    have "la_try_from_event x ed =
        Ok (La_MarkerRecorded \<lparr>cla_marker_dat = md, cla_result = marker_result result\<rparr>)"
      using la_marker_read_back [OF _ ed] assms(7) by (simp add: md_def rd)
    with m2(1,2) have "fst (la_apply x m2 (InEvent ed)) = Ok (la_resolved_responses x (fsm_shared m2)
        (resolve_dat_of_marker x \<lparr>cla_marker_dat = md, cla_result = marker_result result\<rparr>))"
      by (rule la_marker_replay) (simp_all add: md_def la_marker_data_of_def m m2)
    moreover have "la_resolved_responses x (fsm_shared m2) rd =
        la_resolved_responses x (fsm_shared m) rd"
      by (rule la_resolved_responses_cong) (simp_all add: m m2)
    ultimately show ?thesis unfolding read by simp
  qed
  with rs show ?thesis by blast
qed

definition wit_local_activity :: valid_schedule_la where
  "wit_local_activity =
     \<lparr>vla_seq = 1, vla_activity_id = ''act'', vla_activity_type = ''type'', vla_attempt = 1,
      vla_original_schedule_time = None, vla_headers = [], vla_arguments = [],
      vla_schedule_to_start_timeout = None, vla_close_timeouts = ScheduleOnly 5,
      vla_retry_policy = retry_policy_default, vla_local_retry_threshold = 60,
      vla_cancellation_type = ACT_TryCancel\<rparr>"

definition wit_la_marker :: la_marker_data where
  "wit_la_marker =
     \<lparr>lmd_seq = 1, lmd_attempt = 1, lmd_activity_id = ''act'', lmd_activity_type = ''type'',
      lmd_complete_time = Some (0, 107), lmd_backoff = None, lmd_original_schedule_time = None\<rparr>"

definition wit_la_externals :: externals where
  "wit_la_externals =
     wit_externals\<lparr>x_la_to_json := (\<lambda>_. Some [7]), x_la_of_json := (\<lambda>_. Some wit_la_marker)\<rparr>"

lemma wit_la_time_codec: "time_codec wit_la_externals"
  by (simp add: time_codec_def wit_la_externals_def wit_externals_def)

theorem local_activity_life_witness:
  "\<exists>m mr m' rs.
     new_local_activity wit_la_externals 9 wit_local_activity False None (Some 100) Disabled
       = Ok (m, mr) \<and>
     run_inputs (la_apply wit_la_externals) m
       [InRequest (LaResolve (LA_Completed (Some payload_default)) 7 1 None None),
        InCommand CT_RecordMarker] = (Ok rs, m') \<and>
     length (pushed_jobs (mr @ rs)) = 1 \<and> \<not> la_unresolved m' \<and>
     list_all (input_fits (Some 100))
       [InRequest (LaResolve (LA_Completed (Some payload_default)) 7 1 None None),
        InCommand CT_RecordMarker]"
proof -
  let ?is = "[InRequest (LaResolve (LA_Completed (Some payload_default)) 7 1 None None),
    InCommand CT_RecordMarker]"
  obtain m mr where new: "new_local_activity wit_la_externals 9 wit_local_activity False None
      (Some 100) Disabled = Ok (m, mr)"
    by (simp add: new_la_executing)
  then have m: "fsm_state m = Some La_RequestSent" "\<not> la_replaying_when_invoked (fsm_shared m)"
    "la_wf_time_when_started (fsm_shared m) = Some 100"
    by (auto simp: new_la_executing)
  have "\<exists>rs m'. run_inputs (la_apply wit_la_externals) m ?is = (Ok rs, m') \<and> \<not> la_unresolved m'"
    by (simp add: la_apply_def la_ops machine_run la_handlers m Let_def la_unresolved_def)
  then obtain rs m' where run: "run_inputs (la_apply wit_la_externals) m ?is = (Ok rs, m')"
    and fin: "\<not> la_unresolved m'" by blast
  from local_activity_life [OF new, of ?is rs m'] run fin
  have "length (pushed_jobs (mr @ rs)) = 1" by (simp add: is_known_def)
  moreover have "list_all (input_fits (Some 100)) ?is"
    by (simp add: input_fits_def system_time_end_def)
  ultimately show ?thesis using new run fin by blast
qed

theorem local_activity_replay_witness:
  "\<exists>m mr m' rs m2 mr2 rs' ma.
     new_local_activity wit_la_externals 9 wit_local_activity False None (Some 100) Disabled
       = Ok (m, mr) \<and>
     la_try_resolve wit_la_externals m (LA_Completed (Some payload_default)) 7 1 None None
       = (Ok rs, m') \<and>
     new_local_activity wit_la_externals 20 wit_local_activity True None (Some 50) Disabled
       = Ok (m2, mr2) \<and>
     rs = rs' @ [IssueNewCommand (mk_command CT_RecordMarker (RecordMarkerCommandAttributes ma))] \<and>
     (\<exists>ed. records_marker ma ed \<and> fst (la_apply wit_la_externals m2 (InEvent ed)) = Ok rs')"
proof -
  obtain m mr where new: "new_local_activity wit_la_externals 9 wit_local_activity False None
      (Some 100) Disabled = Ok (m, mr)"
    by (simp add: new_la_executing)
  then have m: "fsm_state m = Some La_RequestSent"
    "fsm_shared m = \<lparr>la_attrs = wit_local_activity\<lparr>vla_original_schedule_time := Some 9\<rparr>,
       la_replaying_when_invoked = False, la_wf_time_when_started = Some 100,
       la_internal_flags = Disabled\<rparr>"
    by (auto simp: new_la_executing wit_local_activity_def opt_default_def)
  obtain m2 mr2 where new2: "new_local_activity wit_la_externals 20 wit_local_activity True None
      (Some 50) Disabled = Ok (m2, mr2)" by (simp add: new_la_replaying)
  let ?res = "la_try_resolve wit_la_externals m (LA_Completed (Some payload_default)) 7 1 None None"
  have "\<exists>rs m'. ?res = (Ok rs, m')"
    by (simp add: la_ops machine_run la_handlers m Let_def)
  then obtain rs m' where res: "?res = (Ok rs, m')" by blast
  obtain rd where dat: "executed_resolve_dat m (LA_Completed (Some payload_default)) 7 1 None None = Ok rd"
    and md: "la_marker_data_of wit_la_externals (fsm_shared m) rd = wit_la_marker"
    by (simp add: m la_marker_data_of_def la_ops wit_la_externals_def
        wit_externals_def wit_local_activity_def wit_la_marker_def)
  have codec: "la_codec wit_la_externals wit_la_marker"
    by (simp add: la_codec_def wit_la_externals_def wit_externals_def)
  from local_activity_replay [OF new res new2 _ _ dat] obtain rs' ma where
    1: "rs = rs' @ [IssueNewCommand (mk_command CT_RecordMarker (RecordMarkerCommandAttributes ma))]"
    and 2: "\<And>ed. records_marker ma ed \<Longrightarrow> fst (la_apply wit_la_externals m2 (InEvent ed)) = Ok rs'"
    using wit_la_time_codec codec by (auto simp: md la_replayable_def)
  have "records_marker ma (mk_event 6 25 (MarkerRecordedEventAttributes
      \<lparr>mrk_marker_name = rma_marker_name ma, mrk_details = rma_details ma,
       mrk_failure = rma_failure ma\<rparr>))"
    by (simp add: records_marker_def concrete_events)
  from this 2 [OF this] 1 new res new2 show ?thesis by blast
qed

text \<open>
  C39: A local activity that timed out and is not retried with a backoff timer is the exception.
  When the execution is resolved with a timeout and no backoff, it tells the language layer an
  activity failure whose cause is the timeout, but its marker records the bare timeout, and the
  replay that meets this marker tells the language layer that bare failure: the two resolutions
  differ.
\<close>

theorem local_activity_timeout_replay:
  assumes exec: "new_local_activity x now a False None wf_time flags = Ok (m, mr)"
    and res: "la_try_resolve x m (LA_TimedOut (Some f)) runtime attempt None orig = (Ok rs, m')"
    and replay: "new_local_activity x now' a True None wf_time' flags' = Ok (m2, mr2)"
    and "is_timeout_info (f_info f)" and "\<not> is_canceled_info (Option.bind (f_cause f) f_info)"
    and "time_codec x"
    and dat: "executed_resolve_dat m (LA_TimedOut (Some f)) runtime attempt None orig = Ok rd"
    and "la_codec x (la_marker_data_of x (fsm_shared m) rd)"
    and "records_marker (la_marker_attrs x (fsm_shared m) rd) ed"
  shows "\<exists>rs' wrapped.
    pushed_jobs rs = [ResolveActivity \<lparr>ra_seq = vla_seq a,
      ra_result = Some (AR_Failed (Some wrapped)), ra_is_local = True\<rparr>] \<and>
    fst (la_apply x m2 (InEvent ed)) = Ok rs' \<and>
    pushed_jobs rs' = [ResolveActivity \<lparr>ra_seq = vla_seq a,
      ra_result = Some (AR_Failed (Some f)), ra_is_local = True\<rparr>] \<and>
    f_cause wrapped = Some f \<and> wrapped \<noteq> f"
proof -
  define md where "md = la_marker_data_of x (fsm_shared m) rd"
  note m = new_la_executingD [OF exec]
  note m2 = new_la_replayingD [OF replay]
  have rd: "rd_result rd = LA_TimedOut (Some f)" "rd_backoff rd = None"
    using dat by (auto simp: executed_resolve_dat_def)
  have rs: "rs = la_resolved_responses x (fsm_shared m) rd @
      [IssueNewCommand (mk_command CT_RecordMarker (RecordMarkerCommandAttributes
         (la_marker_attrs x (fsm_shared m) rd)))]"
    using res la_resolve_executing [OF m(1,2), of x rd] by (simp add: la_try_resolve_def dat)
  have "la_try_from_event x ed = Ok (La_MarkerRecorded \<lparr>cla_marker_dat = md, cla_result = Inl f\<rparr>)"
    using la_marker_read_back [OF assms(8,9)]
    by (simp add: md_def rd marker_result_def la_ok_result_def la_failure_of_def)
  with m2(1,2) have "fst (la_apply x m2 (InEvent ed)) = Ok (la_resolved_responses x (fsm_shared m2)
      (resolve_dat_of_marker x \<lparr>cla_marker_dat = md, cla_result = Inl f\<rparr>))"
    by (rule la_marker_replay) (simp_all add: md_def la_marker_data_of_def m m2)
  moreover have "\<not> is_canceled_info (f_info f)"
    using assms(4) by (auto simp: is_timeout_info_def is_canceled_info_def
        split: option.splits failure_info.splits)
  moreover have "size f < size w" if "f_cause w = Some f" for w
    using that by (cases w) auto
  then have "f_cause w = Some f \<Longrightarrow> w \<noteq> f" for w by blast
  ultimately show ?thesis
    using assms(4,5) rd m m2
    by (auto simp: rs la_resolved_responses_def la_resolution_def la_wrap_fail_def
        resolve_dat_of_marker_def md_def la_marker_data_of_def mk_failure_def)
qed

theorem local_activity_timeout_replay_witness:
  "\<exists>m mr m' rs m2 mr2 ed rs'.
     new_local_activity wit_la_externals 9 wit_local_activity False None (Some 100) Disabled
       = Ok (m, mr) \<and>
     la_try_resolve wit_la_externals m (la_timeout TT_StartToClose) 7 1 None None = (Ok rs, m') \<and>
     new_local_activity wit_la_externals 20 wit_local_activity True None (Some 50) Disabled
       = Ok (m2, mr2) \<and>
     fst (la_apply wit_la_externals m2 (InEvent ed)) = Ok rs' \<and> pushed_jobs rs \<noteq> pushed_jobs rs'"
proof -
  obtain m mr where new: "new_local_activity wit_la_externals 9 wit_local_activity False None
      (Some 100) Disabled = Ok (m, mr)" by (simp add: new_la_executing)
  then have m: "fsm_state m = Some La_RequestSent"
    "fsm_shared m = \<lparr>la_attrs = wit_local_activity\<lparr>vla_original_schedule_time := Some 9\<rparr>,
       la_replaying_when_invoked = False, la_wf_time_when_started = Some 100,
       la_internal_flags = Disabled\<rparr>"
    by (auto simp: new_la_executing wit_local_activity_def opt_default_def)
  obtain m2 mr2 where new2: "new_local_activity wit_la_externals 20 wit_local_activity True None
      (Some 50) Disabled = Ok (m2, mr2)" by (simp add: new_la_replaying)
  define f where "f = mk_failure ''Activity timed out'' None
    (Some (TimeoutFailureInfo (timeout_type_code TT_StartToClose) None))"
  have tt: "la_timeout TT_StartToClose = LA_TimedOut (Some f)" by (simp add: la_timeout_def f_def)
  let ?res = "la_try_resolve wit_la_externals m (LA_TimedOut (Some f)) 7 1 None None"
  have "\<exists>rs m'. ?res = (Ok rs, m')" by (simp add: la_ops machine_run la_handlers m Let_def)
  then obtain rs m' where res: "?res = (Ok rs, m')" by blast
  obtain rd where dat: "executed_resolve_dat m (LA_TimedOut (Some f)) 7 1 None None = Ok rd"
    and md: "la_marker_data_of wit_la_externals (fsm_shared m) rd = wit_la_marker"
    by (simp add: m la_marker_data_of_def la_ops wit_la_externals_def
        wit_externals_def wit_local_activity_def wit_la_marker_def)
  have codec: "la_codec wit_la_externals wit_la_marker"
    by (simp add: la_codec_def wit_la_externals_def wit_externals_def)
  let ?ma = "la_marker_attrs wit_la_externals (fsm_shared m) rd"
  let ?ed = "mk_event 6 25 (MarkerRecordedEventAttributes
      \<lparr>mrk_marker_name = rma_marker_name ?ma, mrk_details = rma_details ?ma,
       mrk_failure = rma_failure ?ma\<rparr>)"
  have marker: "records_marker ?ma ?ed" by (simp add: records_marker_def concrete_events)
  have info: "is_timeout_info (f_info f)" "\<not> is_canceled_info (Option.bind (f_cause f) f_info)"
    by (simp_all add: f_def mk_failure_def is_timeout_info_def is_canceled_info_def)
  have "la_codec wit_la_externals (la_marker_data_of wit_la_externals (fsm_shared m) rd)"
    unfolding md by (rule codec)
  from local_activity_timeout_replay [OF new res new2 info wit_la_time_codec dat this marker]
  obtain rs' wrapped where
    "pushed_jobs rs = [ResolveActivity \<lparr>ra_seq = vla_seq wit_local_activity,
       ra_result = Some (AR_Failed (Some wrapped)), ra_is_local = True\<rparr>]"
    and rs': "fst (la_apply wit_la_externals m2 (InEvent ?ed)) = Ok rs'"
    and "pushed_jobs rs' = [ResolveActivity \<lparr>ra_seq = vla_seq wit_local_activity,
       ra_result = Some (AR_Failed (Some f)), ra_is_local = True\<rparr>]" and "wrapped \<noteq> f"
    by blast
  then have "pushed_jobs rs \<noteq> pushed_jobs rs'" by simp
  with new res new2 rs' show ?thesis unfolding tt by blast
qed

end
