(* ===== verification/History_Update.thy ===== *)
theory History_Update
  imports Protosext
begin

text \<open>
  Workflow history as the orchestrator consumes it (\<open>core/src/worker/workflow/history_update.rs\<close>):
  where a workflow task sequence ends, how fetched events are cut into an update and a remainder,
  how sequences are taken from and peeked at in an update, and the paginator that fetches pages
  until two sequences are complete.  The server is the list of its answers to the fetches, in the
  order they are made; running out of answers (\<open>None\<close>) is a fetch that has not returned yet.
\<close>

section \<open>The end of the next workflow task sequence\<close>

datatype seq_end = Complete nat | Incomplete nat

primrec seq_index :: "seq_end \<Rightarrow> nat" where
  "seq_index (Complete ix) = ix"
| "seq_index (Incomplete ix) = ix"

primrec seq_add :: "seq_end \<Rightarrow> nat \<Rightarrow> seq_end" where
  "seq_add (Complete ix) v = Complete (ix + v)"
| "seq_add (Incomplete ix) v = Incomplete (ix + v)"

text \<open>Event types that mean the task which just started did not conclude a sequence.\<close>

definition abandons_task :: "event_type \<Rightarrow> bool" where
  "abandons_task t =
     (t \<in> {ET_WorkflowTaskFailed, ET_WorkflowTaskTimedOut, ET_WorkflowExecutionTimedOut,
           ET_WorkflowExecutionTerminated, ET_WorkflowExecutionCanceled})"

text \<open>The closest \<open>WorkflowTaskStarted\<close> before an event id, of those seen so far.\<close>

definition closest_started :: "(event_id \<times> nat) list \<Rightarrow> event_id \<Rightarrow> nat option" where
  "closest_started started eid = map_option snd (List.find (\<lambda>(i, ix). i < eid) (rev started))"

text \<open>
  What a \<open>WorkflowTaskStarted\<close> at index \<open>ix\<close> with the given events behind it concludes:
  \<open>None\<close> when the scan goes on.
\<close>

definition after_wft_started ::
  "bool \<Rightarrow> bool \<Rightarrow> (event_id \<times> nat) list \<Rightarrow> nat \<Rightarrow> history_event list \<Rightarrow> seq_end option" where
  "after_wft_started has_last_wft saw_any_command_event started ix rest =
     (case rest of
        [] \<Rightarrow>
          if \<not> has_last_wft \<and> \<not> saw_any_command_event then None
          else if saw_any_command_event then Some (Complete ix) else None
      | next_event # rest' \<Rightarrow>
          if abandons_task (event_type_of next_event) then None
          else if event_type_of next_event = ET_WorkflowTaskCompleted then
            (case rest' of
               next_next_event # _ \<Rightarrow>
                 if event_type_of next_next_event = ET_WorkflowTaskScheduled then None
                 else
                   (case attrs_workflow_execution_update_accepted next_next_event of
                      Some attr \<Rightarrow>
                        (case closest_started started
                                (uac_accepted_request_sequencing_event_id attr) of
                           Some ret_ix \<Rightarrow> Some (Complete ret_ix)
                         | None \<Rightarrow> Some (Complete ix))
                    | None \<Rightarrow> Some (Complete ix))
             | [] \<Rightarrow>
                 if \<not> has_last_wft \<and> \<not> saw_any_command_event then None
                 else if saw_any_command_event then Some (Complete ix) else None)
          else if saw_any_command_event then Some (Complete ix) else None)"

text \<open>The loop, with its index and its three mutable variables.\<close>

fun find_end_loop ::
  "event_id \<Rightarrow> bool \<Rightarrow> nat \<Rightarrow> nat \<Rightarrow> bool \<Rightarrow> (event_id \<times> nat) list \<Rightarrow> history_event list \<Rightarrow> seq_end" where
  "find_end_loop from_event_id has_last_wft ix last_index saw started [] = Incomplete last_index"
| "find_end_loop from_event_id has_last_wft ix last_index saw started (e # es) =
     (if he_event_id e \<le> from_event_id
      then find_end_loop from_event_id has_last_wft (Suc ix) ix saw started es
      else
        let saw' = (saw \<or> is_command_event e \<or> event_type_of e = ET_WorkflowExecutionStarted);
            started' = (if event_type_of e = ET_WorkflowTaskStarted
                        then started @ [(he_event_id e, ix)] else started)
        in if is_final_wf_execution_event e then Complete ix
           else case (if event_type_of e = ET_WorkflowTaskStarted
                      then after_wft_started has_last_wft saw' started' ix es else None) of
                  Some r \<Rightarrow> r
                | None \<Rightarrow> find_end_loop from_event_id has_last_wft (Suc ix) ix saw' started' es)"

definition find_end_index_of_next_wft_seq ::
  "history_event list \<Rightarrow> event_id \<Rightarrow> bool \<Rightarrow> seq_end" where
  "find_end_index_of_next_wft_seq events from_event_id has_last_wft =
     (if events = [] then Incomplete 0
      else find_end_loop from_event_id has_last_wft 0 0 False [] events)"

section \<open>Bounds of the end index\<close>

lemma closest_started_mem:
  "closest_started started eid = Some ix \<Longrightarrow> \<exists>i. (i, ix) \<in> set started"
  by (auto simp: closest_started_def find_Some_iff) (metis length_rev nth_mem set_rev)

lemma after_wft_started_index:
  "after_wft_started has_last saw started ix rest = Some r \<Longrightarrow>
   \<exists>k. r = Complete k \<and> (k = ix \<or> (\<exists>i. (i, k) \<in> set started))"
  by (auto simp: after_wft_started_def split: list.splits if_splits option.splits
      dest: closest_started_mem)

text \<open>
  A complete end is the index of an event of the rest of the list, or of a started task seen
  before; either way the event concludes a sequence and lies behind the starting id.
\<close>

definition concludes :: "event_id \<Rightarrow> history_event \<Rightarrow> bool" where
  "concludes from_event_id e \<longleftrightarrow>
     from_event_id < he_event_id e \<and>
     (event_type_of e = ET_WorkflowTaskStarted \<or> is_final_wf_execution_event e)"

lemma find_end_loop_complete:
  assumes "find_end_loop from_id has_last (length pre) li saw started es = Complete k"
    and "\<forall>(i, j) \<in> set started. j < length pre \<and> concludes from_id (pre ! j)"
  shows "k < length (pre @ es) \<and> concludes from_id ((pre @ es) ! k)"
  using assms
proof (induction es arbitrary: pre li saw started)
  case (Cons e es)
  have IH: "k < length ((pre @ [e]) @ es) \<and> concludes from_id (((pre @ [e]) @ es) ! k)"
    if "find_end_loop from_id has_last (length (pre @ [e])) li saw started es = Complete k"
      "\<forall>(i, j) \<in> set started. j < length (pre @ [e]) \<and> concludes from_id ((pre @ [e]) ! j)"
    for li saw started
    using that by (rule Cons.IH)
  have old: "\<forall>(i, j) \<in> set started. j < length (pre @ [e]) \<and> concludes from_id ((pre @ [e]) ! j)"
    using Cons.prems(2) by (auto simp: nth_append)
  show ?case
  proof (cases "he_event_id e \<le> from_id \<or>
      (event_type_of e \<noteq> ET_WorkflowTaskStarted \<and> \<not> is_final_wf_execution_event e)")
    case True
    then have "\<exists>li saw. find_end_loop from_id has_last (length (pre @ [e])) li saw started es = Complete k"
      using Cons.prems(1) by (auto simp: Let_def split: if_splits)
    then show ?thesis using IH old by fastforce
  next
    case False
    then have c: "concludes from_id e" by (auto simp: concludes_def)
    have new: "\<forall>(i, j) \<in> set (started @ [(he_event_id e, length pre)]).
        j < length (pre @ [e]) \<and> concludes from_id ((pre @ [e]) ! j)"
      using old c by (auto simp: nth_append)
    show ?thesis
    proof (cases "is_final_wf_execution_event e")
      case True
      then show ?thesis using False Cons.prems(1) c by (auto simp: Let_def)
    next
      case nf: False
      let ?saw = "saw \<or> is_command_event e"
      let ?st = "started @ [(he_event_id e, length pre)]"
      from nf False have t: "event_type_of e = ET_WorkflowTaskStarted" "\<not> he_event_id e \<le> from_id"
        by auto
      show ?thesis
      proof (cases "after_wft_started has_last ?saw ?st (length pre) es")
        case None
        then have "find_end_loop from_id has_last (length (pre @ [e])) (length pre) ?saw ?st es
          = Complete k"
          using Cons.prems(1) t nf by (simp add: Let_def)
        then show ?thesis using IH new by fastforce
      next
        case (Some r)
        with after_wft_started_index [OF Some] Cons.prems(1) t nf
        have "k = length pre \<or> (\<exists>i. (i, k) \<in> set ?st)" by (auto simp: Let_def)
        then show ?thesis using new c by (auto simp: nth_append)
      qed
    qed
  qed
qed simp

lemma find_end_loop_incomplete:
  "find_end_loop from_id has_last ix li saw started es = Incomplete k \<Longrightarrow>
   k = (if es = [] then li else ix + length es - 1)"
proof (induction es arbitrary: ix li saw started)
  case (Cons e es)
  have "\<exists>saw started. find_end_loop from_id has_last (Suc ix) ix saw started es = Incomplete k"
    using Cons.prems
    by (auto simp: Let_def split: if_splits option.splits dest: after_wft_started_index)
  then show ?case using Cons.IH by fastforce
qed simp

lemma find_end_complete:
  assumes "find_end_index_of_next_wft_seq events from_id has_last = Complete k"
  shows "k < length events" "concludes from_id (events ! k)"
  using find_end_loop_complete [of from_id has_last "[]" 0 False "[]" events k] assms
  by (auto simp: find_end_index_of_next_wft_seq_def split: if_splits)

lemma find_end_incomplete:
  "find_end_index_of_next_wft_seq events from_id has_last = Incomplete k \<Longrightarrow> k = length events - 1"
  by (auto simp: find_end_index_of_next_wft_seq_def split: if_splits
      dest: find_end_loop_incomplete)

section \<open>Updates\<close>

record history_update =
  hu_events :: "history_event list"
  hu_previous_wft_started_id :: event_id
  hu_wft_started_id :: event_id
  hu_has_last_wft :: bool
  hu_wft_count :: nat

datatype next_wft = ReplayOver | WFT "history_event list" bool | NeedFetch

definition hu_dummy :: history_update where
  "hu_dummy =
     \<lparr>hu_events = [], hu_previous_wft_started_id = -1, hu_wft_started_id = -1,
      hu_has_last_wft = False, hu_wft_count = 0\<rparr>"

definition is_real :: "history_update \<Rightarrow> bool" where
  "is_real u \<longleftrightarrow> hu_previous_wft_started_id u \<ge> 0"

definition first_event_id :: "history_update \<Rightarrow> event_id option" where
  "first_event_id u = (case hu_events u of [] \<Rightarrow> None | e # _ \<Rightarrow> Some (he_event_id e))"

text \<open>
  The \<open>while\<close> loop of \<open>from_events\<close>: from the end of a complete sequence to the end of the last
  one, counting.  The slice passed on starts with the event that ended the previous sequence.
\<close>

lemma find_end_progress:
  assumes "find_end_index_of_next_wft_seq (drop ix all_events) (he_event_id (all_events ! ix)) has_last
    = Complete k"
  shows "ix + k < length all_events" and "0 < k"
proof -
  note 1 = find_end_complete [OF assms]
  from 1(1) show "ix + k < length all_events" by simp
  show "0 < k"
  proof (rule ccontr)
    assume "\<not> 0 < k"
    with 1 have "concludes (he_event_id (all_events ! ix)) (all_events ! ix)" by simp
    then show False by (simp add: concludes_def)
  qed
qed

function from_events_loop ::
  "history_event list \<Rightarrow> bool \<Rightarrow> nat \<Rightarrow> nat \<Rightarrow> nat \<times> nat" where
  "from_events_loop all_events has_last_wft ix wft_count =
     (case find_end_index_of_next_wft_seq (drop ix all_events) (he_event_id (all_events ! ix))
             has_last_wft of
        Complete k \<Rightarrow> from_events_loop all_events has_last_wft (ix + k) (wft_count + 1)
      | Incomplete k \<Rightarrow> (ix, wft_count + 1))"
  by pat_completeness auto
termination
proof (relation "measure (\<lambda>(all_events, has_last, ix, c). length all_events - ix)", goal_cases)
  case (2 all_events has_last ix c k)
  then show ?case using find_end_progress [of ix all_events has_last k] by simp
qed simp

declare from_events_loop.simps [simp del]

definition from_events ::
  "history_event list \<Rightarrow> event_id \<Rightarrow> event_id \<Rightarrow> bool \<Rightarrow> history_update \<times> history_event list" where
  "from_events all_events previous_wft_started_id wft_started_id has_last_wft =
     (let mk = (\<lambda>events count.
            \<lparr>hu_events = events, hu_previous_wft_started_id = previous_wft_started_id,
             hu_wft_started_id = wft_started_id, hu_has_last_wft = has_last_wft,
             hu_wft_count = count\<rparr>)
      in case find_end_index_of_next_wft_seq all_events previous_wft_started_id has_last_wft of
           Incomplete _ \<Rightarrow> if has_last_wft then (mk all_events 1, []) else (mk [] 0, all_events)
         | Complete ix \<Rightarrow>
             (case from_events_loop all_events has_last_wft ix 0 of
                (last_end, wft_count) \<Rightarrow>
                  if all_events = [] \<or> has_last_wft then (mk all_events wft_count, [])
                  else (mk (take (last_end + 1) all_events) wft_count,
                        drop (last_end + 1) all_events)))"

text \<open>\<open>find_position\<close>: the index of the first event behind an id.\<close>

definition starting_index_after_skipping :: "history_update \<Rightarrow> event_id \<Rightarrow> nat option" where
  "starting_index_after_skipping u from_id =
     (if list_ex (\<lambda>e. he_event_id e > from_id) (hu_events u)
      then Some (length (takeWhile (\<lambda>e. \<not> he_event_id e > from_id) (hu_events u)))
      else None)"

text \<open>\<open>drain(0..=n)\<close> panics beyond the end of the vector.\<close>

definition build_next_wft :: "history_update \<Rightarrow> nat \<Rightarrow> next_wft outcome \<times> history_update" where
  "build_next_wft u drain_this_much =
     (if drain_this_much < length (hu_events u) then
        let u' = u\<lparr>hu_events := drop (drain_this_much + 1) (hu_events u)\<rparr>
        in (Ok (WFT (take (drain_this_much + 1) (hu_events u))
                    (hu_events u' = [] \<and> hu_has_last_wft u)), u')
      else (Panic ''range end index out of range'', u))"

definition take_next_wft_sequence ::
  "history_update \<Rightarrow> event_id \<Rightarrow> next_wft outcome \<times> history_update" where
  "take_next_wft_sequence u from_wft_started_id =
     (let u' = (case starting_index_after_skipping u from_wft_started_id of
                  Some ix \<Rightarrow> u\<lparr>hu_events := drop ix (hu_events u)\<rparr>
                | None \<Rightarrow> u)
      in case find_end_index_of_next_wft_seq (hu_events u') from_wft_started_id
                (hu_has_last_wft u') of
           Incomplete siz \<Rightarrow>
             if hu_has_last_wft u' then
               if siz = 0 then (Ok ReplayOver, u') else build_next_wft u' siz
             else
               if siz \<noteq> 0
               then (Panic ''HistoryUpdate was created with an incomplete WFT. This is an SDK bug.'', u')
               else (Ok NeedFetch, u')
         | Complete next_wft_ix \<Rightarrow> build_next_wft u' next_wft_ix)"

definition peek_next_wft_sequence :: "history_update \<Rightarrow> event_id \<Rightarrow> history_event list" where
  "peek_next_wft_sequence u from_wft_started_id =
     (let relevant_events =
            drop (opt_default 0 (starting_index_after_skipping u from_wft_started_id)) (hu_events u)
      in if relevant_events = [] then []
         else take (seq_index (find_end_index_of_next_wft_seq relevant_events from_wft_started_id
                      (hu_has_last_wft u)) + 1) relevant_events)"

definition can_take_next_wft_sequence :: "history_update \<Rightarrow> event_id \<Rightarrow> bool" where
  "can_take_next_wft_sequence u from_wft_started_id =
     (case find_end_index_of_next_wft_seq (hu_events u) from_wft_started_id (hu_has_last_wft u) of
        Incomplete _ \<Rightarrow> hu_has_last_wft u
      | Complete _ \<Rightarrow> True)"

fun find_map :: "('a \<Rightarrow> 'b option) \<Rightarrow> 'a list \<Rightarrow> 'b option" where
  "find_map f [] = None"
| "find_map f (y # ys) = (case f y of Some z \<Rightarrow> Some z | None \<Rightarrow> find_map f ys)"

definition peek_next_wft_completed ::
  "history_update \<Rightarrow> event_id \<Rightarrow> wft_completed_attrs option" where
  "peek_next_wft_completed u from_id =
     find_map attrs_workflow_task_completed
       (dropWhile (\<lambda>e. he_event_id e < from_id) (hu_events u))"

text \<open>A history of two workflow tasks, the first of which issued no command and the second a timer.\<close>

definition wit_event :: "event_id \<Rightarrow> int \<Rightarrow> history_event" where
  "wit_event i t = \<lparr>he_event_id = i, he_event_time = None, he_event_type = t,
     he_worker_may_ignore = False, he_attributes = None\<rparr>"

definition wit_history :: "history_event list" where
  "wit_history =
     [wit_event 1 1, wit_event 2 5, wit_event 3 6, wit_event 4 7, wit_event 5 26, wit_event 6 5,
      wit_event 7 6, wit_event 8 7, wit_event 9 17]"

definition wit_update :: history_update where
  "wit_update = \<lparr>hu_events = wit_history, hu_previous_wft_started_id = 0, hu_wft_started_id = 7,
     hu_has_last_wft = True, hu_wft_count = 2\<rparr>"

section \<open>Cutting events into an update and a remainder\<close>

lemma from_events_loop_end:
  "ix < length all_events \<Longrightarrow> concludes from_id (all_events ! ix) \<Longrightarrow>
   from_events_loop all_events has_last ix c = (last_end, n) \<Longrightarrow>
   last_end < length all_events \<and> c < n \<and> (\<exists>i. concludes i (all_events ! last_end)) \<and>
   (\<exists>k. find_end_index_of_next_wft_seq (drop last_end all_events)
          (he_event_id (all_events ! last_end)) has_last = Incomplete k)"
proof (induction all_events has_last ix c arbitrary: from_id rule: from_events_loop.induct)
  case (1 all_events has_last ix c)
  show ?case
  proof (cases "find_end_index_of_next_wft_seq (drop ix all_events)
      (he_event_id (all_events ! ix)) has_last")
    case (Complete k)
    note prog = find_end_progress [OF Complete]
    have c: "concludes (he_event_id (all_events ! ix)) (all_events ! (ix + k))"
      using find_end_complete(2) [OF Complete] 1(2) by (simp add: add.commute)
    have "from_events_loop all_events has_last (ix + k) (c + 1) = (last_end, n)"
      using 1(4) Complete by (simp add: from_events_loop.simps [of all_events has_last ix c])
    from 1(1) [OF Complete prog(1) c this] show ?thesis by auto
  next
    case (Incomplete k)
    then have "last_end = ix" "n = c + 1"
      using 1(4) by (simp_all add: from_events_loop.simps [of all_events has_last ix c])
    with 1(2,3) Incomplete show ?thesis by auto
  qed
qed

lemma from_events_parts:
  assumes "from_events evs prev started has_last = (u, rest)"
  shows "hu_events u @ rest = evs \<and> (has_last \<longrightarrow> rest = []) \<and>
    (\<not> has_last \<longrightarrow>
      (if hu_events u = [] then
         hu_wft_count u = 0 \<and> (\<exists>k. find_end_index_of_next_wft_seq evs prev False = Incomplete k)
       else
         0 < hu_wft_count u \<and> (\<exists>i. concludes i (last (hu_events u))) \<and>
         (\<exists>k. find_end_index_of_next_wft_seq (last (hu_events u) # rest)
                (he_event_id (last (hu_events u))) False = Incomplete k)))"
proof (cases "find_end_index_of_next_wft_seq evs prev has_last")
  case (Complete ix)
  obtain last_end n where loop: "from_events_loop evs has_last ix 0 = (last_end, n)"
    by (cases "from_events_loop evs has_last ix 0")
  from from_events_loop_end [OF find_end_complete(1) [OF Complete]
      find_end_complete(2) [OF Complete] loop]
  have 1: "last_end < length evs" "0 < n" "\<exists>i. concludes i (evs ! last_end)"
    "\<exists>k. find_end_index_of_next_wft_seq (drop last_end evs) (he_event_id (evs ! last_end)) has_last
       = Incomplete k" by auto
  have "drop last_end evs = evs ! last_end # drop (Suc last_end) evs"
    using 1(1) by (simp add: Cons_nth_drop_Suc)
  with 1 assms Complete loop show ?thesis
    by (auto simp: from_events_def Let_def take_Suc_conv_app_nth id_take_nth_drop [symmetric]
        split: if_splits)
next
  case (Incomplete k)
  with assms show ?thesis by (auto simp: from_events_def Let_def split: if_splits)
qed

text \<open>
  C27: Cutting fetched events into an update and a remainder loses nothing and reorders nothing:
  the two concatenated are the events.  With the last task at hand nothing is held back.
  Otherwise, whatever goes into the update ends with a task start or the end of the workflow, and
  no further sequence can be completed from its last event on; if nothing goes into it, there was
  no complete sequence behind the previous task at all.
\<close>

theorem from_events_partition:
  assumes "from_events evs prev started has_last = (u, rest)"
  shows "hu_events u @ rest = evs \<and> (has_last \<longrightarrow> rest = []) \<and>
    (\<not> has_last \<longrightarrow>
      (if hu_events u = [] then
         hu_wft_count u = 0 \<and> (\<exists>k. find_end_index_of_next_wft_seq evs prev False = Incomplete k)
       else
         0 < hu_wft_count u \<and> (\<exists>i. concludes i (last (hu_events u))) \<and>
         (\<exists>k. find_end_index_of_next_wft_seq (last (hu_events u) # rest)
                (he_event_id (last (hu_events u))) False = Incomplete k)))"
  using assms by (rule from_events_parts)

lemma wit_from_events:
  "from_events wit_history 0 7 False =
     (wit_update\<lparr>hu_events := take 7 wit_history, hu_has_last_wft := False\<rparr>, drop 7 wit_history)"
  by code_simp

theorem from_events_partition_witness:
  "hu_events (fst (from_events wit_history 0 7 False)) @ snd (from_events wit_history 0 7 False)
   = wit_history"
  using from_events_partition [OF wit_from_events] wit_from_events by simp

section \<open>Taking sequences\<close>

text \<open>What the starting index leaves out and what it leaves.\<close>

lemma skipped_events:
  assumes "opt_default 0 (starting_index_after_skipping u from_id) = ix"
  shows "\<forall>e \<in> set (take ix (hu_events u)). he_event_id e \<le> from_id"
    and "ix \<le> length (hu_events u)"
proof -
  show "\<forall>e \<in> set (take ix (hu_events u)). he_event_id e \<le> from_id"
    using assms
    by (auto simp: starting_index_after_skipping_def opt_default_def takeWhile_eq_take [symmetric]
        split: if_splits dest!: set_takeWhileD)
  show "ix \<le> length (hu_events u)"
    using assms length_takeWhile_le
    by (auto simp: starting_index_after_skipping_def opt_default_def split: if_splits)
qed

definition hu_skip :: "history_update \<Rightarrow> event_id \<Rightarrow> history_update" where
  "hu_skip u from_id =
     u\<lparr>hu_events := drop (opt_default 0 (starting_index_after_skipping u from_id)) (hu_events u)\<rparr>"

lemma take_next_wft_sequence_eq:
  "take_next_wft_sequence u from_id =
     (let u' = hu_skip u from_id in
      case find_end_index_of_next_wft_seq (hu_events u') from_id (hu_has_last_wft u') of
        Incomplete siz \<Rightarrow>
          if hu_has_last_wft u' then
            if siz = 0 then (Ok ReplayOver, u') else build_next_wft u' siz
          else
            if siz \<noteq> 0
            then (Panic ''HistoryUpdate was created with an incomplete WFT. This is an SDK bug.'', u')
            else (Ok NeedFetch, u')
      | Complete ix \<Rightarrow> build_next_wft u' ix)"
proof -
  have "(case starting_index_after_skipping u from_id of
           Some ix \<Rightarrow> u\<lparr>hu_events := drop ix (hu_events u)\<rparr> | None \<Rightarrow> u) = hu_skip u from_id"
    by (cases "starting_index_after_skipping u from_id") (simp_all add: hu_skip_def opt_default_def)
  then show ?thesis by (simp add: take_next_wft_sequence_def Let_def)
qed

lemma build_next_wft_Ok:
  "build_next_wft u n = (Ok r, u') \<Longrightarrow>
   n < length (hu_events u) \<and> hu_has_last_wft u' = hu_has_last_wft u \<and>
   hu_events u' = drop (n + 1) (hu_events u) \<and>
   r = WFT (take (n + 1) (hu_events u)) (hu_events u' = [] \<and> hu_has_last_wft u)"
  by (auto simp: build_next_wft_def Let_def split: if_splits)

text \<open>
  C28: A sequence that is taken is a piece of the update: the update consists of events at or before
  the last started task, which are skipped, then the sequence, then what is left; the sequence is
  not empty, peeking at the same point had shown exactly it, and it counts as the final one exactly
  when nothing is left of the last update.
\<close>

theorem taken_sequence:
  assumes "take_next_wft_sequence u from_id = (Ok (WFT evs final), u')"
  shows "\<exists>skipped. hu_events u = skipped @ evs @ hu_events u' \<and>
    (\<forall>e \<in> set skipped. he_event_id e \<le> from_id) \<and> evs \<noteq> [] \<and>
    peek_next_wft_sequence u from_id = evs \<and>
    (final \<longleftrightarrow> hu_events u' = [] \<and> hu_has_last_wft u)"
proof -
  define ix where "ix = opt_default 0 (starting_index_after_skipping u from_id)"
  let ?r = "drop ix (hu_events u)"
  let ?f = "find_end_index_of_next_wft_seq ?r from_id (hu_has_last_wft u)"
  have sk: "hu_skip u from_id = u\<lparr>hu_events := ?r\<rparr>" by (simp add: hu_skip_def ix_def)
  have "build_next_wft (hu_skip u from_id) (seq_index ?f) = (Ok (WFT evs final), u')"
    using assms by (auto simp: take_next_wft_sequence_eq sk Let_def split: seq_end.splits if_splits)
  from build_next_wft_Ok [OF this]
  have 1: "seq_index ?f < length ?r" "hu_events u' = drop (seq_index ?f + 1) ?r"
    "evs = take (seq_index ?f + 1) ?r" "final \<longleftrightarrow> hu_events u' = [] \<and> hu_has_last_wft u"
    by (auto simp: sk)
  then have "hu_events u = take ix (hu_events u) @ evs @ hu_events u'"
    by (metis append_take_drop_id)
  moreover have "\<forall>e \<in> set (take ix (hu_events u)). he_event_id e \<le> from_id"
    by (rule skipped_events(1)) (simp add: ix_def)
  moreover have "peek_next_wft_sequence u from_id = evs"
    using 1(1,3) by (auto simp: peek_next_wft_sequence_def Let_def ix_def)
  moreover have "evs \<noteq> []" using 1(1,3) by auto
  ultimately show ?thesis using 1(4) by blast
qed

lemma wit_take:
  "take_next_wft_sequence wit_update 0 =
     (Ok (WFT (take 3 wit_history) False), wit_update\<lparr>hu_events := drop 3 wit_history\<rparr>)"
  by code_simp

theorem taken_sequence_witness:
  "take_next_wft_sequence wit_update 0 =
     (Ok (WFT (take 3 wit_history) False), wit_update\<lparr>hu_events := drop 3 wit_history\<rparr>) \<and>
   peek_next_wft_sequence wit_update 0 = take 3 wit_history"
  using taken_sequence [OF wit_take] wit_take by blast

text \<open>The scan does not depend on where the list starts, as long as only skipped events differ.\<close>

definition shift_started :: "nat \<Rightarrow> (event_id \<times> nat) list \<Rightarrow> (event_id \<times> nat) list" where
  "shift_started n = map (\<lambda>(i, ix). (i, ix + n))"

lemma closest_started_shift:
  "closest_started (shift_started n started) eid = map_option (\<lambda>ix. ix + n) (closest_started started eid)"
proof -
  have "List.find (\<lambda>(i, ix). i < eid) (map (\<lambda>(i, ix). (i, ix + n)) xs) =
      map_option (\<lambda>(i, ix). (i, ix + n)) (List.find (\<lambda>(i, ix). i < eid) xs)" for xs
    by (induction xs) auto
  then show ?thesis
    by (simp add: closest_started_def shift_started_def rev_map option.map_comp comp_def
        split_def)
qed

lemma after_wft_started_shift:
  "after_wft_started has_last saw (shift_started n started) (ix + n) rest =
     map_option (\<lambda>r. seq_add r n) (after_wft_started has_last saw started ix rest)"
  by (auto simp: after_wft_started_def closest_started_shift split: list.splits option.splits)

lemma find_end_loop_shift:
  "find_end_loop from_id has_last (ix + n) (li + n) saw (shift_started n started) es =
     seq_add (find_end_loop from_id has_last ix li saw started es) n"
proof (induction es arbitrary: ix li saw started)
  case (Cons e es)
  have app: "shift_started n started @ [(he_event_id e, ix + n)] =
      shift_started n (started @ [(he_event_id e, ix)])"
    by (simp add: shift_started_def)
  show ?case
    using Cons.IH [of "Suc ix" ix] after_wft_started_shift [of has_last _ n _ ix es]
    by (auto simp: Let_def app split: option.splits)
qed simp

lemma find_end_loop_skip:
  "\<forall>e \<in> set pre. he_event_id e \<le> from_id \<Longrightarrow> pre \<noteq> [] \<Longrightarrow>
   find_end_loop from_id has_last ix li saw started (pre @ es) =
     find_end_loop from_id has_last (ix + length pre) (ix + length pre - 1) saw started es"
proof (induction pre arbitrary: ix li)
  case (Cons e pre)
  then show ?case by (cases "pre = []") auto
qed simp

lemma find_end_skip:
  assumes "\<forall>e \<in> set pre. he_event_id e \<le> from_id" and "es \<noteq> []"
  shows "find_end_index_of_next_wft_seq (pre @ es) from_id has_last =
    seq_add (find_end_index_of_next_wft_seq es from_id has_last) (length pre)"
proof (cases "pre = []")
  case True
  then show ?thesis by (cases "find_end_index_of_next_wft_seq es from_id has_last") simp_all
next
  case False
  have li: "find_end_loop from_id has_last ix li saw started es =
      find_end_loop from_id has_last ix li' saw started es" for ix li li' saw started
    using assms(2) by (cases es) auto
  have "find_end_loop from_id has_last 0 0 False [] (pre @ es) =
      find_end_loop from_id has_last (length pre) (length pre - 1) False [] es"
    using find_end_loop_skip [OF assms(1) False] by simp
  also have "\<dots> = find_end_loop from_id has_last (0 + length pre) (0 + length pre) False
      (shift_started (length pre) []) es"
    by (simp add: shift_started_def) (rule li)
  also have "\<dots> = seq_add (find_end_loop from_id has_last 0 0 False [] es) (length pre)"
    by (rule find_end_loop_shift)
  finally show ?thesis using assms(2) by (simp add: find_end_index_of_next_wft_seq_def)
qed

lemma take_when_ready:
  assumes "can_take_next_wft_sequence u from_id"
  shows "\<exists>r u'. take_next_wft_sequence u from_id = (Ok r, u') \<and> r \<noteq> NeedFetch"
proof -
  define ix where "ix = opt_default 0 (starting_index_after_skipping u from_id)"
  let ?r = "drop ix (hu_events u)"
  let ?f = "find_end_index_of_next_wft_seq ?r from_id (hu_has_last_wft u)"
  have sk: "hu_skip u from_id = u\<lparr>hu_events := ?r\<rparr>" by (simp add: hu_skip_def ix_def)
  have build: "\<exists>r u'. build_next_wft (u\<lparr>hu_events := ?r\<rparr>) k = (Ok r, u') \<and> r \<noteq> NeedFetch"
    if "k < length ?r" for k
    using that by (simp add: build_next_wft_def)
  have sk_le: "\<forall>e \<in> set (take ix (hu_events u)). he_event_id e \<le> from_id"
    by (rule skipped_events(1)) (simp add: ix_def)
  show ?thesis
  proof (cases ?f)
    case (Complete k)
    with build [OF find_end_complete(1) [OF Complete]] show ?thesis
      by (simp add: take_next_wft_sequence_eq sk Let_def)
  next
    case (Incomplete k)
    have "hu_has_last_wft u"
    proof (cases "?r = []")
      case True
      then have "\<forall>e \<in> set (hu_events u). he_event_id e \<le> from_id" using sk_le by simp
      then have "find_end_index_of_next_wft_seq (hu_events u) from_id (hu_has_last_wft u) \<noteq> Complete j" for j
        using find_end_complete [of "hu_events u" from_id "hu_has_last_wft u" j]
        by (meson concludes_def leD nth_mem)
      then show ?thesis using assms
        by (auto simp: can_take_next_wft_sequence_def split: seq_end.splits)
    next
      case False
      from find_end_skip [OF sk_le False] Incomplete assms show ?thesis
        by (simp add: can_take_next_wft_sequence_def)
    qed
    with Incomplete build [of k] find_end_incomplete [OF Incomplete] show ?thesis
      by (cases "?r = []") (auto simp: take_next_wft_sequence_eq sk Let_def)
  qed
qed

text \<open>
  C29: Asking first is enough: when an update says that it has the next sequence, taking it neither
  panics nor asks for more events to be fetched.
\<close>

theorem ready_take_succeeds:
  assumes "can_take_next_wft_sequence u from_id"
  shows "\<exists>r u'. take_next_wft_sequence u from_id = (Ok r, u') \<and> r \<noteq> NeedFetch"
  using assms by (rule take_when_ready)

theorem ready_take_succeeds_witness:
  "can_take_next_wft_sequence wit_update 0 \<and>
   (\<exists>r u'. take_next_wft_sequence wit_update 0 = (Ok r, u') \<and> r \<noteq> NeedFetch)"
proof -
  have "can_take_next_wft_sequence wit_update 0" by code_simp
  with ready_take_succeeds [of wit_update 0] show ?thesis by blast
qed

section \<open>Consuming an update sequence by sequence\<close>

text \<open>
  The orchestrator takes sequences until replay is over or more history must be fetched, each time
  from the last started task, which lies at or before the last event of what it took.
\<close>

inductive consumed ::
  "history_update \<Rightarrow> event_id \<Rightarrow> history_event list list \<Rightarrow> history_update \<Rightarrow> bool" where
  stop: "take_next_wft_sequence u from_id = (Ok r, u') \<Longrightarrow> r = ReplayOver \<or> r = NeedFetch \<Longrightarrow>
    consumed u from_id [] u'"
| more: "take_next_wft_sequence u from_id = (Ok (WFT evs final), u') \<Longrightarrow>
    from_id \<le> next_id \<Longrightarrow> next_id \<le> he_event_id (last evs) \<Longrightarrow>
    consumed u' next_id seqs u'' \<Longrightarrow> consumed u from_id (evs # seqs) u''"

definition ids_ascending :: "history_event list \<Rightarrow> bool" where
  "ids_ascending evs \<longleftrightarrow> sorted_wrt (<) (map he_event_id evs)"

definition all_behind :: "event_id \<Rightarrow> history_event list \<Rightarrow> bool" where
  "all_behind from_id evs \<longleftrightarrow> (\<forall>e \<in> set evs. from_id < he_event_id e)"

lemma all_behind_skip: "all_behind from_id (hu_events u) \<Longrightarrow> hu_skip u from_id = u"
  by (cases "hu_events u")
    (simp_all add: hu_skip_def starting_index_after_skipping_def opt_default_def all_behind_def)

lemma behind_the_taken:
  assumes "ids_ascending (xs @ ys)" "xs \<noteq> []" "i \<le> he_event_id (last xs)"
  shows "all_behind i ys" "ids_ascending ys"
  using assms
  by (auto simp: ids_ascending_def all_behind_def sorted_wrt_append dest!: last_in_set) fastforce

text \<open>Events that conclude no sequence and are no sign of a task that issued something.\<close>

definition no_progress :: "history_event \<Rightarrow> bool" where
  "no_progress e \<longleftrightarrow> \<not> is_command_event e \<and> \<not> is_final_wf_execution_event e \<and>
     event_type_of e \<noteq> ET_WorkflowExecutionStarted \<and> event_type_of e \<noteq> ET_WorkflowTaskStarted"

lemma find_end_no_progress:
  assumes "list_all no_progress qs" "all_behind from_id qs"
  shows "find_end_loop from_id has_last ix li saw started (qs @ es) =
    find_end_loop from_id has_last (ix + length qs) (if qs = [] then li else ix + length qs - 1)
      saw started es"
  using assms
  by (induction qs arbitrary: ix li) (auto simp: no_progress_def all_behind_def Let_def)

lemma find_end_no_start:
  assumes "list_all (\<lambda>e. \<not> is_final_wf_execution_event e \<and> event_type_of e \<noteq> ET_WorkflowTaskStarted) es"
  shows "\<exists>k. find_end_loop from_id has_last ix li saw started es = Incomplete k"
  using assms
  by (induction es arbitrary: ix li saw) (auto simp: Let_def)

lemma task_event_types:
  "event_type_of e \<in> {ET_WorkflowExecutionStarted, ET_WorkflowTaskScheduled, ET_WorkflowTaskStarted,
     ET_WorkflowTaskCompleted} \<Longrightarrow> \<not> is_command_event e \<and> \<not> is_final_wf_execution_event e"
  by (auto simp: is_command_event_def command_event_types_def is_final_wf_execution_event_def
      event_type_of_def opt_default_def split: option.splits)

text \<open>
  A history that starts with a workflow task which issued no command: from its completion to the
  start of the second task there are events such as signals only.  The second task was completed
  and something was recorded after it, but no third task is started in the events at hand.
\<close>

definition recorded_after :: "history_event \<Rightarrow> bool" where
  "recorded_after e \<longleftrightarrow> event_type_of e \<noteq> ET_WorkflowTaskScheduled \<and>
     attrs_workflow_execution_update_accepted e = None"

definition idle_first_task ::
  "event_id \<Rightarrow> history_event list \<Rightarrow> history_event list \<Rightarrow> history_event \<Rightarrow> history_event list \<Rightarrow> bool" where
  "idle_first_task prev first idle second rest \<longleftrightarrow>
     map event_type_of first =
       [ET_WorkflowExecutionStarted, ET_WorkflowTaskScheduled, ET_WorkflowTaskStarted] \<and>
     (case idle of
        c # e # es \<Rightarrow> event_type_of c = ET_WorkflowTaskCompleted \<and> recorded_after e \<and>
          list_all no_progress (e # es)
      | _ \<Rightarrow> False) \<and>
     event_type_of second = ET_WorkflowTaskStarted \<and>
     (case rest of
        c # e # es \<Rightarrow> event_type_of c = ET_WorkflowTaskCompleted \<and> recorded_after e \<and>
          list_all (\<lambda>e. \<not> is_final_wf_execution_event e \<and> event_type_of e \<noteq> ET_WorkflowTaskStarted) (e # es)
      | _ \<Rightarrow> False) \<and>
     ids_ascending (first @ idle @ second # rest) \<and> all_behind prev first"

lemma idle_first_task_ends:
  assumes "idle_first_task prev first idle second rest"
  shows "find_end_index_of_next_wft_seq (first @ idle @ es) prev False = Complete 2"
    and "find_end_index_of_next_wft_seq (last first # idle @ second # rest) (he_event_id (last first)) False =
      Complete (length idle + 1)"
    and "\<exists>k. find_end_index_of_next_wft_seq (second # rest) (he_event_id second) False = Incomplete k"
    and "find_end_index_of_next_wft_seq (idle @ [second]) (he_event_id (last first)) False =
      Incomplete (length idle)"
    and "all_behind (he_event_id (last first)) (idle @ [second])"
proof -
  from assms obtain e1 e2 e3 c1 q qs c2 nxt later
    where lists: "first = [e1, e2, e3]" "idle = c1 # q # qs" "rest = c2 # nxt # later"
    by (auto simp: idle_first_task_def split: list.splits)
  note a = assms [unfolded idle_first_task_def lists recorded_after_def ids_ascending_def, simplified]
  have types: "event_type_of e1 = ET_WorkflowExecutionStarted"
    "event_type_of e2 = ET_WorkflowTaskScheduled" "event_type_of e3 = ET_WorkflowTaskStarted"
    "event_type_of c1 = ET_WorkflowTaskCompleted" "event_type_of second = ET_WorkflowTaskStarted"
    "event_type_of c2 = ET_WorkflowTaskCompleted" using a by simp_all
  note t = types task_event_types [of e1] task_event_types [of e2] task_event_types [of e3]
    task_event_types [of c1] task_event_types [of second] task_event_types [of c2]
  let ?i = "he_event_id e3"
  have order: "prev < he_event_id e1" "prev < he_event_id e2" "prev < ?i" using a by (auto simp: all_behind_def)
  have behind: "all_behind ?i (idle @ [second])"
    using a by (auto simp: all_behind_def lists sorted_wrt_append)
  then show "all_behind (he_event_id (last first)) (idle @ [second])" by (simp add: lists)
  show "find_end_index_of_next_wft_seq (first @ idle @ es) prev False = Complete 2" for es
    using order t a
    by (simp add: lists find_end_index_of_next_wft_seq_def Let_def after_wft_started_def abandons_task_def)
  have "list_all no_progress idle" using a t by (simp add: lists no_progress_def)
  with behind have scan: "find_end_loop ?i False ix li False [] (idle @ second # es) =
      find_end_loop ?i False (ix + length idle) (ix + length idle - 1) False [] (second # es)" for ix li es
    using find_end_no_progress [of idle ?i False ix li False "[]" "second # es"]
    by (simp add: all_behind_def lists)
  show "find_end_index_of_next_wft_seq (last first # idle @ second # rest) (he_event_id (last first)) False =
      Complete (length idle + 1)"
    using scan [of 1 0 rest] behind t a
    by (simp add: lists find_end_index_of_next_wft_seq_def after_wft_started_def abandons_task_def
        all_behind_def Let_def)
  show "find_end_index_of_next_wft_seq (idle @ [second]) (he_event_id (last first)) False =
      Incomplete (length idle)"
    using scan [of 0 0 "[]"] behind t
    by (simp add: lists find_end_index_of_next_wft_seq_def after_wft_started_def all_behind_def Let_def)
  show "\<exists>k. find_end_index_of_next_wft_seq (second # rest) (he_event_id second) False = Incomplete k"
    using find_end_no_start [of rest "he_event_id second" False 1 0 False "[]"] a t
    by (auto simp: lists find_end_index_of_next_wft_seq_def simp del: find_end_loop.simps
        simp: find_end_loop.simps(2) [of _ _ 0])
qed



lemma take_from_last_update:
  assumes "hu_has_last_wft u" "all_behind from_id (hu_events u)"
  obtains (over) "take_next_wft_sequence u from_id = (Ok ReplayOver, u)" "length (hu_events u) \<le> 1"
  | (wft) evs final u' where "take_next_wft_sequence u from_id = (Ok (WFT evs final), u')"
    "evs \<noteq> []" "hu_events u = evs @ hu_events u'" "hu_has_last_wft u'"
proof (cases "find_end_index_of_next_wft_seq (hu_events u) from_id True")
  case (Complete k)
  then have "take_next_wft_sequence u from_id =
      (Ok (WFT (take (k + 1) (hu_events u)) (drop (k + 1) (hu_events u) = [])),
       u\<lparr>hu_events := drop (k + 1) (hu_events u)\<rparr>)"
    using assms find_end_complete(1) [OF Complete]
    by (simp add: take_next_wft_sequence_eq all_behind_skip build_next_wft_def Let_def)
  then show ?thesis
    by (rule wft) (use assms find_end_complete(1) [OF Complete] in auto)
next
  case (Incomplete k)
  note k = find_end_incomplete [OF Incomplete]
  show ?thesis
  proof (cases "k = 0")
    case True
    show ?thesis
      by (rule over) (use assms Incomplete True k in
        \<open>auto simp: take_next_wft_sequence_eq all_behind_skip Let_def\<close>)
  next
    case False
    then have "take_next_wft_sequence u from_id =
        (Ok (WFT (take (k + 1) (hu_events u)) (drop (k + 1) (hu_events u) = [])),
         u\<lparr>hu_events := drop (k + 1) (hu_events u)\<rparr>)"
      using assms Incomplete k
      by (simp add: take_next_wft_sequence_eq all_behind_skip build_next_wft_def Let_def)
    then show ?thesis by (rule wft) (use assms False k in auto)
  qed
qed

lemma consumed_all:
  "consumed u from_id seqs u' \<Longrightarrow> hu_has_last_wft u \<Longrightarrow> ids_ascending (hu_events u) \<Longrightarrow>
   all_behind from_id (hu_events u) \<Longrightarrow>
   concat seqs @ hu_events u' = hu_events u \<and> length (hu_events u') \<le> 1"
proof (induction rule: consumed.induct)
  case (stop u from_id r u')
  from stop(3,5) show ?case
    by (cases rule: take_from_last_update) (use stop(1,2) in auto)
next
  case (more u from_id evs final u' next_id seqs u'')
  from more(6,8) show ?case
  proof (cases rule: take_from_last_update)
    case (wft evs' final' w)
    with more(1) have w: "evs \<noteq> []" "hu_events u = evs @ hu_events u'" "hu_has_last_wft u'"
      by auto
    have "all_behind next_id (hu_events u')" "ids_ascending (hu_events u')"
      using more(3,7) w behind_the_taken by auto
    with more(5) w show ?thesis by auto
  qed (use more(1) in auto)
qed

lemma consumed_exists:
  assumes "hu_has_last_wft u" "ids_ascending (hu_events u)" "all_behind from_id (hu_events u)"
  shows "\<exists>seqs u'. consumed u from_id seqs u'"
  using assms
proof (induction "length (hu_events u)" arbitrary: u from_id rule: less_induct)
  case less
  from less.prems(1,3) show ?case
  proof (cases rule: take_from_last_update)
    case over
    then show ?thesis using consumed.stop by blast
  next
    case (wft evs final u')
    let ?i = "he_event_id (last evs)"
    have "all_behind ?i (hu_events u')" "ids_ascending (hu_events u')"
      using wft less.prems(2) behind_the_taken [of evs "hu_events u'" ?i] by auto
    with less.hyps [of u' ?i] wft obtain seqs u'' where "consumed u' ?i seqs u''" by auto
    moreover have "from_id \<le> ?i"
    proof -
      have "last evs \<in> set (hu_events u)" using wft by simp
      with less.prems(3) have "from_id < ?i" unfolding all_behind_def by blast
      then show ?thesis by simp
    qed
    ultimately show ?thesis using consumed.more [OF wft(1)] by blast
  qed
qed

text \<open>
  C25: An update with the last task is consumed completely.  With event ids ascending from behind
  the last started task, taking sequence after sequence comes to an end, and however the
  orchestrator advances between sequences, the sequences in the order they were taken are the
  events of the update, each exactly once, up to at most one last event that is left over.
\<close>

theorem last_update_is_consumed:
  assumes "hu_has_last_wft u" "ids_ascending (hu_events u)" "all_behind from_id (hu_events u)"
  shows "(\<exists>seqs u'. consumed u from_id seqs u') \<and>
    (\<forall>seqs u'. consumed u from_id seqs u' \<longrightarrow>
       concat seqs @ hu_events u' = hu_events u \<and> length (hu_events u') \<le> 1)"
  using assms consumed_exists consumed_all by blast

theorem last_update_is_consumed_witness:
  "\<exists>seqs u'. consumed wit_update 0 seqs u' \<and> concat seqs @ hu_events u' = hu_events wit_update"
proof -
  have "hu_has_last_wft wit_update" "ids_ascending (hu_events wit_update)"
    "all_behind 0 (hu_events wit_update)" by code_simp+
  from last_update_is_consumed [OF this] show ?thesis by blast
qed

section \<open>The paginator\<close>

datatype next_page_token = FetchFromStart | Next "byte list" | Done

definition token_from :: "byte list \<Rightarrow> next_page_token" where
  "token_from page_token = (if page_token = [] then Done else Next page_token)"

text \<open>An answer of the server: a status, or a page of history with the token of the next page.\<close>

record page =
  pg_history :: "history_event list option"
  pg_next_page_token :: "byte list"

type_synonym answers = "(string + page) list"

record paginator =
  pag_previous_wft_started_id :: event_id
  pag_wft_started_event_id :: event_id
  pag_id_of_last_event :: "event_id option"
  pag_event_queue :: "history_event list"
  pag_next_page_token :: next_page_token
  pag_final_events :: "history_event list"

definition paginator_new ::
  "history_event list \<Rightarrow> event_id \<Rightarrow> event_id \<Rightarrow> next_page_token \<Rightarrow> paginator" where
  "paginator_new initial_history previous_wft_started_id wft_started_event_id token =
     \<lparr>pag_previous_wft_started_id = previous_wft_started_id,
      pag_wft_started_event_id = wft_started_event_id,
      pag_id_of_last_event = None,
      pag_event_queue = (if token = FetchFromStart then [] else initial_history),
      pag_next_page_token = token,
      pag_final_events = (if token = FetchFromStart then initial_history else [])\<rparr>"

definition last_event_id :: "history_event list \<Rightarrow> event_id" where
  "last_event_id evs = (if evs = [] then 0 else he_event_id (last evs))"

definition skip_until_after :: "event_id \<Rightarrow> history_event list \<Rightarrow> history_event list" where
  "skip_until_after i = dropWhile (\<lambda>e. he_event_id e \<le> i)"

text \<open>
  The fetching loop: the token is replaced by \<open>Done\<close> before the fetch, so it stays \<open>Done\<close> when the
  fetch fails; an empty page with a token is followed at once.
\<close>

fun fetch_loop ::
  "answers \<Rightarrow> next_page_token \<Rightarrow> ((string + history_event list option) \<times> next_page_token \<times> answers) option" where
  "fetch_loop [] t = (if t = Done then Some (Inr None, Done, []) else None)"
| "fetch_loop (a # as) t =
     (if t = Done then Some (Inr None, Done, a # as)
      else case a of
             Inl status \<Rightarrow> Some (Inl status, Done, as)
           | Inr pg \<Rightarrow>
               (let t' = token_from (pg_next_page_token pg) in
                if opt_default [] (pg_history pg) = [] \<and> t' \<noteq> Done then fetch_loop as t'
                else Some (Inr (pg_history pg), t', as)))"

definition get_next_page ::
  "answers \<Rightarrow> paginator \<Rightarrow> ((string + bool) \<times> paginator \<times> answers) option" where
  "get_next_page as p =
     (case fetch_loop as (pag_next_page_token p) of
        None \<Rightarrow> None
      | Some (Inl status, t, as') \<Rightarrow> Some (Inl status, p\<lparr>pag_next_page_token := t\<rparr>, as')
      | Some (Inr history, t, as') \<Rightarrow>
          (let q = pag_event_queue p @
                   skip_until_after (last_event_id (pag_event_queue p)) (opt_default [] history);
               finish = (t = Done \<and> q \<noteq> [])
           in Some (Inr (t \<noteq> Done),
                p\<lparr>pag_next_page_token := t,
                  pag_event_queue :=
                    (if finish then q @ skip_until_after (last_event_id q) (pag_final_events p)
                     else q),
                  pag_final_events := (if finish then [] else pag_final_events p)\<rparr>, as')))"

text \<open>
  One round of the loop of \<open>extract_next_update\<close> after its page was fetched: an error, an update,
  or (\<open>Inr None\<close>) another round.
\<close>

definition extract_from_queue ::
  "paginator \<Rightarrow> bool \<Rightarrow> (string + history_update option) \<times> paginator" where
  "extract_from_queue p has_more =
     (let current_events = pag_event_queue p;
          p' = p\<lparr>pag_event_queue := []\<rparr>;
          no_next_page = (\<not> has_more);
          seen_enough_events = (last_event_id current_events \<ge> pag_wft_started_event_id p);
          already_sent = (opt_default 0 (pag_id_of_last_event p) \<ge> pag_wft_started_event_id p)
      in if current_events = [] \<and> no_next_page \<and> already_sent then
           (Inr (Some (fst (from_events [] (pag_previous_wft_started_id p)
              (pag_wft_started_event_id p) True))), p')
         else if current_events = [] \<or> no_next_page \<and> \<not> seen_enough_events then
           (Inl ''Fetched empty history page'', p')
         else
           let first_event_id = he_event_id (hd current_events);
               no_more = (pag_next_page_token p = Done \<and> seen_enough_events)
           in case from_events current_events (pag_previous_wft_started_id p)
                     (pag_wft_started_event_id p) no_more of
                (update, extra) \<Rightarrow>
                  if pag_next_page_token p \<noteq> Done \<and> hu_wft_count update < 2 then
                    (Inr None, p'\<lparr>pag_event_queue := hu_events update @ extra\<rparr>)
                  else
                    let extra_eid_same = (extra \<noteq> [] \<and> he_event_id (hd extra) = first_event_id)
                    in if \<not> no_more \<and> extra_eid_same
                       then (Inr None, p'\<lparr>pag_event_queue := extra\<rparr>)
                       else (Inr (Some update),
                             p'\<lparr>pag_event_queue := extra,
                                pag_id_of_last_event :=
                                  (if hu_events update = [] then None
                                   else Some (he_event_id (last (hu_events update))))\<rparr>))"

definition extract_round ::
  "answers \<Rightarrow> paginator \<Rightarrow> ((string + history_update option) \<times> paginator \<times> answers) option" where
  "extract_round as p =
     (case get_next_page as p of
        None \<Rightarrow> None
      | Some (Inl status, p', as') \<Rightarrow> Some (Inl status, p', as')
      | Some (Inr has_more, p', as') \<Rightarrow>
          (case extract_from_queue p' has_more of (r, p'') \<Rightarrow> Some (r, p'', as')))"

lemma fetch_loop_consumes:
  "fetch_loop as t = Some (r, t', as') \<Longrightarrow> t' \<noteq> Done \<Longrightarrow> length as' < length as"
proof (induction as t rule: fetch_loop.induct)
  case (2 a as t)
  then show ?case by (fastforce simp: Let_def split: if_splits sum.splits)
qed (simp split: if_splits)

lemma get_next_page_more:
  "get_next_page as p = Some (Inr has_more, p', as') \<Longrightarrow> has_more \<longleftrightarrow> pag_next_page_token p' \<noteq> Done"
  by (auto simp: get_next_page_def Let_def split: option.splits sum.splits prod.splits)

lemma extract_round_InrE:
  assumes "extract_round as p = Some (Inr r, p', as')"
  obtains q where "get_next_page as p = Some (Inr (pag_next_page_token q \<noteq> Done), q, as')"
    "extract_from_queue q (pag_next_page_token q \<noteq> Done) = (Inr r, p')"
proof -
  from assms obtain b q where pg: "get_next_page as p = Some (Inr b, q, as')"
    and ex: "extract_from_queue q b = (Inr r, p')"
    unfolding extract_round_def by (simp split: option.splits sum.splits prod.splits)
  from get_next_page_more [OF pg] have "b = (pag_next_page_token q \<noteq> Done)" by blast
  with pg ex that show thesis by blast
qed

lemma extract_from_queue_again:
  assumes "extract_from_queue q (pag_next_page_token q \<noteq> Done) = (Inr None, p')"
  shows "pag_next_page_token q \<noteq> Done"
proof
  assume "pag_next_page_token q = Done"
  with assms show False
    by (simp add: extract_from_queue_def Let_def split: if_splits prod.splits)
qed

lemma get_next_page_fetched:
  assumes "get_next_page as p = Some (Inr b, q, as')"
  obtains h where
    "fetch_loop as (pag_next_page_token p) = Some (Inr h, pag_next_page_token q, as')"
proof (cases "fetch_loop as (pag_next_page_token p)")
  case (Some a)
  then obtain r t bs where a: "fetch_loop as (pag_next_page_token p) = Some (r, t, bs)"
    by (cases a) simp
  with assms obtain h where "r = Inr h" by (cases r) (simp_all add: get_next_page_def)
  moreover from this a assms have "pag_next_page_token q = t" "bs = as'"
    by (auto simp: get_next_page_def Let_def)
  ultimately show thesis using a that by simp
qed (use assms in \<open>simp add: get_next_page_def\<close>)

lemma get_next_page_consumes:
  assumes "get_next_page as p = Some (Inr b, q, as')" "pag_next_page_token q \<noteq> Done"
  shows "length as' < length as"
  by (rule get_next_page_fetched [OF assms(1)]) (rule fetch_loop_consumes [OF _ assms(2)])

lemma extract_round_again:
  assumes "extract_round as p = Some (Inr None, p', as')"
  shows "length as' < length as"
  using assms
proof (rule extract_round_InrE)
  fix q
  assume pg: "get_next_page as p = Some (Inr (pag_next_page_token q \<noteq> Done), q, as')"
    and ex: "extract_from_queue q (pag_next_page_token q \<noteq> Done) = (Inr None, p')"
  show ?thesis by (rule get_next_page_consumes [OF pg extract_from_queue_again [OF ex]])
qed

function extract_next_update ::
  "answers \<Rightarrow> paginator \<Rightarrow> ((string + history_update) \<times> paginator \<times> answers) option" where
  "extract_next_update as p =
     (case extract_round as p of
        None \<Rightarrow> None
      | Some (Inl status, p', as') \<Rightarrow> Some (Inl status, p', as')
      | Some (Inr (Some update), p', as') \<Rightarrow> Some (Inr update, p', as')
      | Some (Inr None, p', as') \<Rightarrow> extract_next_update as' p')"
  by pat_completeness auto
termination
  by (relation "measure (\<lambda>(as, p). length as)") (auto dest: extract_round_again)

declare extract_next_update.simps [simp del]

text \<open>
  \<open>from_poll\<close>: the paginator of a polled task and its first update; \<open>has_queries\<close> stands for a
  legacy query or query requests in the task.
\<close>

definition from_poll ::
  "answers \<Rightarrow> history_event list \<Rightarrow> byte list \<Rightarrow> event_id \<Rightarrow> event_id \<Rightarrow> bool \<Rightarrow>
   ((string + history_update) \<times> paginator \<times> answers) option" where
  "from_poll as events page_token previous_started_event_id started_event_id has_queries =
     (let empty_hist = (events = []);
          npt = (if empty_hist then FetchFromStart else token_from page_token);
          p = paginator_new events previous_started_event_id started_event_id npt
      in if empty_hist \<and> \<not> has_queries then
           Some (Inl ''Received an empty workflow task with no queries or history'', p, as)
         else if empty_hist then
           Some (Inr (fst (from_events [] previous_started_event_id started_event_id True)), p, as)
         else extract_next_update as p)"

text \<open>\<open>from_fetchreq\<close>: on a cache miss history is fetched from the start, the task's events last.\<close>

definition from_fetchreq ::
  "answers \<Rightarrow> history_update \<Rightarrow> event_id option \<Rightarrow>
   ((string + history_update) \<times> paginator \<times> answers) option" where
  "from_fetchreq as update id_of_last =
     extract_next_update as
       \<lparr>pag_previous_wft_started_id = hu_previous_wft_started_id update,
        pag_wft_started_event_id = hu_wft_started_id update,
        pag_id_of_last_event = id_of_last, pag_event_queue = [],
        pag_next_page_token = FetchFromStart, pag_final_events = hu_events update\<rparr>"

section \<open>What the paginator keeps\<close>

text \<open>The events of the answers that were used.\<close>

definition answered :: "answers \<Rightarrow> history_event list" where
  "answered as =
     concat (map (\<lambda>a. case a of Inl _ \<Rightarrow> [] | Inr pg \<Rightarrow> opt_default [] (pg_history pg)) as)"

lemma answered_append [simp]: "answered (as @ bs) = answered as @ answered bs"
  by (simp add: answered_def)

lemma fetch_loop_answered:
  "fetch_loop as t = Some (Inr h, t', as') \<Longrightarrow>
   \<exists>used. as = used @ as' \<and> answered used = opt_default [] h"
proof (induction as t rule: fetch_loop.induct)
  case (1 t)
  then show ?case by (auto simp: answered_def opt_default_def split: if_splits)
next
  case (2 a as t)
  show ?case
  proof (cases "t = Done")
    case True
    with 2(2) show ?thesis by (auto simp: answered_def opt_default_def)
  next
    case False
    with 2(2) obtain pg where a: "a = Inr pg" by (cases a) auto
    show ?thesis
    proof (cases "opt_default [] (pg_history pg) = [] \<and> token_from (pg_next_page_token pg) \<noteq> Done")
      case True
      with 2 False a obtain used where "as = used @ as'" "answered used = opt_default [] h"
        by (auto simp: Let_def)
      then have "a # as = (a # used) @ as'" "answered (a # used) = opt_default [] h"
        using True by (simp_all add: answered_def a)
      then show ?thesis by blast
    next
      case F: False
      with 2(2) False a have "a # as = [a] @ as'" "answered [a] = opt_default [] h"
        by (auto simp: Let_def answered_def)
      then show ?thesis by blast
    qed
  qed
qed

lemma skip_until_after_ascending:
  assumes "ids_ascending (q @ pg)" "all_behind 0 (q @ pg)"
  shows "skip_until_after (last_event_id q) pg = pg"
proof (cases pg)
  case (Cons e es)
  have "last_event_id q < he_event_id e"
    using assms Cons
    by (cases "q = []") (auto simp: last_event_id_def ids_ascending_def all_behind_def sorted_wrt_append)
  then show ?thesis by (simp add: Cons skip_until_after_def)
qed (simp add: skip_until_after_def)

text \<open>
  Where the events go: the queue grows by the answers and, when there are no more pages, by the
  events of the task that are not in it yet.
\<close>

definition grown :: "history_event list \<Rightarrow> paginator \<Rightarrow> answers \<Rightarrow> paginator \<Rightarrow> bool" where
  "grown evs p used p' \<longleftrightarrow>
     pag_final_events p' = pag_final_events p \<and> evs = pag_event_queue p @ answered used \<or>
     pag_next_page_token p' = Done \<and> pag_final_events p' = [] \<and>
     evs = pag_event_queue p @ answered used @
       skip_until_after (last_event_id (pag_event_queue p @ answered used)) (pag_final_events p)"

lemma get_next_page_grown:
  assumes "get_next_page as p = Some (Inr b, p', as')"
    and "ids_ascending (pag_event_queue p @ answered as)" "all_behind 0 (pag_event_queue p @ answered as)"
  shows "\<exists>used. as = used @ as' \<and> grown (pag_event_queue p') p used p'"
    and "b \<longleftrightarrow> pag_next_page_token p' \<noteq> Done"
    and "pag_previous_wft_started_id p' = pag_previous_wft_started_id p"
    and "pag_wft_started_event_id p' = pag_wft_started_event_id p"
proof -
  obtain h t where fetched: "fetch_loop as (pag_next_page_token p) = Some (Inr h, t, as')"
    using assms(1) get_next_page_fetched by blast
  from fetch_loop_answered [OF this] obtain used where
    used: "as = used @ as'" "answered used = opt_default [] h" by blast
  with assms(2,3) have "ids_ascending (pag_event_queue p @ opt_default [] h)"
    "all_behind 0 (pag_event_queue p @ opt_default [] h)"
    by (auto simp: ids_ascending_def all_behind_def sorted_wrt_append)
  note kept = skip_until_after_ascending [OF this]
  have "grown (pag_event_queue p') p used p'"
    using assms(1) used(2) by (auto simp: get_next_page_def grown_def Let_def fetched kept)
  with used(1) show "\<exists>used. as = used @ as' \<and> grown (pag_event_queue p') p used p'" by blast
  show "b \<longleftrightarrow> pag_next_page_token p' \<noteq> Done"
    "pag_previous_wft_started_id p' = pag_previous_wft_started_id p"
    "pag_wft_started_event_id p' = pag_wft_started_event_id p"
    using assms(1)
    by (auto simp: get_next_page_def Let_def split: option.splits sum.splits prod.splits)
qed

lemma extra_is_all:
  assumes "us @ extra = evs" "extra \<noteq> []" "he_event_id (hd extra) = he_event_id (hd evs)"
    and "ids_ascending evs"
  shows "us = []"
proof -
  have "\<forall>x \<in> set us. \<forall>y \<in> set extra. he_event_id x < he_event_id y"
    using assms(1,4) by (auto simp: ids_ascending_def sorted_wrt_append)
  moreover have "hd evs \<in> set us" if "us \<noteq> []" using that assms(1) by (cases us) auto
  ultimately show ?thesis using assms(2,3) hd_in_set [of extra] by fastforce
qed

lemma extract_from_queue_keeps:
  assumes ex: "extract_from_queue q (pag_next_page_token q \<noteq> Done) = (Inr r, p')"
    and asc: "pag_next_page_token q \<noteq> Done \<Longrightarrow> ids_ascending (pag_event_queue q)"
  shows "(case r of None \<Rightarrow> [] | Some u \<Rightarrow> hu_events u) @ pag_event_queue p' = pag_event_queue q \<and>
    pag_final_events p' = pag_final_events q \<and> pag_next_page_token p' = pag_next_page_token q \<and>
    (case r of None \<Rightarrow> pag_next_page_token q \<noteq> Done
     | Some u \<Rightarrow> 2 \<le> hu_wft_count u \<or> pag_next_page_token q = Done)"
proof -
  let ?evs = "pag_event_queue q"
  let ?more = "pag_next_page_token q = Done \<and> last_event_id ?evs \<ge> pag_wft_started_event_id q"
  obtain u extra where cut: "from_events ?evs (pag_previous_wft_started_id q)
      (pag_wft_started_event_id q) ?more = (u, extra)"
    by (cases "from_events ?evs (pag_previous_wft_started_id q) (pag_wft_started_event_id q) ?more")
  from from_events_parts [OF cut] have parts: "hu_events u @ extra = ?evs" by blast
  have empty: "hu_events (fst (from_events [] i j True)) = []" for i j
    by (simp add: from_events_def find_end_index_of_next_wft_seq_def)
  show ?thesis
    using ex cut parts empty extra_is_all [OF parts] asc
    by (auto simp: extract_from_queue_def Let_def split: if_splits)
qed

lemma extract_round_grown:
  assumes round: "extract_round as p = Some (Inr r, p', as')"
    and asc: "ids_ascending (pag_event_queue p @ answered as)"
      "all_behind 0 (pag_event_queue p @ answered as)"
  shows "\<exists>used. as = used @ as' \<and>
    grown ((case r of None \<Rightarrow> [] | Some u \<Rightarrow> hu_events u) @ pag_event_queue p') p used p' \<and>
    (case r of None \<Rightarrow> pag_next_page_token p' \<noteq> Done
     | Some u \<Rightarrow> 2 \<le> hu_wft_count u \<or> pag_next_page_token p' = Done)"
  using round
proof (rule extract_round_InrE)
  fix q
  assume pg: "get_next_page as p = Some (Inr (pag_next_page_token q \<noteq> Done), q, as')"
    and ex: "extract_from_queue q (pag_next_page_token q \<noteq> Done) = (Inr r, p')"
  from get_next_page_grown(1) [OF pg asc] obtain used where
    used: "as = used @ as'" "grown (pag_event_queue q) p used q" by blast
  have "ids_ascending (pag_event_queue q)" if "pag_next_page_token q \<noteq> Done"
    using used asc(1) that by (auto simp: grown_def ids_ascending_def sorted_wrt_append)
  from extract_from_queue_keeps [OF ex this] used show ?thesis
    by (cases r) (auto simp: grown_def)
qed

text \<open>
  C26: The paginator drops no event when the server sends each event once: as long as event ids are
  positive and ascend over the events it has queued and all pages the server answers with (an event
  of a page at or before the last queued one is skipped), the following holds however many pages it has to fetch
  for an update.  The events of the update followed by the events it keeps queued are the events it
  had queued followed by those of the pages it fetched; only once there are no more pages are the
  events of the task itself appended, without those already present.  And it returns an update only
  with at least two workflow task sequences, or when there are no more pages.
\<close>

theorem paginator_keeps_events:
  assumes "extract_next_update as p = Some (Inr u, p', as')"
    and "ids_ascending (pag_event_queue p @ answered as)"
    and "all_behind 0 (pag_event_queue p @ answered as)"
  shows "\<exists>used. as = used @ as' \<and> grown (hu_events u @ pag_event_queue p') p used p' \<and>
    (2 \<le> hu_wft_count u \<or> pag_next_page_token p' = Done)"
  using assms
proof (induction as p rule: extract_next_update.induct)
  case (1 as p)
  from 1(2) obtain r q bs where round: "extract_round as p = Some (Inr r, q, bs)"
    by (auto simp: extract_next_update.simps [of as p] split: option.splits sum.splits)
  note grow = extract_round_grown [OF round 1(3,4)]
  show ?case
  proof (cases r)
    case (Some u')
    with 1(2) round have "u' = u" "q = p'" "bs = as'"
      by (auto simp: extract_next_update.simps [of as p])
    with grow Some show ?thesis by auto
  next
    case None
    with grow obtain used where used: "as = used @ bs" "grown (pag_event_queue q) p used q"
      "pag_next_page_token q \<noteq> Done" by auto
    then have q: "pag_event_queue q = pag_event_queue p @ answered used"
      "pag_final_events q = pag_final_events p" by (auto simp: grown_def)
    have "extract_next_update bs q = Some (Inr u, p', as')"
      using 1(2) round None by (simp add: extract_next_update.simps [of as p])
    with 1(1) round None 1(3,4) q used obtain used' where
      "bs = used' @ as'" "grown (hu_events u @ pag_event_queue p') q used' p'"
      "2 \<le> hu_wft_count u \<or> pag_next_page_token p' = Done" by fastforce
    then show ?thesis using used q by (intro exI [of _ "used @ used'"]) (auto simp: grown_def)
  qed
qed

definition wit_answers :: answers where
  "wit_answers =
     [Inr \<lparr>pg_history = Some (drop 2 wit_history), pg_next_page_token = [2]\<rparr>]"

definition wit_paginator :: paginator where
  "wit_paginator = paginator_new (take 2 wit_history) 0 7 (Next [1])"

lemma wit_extract:
  "extract_next_update wit_answers wit_paginator =
     Some (Inr (wit_update\<lparr>hu_events := take 7 wit_history, hu_has_last_wft := False\<rparr>),
       wit_paginator\<lparr>pag_event_queue := drop 7 wit_history, pag_next_page_token := Next [2],
         pag_id_of_last_event := Some 7\<rparr>, [])"
  by code_simp

theorem paginator_keeps_events_witness:
  "\<exists>u p'. extract_next_update wit_answers wit_paginator = Some (Inr u, p', []) \<and>
     (\<exists>used. wit_answers = used @ [] \<and> grown (hu_events u @ pag_event_queue p') wit_paginator used p')"
proof -
  have "ids_ascending (pag_event_queue wit_paginator @ answered wit_answers)"
    "all_behind 0 (pag_event_queue wit_paginator @ answered wit_answers)" by code_simp+
  from paginator_keeps_events [OF wit_extract this] wit_extract show ?thesis by blast
qed

end
