(* ===== verification/Effects.thy ===== *)
theory Effects
  imports Prelude
begin

text \<open>
  Calls that take \<open>&mut self\<close> and return a \<open>Result\<close>: an action takes the state and gives an outcome
  and the state it leaves, which keeps whatever the call changed before an early return.  The
  judgement \<open>valid P m Q\<close> is total correctness up to errors: from a state with \<open>P\<close> the action does
  not panic, and when it returns a value, value and state satisfy \<open>Q\<close>.
\<close>

section \<open>Actions\<close>

type_synonym ('s, 'a) action = "'s \<Rightarrow> 'a outcome \<times> 's"

definition sret :: "'a \<Rightarrow> ('s, 'a) action" where
  "sret a = (\<lambda>s. (Ok a, s))"

definition serr :: "wf_error \<Rightarrow> ('s, 'a) action" where
  "serr e = (\<lambda>s. (Err e, s))"

definition spanic :: "string \<Rightarrow> ('s, 'a) action" where
  "spanic p = (\<lambda>s. (Panic p, s))"

definition slift :: "'a outcome \<Rightarrow> ('s, 'a) action" where
  "slift r = (\<lambda>s. (r, s))"

definition sget :: "('s \<Rightarrow> 'a) \<Rightarrow> ('s, 'a) action" where
  "sget f = (\<lambda>s. (Ok (f s), s))"

definition smod :: "('s \<Rightarrow> 's) \<Rightarrow> ('s, unit) action" where
  "smod f = (\<lambda>s. (Ok (), f s))"

definition sbind :: "('s, 'a) action \<Rightarrow> ('a \<Rightarrow> ('s, 'b) action) \<Rightarrow> ('s, 'b) action" where
  "sbind m f = (\<lambda>s.
     case m s of
       (Ok a, s') \<Rightarrow> f a s'
     | (Err e, s') \<Rightarrow> (Err e, s')
     | (Panic p, s') \<Rightarrow> (Panic p, s'))"

abbreviation sthen :: "('s, 'a) action \<Rightarrow> ('s, 'b) action \<Rightarrow> ('s, 'b) action" where
  "sthen m n \<equiv> sbind m (\<lambda>_. n)"

fun sfor :: "('a \<Rightarrow> ('s, unit) action) \<Rightarrow> 'a list \<Rightarrow> ('s, unit) action" where
  "sfor f [] = sret ()"
| "sfor f (a # as) = sthen (f a) (sfor f as)"

fun smap :: "('a \<Rightarrow> ('s, 'b) action) \<Rightarrow> 'a list \<Rightarrow> ('s, 'b list) action" where
  "smap f [] = sret []"
| "smap f (a # as) = sbind (f a) (\<lambda>b. sbind (smap f as) (\<lambda>bs. sret (b # bs)))"

lemmas action_defs = sret_def serr_def spanic_def slift_def sget_def smod_def sbind_def

section \<open>Congruence\<close>

lemma sbind_cong:
  assumes "m s = n s" and "\<And>a s'. m s = (Ok a, s') \<Longrightarrow> f a s' = g a s'"
  shows "sbind m f s = sbind n g s"
  using assms by (auto simp: sbind_def split: prod.splits outcome.splits)

lemma sbind_OkE:
  assumes "sbind m f s = (Ok b, s')"
  obtains a s1 where "m s = (Ok a, s1)" "f a s1 = (Ok b, s')"
  using assms by (auto simp: sbind_def split: prod.splits outcome.splits)

lemma sfor_cong:
  assumes "\<And>a s. a \<in> set as \<Longrightarrow> f a s = g a s"
  shows "sfor f as s = sfor g as s"
  using assms
proof (induction as arbitrary: s)
  case (Cons a as)
  then show ?case by (auto intro!: sbind_cong)
qed simp

lemma sfor_append: "sfor f (as @ bs) s = sthen (sfor f as) (sfor f bs) s"
  by (induction as arbitrary: s) (auto simp: action_defs split: prod.splits outcome.splits)

section \<open>Validity\<close>

definition valid :: "('s \<Rightarrow> bool) \<Rightarrow> ('s, 'a) action \<Rightarrow> ('a \<Rightarrow> 's \<Rightarrow> bool) \<Rightarrow> bool" where
  "valid P m Q \<longleftrightarrow>
     (\<forall>s. P s \<longrightarrow> (case m s of (Ok a, s') \<Rightarrow> Q a s' | (Err e, s') \<Rightarrow> True | (Panic p, s') \<Rightarrow> False))"

lemma validD:
  assumes "valid P m Q" "P s"
  shows "\<not> is_panic (fst (m s))" and "m s = (Ok a, s') \<Longrightarrow> Q a s'"
proof -
  have "case m s of (Ok a, s') \<Rightarrow> Q a s' | (Err e, s') \<Rightarrow> True | (Panic p, s') \<Rightarrow> False"
    using assms by (simp add: valid_def)
  then show "\<not> is_panic (fst (m s))" and "m s = (Ok a, s') \<Longrightarrow> Q a s'"
    by (auto split: prod.splits outcome.splits)
qed

lemma validI:
  assumes "\<And>s. P s \<Longrightarrow> \<not> is_panic (fst (m s))"
    and "\<And>s a s'. P s \<Longrightarrow> m s = (Ok a, s') \<Longrightarrow> Q a s'"
  shows "valid P m Q"
proof (unfold valid_def, intro allI impI)
  fix s
  assume s: "P s"
  obtain r s' where m: "m s = (r, s')" by (cases "m s")
  show "case m s of (Ok a, s') \<Rightarrow> Q a s' | (Err e, s') \<Rightarrow> True | (Panic p, s') \<Rightarrow> False"
    using assms(1) [OF s] assms(2) [OF s] m by (cases r) auto
qed

lemma valid_conseq:
  assumes "valid P m Q" "\<And>s. P' s \<Longrightarrow> P s" "\<And>a s. Q a s \<Longrightarrow> Q' a s"
  shows "valid P' m Q'"
  using assms by (intro validI) (blast dest: validD)+

lemma valid_pre: "valid P m Q \<Longrightarrow> (\<And>s. P' s \<Longrightarrow> P s) \<Longrightarrow> valid P' m Q"
  by (rule valid_conseq)

lemma valid_post: "valid P m Q \<Longrightarrow> (\<And>a s. Q a s \<Longrightarrow> Q' a s) \<Longrightarrow> valid P m Q'"
  by (rule valid_conseq)

lemma valid_bind:
  assumes "valid P m Q" "\<And>a. valid (Q a) (f a) R"
  shows "valid P (sbind m f) R"
proof (rule validI)
  fix s
  assume s: "P s"
  obtain r s' where m: "m s = (r, s')" by (cases "m s")
  show "\<not> is_panic (fst (sbind m f s))"
    using validD [OF assms(1) s] validD(1) [OF assms(2)] m by (cases r) (auto simp: sbind_def)
  show "R b s''" if "sbind m f s = (Ok b, s'')" for b s''
    using that validD(2) [OF assms(1) s] validD(2) [OF assms(2)] m
    by (cases r) (auto simp: sbind_def)
qed

lemma valid_ret: "(\<And>s. P s \<Longrightarrow> Q a s) \<Longrightarrow> valid P (sret a) Q"
  by (rule validI) (auto simp: sret_def)

lemma valid_err: "valid P (serr e) Q"
  by (rule validI) (auto simp: serr_def)

lemma valid_get: "(\<And>s. P s \<Longrightarrow> Q (f s) s) \<Longrightarrow> valid P (sget f) Q"
  by (rule validI) (auto simp: sget_def)

lemma valid_mod: "(\<And>s. P s \<Longrightarrow> Q () (f s)) \<Longrightarrow> valid P (smod f) Q"
  by (rule validI) (auto simp: smod_def)

lemma valid_lift:
  "(\<And>s. P s \<Longrightarrow> \<not> is_panic r) \<Longrightarrow> (\<And>s a. P s \<Longrightarrow> r = Ok a \<Longrightarrow> Q a s) \<Longrightarrow> valid P (slift r) Q"
  by (rule validI) (auto simp: slift_def)

lemma valid_if:
  "(b \<Longrightarrow> valid P m Q) \<Longrightarrow> (\<not> b \<Longrightarrow> valid P n Q) \<Longrightarrow> valid P (if b then m else n) Q"
  by simp

lemma valid_for:
  assumes "\<And>a. a \<in> set as \<Longrightarrow> valid P (f a) (\<lambda>_. P)"
  shows "valid P (sfor f as) (\<lambda>_. P)"
  using assms
proof (induction as)
  case (Cons a as)
  have "valid P (f a) (\<lambda>_. P)" by (rule Cons.prems) simp
  moreover have "valid P (sfor f as) (\<lambda>_. P)" by (rule Cons.IH) (simp add: Cons.prems)
  ultimately show ?case by (auto intro: valid_bind)
qed (simp add: valid_ret)

lemma valid_map:
  assumes "\<And>a. a \<in> set as \<Longrightarrow> valid P (f a) (\<lambda>b s. P s \<and> R a b)"
  shows "valid P (smap f as) (\<lambda>bs s. P s \<and> list_all2 R as bs)"
  using assms
proof (induction as)
  case (Cons a as)
  have 1: "valid P (f a) (\<lambda>b s. P s \<and> R a b)" by (rule Cons.prems) simp
  have 2: "valid P (smap f as) (\<lambda>bs s. P s \<and> list_all2 R as bs)"
    by (rule Cons.IH) (simp add: Cons.prems)
  have "valid (\<lambda>s. P s \<and> R a b) (sbind (smap f as) (\<lambda>bs. sret (b # bs)))
      (\<lambda>bs s. P s \<and> list_all2 R (a # as) bs)" for b
  proof (cases "R a b")
    case True
    then show ?thesis
      by (intro valid_bind [OF valid_pre [OF 2]]) (auto intro: valid_ret)
  qed (simp add: valid_def)
  with 1 show ?case unfolding smap.simps by (rule valid_bind)
qed (simp add: valid_ret)

text \<open>Errors keep an invariant too when every step does.\<close>

definition keeps :: "('s \<Rightarrow> bool) \<Rightarrow> ('s, 'a) action \<Rightarrow> bool" where
  "keeps I m \<longleftrightarrow> (\<forall>s. I s \<longrightarrow> I (snd (m s)))"

lemma keepsD: "keeps I m \<Longrightarrow> I s \<Longrightarrow> I (snd (m s))"
  by (simp add: keeps_def)

lemma keeps_bind: "keeps I m \<Longrightarrow> (\<And>a. keeps I (f a)) \<Longrightarrow> keeps I (sbind m f)"
  unfolding keeps_def sbind_def by (auto split: prod.splits outcome.splits)

lemma keeps_simple [simp]: "keeps I (sret a)" "keeps I (serr e)" "keeps I (spanic p)"
  "keeps I (slift r)" "keeps I (sget g)"
  by (simp_all add: keeps_def action_defs)

lemma keeps_mod: "(\<And>s. I s \<Longrightarrow> I (f s)) \<Longrightarrow> keeps I (smod f)"
  by (simp add: keeps_def smod_def)

lemma keeps_for: "(\<And>a. a \<in> set as \<Longrightarrow> keeps I (f a)) \<Longrightarrow> keeps I (sfor f as)"
  by (induction as) (auto intro: keeps_bind)

lemma keeps_map: "(\<And>a. a \<in> set as \<Longrightarrow> keeps I (f a)) \<Longrightarrow> keeps I (smap f as)"
  by (induction as) (auto intro!: keeps_bind)

end
