(* ===== verification/Machines.thy ===== *)
theory Machines
  imports Timer_Machine Activity_Machine Child_Workflow_Machine Signal_External_Machine
    Cancel_External_Machine Nexus_Operation_Machine Update_Machine Workflow_Task_Machine
    Patch_Machine Terminal_Machines Property_Machines Local_Activity_Machine
begin

text \<open>
  The sum of all machines and the dispatch of the generic operations to them (\<open>Machines\<close> of
  \<open>core/src/worker/workflow/machines/mod.rs\<close>).  The flags of the run are shared by reference among
  its machines; a machine carries what the reference points to, so the orchestrator sets the flags
  of a machine before it runs and takes them back afterwards.
\<close>

section \<open>The sum type\<close>

datatype (plugins only: code) machines =
    ActivityMachine act_machine
  | CancelExternalMachine cext_machine
  | CancelWorkflowMachine cancelwf_machine
  | ChildWorkflowMachine child_machine
  | CompleteWorkflowMachine complete_machine
  | ContinueAsNewWorkflowMachine can_machine
  | FailWorkflowMachine failwf_machine
  | LocalActivityMachine la_machine
  | PatchMachine patch_machine
  | SignalExternalMachine sig_machine
  | TimerMachine timer_machine
  | WorkflowTaskMachine wft_machine
  | UpsertSearchAttributesMachine upsert_machine
  | ModifyWorkflowPropertiesMachine modify_machine
  | UpdateMachine upd_machine
  | NexusOperationMachine nexus_machine

text \<open>\<open>NewMachineWithCommand\<close>\<close>

record new_machine_with_command =
  nmc_command :: command_attributes
  nmc_machine :: machines

section \<open>Dispatch\<close>

definition machines_handle_event ::
  "externals \<Rightarrow> machines \<Rightarrow> hist_event_data \<Rightarrow> machine_response list outcome \<times> machines" where
  "machines_handle_event x m ed =
     (case m of
        ActivityMachine a \<Rightarrow> apsnd ActivityMachine
          (handle_event act_try_from_event act_step act_adapt_response a ed)
      | CancelExternalMachine a \<Rightarrow> apsnd CancelExternalMachine
          (handle_event cext_try_from_event cext_step cext_adapt_response a ed)
      | CancelWorkflowMachine a \<Rightarrow> apsnd CancelWorkflowMachine
          (handle_event cancelwf_try_from_event cancelwf_step cancelwf_adapt_response a ed)
      | ChildWorkflowMachine a \<Rightarrow> apsnd ChildWorkflowMachine
          (handle_event child_try_from_event child_step child_adapt_response a ed)
      | CompleteWorkflowMachine a \<Rightarrow> apsnd CompleteWorkflowMachine
          (handle_event complete_try_from_event complete_step complete_adapt_response a ed)
      | ContinueAsNewWorkflowMachine a \<Rightarrow> apsnd ContinueAsNewWorkflowMachine
          (handle_event can_try_from_event can_step can_adapt_response a ed)
      | FailWorkflowMachine a \<Rightarrow> apsnd FailWorkflowMachine
          (handle_event failwf_try_from_event failwf_step failwf_adapt_response a ed)
      | LocalActivityMachine a \<Rightarrow> apsnd LocalActivityMachine
          (handle_event (la_try_from_event x) (la_step x) (la_adapt_response x) a ed)
      | PatchMachine a \<Rightarrow> apsnd PatchMachine
          (handle_event (patch_try_from_event x) patch_step patch_adapt_response a ed)
      | SignalExternalMachine a \<Rightarrow> apsnd SignalExternalMachine
          (handle_event sig_try_from_event sig_step sig_adapt_response a ed)
      | TimerMachine a \<Rightarrow> apsnd TimerMachine
          (handle_event timer_try_from_event timer_step timer_adapt_response a ed)
      | WorkflowTaskMachine a \<Rightarrow> apsnd WorkflowTaskMachine
          (handle_event (wft_try_from_event x) wft_step wft_adapt_response a ed)
      | UpsertSearchAttributesMachine a \<Rightarrow> apsnd UpsertSearchAttributesMachine
          (handle_event upsert_try_from_event upsert_step upsert_adapt_response a ed)
      | ModifyWorkflowPropertiesMachine a \<Rightarrow> apsnd ModifyWorkflowPropertiesMachine
          (handle_event modify_try_from_event modify_step modify_adapt_response a ed)
      | UpdateMachine a \<Rightarrow> apsnd UpdateMachine
          (handle_event upd_try_from_event upd_step (upd_adapt_response x) a ed)
      | NexusOperationMachine a \<Rightarrow> apsnd NexusOperationMachine
          (handle_event nexus_try_from_event nexus_step nexus_adapt_response a ed))"

definition machines_handle_command ::
  "externals \<Rightarrow> machines \<Rightarrow> command_type \<Rightarrow> machine_response list outcome \<times> machines" where
  "machines_handle_command x m ct =
     (case m of
        ActivityMachine a \<Rightarrow> apsnd ActivityMachine
          (handle_command act_try_from_command act_step act_adapt_response a ct)
      | CancelExternalMachine a \<Rightarrow> apsnd CancelExternalMachine
          (handle_command cext_try_from_command cext_step cext_adapt_response a ct)
      | CancelWorkflowMachine a \<Rightarrow> apsnd CancelWorkflowMachine
          (handle_command cancelwf_try_from_command cancelwf_step cancelwf_adapt_response a ct)
      | ChildWorkflowMachine a \<Rightarrow> apsnd ChildWorkflowMachine
          (handle_command child_try_from_command child_step child_adapt_response a ct)
      | CompleteWorkflowMachine a \<Rightarrow> apsnd CompleteWorkflowMachine
          (handle_command complete_try_from_command complete_step complete_adapt_response a ct)
      | ContinueAsNewWorkflowMachine a \<Rightarrow> apsnd ContinueAsNewWorkflowMachine
          (handle_command can_try_from_command can_step can_adapt_response a ct)
      | FailWorkflowMachine a \<Rightarrow> apsnd FailWorkflowMachine
          (handle_command failwf_try_from_command failwf_step failwf_adapt_response a ct)
      | LocalActivityMachine a \<Rightarrow> apsnd LocalActivityMachine
          (handle_command la_try_from_command (la_step x) (la_adapt_response x) a ct)
      | PatchMachine a \<Rightarrow> apsnd PatchMachine
          (handle_command patch_try_from_command patch_step patch_adapt_response a ct)
      | SignalExternalMachine a \<Rightarrow> apsnd SignalExternalMachine
          (handle_command sig_try_from_command sig_step sig_adapt_response a ct)
      | TimerMachine a \<Rightarrow> apsnd TimerMachine
          (handle_command timer_try_from_command timer_step timer_adapt_response a ct)
      | WorkflowTaskMachine a \<Rightarrow> apsnd WorkflowTaskMachine
          (handle_command wft_try_from_command wft_step wft_adapt_response a ct)
      | UpsertSearchAttributesMachine a \<Rightarrow> apsnd UpsertSearchAttributesMachine
          (handle_command upsert_try_from_command upsert_step upsert_adapt_response a ct)
      | ModifyWorkflowPropertiesMachine a \<Rightarrow> apsnd ModifyWorkflowPropertiesMachine
          (handle_command modify_try_from_command modify_step modify_adapt_response a ct)
      | UpdateMachine a \<Rightarrow> apsnd UpdateMachine
          (handle_command upd_try_from_command upd_step (upd_adapt_response x) a ct)
      | NexusOperationMachine a \<Rightarrow> apsnd NexusOperationMachine
          (handle_command nexus_try_from_command nexus_step nexus_adapt_response a ct))"

definition machines_is_final_state :: "machines \<Rightarrow> bool outcome" where
  "machines_is_final_state m =
     (case m of
        ActivityMachine a \<Rightarrow> has_reached_final_state act_table (\<lambda>s. s) a
      | CancelExternalMachine a \<Rightarrow> has_reached_final_state cext_table (\<lambda>s. s) a
      | CancelWorkflowMachine a \<Rightarrow> has_reached_final_state cancelwf_table cancelwf_state_name a
      | ChildWorkflowMachine a \<Rightarrow> has_reached_final_state child_table child_state_name a
      | CompleteWorkflowMachine a \<Rightarrow> has_reached_final_state complete_table complete_state_name a
      | ContinueAsNewWorkflowMachine a \<Rightarrow> has_reached_final_state can_table can_state_name a
      | FailWorkflowMachine a \<Rightarrow> has_reached_final_state failwf_table failwf_state_name a
      | LocalActivityMachine a \<Rightarrow> has_reached_final_state la_table la_state_name a
      | PatchMachine a \<Rightarrow> has_reached_final_state patch_table (\<lambda>s. s) a
      | SignalExternalMachine a \<Rightarrow> has_reached_final_state sig_table (\<lambda>s. s) a
      | TimerMachine a \<Rightarrow> has_reached_final_state timer_table (\<lambda>s. s) a
      | WorkflowTaskMachine a \<Rightarrow> has_reached_final_state wft_table wft_state_name a
      | UpsertSearchAttributesMachine a \<Rightarrow> has_reached_final_state upsert_table (\<lambda>s. s) a
      | ModifyWorkflowPropertiesMachine a \<Rightarrow> has_reached_final_state modify_table (\<lambda>s. s) a
      | UpdateMachine a \<Rightarrow> has_reached_final_state upd_table upd_state_name a
      | NexusOperationMachine a \<Rightarrow> has_reached_final_state nexus_table (\<lambda>s. s) a)"

definition was_cancelled_before_sent_to_server :: "machines \<Rightarrow> bool outcome" where
  "was_cancelled_before_sent_to_server m =
     (case m of
        ActivityMachine a \<Rightarrow> Ok (act_was_cancelled_before_sent a)
      | ChildWorkflowMachine a \<Rightarrow> Ok (child_was_cancelled_before_sent a)
      | LocalActivityMachine a \<Rightarrow> Ok (la_was_cancelled_before_sent a)
      | SignalExternalMachine a \<Rightarrow> sig_was_cancelled_before_sent a
      | TimerMachine a \<Rightarrow> Ok (timer_was_cancelled_before_sent a)
      | NexusOperationMachine a \<Rightarrow> Ok (nexus_was_cancelled_before_sent a)
      | _ \<Rightarrow> Ok False)"

section \<open>The flags a machine refers to\<close>

definition with_flags :: "internal_flags \<Rightarrow> machines \<Rightarrow> machines" where
  "with_flags fl m =
     (case m of
        ActivityMachine a \<Rightarrow>
          ActivityMachine (a\<lparr>fsm_shared := (fsm_shared a)\<lparr>act_flags := fl\<rparr>\<rparr>)
      | ChildWorkflowMachine a \<Rightarrow>
          ChildWorkflowMachine (a\<lparr>fsm_shared := (fsm_shared a)\<lparr>ch_flags := fl\<rparr>\<rparr>)
      | LocalActivityMachine a \<Rightarrow>
          LocalActivityMachine (a\<lparr>fsm_shared := (fsm_shared a)\<lparr>la_internal_flags := fl\<rparr>\<rparr>)
      | _ \<Rightarrow> m)"

definition flags_of :: "internal_flags \<Rightarrow> machines \<Rightarrow> internal_flags" where
  "flags_of fl m =
     (case m of
        ActivityMachine a \<Rightarrow> act_flags (fsm_shared a)
      | ChildWorkflowMachine a \<Rightarrow> ch_flags (fsm_shared a)
      | LocalActivityMachine a \<Rightarrow> la_internal_flags (fsm_shared a)
      | _ \<Rightarrow> fl)"

section \<open>What the orchestrator relies on\<close>

text \<open>
  What a call on a machine may do: no panic, and on success a good machine whose responses ask for
  the cancellation of a local activity only if it may.
\<close>

definition call_ok :: "('m \<Rightarrow> bool) \<Rightarrow> bool \<Rightarrow> machine_response list outcome \<times> 'm \<Rightarrow> bool" where
  "call_ok ok may_request r \<longleftrightarrow>
     \<not> is_panic (fst r) \<and>
     (\<forall>rs. fst r = Ok rs \<longrightarrow>
        ok (snd r) \<and> (\<forall>n. RequestCancelLocalActivity n \<in> set rs \<longrightarrow> may_request))"

lemma call_ok_apsnd:
  assumes "call_ok ok req r" "\<And>a. ok a \<Longrightarrow> ok' (f a)" "req \<Longrightarrow> req'"
  shows "call_ok ok' req' (apsnd f r)"
  using assms by (auto simp: call_ok_def)

text \<open>
  A machine under the orchestrator: it stays in a good state (\<open>ok\<close>) as long as it returns no error,
  its handlers do not panic there, it never answers a command it is asked to acknowledge, and only
  a machine that may do so asks for the cancellation of a local activity.
\<close>

locale orchestrated = temporal_machine table state_name event_name step convert_command
    convert_event adapt
  for table :: "('n, 'ev) transition list"
    and state_name :: "'s \<Rightarrow> 'n"
    and event_name :: "'e \<Rightarrow> 'ev"
    and step :: "'s \<Rightarrow> 'e \<Rightarrow> 'd \<Rightarrow> (('c, 's) transition_result \<times> 'd) option"
    and convert_command :: "command_type \<Rightarrow> 'e option"
    and convert_event :: "hist_event_data \<Rightarrow> 'e outcome"
    and adapt :: "('s, 'd) fsm \<Rightarrow> 'c \<Rightarrow> event_info option \<Rightarrow> machine_response list outcome" +
  fixes ok :: "('s, 'd) fsm \<Rightarrow> bool"
    and may_request :: bool
  assumes ok_state: "ok m \<Longrightarrow> \<exists>s. fsm_state m = Some s"
    and ok_no_panic: "ok m \<Longrightarrow> fsm_state m = Some s \<Longrightarrow> step s e (fsm_shared m) \<noteq> Some (TPanic p, d')"
    and ok_step: "ok m \<Longrightarrow> fsm_state m = Some s \<Longrightarrow> step s e (fsm_shared m) = Some (TOk cs s', d') \<Longrightarrow>
      (\<exists>ct. convert_command ct = Some e) \<or> (\<exists>ed. convert_event ed = Ok e) \<Longrightarrow>
      ok \<lparr>fsm_state = Some s', fsm_shared = d'\<rparr>"
    and silent: "convert_command ct = Some e \<Longrightarrow> step s e d = Some (TOk cs s', d') \<Longrightarrow> cs = []"
    and requests: "adapt m c ei = Ok rs \<Longrightarrow> RequestCancelLocalActivity n \<in> set rs \<Longrightarrow> may_request"
begin

lemma event_no_panic:
  assumes "ok m"
  shows "\<not> is_panic (fst (handle_event convert_event step adapt m ed))"
proof -
  from ok_state [OF assms] obtain s where s: "fsm_state m = Some s" by blast
  show ?thesis using s ok_no_panic [OF assms s] by (intro handle_event_no_panic) auto
qed

lemma command_no_panic:
  assumes "ok m"
  shows "\<not> is_panic (fst (handle_command convert_command step adapt m ct))"
proof -
  from ok_state [OF assms] obtain s where s: "fsm_state m = Some s" by blast
  show ?thesis using s ok_no_panic [OF assms s] by (intro handle_command_no_panic) auto
qed

lemma requests_all:
  assumes "omap_concat (\<lambda>c. adapt m c ei) cs = Ok rs" "RequestCancelLocalActivity n \<in> set rs"
  shows may_request
  using assms
proof (induction cs arbitrary: rs)
  case (Cons c cs)
  then show ?case using requests by auto
qed simp

lemma event_call:
  assumes "ok m"
  shows "call_ok ok may_request (handle_event convert_event step adapt m ed)"
  unfolding call_ok_def
proof (intro conjI allI impI)
  fix rs
  assume "fst (handle_event convert_event step adapt m ed) = Ok rs"
  then have r: "handle_event convert_event step adapt m ed =
      (Ok rs, snd (handle_event convert_event step adapt m ed))" by (metis prod.collapse)
  show "ok (snd (handle_event convert_event step adapt m ed))"
    using r by (rule handle_event_OkE) (simp, blast intro: ok_step [OF assms])
  show may_request if "RequestCancelLocalActivity n \<in> set rs" for n
    using r by (rule handle_event_OkE) (use that requests_all in blast)
qed (rule event_no_panic [OF assms])

lemma command_call:
  assumes "ok m"
  shows "call_ok ok False (handle_command convert_command step adapt m ct)"
  unfolding call_ok_def
proof (intro conjI allI impI)
  fix rs
  assume "fst (handle_command convert_command step adapt m ct) = Ok rs"
  then have r: "handle_command convert_command step adapt m ct =
      (Ok rs, snd (handle_command convert_command step adapt m ct))" by (metis prod.collapse)
  show "ok (snd (handle_command convert_command step adapt m ct))"
    using r by (rule handle_command_OkE) (simp, blast intro: ok_step [OF assms])
  have "rs = []" using r by (rule handle_command_OkE) (auto dest: silent)
  then show "RequestCancelLocalActivity n \<in> set rs \<Longrightarrow> False" for n by simp
qed (rule command_no_panic [OF assms])

lemma command_silent:
  assumes "handle_command convert_command step adapt m ct = (Ok rs, m')"
  shows "rs = []"
  using assms by (rule handle_command_OkE) (auto dest: silent)

end

text \<open>An activity that is being cancelled was not to be abandoned.\<close>

definition act_ok :: "act_machine \<Rightarrow> bool" where
  "act_ok m \<longleftrightarrow>
     (case fsm_state m of
        None \<Rightarrow> False
      | Some s \<Rightarrow> act_cancelling s \<longrightarrow> act_cancellation_type (fsm_shared m) \<noteq> ACT_Abandon)"

lemma act_ok_told: "act_ok m \<longleftrightarrow> (\<exists>ct seq acc. act_told ct seq m acc)"
proof
  assume "act_ok m"
  then obtain s where s: "fsm_state m = Some s"
    "act_cancelling s \<longrightarrow> act_cancellation_type (fsm_shared m) \<noteq> ACT_Abandon"
    by (auto simp: act_ok_def split: option.splits)
  let ?ct = "act_cancellation_type (fsm_shared m)" and ?seq = "sa_seq (act_attrs (fsm_shared m))"
  let ?acc = "if act_resolved ?ct s
    then [PushWFJob (ResolveActivity \<lparr>ra_seq = ?seq, ra_result = Some undefined, ra_is_local = False\<rparr>)]
    else []"
  have "act_told ?ct ?seq m ?acc"
    using s by (auto simp: act_told_def)
  then show "\<exists>ct seq acc. act_told ct seq m acc" by blast
qed (auto simp: act_ok_def act_told_def split: option.splits)

definition fsm_ok :: "('s, 'd) fsm \<Rightarrow> bool" where
  "fsm_ok m \<longleftrightarrow> fsm_state m \<noteq> None"

lemma fsm_ok_simps [simp]: "fsm_ok \<lparr>fsm_state = Some s, fsm_shared = d\<rparr>"
  "fsm_ok m \<Longrightarrow> \<exists>s. fsm_state m = Some s"
  by (auto simp: fsm_ok_def)

interpretation o_act: orchestrated act_table "\<lambda>s. s" act_event_name act_step
  act_try_from_command act_try_from_event act_adapt_response act_ok False
proof
  show "\<exists>s. fsm_state m = Some s" if "act_ok m" for m
    using that by (auto simp: act_ok_def split: option.splits)
  show "act_step s e (fsm_shared m) \<noteq> Some (TPanic p, d')" if "act_ok m" "fsm_state m = Some s"
    for m s e p d'
    using that act_step_no_panic by (auto simp: act_ok_told)
  show "act_ok \<lparr>fsm_state = Some s', fsm_shared = d'\<rparr>"
    if "act_ok m" "fsm_state m = Some s" "act_step s e (fsm_shared m) = Some (TOk cs s', d')"
      "(\<exists>ct. act_try_from_command ct = Some e) \<or> (\<exists>ed. act_try_from_event ed = Ok e)"
    for m s e cs s' d'
    using that
    by (cases s; cases e; (simp; fail)?; auto simp: act_ok_def act_cancelling_def act_handlers
        act_converted transition_results Let_def
        split: if_splits prod.splits activity_cancellation_type.splits)
  show "cs = []" if "act_try_from_command ct = Some e" "act_step s e d = Some (TOk cs s', d')"
    for ct e s d cs s' d'
    using that
    by (cases s; auto simp: act_try_from_command_def transition_results split: if_splits)
  show False if "act_adapt_response m c ei = Ok rs" "RequestCancelLocalActivity n \<in> set rs"
    for m c ei rs n
    using that by (cases c) (auto simp: act_ops issue_command_def)
qed

lemma orchestrated_by_state:
  assumes "temporal_machine table state_name event_name step cc ce adapt"
    and "\<And>s e d p d'. step s e d \<noteq> Some (TPanic p, d')"
    and "\<And>ct e s d cs s' d'. cc ct = Some e \<Longrightarrow> step s e d = Some (TOk cs s', d') \<Longrightarrow> cs = []"
    and "\<And>m c ei rs n. adapt m c ei = Ok rs \<Longrightarrow> RequestCancelLocalActivity n \<in> set rs \<Longrightarrow> req"
  shows "orchestrated table state_name event_name step cc ce adapt fsm_ok req"
  using assms by (intro orchestrated.intro orchestrated_axioms.intro) auto

interpretation o_cext: orchestrated cext_table "\<lambda>s. s" cext_event_name cext_step
  cext_try_from_command cext_try_from_event cext_adapt_response fsm_ok False
proof (rule orchestrated_by_state [OF cancel_external.temporal_machine_axioms cext_step_no_panic])
  show "cs = []" if "cext_try_from_command ct = Some e" "cext_step s e d = Some (TOk cs s', d')"
    for ct e s d cs s' d'
    using that by (cases s; auto simp: cext_ops transition_results split: if_splits)
  show False if "cext_adapt_response m c ei = Ok rs" "RequestCancelLocalActivity n \<in> set rs"
    for m c ei rs n
    using that by (cases c) (auto simp: cext_ops Let_def)
qed

interpretation o_cancelwf: orchestrated cancelwf_table cancelwf_state_name cancelwf_event_name
  cancelwf_step cancelwf_try_from_command cancelwf_try_from_event cancelwf_adapt_response fsm_ok False
proof (rule orchestrated_by_state [OF cancelwf_wf.temporal_machine_axioms])
  show "cancelwf_step s e d \<noteq> Some (TPanic p, d')" for s e d p d'
    by (cases s; cases e; simp add: cancelwf_on_schedule_def transition_results)
  show "cs = []"
    if "cancelwf_try_from_command ct = Some e" "cancelwf_step s e d = Some (TOk cs s', d')"
    for ct e s d cs s' d'
    using that
    by (cases s; auto simp: cancelwf_try_from_command_def transition_results split: if_splits)
qed (auto simp: cancelwf_adapt_response_def)

interpretation o_child: orchestrated child_table child_state_name child_event_name child_step
  child_try_from_command child_try_from_event child_adapt_response fsm_ok False
proof (rule orchestrated_by_state [OF child_wf.temporal_machine_axioms child_step_no_panic])
  show "cs = []" if "child_try_from_command ct = Some e" "child_step s e d = Some (TOk cs s', d')"
    for ct e s d cs s' d'
    using that by (cases s; auto simp: child_ops transition_results split: if_splits)
  show False if "child_adapt_response m c ei = Ok rs" "RequestCancelLocalActivity n \<in> set rs"
    for m c ei rs n
    using that by (cases c) (auto simp: child_ops Let_def)
qed

interpretation o_complete: orchestrated complete_table complete_state_name complete_event_name
  complete_step complete_try_from_command complete_try_from_event complete_adapt_response fsm_ok False
proof (rule orchestrated_by_state [OF complete_wf.temporal_machine_axioms])
  show "complete_step s e d \<noteq> Some (TPanic p, d')" for s e d p d'
    by (cases s; cases e; simp add: complete_on_schedule_def transition_results)
  show "cs = []"
    if "complete_try_from_command ct = Some e" "complete_step s e d = Some (TOk cs s', d')"
    for ct e s d cs s' d'
    using that
    by (cases s; auto simp: complete_try_from_command_def transition_results split: if_splits)
qed (auto simp: complete_adapt_response_def)

interpretation o_can: orchestrated can_table can_state_name can_event_name
  can_step can_try_from_command can_try_from_event can_adapt_response fsm_ok False
proof (rule orchestrated_by_state [OF can_wf.temporal_machine_axioms])
  show "can_step s e d \<noteq> Some (TPanic p, d')" for s e d p d'
    by (cases s; cases e; simp add: can_on_schedule_def transition_results)
  show "cs = []" if "can_try_from_command ct = Some e" "can_step s e d = Some (TOk cs s', d')"
    for ct e s d cs s' d'
    using that
    by (cases s; auto simp: can_try_from_command_def transition_results split: if_splits)
qed (auto simp: can_adapt_response_def)

interpretation o_failwf: orchestrated failwf_table failwf_state_name failwf_event_name
  failwf_step failwf_try_from_command failwf_try_from_event failwf_adapt_response fsm_ok False
proof (rule orchestrated_by_state [OF failwf_wf.temporal_machine_axioms])
  show "failwf_step s e d \<noteq> Some (TPanic p, d')" for s e d p d'
    by (cases s; cases e; simp add: failwf_on_schedule_def transition_results)
  show "cs = []"
    if "failwf_try_from_command ct = Some e" "failwf_step s e d = Some (TOk cs s', d')"
    for ct e s d cs s' d'
    using that
    by (cases s; auto simp: failwf_try_from_command_def transition_results split: if_splits)
qed (auto simp: failwf_adapt_response_def)

interpretation o_la: orchestrated la_table la_state_name la_event_name "la_step x"
  la_try_from_command "la_try_from_event x" "la_adapt_response x" fsm_ok True for x
proof (rule orchestrated_by_state [OF local_activity.temporal_machine_axioms la_step_no_panic])
  show "cs = []" if "la_try_from_command ct = Some e" "la_step x s e d = Some (TOk cs s', d')"
    for ct e s d cs s' d'
    using that
    by (cases s; auto simp: la_try_from_command_def la_on_command_record_marker_def
        transition_results split: if_splits)
qed simp

interpretation o_patch: orchestrated patch_table "\<lambda>s. s" patch_event_name patch_step
  patch_try_from_command "patch_try_from_event x" patch_adapt_response fsm_ok False for x
proof (rule orchestrated_by_state [OF patch.temporal_machine_axioms])
  show "patch_step s e d \<noteq> Some (TPanic p, d')" for s e d p d'
    by (cases s; cases e; simp add: patch_handlers transition_results)
  show "cs = []" if "patch_try_from_command ct = Some e" "patch_step s e d = Some (TOk cs s', d')"
    for ct e s d cs s' d'
    using that(2) by (rule patch_no_commands)
qed (auto simp: patch_adapt_response_def)

interpretation o_sig: orchestrated sig_table "\<lambda>s. s" sig_event_name sig_step
  sig_try_from_command sig_try_from_event sig_adapt_response fsm_ok False
proof (rule orchestrated_by_state [OF signal_external.temporal_machine_axioms sig_step_no_panic])
  show "cs = []" if "sig_try_from_command ct = Some e" "sig_step s e d = Some (TOk cs s', d')"
    for ct e s d cs s' d'
    using that by (cases s; auto simp: sig_ops transition_results split: if_splits)
  show False if "sig_adapt_response m c ei = Ok rs" "RequestCancelLocalActivity n \<in> set rs"
    for m c ei rs n
    using that by (cases c) (auto simp: sig_ops Let_def)
qed

interpretation o_timer: orchestrated timer_table "\<lambda>s. s" timer_event_name timer_step
  timer_try_from_command timer_try_from_event timer_adapt_response fsm_ok False
proof (rule orchestrated_by_state [OF timer.temporal_machine_axioms])
  show "timer_step s e d \<noteq> Some (TPanic p, d')" for s e d p d'
    by (cases s; cases e; auto simp: timer_handlers transition_results split: if_splits)
  show "cs = []" if "timer_try_from_command ct = Some e" "timer_step s e d = Some (TOk cs s', d')"
    for ct e s d cs s' d'
    using that
    by (cases s; auto simp: timer_try_from_command_def timer_handlers transition_results
        split: if_splits)
  show False if "timer_adapt_response m c ei = Ok rs" "RequestCancelLocalActivity n \<in> set rs"
    for m c ei rs n
    using that by (cases c) (auto simp: timer_adapt_response_def issue_command_def)
qed

interpretation o_wft: orchestrated wft_table wft_state_name wft_event_name wft_step
  wft_try_from_command "wft_try_from_event x" wft_adapt_response fsm_ok False for x
proof (rule orchestrated_by_state [OF workflow_task.temporal_machine_axioms])
  show "wft_step s e d \<noteq> Some (TPanic p, d')" for s e d p d'
    by (cases s; cases e; simp add: wft_handlers transition_results)
  show False if "wft_adapt_response m c ei = Ok rs" "RequestCancelLocalActivity n \<in> set rs"
    for m c ei rs n
    using that by (cases c) (auto simp: wft_adapt_response_def split: option.splits if_splits)
qed (simp add: wft_try_from_command_def)

interpretation o_upsert: orchestrated upsert_table "\<lambda>s. s" "\<lambda>e. e" upsert_step
  upsert_try_from_command upsert_try_from_event upsert_adapt_response fsm_ok False
proof (rule orchestrated_by_state [OF upsert.temporal_machine_axioms])
  show "upsert_step s e d \<noteq> Some (TPanic p, d')" for s e d p d'
    by (cases s; cases e; simp add: upsert_on_command_recorded_def transition_results)
  show "cs = []" if "upsert_try_from_command ct = Some e" "upsert_step s e d = Some (TOk cs s', d')"
    for ct e s d cs s' d'
    using that
    by (cases s; auto simp: upsert_try_from_command_def transition_results split: if_splits)
qed (auto simp: upsert_adapt_response_def)

interpretation o_modify: orchestrated modify_table "\<lambda>s. s" "\<lambda>e. e" modify_step
  modify_try_from_command modify_try_from_event modify_adapt_response fsm_ok False
proof (rule orchestrated_by_state [OF modify.temporal_machine_axioms])
  show "modify_step s e d \<noteq> Some (TPanic p, d')" for s e d p d'
    by (cases s; cases e; simp add: transition_results)
  show "cs = []" if "modify_try_from_command ct = Some e" "modify_step s e d = Some (TOk cs s', d')"
    for ct e s d cs s' d'
    using that
    by (cases s; auto simp: modify_try_from_command_def transition_results split: if_splits)
qed (auto simp: modify_adapt_response_def)

interpretation o_upd: orchestrated upd_table upd_state_name upd_event_name upd_step
  upd_try_from_command upd_try_from_event "upd_adapt_response x" fsm_ok False for x
proof (rule orchestrated_by_state [OF update.temporal_machine_axioms upd_step_no_panic])
  show "cs = []" if "upd_try_from_command ct = Some e" "upd_step s e d = Some (TOk cs s', d')"
    for ct e s d cs s' d'
    using that
    by (cases s; auto simp: upd_try_from_command_def transition_results split: if_splits)
  show False if "upd_adapt_response x m c ei = Ok rs" "RequestCancelLocalActivity n \<in> set rs"
    for m c ei rs n
    using that by (cases c) (auto simp: upd_ops Let_def split: option.splits)
qed

interpretation o_nexus: orchestrated nexus_table "\<lambda>s. s" nexus_event_name nexus_step
  nexus_try_from_command nexus_try_from_event nexus_adapt_response fsm_ok False
proof (rule orchestrated_by_state [OF nexus.temporal_machine_axioms nexus_step_no_panic])
  show "cs = []" if "nexus_try_from_command ct = Some e" "nexus_step s e d = Some (TOk cs s', d')"
    for ct e s d cs s' d'
    using that by (cases s; auto simp: nexus_ops transition_results split: if_splits)
  show False if "nexus_adapt_response m c ei = Ok rs" "RequestCancelLocalActivity n \<in> set rs"
    for m c ei rs n
    using that by (cases c) (auto simp: nexus_ops Let_def)
qed

section \<open>The sum under the orchestrator\<close>

datatype machine_kind = K_Activity | K_CancelExternal | K_CancelWorkflow | K_ChildWorkflow
  | K_CompleteWorkflow | K_ContinueAsNew | K_FailWorkflow | K_LocalActivity | K_Patch
  | K_SignalExternal | K_Timer | K_WorkflowTask | K_UpsertSearchAttributes
  | K_ModifyWorkflowProperties | K_Update | K_NexusOperation

primrec machine_kind_of :: "machines \<Rightarrow> machine_kind" where
  "machine_kind_of (ActivityMachine a) = K_Activity"
| "machine_kind_of (CancelExternalMachine a) = K_CancelExternal"
| "machine_kind_of (CancelWorkflowMachine a) = K_CancelWorkflow"
| "machine_kind_of (ChildWorkflowMachine a) = K_ChildWorkflow"
| "machine_kind_of (CompleteWorkflowMachine a) = K_CompleteWorkflow"
| "machine_kind_of (ContinueAsNewWorkflowMachine a) = K_ContinueAsNew"
| "machine_kind_of (FailWorkflowMachine a) = K_FailWorkflow"
| "machine_kind_of (LocalActivityMachine a) = K_LocalActivity"
| "machine_kind_of (PatchMachine a) = K_Patch"
| "machine_kind_of (SignalExternalMachine a) = K_SignalExternal"
| "machine_kind_of (TimerMachine a) = K_Timer"
| "machine_kind_of (WorkflowTaskMachine a) = K_WorkflowTask"
| "machine_kind_of (UpsertSearchAttributesMachine a) = K_UpsertSearchAttributes"
| "machine_kind_of (ModifyWorkflowPropertiesMachine a) = K_ModifyWorkflowProperties"
| "machine_kind_of (UpdateMachine a) = K_Update"
| "machine_kind_of (NexusOperationMachine a) = K_NexusOperation"

primrec machine_ok :: "machines \<Rightarrow> bool" where
  "machine_ok (ActivityMachine a) = act_ok a"
| "machine_ok (CancelExternalMachine a) = fsm_ok a"
| "machine_ok (CancelWorkflowMachine a) = fsm_ok a"
| "machine_ok (ChildWorkflowMachine a) = fsm_ok a"
| "machine_ok (CompleteWorkflowMachine a) = fsm_ok a"
| "machine_ok (ContinueAsNewWorkflowMachine a) = fsm_ok a"
| "machine_ok (FailWorkflowMachine a) = fsm_ok a"
| "machine_ok (LocalActivityMachine a) = fsm_ok a"
| "machine_ok (PatchMachine a) = fsm_ok a"
| "machine_ok (SignalExternalMachine a) = fsm_ok a"
| "machine_ok (TimerMachine a) = fsm_ok a"
| "machine_ok (WorkflowTaskMachine a) = fsm_ok a"
| "machine_ok (UpsertSearchAttributesMachine a) = fsm_ok a"
| "machine_ok (ModifyWorkflowPropertiesMachine a) = fsm_ok a"
| "machine_ok (UpdateMachine a) = fsm_ok a"
| "machine_ok (NexusOperationMachine a) = fsm_ok a"

text \<open>Calls on the sum: the machine keeps its kind.\<close>

definition machine_call_ok :: "machines \<Rightarrow> machine_response list outcome \<times> machines \<Rightarrow> bool" where
  "machine_call_ok m =
     call_ok (\<lambda>m'. machine_ok m' \<and> machine_kind_of m' = machine_kind_of m)
       (machine_kind_of m = K_LocalActivity)"

lemmas event_calls = o_act.event_call o_cext.event_call o_cancelwf.event_call
  o_child.event_call o_complete.event_call o_can.event_call o_failwf.event_call o_la.event_call
  o_patch.event_call o_sig.event_call o_timer.event_call o_wft.event_call o_upsert.event_call
  o_modify.event_call o_upd.event_call o_nexus.event_call

lemma event_call_ok:
  assumes "machine_ok m"
  shows "machine_call_ok m (machines_handle_event x m ed)"
  using assms
  by (cases m, simp_all add: machine_call_ok_def machines_handle_event_def)
    (rule call_ok_apsnd, rule event_calls, assumption, simp, simp)+

lemmas command_calls = o_act.command_call o_cext.command_call o_cancelwf.command_call
  o_child.command_call o_complete.command_call o_can.command_call o_failwf.command_call
  o_la.command_call o_patch.command_call o_sig.command_call o_timer.command_call
  o_wft.command_call o_upsert.command_call o_modify.command_call o_upd.command_call
  o_nexus.command_call

lemma command_call_ok:
  assumes "machine_ok m"
  shows "machine_call_ok m (machines_handle_command x m ct)"
  using assms
  by (cases m, simp_all add: machine_call_ok_def machines_handle_command_def)
    (rule call_ok_apsnd, rule command_calls, assumption, simp, simp)+

text \<open>A machine acknowledges a command without a response.\<close>

lemmas commands_silent = o_act.command_silent o_cext.command_silent o_cancelwf.command_silent
  o_child.command_silent o_complete.command_silent o_can.command_silent o_failwf.command_silent
  o_la.command_silent o_patch.command_silent o_sig.command_silent o_timer.command_silent
  o_wft.command_silent o_upsert.command_silent o_modify.command_silent o_upd.command_silent
  o_nexus.command_silent

lemma apsnd_eq_iff: "apsnd f p = (a, b) \<longleftrightarrow> (\<exists>y. p = (a, y) \<and> b = f y)"
  by (cases p) auto

lemma handle_command_silent:
  assumes "machines_handle_command x m ct = (Ok rs, m')"
  shows "rs = []"
  using assms
  by (cases m, simp_all add: machines_handle_command_def apsnd_eq_iff)
    (elim exE conjE, rule commands_silent, assumption)+

text \<open>Nor does being acknowledged change whether the machine was cancelled before that.\<close>

lemma handle_command_keeps:
  assumes "\<And>e s cs s' d'. convert ct = Some e \<Longrightarrow> fsm_state m = Some s \<Longrightarrow>
      step s e (fsm_shared m) = Some (TOk cs s', d') \<Longrightarrow>
      f \<lparr>fsm_state = Some s', fsm_shared = d'\<rparr> = f m"
    and "handle_command convert step adapt m ct = (Ok rs, m')"
  shows "f m' = f m"
  using assms(2) by (rule handle_command_OkE) (use assms(1) in auto)

lemma act_command_cancelled:
  assumes "handle_command act_try_from_command act_step act_adapt_response m ct = (Ok rs, m')"
  shows "act_was_cancelled_before_sent m' = act_was_cancelled_before_sent m"
proof (rule handle_command_keeps [OF _ assms])
  show "act_was_cancelled_before_sent \<lparr>fsm_state = Some s', fsm_shared = d'\<rparr> =
      act_was_cancelled_before_sent m"
    if "act_try_from_command ct = Some e" "act_step s e (fsm_shared m) = Some (TOk cs s', d')"
    for e s cs s' d'
    using that
    by (cases s) (auto simp: act_try_from_command_def act_was_cancelled_before_sent_def act_handlers
        transition_results split: if_splits)
qed

lemma child_command_cancelled:
  assumes "handle_command child_try_from_command child_step child_adapt_response m ct = (Ok rs, m')"
  shows "child_was_cancelled_before_sent m' = child_was_cancelled_before_sent m"
proof (rule handle_command_keeps [OF _ assms])
  show "child_was_cancelled_before_sent \<lparr>fsm_state = Some s', fsm_shared = d'\<rparr> =
      child_was_cancelled_before_sent m"
    if "child_try_from_command ct = Some e" "child_step s e (fsm_shared m) = Some (TOk cs s', d')"
    for e s cs s' d'
    using that
    by (cases s) (auto simp: child_try_from_command_def child_was_cancelled_before_sent_def child_handlers
        transition_results split: if_splits)
qed

lemma timer_command_cancelled:
  assumes "handle_command timer_try_from_command timer_step timer_adapt_response m ct = (Ok rs, m')"
  shows "timer_was_cancelled_before_sent m' = timer_was_cancelled_before_sent m"
proof (rule handle_command_keeps [OF _ assms])
  show "timer_was_cancelled_before_sent \<lparr>fsm_state = Some s', fsm_shared = d'\<rparr> =
      timer_was_cancelled_before_sent m"
    if "timer_try_from_command ct = Some e" "timer_step s e (fsm_shared m) = Some (TOk cs s', d')"
    for e s cs s' d'
    using that
    by (cases s) (auto simp: timer_try_from_command_def timer_was_cancelled_before_sent_def timer_handlers
        transition_results split: if_splits)
qed

lemma nexus_command_cancelled:
  assumes "handle_command nexus_try_from_command nexus_step nexus_adapt_response m ct = (Ok rs, m')"
  shows "nexus_was_cancelled_before_sent m' = nexus_was_cancelled_before_sent m"
proof (rule handle_command_keeps [OF _ assms])
  show "nexus_was_cancelled_before_sent \<lparr>fsm_state = Some s', fsm_shared = d'\<rparr> =
      nexus_was_cancelled_before_sent m"
    if "nexus_try_from_command ct = Some e" "nexus_step s e (fsm_shared m) = Some (TOk cs s', d')"
    for e s cs s' d'
    using that
    by (cases s) (auto simp: nexus_try_from_command_def nexus_was_cancelled_before_sent_def nexus_handlers
        transition_results split: if_splits)
qed

lemma sig_command_cancelled:
  assumes "handle_command sig_try_from_command sig_step sig_adapt_response m ct = (Ok rs, m')"
  shows "sig_was_cancelled_before_sent m' = sig_was_cancelled_before_sent m"
proof (rule handle_command_keeps [OF _ assms])
  show "sig_was_cancelled_before_sent \<lparr>fsm_state = Some s', fsm_shared = d'\<rparr> =
      sig_was_cancelled_before_sent m"
    if "sig_try_from_command ct = Some e" "fsm_state m = Some s"
      "sig_step s e (fsm_shared m) = Some (TOk cs s', d')" for e s cs s' d'
    using that
    by (cases s) (auto simp: sig_try_from_command_def sig_was_cancelled_before_sent_def
        fsm_state_get_def sig_handlers transition_results split: if_splits)
qed

lemma handle_command_cancelled:
  assumes "machines_handle_command x m ct = (Ok rs, m')"
  shows "was_cancelled_before_sent_to_server m' = was_cancelled_before_sent_to_server m"
  using assms
  by (cases m) (auto simp: machines_handle_command_def apsnd_eq_iff
      was_cancelled_before_sent_to_server_def la_was_cancelled_before_sent_def
      dest: act_command_cancelled child_command_cancelled timer_command_cancelled
        nexus_command_cancelled sig_command_cancelled)

subsection \<open>Cancellations and requests\<close>

lemma run_and_map_call:
  assumes "orchestrated table state_name event_name step cc ce adapt fsm_ok req" "fsm_ok m"
    and "\<And>s cs s' d' c. step s e (fsm_shared m) = Some (TOk cs s', d') \<Longrightarrow> c \<in> set cs \<Longrightarrow>
      \<exists>rs. f \<lparr>fsm_state = Some s', fsm_shared = d'\<rparr> c = Ok rs \<and>
        (\<forall>n. RequestCancelLocalActivity n \<in> set rs \<longrightarrow> req)"
  shows "call_ok fsm_ok req (run_and_map step f m e)"
proof -
  from assms(2) obtain s where s: "fsm_state m = Some s" by (auto simp: fsm_ok_def)
  have np: "step s e (fsm_shared m) \<noteq> Some (TPanic p, d)" for p d
    by (rule orchestrated.ok_no_panic [OF assms(1,2) s])
  have "\<not> is_panic (f \<lparr>fsm_state = Some s', fsm_shared = d'\<rparr> c)"
    if "step s e (fsm_shared m) = Some (TOk cs s', d')" "c \<in> set cs" for cs s' d' c
    using assms(3) [OF that] by auto
  with s np have "\<not> is_panic (fst (run_and_map step f m e))" by (rule run_and_map_no_panic)
  moreover have "req" if r: "run_and_map step f m e = (Ok rs, m')" "RequestCancelLocalActivity n \<in> set rs"
    for rs m' n
    using r(1)
  proof (rule run_and_map_OkE)
    fix s cs s' d'
    assume 1: "step s e (fsm_shared m) = Some (TOk cs s', d')"
      "m' = \<lparr>fsm_state = Some s', fsm_shared = d'\<rparr>" "omap_concat (f m') cs = Ok rs"
    have "\<forall>n. RequestCancelLocalActivity n \<in> set rs \<longrightarrow> req"
      if "set ds \<subseteq> set cs" "omap_concat (f m') ds = Ok rs" for ds rs
      using that
    proof (induction ds arbitrary: rs)
      case (Cons c ds)
      then show ?case using assms(3) [OF 1(1), of c] 1(2) by fastforce
    qed simp
    with 1(3) r(2) show req by blast
  qed
  moreover have "fsm_ok m'" if "run_and_map step f m e = (Ok rs, m')" for rs m'
    using that by (rule run_and_map_OkE) simp
  ultimately show ?thesis unfolding call_ok_def by (metis prod.collapse)
qed

lemma timer_cancel_call: "fsm_ok m \<Longrightarrow> call_ok fsm_ok False (timer_cancel m)"
  by (cases "fsm_state m"; cases "the (fsm_state m)")
    (auto simp: fsm_ok_def call_ok_def timer_cancel_def on_event_def timer_handlers transition_results
      cancel_timer_attrs_def)

lemma act_cancel_call:
  assumes "act_ok m"
  shows "call_ok act_ok False (act_cancel m)"
  unfolding call_ok_def
proof (intro conjI allI impI)
  from assms obtain ct seq acc where told: "act_told ct seq m acc" by (auto simp: act_ok_told)
  show "\<not> is_panic (fst (act_cancel m))" using told by (rule act_cancel_no_panic)
  fix rs
  assume "fst (act_cancel m) = Ok rs"
  then have r: "act_cancel m = (Ok rs, snd (act_cancel m))" by (metis prod.collapse)
  from act_cancel_told [OF told r] show "act_ok (snd (act_cancel m))" by (auto simp: act_ok_told)
  show "False" if n: "RequestCancelLocalActivity n \<in> set rs" for n
  proof -
    from r n have "\<exists>e \<in> {Cancel, Abandon}. run_and_map act_step act_map_cancel_command m e =
        (Ok rs, snd (act_cancel m))"
      by (auto simp: act_cancel_def split: outcome.splits if_splits prod.splits)
    then obtain e where e: "e \<in> {Cancel, Abandon}"
      "run_and_map act_step act_map_cancel_command m e = (Ok rs, snd (act_cancel m))" by blast
    from e(2) show False
    proof (rule run_and_map_OkE)
      fix s cs s' d'
      assume 1: "act_step s e (fsm_shared m) = Some (TOk cs s', d')"
        "omap_concat (act_map_cancel_command (snd (act_cancel m))) cs = Ok rs"
      have "omap_concat (\<lambda>c. act_adapt_response (snd (act_cancel m)) c None) cs = Ok rs"
        using 1(2) act_cancel_commands [OF 1(1) e(1)] by (simp cong: omap_concat_cong)
      from o_act.requests_all [OF this n] show False .
    qed
  qed
qed

lemma child_cancel_call: "fsm_ok m \<Longrightarrow> call_ok fsm_ok False (child_cancel reason m)"
  unfolding child_cancel_def
  by (rule run_and_map_call [OF o_child.orchestrated_axioms], assumption)
    (rename_tac s cs s' d' c, case_tac s,
      auto simp: child_handlers transition_results child_ops Let_def)

lemma nexus_cancel_call: "fsm_ok m \<Longrightarrow> call_ok fsm_ok False (nexus_cancel m)"
  unfolding nexus_cancel_def
  by (rule run_and_map_call [OF o_nexus.orchestrated_axioms])
    (auto simp: nexus_adapt_response_def Let_def split: nexus_command.splits)

lemma sig_cancel_call: "fsm_ok m \<Longrightarrow> call_ok fsm_ok False (sig_cancel m)"
  by (auto simp: fsm_ok_def call_ok_def sig_cancel_eq split: if_splits)

lemma upd_response_call:
  assumes "fsm_ok m"
  shows "call_ok fsm_ok False (upd_handle_response x r m)"
proof (cases "upr_response r")
  case (Some k)
  from assms obtain s where s: "fsm_state m = Some s" by (auto simp: fsm_ok_def)
  have "\<forall>p d. upd_step s (upd_response_event k) (fsm_shared m) \<noteq> Some (TPanic p, d)"
    by (simp add: upd_step_no_panic)
  with s show ?thesis
  proof (cases rule: update.on_event_cases)
    case (ok cs m')
    then have "fsm_ok m'" by (auto elim: on_event_CmdsE)
    moreover have "\<not> is_panic (omap_concat (\<lambda>c. upd_adapt_response x m' c None) cs)"
      by (rule omap_concat_no_panic) (rule upd_adapt_no_panic)
    ultimately show ?thesis
      using ok Some o_upd.requests_all by (auto simp: upd_handle_response_def call_ok_def)
  qed (use s Some in \<open>auto simp: upd_handle_response_def fsm_state_get_def call_ok_def\<close>)
qed (simp add: upd_handle_response_def call_ok_def)

lemma la_request_call:
  assumes "fsm_ok m"
    and "\<And>rt a b c t. r = LaResolve a rt b c t \<Longrightarrow>
      \<exists>t. complete_time (la_wf_time_when_started (fsm_shared m)) rt = Ok t"
  shows "call_ok fsm_ok True (la_handle_request x r m)"
proof -
  from assms(1) obtain s where "fsm_state m = Some s" by (auto simp: fsm_ok_def)
  then have "\<not> is_panic (fst (la_handle_request x r m))"
    by (rule la_request_no_panic) (rule assms(2))
  moreover have "fsm_ok m'" if "la_handle_request x r m = (Ok rs, m')" for rs m'
    using that by (rule la_request_OkE) (auto simp: fsm_ok_def)
  ultimately show ?thesis unfolding call_ok_def by (metis prod.collapse)
qed

text \<open>Resolving a local activity or telling it of a task asks for no further cancellation.\<close>

lemma la_adapt_quiet1:
  "la_adapt_response x m c ei = Ok rs \<Longrightarrow> c \<noteq> RequestCancel \<Longrightarrow>
    RequestCancelLocalActivity n \<notin> set rs \<and> TriggerWFTaskStarted i t \<notin> set rs"
  by (cases c) (auto simp: la_adapt_response_def la_resolved_responses_def Let_def split: if_splits)

lemma la_adapt_quiet:
  assumes "omap_concat (\<lambda>c. la_adapt_response x m c ei) cs = Ok rs" "RequestCancel \<notin> set cs"
  shows "RequestCancelLocalActivity n \<notin> set rs \<and> TriggerWFTaskStarted i t \<notin> set rs"
  using assms
proof (induction cs arbitrary: rs)
  case (Cons c cs)
  then obtain ra rb where r: "la_adapt_response x m c ei = Ok ra" "rs = ra @ rb"
    "omap_concat (\<lambda>c. la_adapt_response x m c ei) cs = Ok rb" by auto
  with Cons.prems(2) la_adapt_quiet1 [OF r(1)] Cons.IH [OF r(3)] show ?case by auto
qed simp

lemma la_step_quiet:
  assumes "la_step x s e d = Some (TOk cs s', d')"
    and "la_event_name e \<in> {EvHandleResult, EvHandleKnownResult, EvStartedNonReplayWFT}"
  shows "RequestCancel \<notin> set cs"
  using assms
  by (cases s; cases e; (simp; fail)?; auto simp: la_handlers transition_results)

lemma la_resolve_quiet:
  assumes "la_try_resolve_dat x m dat known = (Ok rs, m')"
  shows "RequestCancelLocalActivity n \<notin> set rs \<and> TriggerWFTaskStarted i t \<notin> set rs"
proof -
  from assms obtain cs where run: "la_run_event x ''Invalid transition resolving local activity'' m
      (if known then La_HandleKnownResult dat else La_HandleResult dat) = (Ok cs, m')"
    and rs: "omap_concat (\<lambda>c. la_adapt_response x m' c None) cs = Ok rs"
    by (auto simp: la_try_resolve_dat_def split: prod.splits)
  from run have "RequestCancel \<notin> set cs"
    by (rule la_run_event_OkE) (erule la_step_quiet, simp)
  with rs show ?thesis by (rule la_adapt_quiet)
qed

lemma la_notify_quiet:
  assumes "encountered_non_replay_wft x m = (Ok rs, m')"
  shows "RequestCancelLocalActivity n \<notin> set rs \<and> TriggerWFTaskStarted i t \<notin> set rs"
proof (cases "rs = []")
  case False
  with assms obtain cs where
    run: "la_run_event x ''Invalid transition while notifying local activity'' m
      La_StartedNonReplayWFT = (Ok cs, m')"
    and rs: "cs \<noteq> []" "la_adapt_response x m' (last cs) None = Ok rs"
    by (auto simp: encountered_non_replay_wft_def split: outcome.splits bool.splits prod.splits
        if_splits)
  from run have "RequestCancel \<notin> set cs"
    by (rule la_run_event_OkE) (erule la_step_quiet, simp)
  with rs(1) have "RequestCancel \<notin> set [last cs]" by (metis empty_iff insertE last_in_set list.set)
  with rs(2) show ?thesis by (intro la_adapt_quiet [of x m' None "[last cs]"]) auto
qed simp

subsection \<open>Reading a good machine, and its flags\<close>

lemma fsm_ok_final: "fsm_ok a \<Longrightarrow> \<not> is_panic (has_reached_final_state table state_name a)"
  by (auto simp: has_reached_final_state_def fsm_state_get_def fsm_ok_def)

lemma act_ok_final: "act_ok a \<Longrightarrow> \<not> is_panic (has_reached_final_state table state_name a)"
  by (rule fsm_ok_final) (auto simp: fsm_ok_def act_ok_def split: option.splits)

lemma final_state_no_panic: "machine_ok m \<Longrightarrow> \<not> is_panic (machines_is_final_state m)"
  by (cases m) (simp_all add: machines_is_final_state_def act_ok_final fsm_ok_final)

lemma was_cancelled_no_panic: "machine_ok m \<Longrightarrow> \<not> is_panic (was_cancelled_before_sent_to_server m)"
  by (cases m)
    (auto simp: was_cancelled_before_sent_to_server_def sig_was_cancelled_before_sent_def
      fsm_state_get_def fsm_ok_def)

lemma with_flags_ok [simp]: "machine_ok (with_flags fl m) = machine_ok m"
  by (cases m)
    (simp_all add: with_flags_def fsm_ok_def act_ok_def
      split: option.splits)

lemma with_flags_cancelled [simp]:
  "was_cancelled_before_sent_to_server (with_flags fl m) = was_cancelled_before_sent_to_server m"
  by (cases m) (simp_all add: with_flags_def was_cancelled_before_sent_to_server_def
      act_was_cancelled_before_sent_def la_was_cancelled_before_sent_def
      child_was_cancelled_before_sent_def)

lemma with_flags_kind [simp]: "machine_kind_of (with_flags fl m) = machine_kind_of m"
  by (cases m) (simp_all add: with_flags_def)

end
