(* ===== verification/Local_Acts.thy ===== *)
theory Local_Acts
  imports Local_Activity_Machine
begin

text \<open>
  The local activities of a run that await execution, execute or were found resolved ahead in
  history (\<open>core/src/worker/workflow/machines/workflow_machines/local_acts.rs\<close>), with the requests
  they become for the local activity manager.
\<close>

section \<open>Requests for the local activity manager\<close>

record executing_la_id =
  eli_run_id :: string
  eli_seq_num :: u32

record new_local_act =
  nla_schedule_cmd :: valid_schedule_la
  nla_workflow_type :: string
  nla_workflow_exec_info :: workflow_execution
  nla_schedule_time :: system_time

text \<open>A heartbeat timeout carries the run, the deadline and the name of its abort handle.\<close>

datatype local_act_request = LAR_New new_local_act | LAR_Cancel executing_la_id
  | LAR_CancelAllInRun string
  | LAR_StartHeartbeatTimeout string int nat
  | LAR_IndicateWorkflowTaskCompleted string

section \<open>The data and its operations\<close>

record local_activity_data =
  lad_new_requests :: "valid_schedule_la list"
  lad_cancel_requests :: "executing_la_id list"
  lad_executing :: "u32 set"
  lad_preresolutions :: "(u32 \<times> resolve_dat) list"
  lad_am_terminating :: bool

definition lad_default :: local_activity_data where
  "lad_default =
     \<lparr>lad_new_requests = [], lad_cancel_requests = [], lad_executing = {}, lad_preresolutions = [],
      lad_am_terminating = False\<rparr>"

definition lad_enqueue :: "valid_schedule_la \<Rightarrow> local_activity_data \<Rightarrow> local_activity_data" where
  "lad_enqueue act d = d\<lparr>lad_new_requests := lad_new_requests d @ [act]\<rparr>"

definition lad_enqueue_cancel :: "executing_la_id \<Rightarrow> local_activity_data \<Rightarrow> local_activity_data" where
  "lad_enqueue_cancel c d = d\<lparr>lad_cancel_requests := lad_cancel_requests d @ [c]\<rparr>"

definition done_executing :: "u32 \<Rightarrow> local_activity_data \<Rightarrow> local_activity_data" where
  "done_executing seq d =
     d\<lparr>lad_new_requests := filter (\<lambda>req. vla_seq req \<noteq> seq) (lad_new_requests d),
       lad_executing := lad_executing d - {seq}\<rparr>"

text \<open>\<open>now\<close> is what the clock shows while the requests are taken.\<close>

definition take_all_reqs ::
  "system_time \<Rightarrow> string \<Rightarrow> string \<Rightarrow> string \<Rightarrow> local_activity_data \<Rightarrow>
   local_act_request list \<times> local_activity_data" where
  "take_all_reqs now wf_type wf_id run_id d =
     (if lad_am_terminating d then ([LAR_CancelAllInRun run_id], d)
      else
        (map LAR_Cancel (lad_cancel_requests d) @
         map (\<lambda>sa. LAR_New \<lparr>nla_schedule_cmd = sa, nla_workflow_type = wf_type,
                nla_workflow_exec_info = \<lparr>we_workflow_id = wf_id, we_run_id = run_id\<rparr>,
                nla_schedule_time = now\<rparr>) (lad_new_requests d),
         d\<lparr>lad_cancel_requests := [], lad_new_requests := [],
           lad_executing := lad_executing d \<union> set (map vla_seq (lad_new_requests d))\<rparr>))"

definition outstanding_la_count :: "local_activity_data \<Rightarrow> nat" where
  "outstanding_la_count d =
     (if lad_am_terminating d then 0 else card (lad_executing d) + length (lad_new_requests d))"

definition insert_peeked_marker ::
  "externals \<Rightarrow> complete_la_data \<Rightarrow> local_activity_data \<Rightarrow> local_activity_data" where
  "insert_peeked_marker x dat d =
     d\<lparr>lad_preresolutions :=
         map_insert (lmd_seq (cla_marker_dat dat)) (resolve_dat_of_marker x dat)
           (lad_preresolutions d)\<rparr>"

definition take_preresolution ::
  "u32 \<Rightarrow> local_activity_data \<Rightarrow> resolve_dat option \<times> local_activity_data" where
  "take_preresolution seq d =
     (map_of (lad_preresolutions d) seq,
      d\<lparr>lad_preresolutions := map_remove seq (lad_preresolutions d)\<rparr>)"

fun remove_first :: "('a \<Rightarrow> bool) \<Rightarrow> 'a list \<Rightarrow> 'a option \<times> 'a list" where
  "remove_first p [] = (None, [])"
| "remove_first p (a # as) =
     (if p a then (Some a, as) else apsnd ((#) a) (remove_first p as))"

definition remove_from_queue ::
  "u32 \<Rightarrow> local_activity_data \<Rightarrow> valid_schedule_la option \<times> local_activity_data" where
  "remove_from_queue seq d =
     (let (removed, reqs) = remove_first (\<lambda>req. vla_seq req = seq) (lad_new_requests d)
      in (removed, d\<lparr>lad_new_requests := reqs\<rparr>))"

definition indicate_terminating :: "local_activity_data \<Rightarrow> local_activity_data" where
  "indicate_terminating d = d\<lparr>lad_am_terminating := True\<rparr>"

section \<open>The outstanding activities as a set\<close>

text \<open>Everything the run does with this data.\<close>

datatype la_op = LaEnqueue valid_schedule_la | LaEnqueueCancel executing_la_id | LaDone u32
  | LaTake system_time string string string | LaPeeked complete_la_data | LaTakePre u32
  | LaRemove u32 | LaTerminate

primrec la_op_apply :: "externals \<Rightarrow> la_op \<Rightarrow> local_activity_data \<Rightarrow> local_activity_data" where
  "la_op_apply x (LaEnqueue a) d = lad_enqueue a d"
| "la_op_apply x (LaEnqueueCancel c) d = lad_enqueue_cancel c d"
| "la_op_apply x (LaDone seq) d = done_executing seq d"
| "la_op_apply x (LaTake now t w r) d = snd (take_all_reqs now t w r d)"
| "la_op_apply x (LaPeeked dat) d = insert_peeked_marker x dat d"
| "la_op_apply x (LaTakePre seq) d = snd (take_preresolution seq d)"
| "la_op_apply x (LaRemove seq) d = snd (remove_from_queue seq d)"
| "la_op_apply x LaTerminate d = indicate_terminating d"

text \<open>
  The specification: a set of queued and a set of executing activities, and whether the run ends.
\<close>

record la_spec =
  las_queued :: "u32 set"
  las_executing :: "u32 set"
  las_terminating :: bool

primrec la_op_spec :: "la_op \<Rightarrow> la_spec \<Rightarrow> la_spec" where
  "la_op_spec (LaEnqueue a) s = s\<lparr>las_queued := insert (vla_seq a) (las_queued s)\<rparr>"
| "la_op_spec (LaEnqueueCancel c) s = s"
| "la_op_spec (LaDone seq) s =
     s\<lparr>las_queued := las_queued s - {seq}, las_executing := las_executing s - {seq}\<rparr>"
| "la_op_spec (LaTake now t w r) s =
     (if las_terminating s then s
      else s\<lparr>las_queued := {}, las_executing := las_executing s \<union> las_queued s\<rparr>)"
| "la_op_spec (LaPeeked dat) s = s"
| "la_op_spec (LaTakePre seq) s = s"
| "la_op_spec (LaRemove seq) s = s\<lparr>las_queued := las_queued s - {seq}\<rparr>"
| "la_op_spec LaTerminate s = s\<lparr>las_terminating := True\<rparr>"

definition lad_abs :: "local_activity_data \<Rightarrow> la_spec" where
  "lad_abs d =
     \<lparr>las_queued = set (map vla_seq (lad_new_requests d)), las_executing = lad_executing d,
      las_terminating = lad_am_terminating d\<rparr>"

text \<open>Sequence numbers are fresh when an activity is queued.\<close>

fun fresh_seqs :: "la_op list \<Rightarrow> la_spec \<Rightarrow> bool" where
  "fresh_seqs [] s = True"
| "fresh_seqs (p # ps) s =
     ((case p of LaEnqueue a \<Rightarrow> vla_seq a \<notin> las_queued s \<union> las_executing s | _ \<Rightarrow> True) \<and>
      fresh_seqs ps (la_op_spec p s))"

definition lad_inv :: "local_activity_data \<Rightarrow> bool" where
  "lad_inv d \<longleftrightarrow> finite (lad_executing d) \<and> distinct (map vla_seq (lad_new_requests d)) \<and>
     lad_executing d \<inter> set (map vla_seq (lad_new_requests d)) = {}"

lemmas lad_ops = lad_enqueue_def lad_enqueue_cancel_def done_executing_def take_all_reqs_def
  insert_peeked_marker_def take_preresolution_def remove_from_queue_def indicate_terminating_def

lemma remove_first_seq:
  "distinct (map f as) \<Longrightarrow>
   snd (remove_first (\<lambda>a. f a = k) as) = filter (\<lambda>a. f a \<noteq> k) as"
proof (induction as)
  case (Cons a as)
  have "filter (\<lambda>a. f a \<noteq> k) as = as" if "f a = k"
    using Cons.prems that by (intro filter_True) (auto simp: image_iff)
  with Cons show ?case by auto
qed simp

lemma la_op_step:
  assumes "lad_inv d"
    and "case p of LaEnqueue a \<Rightarrow> vla_seq a \<notin> las_queued (lad_abs d) \<union> las_executing (lad_abs d) | _ \<Rightarrow> True"
  shows "lad_abs (la_op_apply x p d) = la_op_spec p (lad_abs d) \<and> lad_inv (la_op_apply x p d)"
proof -
  have sub: "set (map vla_seq (filter P as)) \<subseteq> set (map vla_seq as)" for P as by auto
  note [simp] = remove_first_seq distinct_map_filter
  show ?thesis
    using assms
    by (cases p) (auto simp: lad_ops lad_abs_def lad_inv_def Let_def split_beta)
qed

lemma la_ops_run:
  assumes "lad_inv d" "fresh_seqs ps (lad_abs d)"
  shows "lad_abs (fold (la_op_apply x) ps d) = fold la_op_spec ps (lad_abs d) \<and>
    lad_inv (fold (la_op_apply x) ps d)"
  using assms
proof (induction ps arbitrary: d)
  case (Cons p ps)
  from Cons.prems have "case p of
      LaEnqueue a \<Rightarrow> vla_seq a \<notin> las_queued (lad_abs d) \<union> las_executing (lad_abs d) | _ \<Rightarrow> True"
    by simp
  from la_op_step [OF Cons.prems(1) this] Cons show ?case by simp
qed simp

lemma lad_inv_count:
  assumes "lad_inv d"
  shows "outstanding_la_count d =
    (if las_terminating (lad_abs d) then 0
     else card (las_queued (lad_abs d) \<union> las_executing (lad_abs d)))"
proof -
  let ?q = "set (map vla_seq (lad_new_requests d))"
  have "length (lad_new_requests d) = card ?q"
    using assms distinct_card [of "map vla_seq (lad_new_requests d)"] by (simp add: lad_inv_def)
  moreover have "card (?q \<union> lad_executing d) = card ?q + card (lad_executing d)"
    using assms by (intro card_Un_disjoint) (auto simp: lad_inv_def)
  ultimately show ?thesis by (simp add: outstanding_la_count_def lad_abs_def)
qed

text \<open>
  C14: The bookkeeping of local activities implements its specification by sets: after any sequence
  of operations in which sequence numbers are fresh when queued, the queue and the executing set
  are those of the specification, and the number of outstanding activities that keeps a workflow
  task heartbeating is the number of queued or executing ones, or zero once the run is ending.
\<close>

theorem local_acts_refine:
  assumes "fresh_seqs ps (lad_abs lad_default)"
  shows "lad_abs (fold (la_op_apply x) ps lad_default) = fold la_op_spec ps (lad_abs lad_default) \<and>
    outstanding_la_count (fold (la_op_apply x) ps lad_default) =
      (let s = fold la_op_spec ps (lad_abs lad_default) in
       if las_terminating s then 0 else card (las_queued s \<union> las_executing s))"
proof -
  have "lad_inv lad_default" by (simp add: lad_inv_def lad_default_def)
  note 1 = la_ops_run [OF this assms, of x]
  with lad_inv_count [of "fold (la_op_apply x) ps lad_default"] show ?thesis by (simp add: Let_def)
qed

definition wit_la_ops :: "la_op list" where
  "wit_la_ops =
     [LaEnqueue (wit_local_activity\<lparr>vla_seq := 1\<rparr>), LaEnqueue (wit_local_activity\<lparr>vla_seq := 2\<rparr>),
      LaTake 0 [] [] [], LaEnqueue (wit_local_activity\<lparr>vla_seq := 3\<rparr>), LaDone 1]"

theorem local_acts_refine_witness:
  "outstanding_la_count (fold (la_op_apply wit_externals) wit_la_ops lad_default) = 2"
proof -
  have "fresh_seqs wit_la_ops (lad_abs lad_default)"
    by (simp add: wit_la_ops_def lad_abs_def lad_default_def)
  from local_acts_refine [OF this, of wit_externals] show ?thesis
    by (simp add: wit_la_ops_def lad_abs_def lad_default_def Let_def insert_commute)
qed

end
