(* ===== verification/Driven_Workflow.thy ===== *)
theory Driven_Workflow
  imports Protosext
begin

text \<open>
  The commands of the language layer as the engine takes them (\<open>WFCommand\<close> and \<open>CommandID\<close> of
  \<open>core/src/worker/workflow/mod.rs\<close>), and the connection to the workflow code that takes jobs and
  delivers commands (\<open>core/src/worker/workflow/driven_workflow.rs\<close>).
\<close>

section \<open>Commands\<close>

datatype query_result_variant = QR_Succeeded "payload option" | QR_Failed failure

record query_result =
  qr_query_id :: string
  qr_variant :: "query_result_variant option"

datatype (plugins only: code) wf_command_variant =
    NoCommandsFromLang
  | AddActivity schedule_activity
  | AddLocalActivity schedule_local_activity
  | WFRequestCancelActivity u32
  | WFRequestCancelLocalActivity u32
  | AddTimer start_timer
  | CancelTimer u32
  | CompleteWorkflow "payload option"
  | FailWorkflow "failure option"
  | QueryResponse query_result
  | ContinueAsNew continue_as_new_cmd
  | CancelWorkflow
  | SetPatchMarker string bool
  | AddChildWorkflow start_child_workflow
  | CancelChild u32 string
  | RequestCancelExternalWorkflow cancel_external_cmd
  | SignalExternalWorkflow signal_external_cmd
  | CancelSignalWorkflow u32
  | UpsertSearchAttributes "payload str_map"
  | ModifyWorkflowProperties "payload str_map option"
  | UpdateResponse update_response
  | ScheduleNexusOperation schedule_nexus_operation
  | RequestCancelNexusOperation u32

record wf_command =
  wfc_variant :: wf_command_variant
  wfc_metadata :: "user_metadata option"

definition is_terminal :: "wf_command_variant \<Rightarrow> bool" where
  "is_terminal v =
     (case v of
        CompleteWorkflow _ \<Rightarrow> True
      | FailWorkflow _ \<Rightarrow> True
      | CancelWorkflow \<Rightarrow> True
      | ContinueAsNew _ \<Rightarrow> True
      | _ \<Rightarrow> False)"

datatype command_id = IdTimer u32 | IdActivity u32 | IdLocalActivity u32 | IdChildWorkflowStart u32
  | IdSignalExternal u32 | IdCancelExternal u32 | IdNexusOperation u32

section \<open>The driven workflow\<close>

record workflow_started_info =
  wsi_workflow_task_timeout :: "duration option"
  wsi_memo :: "payload str_map option"
  wsi_search_attrs :: "payload str_map option"
  wsi_retry_policy :: "retry_policy option"

text \<open>\<open>incoming_commands\<close>: what was sent into the channel and not yet received.\<close>

record driven_workflow =
  dw_started_attrs :: "workflow_started_info option"
  dw_search_attribute_modifications :: "payload str_map"
  dw_incoming_commands :: "wf_command list list"
  dw_outgoing_jobs :: "job_variant list"

definition dw_new :: driven_workflow where
  "dw_new =
     \<lparr>dw_started_attrs = None, dw_search_attribute_modifications = [], dw_incoming_commands = [],
      dw_outgoing_jobs = []\<rparr>"

definition send_job :: "job_variant \<Rightarrow> driven_workflow \<Rightarrow> driven_workflow" where
  "send_job job d = d\<lparr>dw_outgoing_jobs := dw_outgoing_jobs d @ [job]\<rparr>"

definition dw_start ::
  "externals \<Rightarrow> string \<Rightarrow> u64 \<Rightarrow> timestamp \<Rightarrow> wf_started_attrs \<Rightarrow> driven_workflow \<Rightarrow> driven_workflow" where
  "dw_start x workflow_id randomness_seed start_time attribs d =
     (let started_info =
            \<lparr>wsi_workflow_task_timeout =
               try_into_or_none (x_duration x) (wes_workflow_task_timeout attribs),
             wsi_memo = wes_memo attribs, wsi_search_attrs = wes_search_attributes attribs,
             wsi_retry_policy = wes_retry_policy attribs\<rparr>
      in (send_job (InitializeWorkflow
            (start_workflow_from_attribs attribs workflow_id randomness_seed start_time)) d)
         \<lparr>dw_started_attrs := Some started_info\<rparr>)"

definition drain_jobs :: "driven_workflow \<Rightarrow> job_variant list \<times> driven_workflow" where
  "drain_jobs d = (dw_outgoing_jobs d, d\<lparr>dw_outgoing_jobs := []\<rparr>)"

text \<open>The sender's side of the channel, and the receiver's \<open>try_recv\<close>.\<close>

definition send_commands :: "wf_command list \<Rightarrow> driven_workflow \<Rightarrow> driven_workflow" where
  "send_commands cs d = d\<lparr>dw_incoming_commands := dw_incoming_commands d @ [cs]\<rparr>"

definition fetch_workflow_iteration_output ::
  "driven_workflow \<Rightarrow> wf_command list \<times> driven_workflow" where
  "fetch_workflow_iteration_output d =
     (case dw_incoming_commands d of
        [] \<Rightarrow> ([\<lparr>wfc_variant = NoCommandsFromLang, wfc_metadata = None\<rparr>], d)
      | cs # rest \<Rightarrow> (cs, d\<lparr>dw_incoming_commands := rest\<rparr>))"

text \<open>\<open>HashMap::extend\<close>\<close>

definition map_extend :: "('k \<times> 'v) list \<Rightarrow> ('k \<times> 'v) list \<Rightarrow> ('k \<times> 'v) list" where
  "map_extend m update = fold (\<lambda>(k, v). map_insert k v) update m"

definition search_attributes_update :: "payload str_map \<Rightarrow> driven_workflow \<Rightarrow> driven_workflow" where
  "search_attributes_update update d =
     d\<lparr>dw_search_attribute_modifications :=
         map_extend (dw_search_attribute_modifications d) update\<rparr>"

definition get_current_search_attributes :: "driven_workflow \<Rightarrow> payload str_map" where
  "get_current_search_attributes d =
     map_extend
       (opt_default [] (Option.bind (dw_started_attrs d) wsi_search_attrs))
       (dw_search_attribute_modifications d)"

section \<open>Facts\<close>

lemma map_of_map_extend:
  "distinct (map fst update) \<Longrightarrow>
   map_of (map_extend m update) k = (case map_of update k of None \<Rightarrow> map_of m k | Some v \<Rightarrow> Some v)"
proof (induction update arbitrary: m)
  case (Cons e update)
  obtain a v where e: "e = (a, v)" by (cases e)
  have "map_extend m (e # update) = map_extend (map_insert a v m) update"
    by (simp add: map_extend_def e)
  moreover have "map_of update a = None" using Cons.prems by (simp add: e map_of_eq_None_iff)
  ultimately show ?case using Cons by (auto simp: e split: option.splits)
qed (simp add: map_extend_def)

end
