(* ===== verification/Workflow_Machines.thy ===== *)
theory Workflow_Machines
  imports Effects Machines Local_Acts Driven_Workflow History_Update "HOL-Library.AList"
begin

text \<open>
  The orchestrator of the machines of one run
  (\<open>core/src/worker/workflow/machines/workflow_machines.rs\<close>): it applies history to the machines,
  turns the commands of the language layer into machines, routes what machines answer, and says
  what is to be sent to the server.

  The slot map of machines is an association list with keys that are never used again.  Three
  things the run reads from outside are parameters (\<open>engine_env\<close>): the external code, the clock
  reading of the call at hand, and the order in which the slot map lists its keys.
\<close>

section \<open>State\<close>

type_synonym machine_key = nat

datatype machine_associated_command = RealCommand proto_command | FakeLocalActivityMarker u32

record command_and_machine =
  cm_command :: machine_associated_command
  cm_machine :: machine_key

datatype command_id_kind = LangIssued command_id | CoreInternal | NeverResolves

datatype event_handling_outcome = SkipEvent bool | SkipCommand | Normal

datatype workflow_error_type = WET_Nondeterminism

record worker_config =
  cfg_worker_build_id :: string
  cfg_task_queue :: string
  cfg_namespace :: string
  cfg_max_cached_workflows :: nat
  cfg_ignore_evicts_on_shutdown :: bool
  cfg_workflow_failure_errors :: "workflow_error_type list"
  cfg_workflow_types_to_failure_errors :: "(string \<times> workflow_error_type list) list"

record run_basics =
  rb_worker_config :: worker_config
  rb_workflow_id :: string
  rb_workflow_type :: string
  rb_run_id :: string
  rb_history :: history_update
  rb_server_sdk_metadata :: bool
  rb_sdk_name :: string
  rb_sdk_version :: string

record engine_env =
  env_x :: externals
  env_now :: system_time
  env_slot_order :: "machine_key list \<Rightarrow> machine_key list"

record workflow_machines =
  wm_last_history_from_server :: history_update
  wm_protocol_msgs :: "incoming_protocol_message list"
  wm_current_started_event_id :: event_id
  wm_next_started_event_id :: event_id
  wm_last_processed_event :: event_id
  wm_replaying :: bool
  wm_workflow_id :: string
  wm_workflow_type :: string
  wm_run_id :: string
  wm_have_seen_terminal_event :: bool
  wm_workflow_start_time :: "system_time option"
  wm_workflow_end_time :: "system_time option"
  wm_wft_start_time :: "system_time option"
  wm_current_wf_time :: "system_time option"
  wm_observed_internal_flags :: internal_flags
  wm_history_size_bytes :: u64
  wm_continue_as_new_suggested :: bool
  wm_current_wft_build_id :: "string option"
  wm_all_machines :: "(machine_key \<times> machines) list"
  wm_next_key :: machine_key
  wm_machine_is_core_created :: "machine_key list"
  wm_machines_by_event_id :: "(event_id \<times> machine_key) list"
  wm_machines_by_protocol_instance_id :: "(string \<times> machine_key) list"
  wm_id_to_machine :: "(command_id \<times> machine_key) list"
  wm_commands :: "command_and_machine list"
  wm_current_wf_task_commands :: "command_and_machine list"
  wm_message_outbox :: "protocol_message list"
  wm_encountered_patch_markers :: "(string \<times> bool) list"
  wm_local_activity_data :: local_activity_data
  wm_drive_me :: driven_workflow
  wm_worker_config :: worker_config

type_synonym 'a wm_action = "(workflow_machines, 'a) action"

definition wm_new :: "run_basics \<Rightarrow> driven_workflow \<Rightarrow> workflow_machines" where
  "wm_new basics driven_wf =
     \<lparr>wm_last_history_from_server = rb_history basics,
      wm_protocol_msgs = [],
      wm_current_started_event_id = 0,
      wm_next_started_event_id = 0,
      wm_last_processed_event = 0,
      wm_replaying = (hu_previous_wft_started_id (rb_history basics) > 0),
      wm_workflow_id = rb_workflow_id basics,
      wm_workflow_type = rb_workflow_type basics,
      wm_run_id = rb_run_id basics,
      wm_have_seen_terminal_event = False,
      wm_workflow_start_time = None,
      wm_workflow_end_time = None,
      wm_wft_start_time = None,
      wm_current_wf_time = None,
      wm_observed_internal_flags =
        (let fl = flags_new (rb_server_sdk_metadata basics) (rb_sdk_name basics)
                    (rb_sdk_version basics)
         in case peek_next_wft_completed (rb_history basics) 0 of
              Some attrs \<Rightarrow> add_from_complete fl attrs
            | None \<Rightarrow> fl),
      wm_history_size_bytes = 0,
      wm_continue_as_new_suggested = False,
      wm_current_wft_build_id = None,
      wm_all_machines = [],
      wm_next_key = 0,
      wm_machine_is_core_created = [],
      wm_machines_by_event_id = [],
      wm_machines_by_protocol_instance_id = [],
      wm_id_to_machine = [],
      wm_commands = [],
      wm_current_wf_task_commands = [],
      wm_message_outbox = [],
      wm_encountered_patch_markers = [],
      wm_local_activity_data = lad_default,
      wm_drive_me = driven_wf,
      wm_worker_config = rb_worker_config basics\<rparr>"

definition workflow_is_finished :: "workflow_machines \<Rightarrow> bool" where
  "workflow_is_finished s \<longleftrightarrow> wm_workflow_end_time s \<noteq> None"

definition total_runtime :: "workflow_machines \<Rightarrow> duration option" where
  "total_runtime s =
     (case (wm_workflow_start_time s, wm_workflow_end_time s) of
        (Some st, Some et) \<Rightarrow> if et \<ge> st then Some (et - st) else None
      | _ \<Rightarrow> None)"

section \<open>Machines and their keys\<close>

definition machine :: "machine_key \<Rightarrow> machines wm_action" where
  "machine k = (\<lambda>s.
     case map_of (wm_all_machines s) k of
       None \<Rightarrow> (Panic ''Machine must exist'', s)
     | Some m \<Rightarrow> (Ok m, s))"

text \<open>\<open>machine_mut\<close>, with the call that changes the machine.\<close>

definition machine_run :: "machine_key \<Rightarrow> (machines \<Rightarrow> 'a outcome \<times> machines) \<Rightarrow> 'a wm_action" where
  "machine_run k f = (\<lambda>s.
     case map_of (wm_all_machines s) k of
       None \<Rightarrow> (Panic ''Machine must exist'', s)
     | Some m \<Rightarrow>
         (case f (with_flags (wm_observed_internal_flags s) m) of
            (r, m') \<Rightarrow>
              (r, s\<lparr>wm_all_machines := AList.update k m' (wm_all_machines s),
                   wm_observed_internal_flags := flags_of (wm_observed_internal_flags s) m'\<rparr>)))"

definition slot_insert :: "machines \<Rightarrow> machine_key wm_action" where
  "slot_insert m = (\<lambda>s.
     (Ok (wm_next_key s),
      s\<lparr>wm_all_machines := wm_all_machines s @ [(wm_next_key s, m)],
        wm_next_key := Suc (wm_next_key s)\<rparr>))"

definition get_machine_key :: "command_id \<Rightarrow> machine_key wm_action" where
  "get_machine_key i = (\<lambda>s.
     case map_of (wm_id_to_machine s) i of
       None \<Rightarrow> (Err (Nondeterminism ''Missing associated machine''), s)
     | Some k \<Rightarrow> (Ok k, s))"

definition get_machine_by_msg :: "string \<Rightarrow> machine_key wm_action" where
  "get_machine_by_msg protocol_instance_id = (\<lambda>s.
     case map_of (wm_machines_by_protocol_instance_id s) protocol_instance_id of
       None \<Rightarrow> (Err (Fatal ''Missing associated machine for protocol message''), s)
     | Some k \<Rightarrow> (Ok k, s))"

definition add_new_command_machine ::
  "new_machine_with_command \<Rightarrow> user_metadata option \<Rightarrow> command_and_machine wm_action" where
  "add_new_command_machine new metadata =
     sbind (slot_insert (nmc_machine new)) (\<lambda>k.
       sret \<lparr>cm_command = RealCommand
               \<lparr>pc_command_type = command_type_code (as_type (nmc_command new)),
                pc_attributes = Some (nmc_command new), pc_user_metadata = metadata\<rparr>,
             cm_machine = k\<rparr>)"

definition push_task_command :: "command_and_machine \<Rightarrow> unit wm_action" where
  "push_task_command c =
     smod (\<lambda>s. s\<lparr>wm_current_wf_task_commands := wm_current_wf_task_commands s @ [c]\<rparr>)"

definition add_cmd_to_wf_task ::
  "new_machine_with_command \<Rightarrow> user_metadata option \<Rightarrow> command_id_kind \<Rightarrow> machine_key wm_action" where
  "add_cmd_to_wf_task new metadata cid =
     sbind (add_new_command_machine new metadata) (\<lambda>mach.
       let key = cm_machine mach in
       sthen (case cid of
                LangIssued i \<Rightarrow>
                  smod (\<lambda>s. s\<lparr>wm_id_to_machine := map_insert i key (wm_id_to_machine s)\<rparr>)
              | CoreInternal \<Rightarrow>
                  smod (\<lambda>s. s\<lparr>wm_machine_is_core_created := key # wm_machine_is_core_created s\<rparr>)
              | NeverResolves \<Rightarrow> sret ())
       (sthen (push_task_command mach) (sret key)))"

definition add_terminal_command ::
  "engine_env \<Rightarrow> new_machine_with_command \<Rightarrow> user_metadata option \<Rightarrow> unit wm_action" where
  "add_terminal_command env new metadata =
     sbind (add_new_command_machine new metadata) (\<lambda>cwfm.
     sthen (smod (\<lambda>s. s\<lparr>wm_workflow_end_time := Some (env_now env)\<rparr>))
     (sthen (push_task_command cwfm)
     (smod (\<lambda>s. s\<lparr>wm_local_activity_data := indicate_terminating (wm_local_activity_data s)\<rparr>))))"

definition add_new_protocol_machine :: "machines \<Rightarrow> string \<Rightarrow> machine_key wm_action" where
  "add_new_protocol_machine m instance_id =
     sbind (slot_insert m) (\<lambda>k.
     sthen (smod (\<lambda>s. s\<lparr>wm_machines_by_protocol_instance_id :=
                          map_insert instance_id k (wm_machines_by_protocol_instance_id s)\<rparr>))
     (sret k))"

section \<open>Responses of machines\<close>

definition send_wf_job :: "job_variant \<Rightarrow> unit wm_action" where
  "send_wf_job j = smod (\<lambda>s. s\<lparr>wm_drive_me := send_job j (wm_drive_me s)\<rparr>)"

definition str_to_randomness_seed :: "externals \<Rightarrow> string \<Rightarrow> u64" where
  "str_to_randomness_seed x run_id = x_siphash x run_id"

definition set_current_time :: "system_time \<Rightarrow> unit wm_action" where
  "set_current_time time =
     smod (\<lambda>s.
       if (case wm_current_wf_time s of None \<Rightarrow> True | Some t \<Rightarrow> t < time)
       then s\<lparr>wm_current_wf_time := Some time\<rparr> else s)"

definition update_local_activities ::
  "(local_activity_data \<Rightarrow> local_activity_data) \<Rightarrow> unit wm_action" where
  "update_local_activities f =
     smod (\<lambda>s. s\<lparr>wm_local_activity_data := f (wm_local_activity_data s)\<rparr>)"

definition take_local_activities ::
  "(local_activity_data \<Rightarrow> 'a \<times> local_activity_data) \<Rightarrow> 'a wm_action" where
  "take_local_activities f = (\<lambda>s.
     case f (wm_local_activity_data s) of
       (a, d) \<Rightarrow> (Ok a, s\<lparr>wm_local_activity_data := d\<rparr>))"

text \<open>A call of a method of the local activity machine.\<close>

definition on_local_activity ::
  "'a outcome \<Rightarrow> (la_machine \<Rightarrow> 'a outcome \<times> la_machine) \<Rightarrow> machines \<Rightarrow> 'a outcome \<times> machines" where
  "on_local_activity other f m =
     (case m of
        LocalActivityMachine lam \<Rightarrow> apsnd LocalActivityMachine (f lam)
      | _ \<Rightarrow> (other, m))"

text \<open>
  \<open>task_started\<close>: outside of replay all local activity machines learn of the task first, then
  their responses are processed; \<open>process\<close> is \<open>process_machine_responses\<close>, which calls this in turn.
\<close>

definition notify_non_replay ::
  "engine_env \<Rightarrow> machine_key \<Rightarrow> (machine_key \<times> machine_response list) list wm_action" where
  "notify_non_replay env k =
     sbind (machine k) (\<lambda>mach.
       case mach of
         LocalActivityMachine _ \<Rightarrow>
           sbind (machine_run k (on_local_activity (Ok [])
                    (encountered_non_replay_wft (env_x env))))
           (\<lambda>resps. sret [(k, resps)])
       | _ \<Rightarrow> sret [])"

definition task_started ::
  "engine_env \<Rightarrow> (machine_key \<Rightarrow> machine_response list \<Rightarrow> unit wm_action) \<Rightarrow>
   event_id \<Rightarrow> system_time \<Rightarrow> unit wm_action" where
  "task_started env process task_started_event_id time =
     sthen (smod (\<lambda>s. s\<lparr>wm_current_started_event_id := task_started_event_id,
                       wm_wft_start_time := Some time\<rparr>))
     (sthen (set_current_time time)
     (sbind (sget wm_replaying) (\<lambda>replaying.
        if replaying then sret ()
        else
          sbind (sget (\<lambda>s. env_slot_order env (map fst (wm_all_machines s)))) (\<lambda>keys.
          sbind (smap (notify_non_replay env) keys) (\<lambda>resps.
          sfor (\<lambda>(mkey, resp_set). process mkey resp_set) (concat resps))))))"

text \<open>\<open>RequestCancelLocalActivity\<close>: resolved ahead, still queued, or running.\<close>

definition request_cancel_local_activity ::
  "engine_env \<Rightarrow> (machine_key \<Rightarrow> machine_response list \<Rightarrow> unit wm_action) \<Rightarrow>
   machine_key \<Rightarrow> u32 \<Rightarrow> unit wm_action" where
  "request_cancel_local_activity env process smk seq =
     (let not_la = Panic ''A non local-activity machine returned a request cancel LA response'' in
      sbind (take_local_activities (take_preresolution seq)) (\<lambda>pre.
      case pre of
        Some preres \<Rightarrow>
          sbind (machine_run smk (on_local_activity not_la
                  (\<lambda>lam. la_try_resolve_with_dat (env_x env) lam preres)))
          (\<lambda>more_responses. process smk more_responses)
      | None \<Rightarrow>
          sbind (take_local_activities (remove_from_queue seq)) (\<lambda>removed.
          case removed of
            Some removed_act \<Rightarrow>
              sbind (machine_run smk (on_local_activity not_la
                      (\<lambda>lam. la_try_resolve (env_x env) lam empty_cancel 0
                         (vla_attempt removed_act) None (vla_original_schedule_time removed_act))))
              (\<lambda>more_responses. process smk more_responses)
          | None \<Rightarrow>
              sbind (sget wm_run_id) (\<lambda>run_id.
              update_local_activities
                (lad_enqueue_cancel \<lparr>eli_run_id = run_id, eli_seq_num = seq\<rparr>)))))"

definition new_core_originated_command :: "command_attributes \<Rightarrow> unit wm_action" where
  "new_core_originated_command a =
     (case a of
        RequestCancelExternalWorkflowExecutionCommandAttributes attrs \<Rightarrow>
          sbind (slift (new_external_cancel 0
                   \<lparr>nwe_namespace = rce_namespace attrs, nwe_workflow_id = rce_workflow_id attrs,
                    nwe_run_id = rce_run_id attrs\<rparr>
                   (rce_child_workflow_only attrs) (rce_reason attrs))) (\<lambda>(m, c).
          sthen (add_cmd_to_wf_task \<lparr>nmc_command = c, nmc_machine = CancelExternalMachine m\<rparr> None
                   CoreInternal)
          (sret ()))
      | UpsertWorkflowSearchAttributesCommandAttributes attrs \<Rightarrow>
          (case upsert_search_attrs_internal attrs of
             (m, c) \<Rightarrow>
               sthen (add_cmd_to_wf_task
                        \<lparr>nmc_command = c, nmc_machine = UpsertSearchAttributesMachine m\<rparr> None
                        NeverResolves)
               (sret ()))
      | _ \<Rightarrow> serr (Fatal ''A machine requested to create a new command of an unsupported type''))"

definition handle_response ::
  "engine_env \<Rightarrow> (machine_key \<Rightarrow> machine_response list \<Rightarrow> unit wm_action) \<Rightarrow>
   machine_key \<Rightarrow> machine_response \<Rightarrow> unit wm_action" where
  "handle_response env process smk response =
     (case response of
        PushWFJob a \<Rightarrow>
          sbind (sget (\<lambda>s. smk \<in> set (wm_machine_is_core_created s))) (\<lambda>core.
            if core then sret () else send_wf_job a)
      | TriggerWFTaskStarted task_started_event_id time \<Rightarrow>
          task_started env process task_started_event_id time
      | UpdateRunIdOnWorkflowReset new_run_id \<Rightarrow>
          send_wf_job (UpdateRandomSeed (str_to_randomness_seed (env_x env) new_run_id))
      | IssueNewCommand c \<Rightarrow>
          push_task_command \<lparr>cm_command = RealCommand c, cm_machine = smk\<rparr>
      | IssueNewMessage pm \<Rightarrow>
          smod (\<lambda>s. if wm_replaying s then s
                    else s\<lparr>wm_message_outbox := wm_message_outbox s @ [pm]\<rparr>)
      | NewCoreOriginatedCommand attrs \<Rightarrow> new_core_originated_command attrs
      | IssueFakeLocalActivityMarker seq \<Rightarrow>
          push_task_command \<lparr>cm_command = FakeLocalActivityMarker seq, cm_machine = smk\<rparr>
      | QueueLocalActivity act \<Rightarrow> update_local_activities (lad_enqueue act)
      | RequestCancelLocalActivity seq \<Rightarrow> request_cancel_local_activity env process smk seq
      | AbandonLocalActivity seq \<Rightarrow> update_local_activities (done_executing seq)
      | UpdateWFTime t \<Rightarrow> (case t of None \<Rightarrow> sret () | Some t \<Rightarrow> set_current_time t))"

text \<open>
  \<open>process_machine_responses\<close> looks up the machine first and then calls itself through
  \<open>handle_response\<close>; the number bounds how deep, and \<open>beyond\<close> is what a call nested deeper than
  that would do.  There is no such call from the second level on, whatever the list of responses
  (\<open>process_machine_responses_unfold\<close>).
\<close>

primrec process_responses ::
  "(machine_key \<Rightarrow> machine_response list \<Rightarrow> unit wm_action) \<Rightarrow> engine_env \<Rightarrow> nat \<Rightarrow>
   machine_key \<Rightarrow> machine_response list \<Rightarrow> unit wm_action" where
  "process_responses beyond env 0 smk responses = beyond smk responses"
| "process_responses beyond env (Suc n) smk responses =
     sthen (machine smk) (sfor (handle_response env (process_responses beyond env n) smk) responses)"

definition process_machine_responses ::
  "engine_env \<Rightarrow> machine_key \<Rightarrow> machine_response list \<Rightarrow> unit wm_action" where
  "process_machine_responses env = process_responses (\<lambda>_ _. spanic ''out of depth'') env 3"

section \<open>Commands of the language layer\<close>

text \<open>\<open>cancel_machine!\<close>\<close>

definition cancel_machine ::
  "engine_env \<Rightarrow> command_id \<Rightarrow> (machines \<Rightarrow> (machine_response list outcome \<times> machines) option) \<Rightarrow>
   unit wm_action" where
  "cancel_machine env cid cancel =
     sbind (get_machine_key cid) (\<lambda>m_key.
     sbind (machine_run m_key (\<lambda>m.
       case cancel m of
         None \<Rightarrow> (Err (Nondeterminism
             ''Machine was not of the kind it should have been during cancellation''), m)
       | Some r \<Rightarrow> r)) (\<lambda>machine_resps.
     process_machine_responses env m_key machine_resps))"

definition cancel_timer :: "machines \<Rightarrow> (machine_response list outcome \<times> machines) option" where
  "cancel_timer m =
     (case m of TimerMachine a \<Rightarrow> Some (apsnd TimerMachine (timer_cancel a)) | _ \<Rightarrow> None)"

definition cancel_activity :: "machines \<Rightarrow> (machine_response list outcome \<times> machines) option" where
  "cancel_activity m =
     (case m of ActivityMachine a \<Rightarrow> Some (apsnd ActivityMachine (act_cancel a)) | _ \<Rightarrow> None)"

definition cancel_local_activity ::
  "externals \<Rightarrow> machines \<Rightarrow> (machine_response list outcome \<times> machines) option" where
  "cancel_local_activity x m =
     (case m of
        LocalActivityMachine a \<Rightarrow> Some (apsnd LocalActivityMachine (la_cancel x a)) | _ \<Rightarrow> None)"

definition cancel_child ::
  "string \<Rightarrow> machines \<Rightarrow> (machine_response list outcome \<times> machines) option" where
  "cancel_child reason m =
     (case m of
        ChildWorkflowMachine a \<Rightarrow> Some (apsnd ChildWorkflowMachine (child_cancel reason a))
      | _ \<Rightarrow> None)"

definition cancel_signal :: "machines \<Rightarrow> (machine_response list outcome \<times> machines) option" where
  "cancel_signal m =
     (case m of
        SignalExternalMachine a \<Rightarrow> Some (apsnd SignalExternalMachine (sig_cancel a)) | _ \<Rightarrow> None)"

definition cancel_nexus :: "machines \<Rightarrow> (machine_response list outcome \<times> machines) option" where
  "cancel_nexus m =
     (case m of
        NexusOperationMachine a \<Rightarrow> Some (apsnd NexusOperationMachine (nexus_cancel a)) | _ \<Rightarrow> None)"

definition determine_use_compatible_flag ::
  "workflow_machines \<Rightarrow> versioning_intent \<Rightarrow> string \<Rightarrow> bool" where
  "determine_use_compatible_flag s intent target_tq =
     (case intent of
        VI_Compatible \<Rightarrow> True
      | VI_Default \<Rightarrow> False
      | VI_Unspecified \<Rightarrow> target_tq = [] \<or> target_tq = cfg_task_queue (wm_worker_config s))"

definition augment_continue_as_new_with_current_values ::
  "workflow_machines \<Rightarrow> continue_as_new_cmd \<Rightarrow> continue_as_new_cmd" where
  "augment_continue_as_new_with_current_values s attrs =
     (let attrs1 =
            (case dw_started_attrs (wm_drive_me s) of
               None \<Rightarrow> attrs
             | Some started_info \<Rightarrow>
                 attrs\<lparr>can_memo := (if can_memo attrs = [] then opt_default [] (wsi_memo started_info)
                                    else can_memo attrs),
                       can_retry_policy :=
                         (if can_retry_policy attrs = None then wsi_retry_policy started_info
                          else can_retry_policy attrs)\<rparr>)
      in if can_search_attributes attrs1 = []
         then attrs1\<lparr>can_search_attributes := get_current_search_attributes (wm_drive_me s)\<rparr>
         else attrs1)"

text \<open>The branches that create a machine.  \<open>wrap\<close> puts it into the sum.\<close>

definition add_lang_command ::
  "('m \<Rightarrow> machines) \<Rightarrow> user_metadata option \<Rightarrow> command_id_kind \<Rightarrow> 'm \<times> command_attributes \<Rightarrow>
   unit wm_action" where
  "add_lang_command wrap metadata cid new =
     sthen (add_cmd_to_wf_task \<lparr>nmc_command = snd new, nmc_machine = wrap (fst new)\<rparr> metadata cid)
     (sret ())"

definition add_local_activity :: "engine_env \<Rightarrow> schedule_local_activity \<Rightarrow> unit wm_action" where
  "add_local_activity env attrs =
     (case from_schedule_la (env_x env) attrs of
        Inl e \<Rightarrow> serr (Fatal ''Invalid schedule local activity request'')
      | Inr valid_attrs \<Rightarrow>
          sbind (take_local_activities (take_preresolution (sla_seq attrs))) (\<lambda>pre.
          sbind (sget (\<lambda>s. new_local_activity (env_x env) (env_now env) valid_attrs
                    (wm_replaying s) pre (wm_current_wf_time s) (wm_observed_internal_flags s)))
            (\<lambda>new.
          sbind (slift new) (\<lambda>(la, mach_resp).
          sbind (slot_insert (LocalActivityMachine la)) (\<lambda>machkey.
          sthen (smod (\<lambda>s. s\<lparr>wm_id_to_machine :=
                   map_insert (IdLocalActivity (sla_seq attrs)) machkey (wm_id_to_machine s)\<rparr>))
          (process_machine_responses env machkey mach_resp))))))"

definition set_patch_marker ::
  "engine_env \<Rightarrow> user_metadata option \<Rightarrow> string \<Rightarrow> bool \<Rightarrow> unit wm_action" where
  "set_patch_marker env metadata patch_id deprecated =
     sbind (sget (\<lambda>s. map_of (wm_encountered_patch_markers s) patch_id)) (\<lambda>encountered_entry.
     if encountered_entry = Some True then sret ()
     else
       sbind (sget (\<lambda>s. has_change (env_x env) patch_id (wm_replaying s) deprecated
                 (encountered_entry \<noteq> None) (map fst (wm_encountered_patch_markers s))
                 (wm_observed_internal_flags s))) (\<lambda>(new, flags).
       sthen (smod (\<lambda>s. s\<lparr>wm_observed_internal_flags := flags\<rparr>))
       (sbind (slift new) (\<lambda>(patch_machine, command, other_cmds).
       sbind (add_cmd_to_wf_task
                \<lparr>nmc_command = command, nmc_machine = PatchMachine patch_machine\<rparr> metadata
                NeverResolves) (\<lambda>mkey.
       sthen (process_machine_responses env mkey other_cmds)
       (smod (\<lambda>s. s\<lparr>wm_encountered_patch_markers :=
                map_insert patch_id True (wm_encountered_patch_markers s)\<rparr>)))))))"

definition handle_update_response :: "engine_env \<Rightarrow> update_response \<Rightarrow> unit wm_action" where
  "handle_update_response env ur =
     sbind (get_machine_by_msg (upr_protocol_instance_id ur)) (\<lambda>m_key.
     sbind (machine_run m_key (\<lambda>m.
       case m of
         UpdateMachine a \<Rightarrow> apsnd UpdateMachine (upd_handle_response (env_x env) ur a)
       | _ \<Rightarrow> (Err (Nondeterminism
            ''Tried to handle an update response for update but it was not found!''), m)))
       (\<lambda>resps.
     process_machine_responses env m_key resps))"

text \<open>The reason of an external cancellation interpolates the run id.\<close>

definition cancel_reason :: "string \<Rightarrow> string \<Rightarrow> string" where
  "cancel_reason run_id reason =
     ''Cancel requested by workflow with run id '' @ run_id @ '' with reason: '' @ reason"

definition handle_driven_result :: "engine_env \<Rightarrow> wf_command \<Rightarrow> unit wm_action" where
  "handle_driven_result env cmd =
     (let metadata = wfc_metadata cmd in
      case wfc_variant cmd of
        AddTimer attrs \<Rightarrow>
          sbind (slift (timer_new_scheduled attrs))
            (add_lang_command TimerMachine metadata (LangIssued (IdTimer (st_seq attrs))))
      | UpsertSearchAttributes attrs \<Rightarrow>
          sthen (smod (\<lambda>s. s\<lparr>wm_drive_me := search_attributes_update attrs (wm_drive_me s)\<rparr>))
          (sbind (sget (\<lambda>s. upsert_search_attrs attrs (wm_observed_internal_flags s)
                    (wm_replaying s))) (\<lambda>(new, flags).
          sthen (smod (\<lambda>s. s\<lparr>wm_observed_internal_flags := flags\<rparr>))
          (add_lang_command UpsertSearchAttributesMachine metadata NeverResolves new)))
      | CancelTimer seq \<Rightarrow> cancel_machine env (IdTimer seq) cancel_timer
      | AddActivity attrs \<Rightarrow>
          sbind (sget (\<lambda>s. act_new_scheduled attrs (wm_observed_internal_flags s)
                    (determine_use_compatible_flag s
                       (versioning_intent_get (sa_versioning_intent attrs)) (sa_task_queue attrs))))
            (\<lambda>new.
          sbind (slift new)
            (add_lang_command ActivityMachine metadata (LangIssued (IdActivity (sa_seq attrs)))))
      | AddLocalActivity attrs \<Rightarrow> add_local_activity env attrs
      | WFRequestCancelActivity seq \<Rightarrow> cancel_machine env (IdActivity seq) cancel_activity
      | WFRequestCancelLocalActivity seq \<Rightarrow>
          cancel_machine env (IdLocalActivity seq) (cancel_local_activity (env_x env))
      | CompleteWorkflow result \<Rightarrow>
          sbind (slift (complete_workflow result)) (\<lambda>(m, c).
          add_terminal_command env \<lparr>nmc_command = c, nmc_machine = CompleteWorkflowMachine m\<rparr> metadata)
      | FailWorkflow fail \<Rightarrow>
          sbind (slift (fail_workflow fail)) (\<lambda>(m, c).
          add_terminal_command env \<lparr>nmc_command = c, nmc_machine = FailWorkflowMachine m\<rparr> metadata)
      | ContinueAsNew attrs0 \<Rightarrow>
          sbind (sget (\<lambda>s.
              let attrs = augment_continue_as_new_with_current_values s attrs0 in
              continue_as_new attrs
                (determine_use_compatible_flag s
                   (versioning_intent_get (can_versioning_intent attrs)) (can_task_queue attrs))))
            (\<lambda>new.
          sbind (slift new) (\<lambda>(m, c).
          add_terminal_command env \<lparr>nmc_command = c, nmc_machine = ContinueAsNewWorkflowMachine m\<rparr>
            metadata))
      | CancelWorkflow \<Rightarrow>
          sbind (slift cancel_workflow) (\<lambda>(m, c).
          add_terminal_command env \<lparr>nmc_command = c, nmc_machine = CancelWorkflowMachine m\<rparr> metadata)
      | SetPatchMarker patch_id deprecated \<Rightarrow> set_patch_marker env metadata patch_id deprecated
      | AddChildWorkflow attrs \<Rightarrow>
          sbind (sget (\<lambda>s. child_new_scheduled attrs (wm_observed_internal_flags s)
                    (determine_use_compatible_flag s
                       (versioning_intent_get (scw_versioning_intent attrs)) (scw_task_queue attrs))))
            (\<lambda>new.
          sbind (slift new)
            (add_lang_command ChildWorkflowMachine metadata
               (LangIssued (IdChildWorkflowStart (scw_seq attrs)))))
      | CancelChild child_workflow_seq reason \<Rightarrow>
          cancel_machine env (IdChildWorkflowStart child_workflow_seq) (cancel_child reason)
      | RequestCancelExternalWorkflow attrs \<Rightarrow>
          (case cec_workflow_execution attrs of
             None \<Rightarrow>
               serr (Fatal ''Cancel external workflow command had no workflow_execution field'')
           | Some we \<Rightarrow>
               sbind (sget (\<lambda>s. new_external_cancel (cec_seq attrs) we False
                         (cancel_reason (wm_run_id s) (cec_reason attrs)))) (\<lambda>new.
               sbind (slift new)
                 (add_lang_command CancelExternalMachine metadata
                    (LangIssued (IdCancelExternal (cec_seq attrs))))))
      | SignalExternalWorkflow attrs \<Rightarrow>
          sbind (sget (\<lambda>s. new_external_signal attrs (cfg_namespace (wm_worker_config s)))) (\<lambda>new.
          sbind (slift new)
            (add_lang_command SignalExternalMachine metadata
               (LangIssued (IdSignalExternal (sec_seq attrs)))))
      | CancelSignalWorkflow seq \<Rightarrow> cancel_machine env (IdSignalExternal seq) cancel_signal
      | QueryResponse _ \<Rightarrow>
          spanic ''Query responses should not make it down into the machines''
      | ModifyWorkflowProperties attrs \<Rightarrow>
          add_lang_command ModifyWorkflowPropertiesMachine metadata NeverResolves
            (modify_workflow_properties attrs)
      | UpdateResponse ur \<Rightarrow> handle_update_response env ur
      | ScheduleNexusOperation attrs \<Rightarrow>
          add_lang_command NexusOperationMachine metadata
            (LangIssued (IdNexusOperation (sno_seq attrs))) (nexus_new_scheduled attrs)
      | RequestCancelNexusOperation seq \<Rightarrow> cancel_machine env (IdNexusOperation seq) cancel_nexus
      | NoCommandsFromLang \<Rightarrow> sret ())"

definition handle_driven_results :: "engine_env \<Rightarrow> wf_command list \<Rightarrow> unit wm_action" where
  "handle_driven_results env results = sfor (handle_driven_result env) results"

text \<open>
  \<open>prepare_commands\<close>: cancelled commands are dropped from both queues, the others are announced to
  their machines.
\<close>

definition command_cancelled :: "command_and_machine \<Rightarrow> bool wm_action" where
  "command_cancelled c =
     sbind (machine (cm_machine c)) (\<lambda>m. slift (was_cancelled_before_sent_to_server m))"

fun retain_commands :: "command_and_machine list \<Rightarrow> command_and_machine list wm_action" where
  "retain_commands [] = sret []"
| "retain_commands (c # cs) =
     sbind (command_cancelled c) (\<lambda>cancelled.
     sbind (retain_commands cs) (\<lambda>kept. sret (if cancelled then kept else c # kept)))"

definition prepare_command :: "engine_env \<Rightarrow> command_and_machine \<Rightarrow> unit wm_action" where
  "prepare_command env c =
     sbind (command_cancelled c) (\<lambda>cancelled.
     if cancelled then sret ()
     else
       sthen (case cm_command c of
                RealCommand cmd \<Rightarrow>
                  sbind (machine_run (cm_machine c)
                           (\<lambda>m. machines_handle_command (env_x env) m (proto_command_type cmd)))
                  (\<lambda>machine_responses.
                   process_machine_responses env (cm_machine c) machine_responses)
              | FakeLocalActivityMarker _ \<Rightarrow> sret ())
       (smod (\<lambda>s. s\<lparr>wm_commands := wm_commands s @ [c]\<rparr>)))"

text \<open>
  The loop takes from the front of the queue, to which the responses of machines might append.  No
  machine answers a command with anything, so it ends.
\<close>

lemma machine_state: "machine k s = (r, s') \<Longrightarrow> s' = s"
  by (auto simp: machine_def split: option.splits)

lemma command_cancelled_state: "command_cancelled c s = (r, s') \<Longrightarrow> s' = s"
  by (auto simp: command_cancelled_def action_defs machine_def split: option.splits outcome.splits)

lemma command_cancelled_commands [simp]:
  "fst (command_cancelled c (s\<lparr>wm_commands := cs\<rparr>)) = fst (command_cancelled c s)"
  "fst (command_cancelled c (s\<lparr>wm_current_wf_task_commands := cs\<rparr>)) = fst (command_cancelled c s)"
  by (auto simp: command_cancelled_def machine_def action_defs split: option.splits outcome.splits)

lemma process_no_responses:
  "process_machine_responses env k [] s = (Ok u, s') \<Longrightarrow> s' = s"
  by (auto simp: process_machine_responses_def numeral_3_eq_3 action_defs machine_def
      split: option.splits)

lemma acknowledge_queue:
  assumes "machine_run k (\<lambda>m. machines_handle_command x m ct) s = (Ok rs, s1)"
    and "process_machine_responses env k rs s1 = (Ok u, s')"
  shows "wm_current_wf_task_commands s' = wm_current_wf_task_commands s \<and>
    wm_commands s' = wm_commands s \<and> fst (command_cancelled c s') = fst (command_cancelled c s)"
proof -
  from assms(1) obtain m m' where m: "map_of (wm_all_machines s) k = Some m"
    "machines_handle_command x (with_flags (wm_observed_internal_flags s) m) ct = (Ok rs, m')"
    and s1: "s1 = s\<lparr>wm_all_machines := AList.update k m' (wm_all_machines s),
          wm_observed_internal_flags := flags_of (wm_observed_internal_flags s) m'\<rparr>"
    by (auto simp: machine_run_def split: option.splits prod.splits)
  from assms(2) handle_command_silent [OF m(2)] have "s' = s1" by (auto dest: process_no_responses)
  with s1 m(1) handle_command_cancelled [OF m(2)] show ?thesis
    by (auto simp: command_cancelled_def machine_def action_defs update_conv'
        split: option.splits outcome.splits)
qed

lemma prepare_command_queues:
  assumes "prepare_command env c s = (Ok u, s')"
  shows "wm_current_wf_task_commands s' = wm_current_wf_task_commands s \<and>
    wm_commands s' = wm_commands s @ (if fst (command_cancelled c s) = Ok False then [c] else []) \<and>
    fst (command_cancelled d s') = fst (command_cancelled d s)"
proof -
  from assms obtain b where b: "command_cancelled c s = (Ok b, s)"
    by (auto simp: prepare_command_def sbind_def split: prod.splits outcome.splits
        dest: command_cancelled_state)
  show ?thesis
  proof (cases b)
    case False
    with assms b show ?thesis
      by (cases "cm_command c")
        (auto simp: prepare_command_def action_defs command_cancelled_commands
          split: prod.splits outcome.splits dest!: acknowledge_queue [where c = d])
  qed (use assms b in \<open>auto simp: prepare_command_def action_defs\<close>)
qed

lemma prepare_command_queue:
  "prepare_command env c s = (Ok u, s') \<Longrightarrow>
   wm_current_wf_task_commands s' = wm_current_wf_task_commands s"
  using prepare_command_queues by blast

function prepare_loop :: "engine_env \<Rightarrow> unit wm_action" where
  "prepare_loop env s =
     (case wm_current_wf_task_commands s of
        [] \<Rightarrow> (Ok (), s)
      | c # cs \<Rightarrow>
          (case prepare_command env c (s\<lparr>wm_current_wf_task_commands := cs\<rparr>) of
             (Ok _, s') \<Rightarrow> prepare_loop env s'
           | (Err e, s') \<Rightarrow> (Err e, s')
           | (Panic p, s') \<Rightarrow> (Panic p, s')))"
  by pat_completeness auto
termination
  by (relation "measure (\<lambda>(env, s). length (wm_current_wf_task_commands s))")
    (auto dest: prepare_command_queue [OF sym])

declare prepare_loop.simps [simp del]

definition prepare_commands :: "engine_env \<Rightarrow> unit wm_action" where
  "prepare_commands env =
     sbind (sget wm_commands) (\<lambda>cs.
     sbind (retain_commands cs) (\<lambda>kept.
     sthen (smod (\<lambda>s. s\<lparr>wm_commands := kept\<rparr>)) (prepare_loop env)))"

definition iterate_machines :: "engine_env \<Rightarrow> unit wm_action" where
  "iterate_machines env =
     sbind (sget (\<lambda>s. fetch_workflow_iteration_output (wm_drive_me s))) (\<lambda>(results, d).
     sthen (smod (\<lambda>s. s\<lparr>wm_drive_me := d\<rparr>))
     (sthen (handle_driven_results env results) (prepare_commands env)))"

section \<open>Events\<close>

definition submachine_handle_event ::
  "engine_env \<Rightarrow> machine_key \<Rightarrow> hist_event_data \<Rightarrow> unit wm_action" where
  "submachine_handle_event env sm event =
     sbind (machine_run sm (\<lambda>m. machines_handle_event (env_x env) m event)) (\<lambda>machine_responses.
     process_machine_responses env sm machine_responses)"

definition handle_protocol_message ::
  "engine_env \<Rightarrow> incoming_protocol_message \<Rightarrow> unit wm_action" where
  "handle_protocol_message env message =
     (let err = Fatal ''Update request messages must contain an event sequencing id! This is a server bug.'' in
      case ipm_sequencing_id message of
        Some (SeqEventId seq_id) \<Rightarrow>
          sbind (sget (\<lambda>s. upd_init (ipm_id message) (ipm_protocol_instance_id message) seq_id
                    (ipm_body message) (wm_replaying s))) (\<lambda>um.
          sbind (slift um) (\<lambda>(m, response).
          sbind (add_new_protocol_machine (UpdateMachine m) (ipm_protocol_instance_id message)) (\<lambda>mk.
          process_machine_responses env mk [response])))
      | _ \<Rightarrow> serr err)"

definition skip_one_or_two_events :: "history_event option \<Rightarrow> event_handling_outcome outcome" where
  "skip_one_or_two_events next_event =
     Ok (SkipEvent
       (case Option.bind next_event he_attributes of
          Some (UpsertWorkflowSearchAttributesEventAttributes (Some sa)) \<Rightarrow>
            contains_key sa VERSION_SEARCH_ATTR_KEY
        | _ \<Rightarrow> False))"

definition patch_marker_handling ::
  "externals \<Rightarrow> history_event \<Rightarrow> machines option \<Rightarrow> history_event option \<Rightarrow>
   event_handling_outcome outcome" where
  "patch_marker_handling x event mach next_event =
     (let patch_machine = (case mach of Some (PatchMachine pm) \<Rightarrow> Some pm | _ \<Rightarrow> None) in
      case get_patch_marker_details x event of
        Some (patch_name, deprecated) \<Rightarrow>
          (case patch_machine of
             Some pm \<Rightarrow>
               if \<not> matches_patch pm patch_name \<and> deprecated
               then skip_one_or_two_events next_event else Ok Normal
           | None \<Rightarrow>
               if deprecated then skip_one_or_two_events next_event
               else Err (Nondeterminism ''Non-deprecated patch marker encountered, but there is no corresponding change command!''))
      | None \<Rightarrow> if patch_machine \<noteq> None then Ok SkipCommand else Ok Normal)"

text \<open>\<open>self.commands.front().map(|mk| self.machine(mk.machine))\<close>\<close>

definition front_machine :: "machines option wm_action" where
  "front_machine = (\<lambda>s.
     case wm_commands s of
       [] \<Rightarrow> (Ok None, s)
     | c # _ \<Rightarrow> sbind (machine (cm_machine c)) (\<lambda>m. sret (Some m)) s)"

definition pop_command :: "command_and_machine option wm_action" where
  "pop_command = (\<lambda>s.
     case wm_commands s of
       [] \<Rightarrow> (Ok None, s)
     | c # cs \<Rightarrow> (Ok (Some c), s\<lparr>wm_commands := cs\<rparr>))"

text \<open>
  One turn of the loop of \<open>handle_command_event\<close>: it goes on (\<open>None\<close>), the call returns an outcome,
  or the command that meets the event is found and its machine fed the event.
\<close>

definition command_turn ::
  "engine_env \<Rightarrow> hist_event_data \<Rightarrow> history_event option \<Rightarrow>
   (event_handling_outcome + command_and_machine) option wm_action" where
  "command_turn env event_dat next_event =
     sbind front_machine (\<lambda>maybe_machine.
     sbind (slift (patch_marker_handling (env_x env) (hed_event event_dat) maybe_machine next_event))
       (\<lambda>eho.
     case eho of
       SkipCommand \<Rightarrow> sthen pop_command (sret None)
     | SkipEvent b \<Rightarrow> sret (Some (Inl (SkipEvent b)))
     | Normal \<Rightarrow>
         sbind pop_command (\<lambda>maybe_command.
         case maybe_command of
           None \<Rightarrow> serr (Nondeterminism ''No command scheduled for event'')
         | Some command \<Rightarrow>
             sbind (command_cancelled command) (\<lambda>canceled_before_sent.
             if canceled_before_sent then sret None
             else sthen (submachine_handle_event env (cm_machine command) event_dat)
                    (sret (Some (Inr command)))))))"

lemma front_machine_state: "front_machine s = (r, s') \<Longrightarrow> s' = s"
  by (auto simp: front_machine_def action_defs dest: machine_state
      split: list.splits prod.splits outcome.splits)

lemma patch_skip_front:
  assumes "front_machine s = (Ok mach, s1)" "patch_marker_handling x e mach nx = Ok SkipCommand"
  shows "wm_commands s \<noteq> []"
  using assms
  by (auto simp: front_machine_def sret_def patch_marker_handling_def skip_one_or_two_events_def
      split: list.splits option.splits if_splits)

lemma pop_command_cases:
  assumes "pop_command s = (r, s')"
  obtains "wm_commands s = []" "r = Ok None" "s' = s"
  | c cs where "wm_commands s = c # cs" "r = Ok (Some c)" "s' = s\<lparr>wm_commands := cs\<rparr>"
  using assms by (cases "wm_commands s") (auto simp: pop_command_def)

lemma command_turn_pops:
  assumes "command_turn env ed nx s = (Ok None, s')"
  shows "length (wm_commands s') < length (wm_commands s)"
proof -
  from assms obtain mach eho where f: "front_machine s = (Ok mach, s)"
    and p: "patch_marker_handling (env_x env) (hed_event ed) mach nx = Ok eho"
    by (auto simp: command_turn_def sbind_def slift_def split: prod.splits outcome.splits
        dest: front_machine_state)
  show ?thesis
  proof (cases eho)
    case SkipCommand
    with patch_skip_front [OF f, of "env_x env"] p have "wm_commands s \<noteq> []" by simp
    with assms f p SkipCommand show ?thesis
      by (auto simp: command_turn_def action_defs elim: pop_command_cases
          split: prod.splits outcome.splits)
  next
    case Normal
    with assms f p show ?thesis
      by (auto simp: command_turn_def action_defs elim!: pop_command_cases
          split: prod.splits outcome.splits option.splits if_splits dest: command_cancelled_state)
  qed (use assms f p in \<open>auto simp: command_turn_def action_defs\<close>)
qed

function command_loop ::
  "engine_env \<Rightarrow> hist_event_data \<Rightarrow> history_event option \<Rightarrow>
   (event_handling_outcome + command_and_machine) wm_action" where
  "command_loop env event_dat next_event s =
     (case command_turn env event_dat next_event s of
        (Ok None, s') \<Rightarrow> command_loop env event_dat next_event s'
      | (Ok (Some r), s') \<Rightarrow> (Ok r, s')
      | (Err e, s') \<Rightarrow> (Err e, s')
      | (Panic p, s') \<Rightarrow> (Panic p, s'))"
  by pat_completeness auto
termination
  by (relation "measure (\<lambda>(env, ed, nx, s). length (wm_commands s))")
    (auto dest: command_turn_pops [OF sym])

declare command_loop.simps [simp del]

text \<open>A local activity marker that the machine waits for goes to it directly.\<close>

definition local_activity_marker :: "engine_env \<Rightarrow> hist_event_data \<Rightarrow> bool wm_action" where
  "local_activity_marker env event_dat =
     (if is_local_activity_marker (hed_event event_dat) then
        (case extract_local_activity_marker_data (env_x env) (hed_event event_dat) of
           None \<Rightarrow> serr (Fatal ''Local activity marker was unparsable'')
         | Some deets \<Rightarrow>
             sbind (get_machine_key (IdLocalActivity (lmd_seq deets))) (\<lambda>mkey.
             sbind (machine mkey) (\<lambda>m.
             case m of
               LocalActivityMachine lam \<Rightarrow>
                 sbind (slift (marker_should_get_special_handling lam)) (\<lambda>special.
                 if special then sthen (submachine_handle_event env mkey event_dat) (sret True)
                 else sret False)
             | _ \<Rightarrow> serr (Fatal ''Encountered local activity marker but the associated machine was of the wrong type!''))))
      else sret False)"

definition handle_command_event ::
  "engine_env \<Rightarrow> hist_event_data \<Rightarrow> history_event option \<Rightarrow> event_handling_outcome wm_action" where
  "handle_command_event env event_dat next_event =
     sbind (local_activity_marker env event_dat) (\<lambda>handled.
     if handled then sret Normal
     else
       sbind (command_loop env event_dat next_event) (\<lambda>r.
       case r of
         Inl eho \<Rightarrow> sret eho
       | Inr consumed_cmd \<Rightarrow>
           sbind (machine (cm_machine consumed_cmd)) (\<lambda>m.
           sbind (slift (machines_is_final_state m)) (\<lambda>final.
           sthen (if final then sret ()
                  else smod (\<lambda>s. s\<lparr>wm_machines_by_event_id :=
                         map_insert (he_event_id (hed_event event_dat)) (cm_machine consumed_cmd)
                           (wm_machines_by_event_id s)\<rparr>))
           (sret Normal)))))"

text \<open>A signal or a cancellation without its attributes is ignored.\<close>

definition handle_non_stateful_event :: "engine_env \<Rightarrow> hist_event_data \<Rightarrow> unit wm_action" where
  "handle_non_stateful_event env event_dat =
     (let event = hed_event event_dat; x = env_x env in
      case event_type_try_from (he_event_type event) of
        Some ET_WorkflowExecutionStarted \<Rightarrow>
          (case attrs_workflow_execution_started event of
             None \<Rightarrow> serr (Fatal ''WorkflowExecutionStarted event did not have appropriate attributes'')
           | Some attrs \<Rightarrow>
               sthen (case he_event_time event of
                        None \<Rightarrow> sret ()
                      | Some st \<Rightarrow>
                          (case x_systime x st of
                             None \<Rightarrow> serr (Fatal ''Could not decode timestamp'')
                           | Some as_systime \<Rightarrow>
                               sthen (smod (\<lambda>s. s\<lparr>wm_workflow_start_time := Some as_systime\<rparr>))
                               (set_current_time as_systime)))
               (smod (\<lambda>s. s\<lparr>wm_drive_me :=
                  dw_start x (wm_workflow_id s)
                    (str_to_randomness_seed x (wes_original_execution_run_id attrs))
                    (opt_default timestamp_default (he_event_time event)) attrs (wm_drive_me s)\<rparr>)))
      | Some ET_WorkflowTaskScheduled \<Rightarrow>
          sbind (sget wm_next_started_event_id) (\<lambda>nid.
          sbind (slot_insert (WorkflowTaskMachine (wft_new nid))) (\<lambda>key.
          sthen (submachine_handle_event env key event_dat)
          (smod (\<lambda>s. s\<lparr>wm_machines_by_event_id :=
             map_insert (he_event_id event) key (wm_machines_by_event_id s)\<rparr>))))
      | Some ET_WorkflowExecutionSignaled \<Rightarrow>
          (case he_attributes event of
             Some (WorkflowExecutionSignaledEventAttributes attrs) \<Rightarrow>
               send_wf_job (SignalWorkflow (signal_workflow_from attrs))
           | _ \<Rightarrow> sret ())
      | Some ET_WorkflowExecutionCancelRequested \<Rightarrow>
          (case he_attributes event of
             Some (WorkflowExecutionCancelRequestedEventAttributes cause) \<Rightarrow>
               send_wf_job (CancelWorkflow_job cause)
           | _ \<Rightarrow> sret ())
      | _ \<Rightarrow> serr (Fatal ''The event is not a non-stateful event, but we tried to handle it as one''))"

text \<open>\<open>u64::try_from(..).unwrap_or_default()\<close>\<close>

definition u64_or_default :: "int \<Rightarrow> u64" where
  "u64_or_default n = (if n \<ge> 0 then word_of_int n else 0)"

definition handle_stateful_or_not ::
  "engine_env \<Rightarrow> hist_event_data \<Rightarrow> event_handling_outcome wm_action" where
  "handle_stateful_or_not env event_dat =
     (let event = hed_event event_dat in
      sthen (case attrs_workflow_task_started event of
               None \<Rightarrow> sret ()
             | Some attrs \<Rightarrow>
                 smod (\<lambda>s. s\<lparr>wm_history_size_bytes := u64_or_default (wts_history_size_bytes attrs),
                            wm_continue_as_new_suggested := wts_suggest_continue_as_new attrs\<rparr>))
      (sthen (case get_initial_command_event_id event of
                Some initial_cmd_id \<Rightarrow>
                  sbind (sget (\<lambda>s. map_of (wm_machines_by_event_id s) initial_cmd_id)) (\<lambda>found.
                  case found of
                    None \<Rightarrow> serr (Nondeterminism ''During event handling, this event had an initial command ID but we could not find a matching command for it'')
                  | Some mkey \<Rightarrow> submachine_handle_event env mkey event_dat)
              | None \<Rightarrow> handle_non_stateful_event env event_dat)
      (sret Normal)))"

definition wm_handle_event ::
  "engine_env \<Rightarrow> hist_event_data \<Rightarrow> history_event option \<Rightarrow> event_handling_outcome wm_action" where
  "wm_handle_event env event_dat next_event =
     (let event = hed_event event_dat in
      sthen (if is_final_wf_execution_event event
             then smod (\<lambda>s. s\<lparr>wm_have_seen_terminal_event := True\<rparr>) else sret ())
      (if event_type_of event \<in> {ET_WorkflowExecutionTerminated, ET_WorkflowExecutionTimedOut} then
         (let are_more_events =
                (next_event \<noteq> None \<or> \<not> hed_current_task_is_last_in_history event_dat)
          in if are_more_events then
               serr (Fatal ''Machines were fed a history which has an event after workflow execution was terminated!'')
             else sret Normal)
       else if event_type_of event = ET_Unspecified \<or> he_attributes event = None then
         (if \<not> he_worker_may_ignore event then
            serr (Fatal ''Event type is unspecified! This history is invalid.'')
          else sret (SkipEvent False))
       else if is_command_event event then handle_command_event env event_dat next_event
       else handle_stateful_or_not env event_dat))"

section \<open>Applying a workflow task\<close>

definition apply_wft_complete_data :: "wft_completed_attrs \<Rightarrow> unit wm_action" where
  "apply_wft_complete_data wtc =
     smod (\<lambda>s. s\<lparr>wm_observed_internal_flags := add_from_complete (wm_observed_internal_flags s) wtc,
       wm_current_wft_build_id :=
         (case wtc_worker_build_id wtc of
            Some bid \<Rightarrow> Some bid
          | None \<Rightarrow> wm_current_wft_build_id s)\<rparr>)"

text \<open>The completed tasks in the sequence, and the next one behind its last event.\<close>

fun apply_completed_tasks :: "history_event list \<Rightarrow> unit wm_action" where
  "apply_completed_tasks [] = sret ()"
| "apply_completed_tasks (event # rest) =
     sthen (case attrs_workflow_task_completed event of
              Some wtc \<Rightarrow> apply_wft_complete_data wtc | None \<Rightarrow> sret ())
     (sthen (if rest = [] then
               sbind (sget (\<lambda>s. peek_next_wft_completed (wm_last_history_from_server s)
                         (he_event_id event))) (\<lambda>next.
               case next of Some wtc \<Rightarrow> apply_wft_complete_data wtc | None \<Rightarrow> sret ())
             else sret ())
     (apply_completed_tasks rest))"

text \<open>Messages that are due before the event with the given id is handled.\<close>

definition take_processable_msgs :: "event_id \<Rightarrow> incoming_protocol_message list wm_action" where
  "take_processable_msgs for_event_id = (\<lambda>s.
     let due = (\<lambda>m. case processable_after_event_id m of None \<Rightarrow> False | Some i \<Rightarrow> i \<le> for_event_id) in
     (Ok (filter due (wm_protocol_msgs s)),
      s\<lparr>wm_protocol_msgs := filter (\<lambda>m. \<not> due m) (wm_protocol_msgs s)\<rparr>))"

text \<open>
  One event of the loop.  \<open>do_handle_event\<close> and the messages of admitted updates are its local
  variables; the result is their new values.
\<close>

type_synonym admitted = "(string \<times> incoming_protocol_message) list"

definition end_of_replay :: "bool \<Rightarrow> history_event \<Rightarrow> unit wm_action" where
  "end_of_replay has_final_event event =
     smod (\<lambda>s.
       if wm_replaying s \<and> has_final_event \<and>
          he_event_id event > hu_previous_wft_started_id (wm_last_history_from_server s) \<and>
          event_type_of event \<noteq> ET_WorkflowTaskCompleted \<and> \<not> is_command_event event
       then s\<lparr>wm_replaying := False\<rparr> else s)"

definition update_admitted ::
  "history_event \<Rightarrow> bool \<Rightarrow> admitted \<Rightarrow> (bool \<times> admitted) wm_action" where
  "update_admitted event do_handle_event messages =
     (case he_attributes event of
        Some (WorkflowExecutionUpdateAdmittedEventAttributes _) \<Rightarrow>
          (case incoming_message_from_event event of
             Inl e \<Rightarrow> serr (Fatal ''Failed to create protocol message from WorkflowExecutionUpdateAdmittedEvent'')
           | Inr msg \<Rightarrow>
               sbind (sget wm_replaying) (\<lambda>replaying.
               if replaying then
                 sret (False, map_insert (ipm_protocol_instance_id msg) msg messages)
               else
                 sthen (smod (\<lambda>s. s\<lparr>wm_protocol_msgs := wm_protocol_msgs s @ [msg]\<rparr>))
                 (sret (False, messages))))
      | _ \<Rightarrow> sret (do_handle_event, messages))"

definition apply_event ::
  "engine_env \<Rightarrow> bool \<Rightarrow> history_event \<Rightarrow> history_event option \<Rightarrow> bool \<times> admitted \<Rightarrow>
   (bool \<times> admitted) wm_action" where
  "apply_event env has_final_event event next_event vars =
     (let eid = he_event_id event in
      sbind (sget (\<lambda>s. eid = wm_last_processed_event s + 1)) (\<lambda>in_order.
      if \<not> in_order then serr (Fatal ''History is out of order.'')
      else
        sthen (end_of_replay has_final_event event)
        (sbind (update_admitted event (fst vars) (snd vars)) (\<lambda>(do_handle_event, messages).
        sbind (take_processable_msgs (eid - 1)) (\<lambda>processable_msgs.
        sthen (sfor (handle_protocol_message env) processable_msgs)
        (sbind (if do_handle_event then
                  sbind (sget wm_replaying) (\<lambda>replaying.
                  sbind (wm_handle_event env
                     \<lparr>hed_event = event, hed_replaying = replaying,
                      hed_current_task_is_last_in_history = has_final_event\<rparr> next_event) (\<lambda>eho.
                  sret (eho \<noteq> SkipEvent True)))
                else sret True) (\<lambda>do_handle_next.
        sthen (smod (\<lambda>s. s\<lparr>wm_last_processed_event := eid\<rparr>))
        (sret (do_handle_next, messages)))))))))"

fun apply_events ::
  "engine_env \<Rightarrow> bool \<Rightarrow> history_event list \<Rightarrow> bool \<times> admitted \<Rightarrow> admitted wm_action" where
  "apply_events env has_final_event [] vars = sret (snd vars)"
| "apply_events env has_final_event (event # history) vars =
     sbind (apply_event env has_final_event event
              (case history of [] \<Rightarrow> None | e # _ \<Rightarrow> Some e) vars)
     (apply_events env has_final_event history)"

text \<open>
  Looking ahead at the next sequence for markers and accepted updates.  What needs the machines is
  delayed until the scan is over.
\<close>

datatype delayed_action = WakeLa machine_key complete_la_data
  | DelayedMessage incoming_protocol_message

definition scan_event ::
  "externals \<Rightarrow> history_event \<Rightarrow> admitted \<Rightarrow> (delayed_action list \<times> admitted) wm_action" where
  "scan_event x e messages =
     (case get_patch_marker_details x e of
        Some (patch_id, _) \<Rightarrow>
          sthen (smod (\<lambda>s. s\<lparr>wm_encountered_patch_markers :=
                   map_insert patch_id False (wm_encountered_patch_markers s)\<rparr>))
          (sthen (send_wf_job (NotifyHasPatch patch_id)) (sret ([], messages)))
      | None \<Rightarrow>
          if is_local_activity_marker e then
            (case into_local_activity_marker_details x e of
               None \<Rightarrow> serr (Fatal ''Local activity marker was unparsable'')
             | Some la_dat \<Rightarrow>
                 sbind (sget (\<lambda>s. map_of (wm_id_to_machine s)
                           (IdLocalActivity (lmd_seq (cla_marker_dat la_dat))))) (\<lambda>found.
                 case found of
                   Some mk \<Rightarrow> sret ([WakeLa mk la_dat], messages)
                 | None \<Rightarrow>
                     sthen (update_local_activities (insert_peeked_marker x la_dat))
                     (sret ([], messages))))
          else
            (case he_attributes e of
               Some (WorkflowExecutionUpdateAcceptedEventAttributes atts) \<Rightarrow>
                 (case map_of messages (uac_protocol_instance_id atts) of
                    Some msg \<Rightarrow>
                      sret ([DelayedMessage msg], map_remove (uac_protocol_instance_id atts) messages)
                  | None \<Rightarrow>
                      (case incoming_message_from_event e of
                         Inl err \<Rightarrow> serr (Fatal ''Failed to create protocol message from WorkflowExecutionUpdateAcceptedEvent'')
                       | Inr msg \<Rightarrow> sret ([DelayedMessage msg], messages)))
             | _ \<Rightarrow> sret ([], messages)))"

fun scan_ahead :: "externals \<Rightarrow> history_event list \<Rightarrow> admitted \<Rightarrow> delayed_action list wm_action" where
  "scan_ahead x [] messages = sret []"
| "scan_ahead x (e # es) messages =
     sbind (scan_event x e messages) (\<lambda>(actions, messages').
     sbind (scan_ahead x es messages') (\<lambda>more. sret (actions @ more)))"

definition delayed :: "engine_env \<Rightarrow> delayed_action \<Rightarrow> unit wm_action" where
  "delayed env action =
     (case action of
        WakeLa mk la_dat \<Rightarrow>
          sbind (machine mk) (\<lambda>m.
          case m of
            LocalActivityMachine lam \<Rightarrow>
              sbind (slift (will_accept_resolve_marker lam)) (\<lambda>accepts.
              if accepts then
                sbind (machine_run mk (on_local_activity (Ok [])
                         (\<lambda>lam. la_try_resolve_with_dat (env_x env) lam
                            (resolve_dat_of_marker (env_x env) la_dat)))) (\<lambda>resps.
                process_machine_responses env mk resps)
              else update_local_activities (insert_peeked_marker (env_x env) la_dat))
          | _ \<Rightarrow> sret ())
      | DelayedMessage pm \<Rightarrow> handle_protocol_message env pm)"

definition take_sequence :: "next_wft wm_action" where
  "take_sequence = (\<lambda>s.
     case take_next_wft_sequence (wm_last_history_from_server s) (wm_current_started_event_id s) of
       (r, h) \<Rightarrow> (r, s\<lparr>wm_last_history_from_server := h\<rparr>))"

definition next_events :: "next_wft \<Rightarrow> (history_event list \<times> bool) wm_action" where
  "next_events n =
     (case n of
        ReplayOver \<Rightarrow> sret ([], True)
      | WFT evts has_final_event \<Rightarrow>
          sget (\<lambda>s. (filter (\<lambda>e. he_event_id e > wm_last_processed_event s) evts, has_final_event))
      | NeedFetch \<Rightarrow> serr (Fatal ''Need to fetch history events to continue applying workflow task, but this should be prevented ahead of time! This is a Core SDK bug.''))"

definition apply_next_wft_from_history :: "engine_env \<Rightarrow> nat wm_action" where
  "apply_next_wft_from_history env =
     sbind (sget wm_have_seen_terminal_event) (\<lambda>terminal.
     if terminal then sthen (smod (\<lambda>s. s\<lparr>wm_replaying := False\<rparr>)) (sret 0)
     else
       sbind (sget wm_current_started_event_id) (\<lambda>last_handled_wft_started_id.
       sbind take_sequence (\<lambda>n.
       sbind (next_events n) (\<lambda>(events, has_final_event).
       sthen (apply_completed_tasks events)
       (sthen (if events = [] then smod (\<lambda>s. s\<lparr>wm_replaying := False\<rparr>) else sret ())
       (sthen (if events \<noteq> [] \<and> event_type_try_from (he_event_type (last events)) = Some ET_WorkflowTaskStarted
               then smod (\<lambda>s. s\<lparr>wm_next_started_event_id := he_event_id (last events)\<rparr>)
               else sret ())
       (sbind (apply_events env has_final_event events (True, [])) (\<lambda>messages.
       sbind (sget (\<lambda>s. peek_next_wft_sequence (wm_last_history_from_server s)
                 last_handled_wft_started_id)) (\<lambda>ahead.
       sbind (scan_ahead (env_x env) ahead messages) (\<lambda>delayed_actions.
       sthen (sfor (delayed env) delayed_actions)
       (sret (length events))))))))))))"

definition new_history_from_server :: "engine_env \<Rightarrow> history_update \<Rightarrow> unit wm_action" where
  "new_history_from_server env update =
     sthen (smod (\<lambda>s. s\<lparr>wm_last_history_from_server := update,
                       wm_replaying := (hu_previous_wft_started_id update > 0)\<rparr>))
     (sthen (apply_next_wft_from_history env) (sret ()))"

text \<open>\<open>dbg_panic!\<close> panics in debug builds only; the model is the release build.\<close>

definition new_work_from_server ::
  "engine_env \<Rightarrow> history_update \<Rightarrow> incoming_protocol_message list \<Rightarrow> unit wm_action" where
  "new_work_from_server env update protocol_messages =
     sthen (smod (\<lambda>s. s\<lparr>wm_protocol_msgs := protocol_messages\<rparr>))
     (new_history_from_server env update)"

definition ready_to_apply_next_wft :: "workflow_machines \<Rightarrow> bool" where
  "ready_to_apply_next_wft s =
     can_take_next_wft_sequence (wm_last_history_from_server s) (wm_current_started_event_id s)"

section \<open>Local resolutions and what is sent out\<close>

record local_activity_resolution =
  lar_seq :: u32
  lar_result :: la_execution_result
  lar_runtime :: duration
  lar_attempt :: u32
  lar_backoff :: "duration_pb option"
  lar_original_schedule_time :: "system_time option"

definition local_resolution :: "engine_env \<Rightarrow> local_activity_resolution \<Rightarrow> bool wm_action" where
  "local_resolution env r =
     sbind (get_machine_key (IdLocalActivity (lar_seq r))) (\<lambda>mk.
     sbind (machine_run mk (on_local_activity
              (Err (Nondeterminism ''Command matching activity existed but was not a local activity!''))
              (\<lambda>lam. la_try_resolve (env_x env) lam (lar_result r) (lar_runtime r) (lar_attempt r)
                 (lar_backoff r) (lar_original_schedule_time r)))) (\<lambda>resps.
     sthen (process_machine_responses env mk resps)
     (sthen (update_local_activities (done_executing (lar_seq r)))
     (sret (resps \<noteq> [])))))"

definition drain_queued_local_activities :: "engine_env \<Rightarrow> local_act_request list wm_action" where
  "drain_queued_local_activities env = (\<lambda>s.
     case take_all_reqs (env_now env) (wm_workflow_type s) (wm_workflow_id s) (wm_run_id s)
            (wm_local_activity_data s) of
       (reqs, d) \<Rightarrow> (Ok reqs, s\<lparr>wm_local_activity_data := d\<rparr>))"

definition real_command :: "command_and_machine \<Rightarrow> proto_command list wm_action" where
  "real_command c =
     sbind (machine (cm_machine c)) (\<lambda>m.
     sbind (slift (machines_is_final_state m)) (\<lambda>final.
     sret (if final then []
           else case cm_command c of RealCommand cmd \<Rightarrow> [cmd] | FakeLocalActivityMarker _ \<Rightarrow> [])))"

definition get_commands :: "proto_command list wm_action" where
  "get_commands =
     sthen (smod (\<lambda>s. s\<lparr>wm_observed_internal_flags :=
              write_all_known (wm_observed_internal_flags s)\<rparr>))
     (sbind (sget wm_commands) (\<lambda>cs.
      sbind (smap real_command cs) (\<lambda>ls. sret (concat ls))))"

definition has_pending_jobs :: "workflow_machines \<Rightarrow> bool" where
  "has_pending_jobs s \<longleftrightarrow> dw_outgoing_jobs (wm_drive_me s) \<noteq> []"

definition has_pending_la_resolutions :: "workflow_machines \<Rightarrow> bool" where
  "has_pending_la_resolutions s =
     list_ex is_local_activity_resolution (dw_outgoing_jobs (wm_drive_me s))"

definition get_wf_activation :: "externals \<Rightarrow> workflow_activation wm_action" where
  "get_wf_activation x = (\<lambda>s.
     case drain_jobs (wm_drive_me s) of
       (jobs, d) \<Rightarrow>
         (let all_query = list_all is_query_job jobs;
              is_replaying = (wm_replaying s \<or> all_query);
              build_id = cfg_worker_build_id (wm_worker_config s)
          in (Ok \<lparr>wa_run_id = wm_run_id s,
                  wa_timestamp = map_option (x_timestamp x) (wm_current_wf_time s),
                  wa_is_replaying = is_replaying,
                  wa_history_length = word_of_int (wm_last_processed_event s),
                  wa_jobs = jobs,
                  wa_available_internal_flags = all_lang (wm_observed_internal_flags s),
                  wa_history_size_bytes = wm_history_size_bytes s,
                  wa_continue_as_new_suggested = wm_continue_as_new_suggested s,
                  wa_build_id_for_current_task =
                    (if is_replaying then opt_default [] (wm_current_wft_build_id s) else build_id)\<rparr>,
              s\<lparr>wm_drive_me := d,
                wm_current_wft_build_id :=
                  (if is_replaying then wm_current_wft_build_id s else Some build_id)\<rparr>)))"

definition get_metadata_for_wft_complete :: "wft_completed_metadata wm_action" where
  "get_metadata_for_wft_complete = (\<lambda>s.
     case gather_for_wft_complete (wm_observed_internal_flags s) of
       (metadata, flags) \<Rightarrow>
         (Ok metadata,
          s\<lparr>wm_observed_internal_flags := flags,
            wm_current_wft_build_id :=
              (if cfg_worker_build_id (wm_worker_config s) \<noteq> []
               then Some (cfg_worker_build_id (wm_worker_config s))
               else wm_current_wft_build_id s)\<rparr>))"

definition wm_add_lang_used_flags :: "u32 list \<Rightarrow> unit wm_action" where
  "wm_add_lang_used_flags flags =
     smod (\<lambda>s. s\<lparr>wm_observed_internal_flags := add_lang_used (wm_observed_internal_flags s) flags\<rparr>)"

definition try_use_flag :: "core_internal_flags \<Rightarrow> bool \<Rightarrow> bool wm_action" where
  "try_use_flag flag should_record = (\<lambda>s.
     case try_use (wm_observed_internal_flags s) flag should_record of
       (r, flags) \<Rightarrow> (Ok r, s\<lparr>wm_observed_internal_flags := flags\<rparr>))"

definition take_messages :: "protocol_message list wm_action" where
  "take_messages = (\<lambda>s. (Ok (wm_message_outbox s), s\<lparr>wm_message_outbox := []\<rparr>))"

definition reset_last_started_id :: "event_id \<Rightarrow> unit wm_action" where
  "reset_last_started_id i =
     smod (\<lambda>s.
       let last = wm_last_processed_event s - 2;
           dropped = filter (\<lambda>(mid, mkey). mid > last) (wm_machines_by_event_id s)
       in s\<lparr>wm_current_started_event_id := i, wm_last_processed_event := last,
            wm_machines_by_event_id :=
              filter (\<lambda>(mid, mkey). \<not> mid > last) (wm_machines_by_event_id s),
            wm_all_machines :=
              filter (\<lambda>(k, m). k \<notin> snd ` set dropped) (wm_all_machines s)\<rparr>)"

end
