(* ===== verification/Orchestration.thy ===== *)
theory Orchestration
  imports Workflow_Machines "HOL-Library.Sublist"
begin

text \<open>
  What holds of the orchestrator as a whole: the recursion between responses and machines ends, no
  operation panics, and the tables that relate ids, events and commands to machines stay in order.
\<close>

section \<open>Depth of the responses\<close>

text \<open>Responses whose handling runs no further machine.\<close>

definition quiet :: "machine_response list \<Rightarrow> bool" where
  "quiet rs \<longleftrightarrow>
     (\<forall>n. RequestCancelLocalActivity n \<notin> set rs) \<and> (\<forall>i t. TriggerWFTaskStarted i t \<notin> set rs)"

lemma handle_response_quiet:
  assumes "quiet rs" "r \<in> set rs"
  shows "handle_response env p k r = handle_response env q k r"
  using assms by (auto simp: handle_response_def quiet_def split: machine_response.splits)

lemma process_quiet:
  "quiet rs \<Longrightarrow> process_responses b env (Suc n) k rs s = process_responses c env (Suc m) k rs s"
  unfolding process_responses.simps
  by (intro sbind_cong sfor_cong refl) (metis handle_response_quiet)

lemma smap_all:
  assumes "smap f as s = (Ok bs, s')" and "\<And>a s b s'. f a s = (Ok b, s') \<Longrightarrow> R b"
  shows "\<forall>b \<in> set bs. R b"
  using assms(1)
proof (induction as arbitrary: s bs)
  case (Cons a as)
  then obtain b s1 bs' where b: "f a s = (Ok b, s1)" "smap f as s1 = (Ok bs', s')" "bs = b # bs'"
    by (auto simp: action_defs split: prod.splits outcome.splits)
  with Cons.IH [OF b(2)] assms(2) [OF b(1)] show ?case by simp
qed (simp add: sret_def)

lemma machine_run_result:
  assumes "machine_run k f s = (Ok a, s')"
  obtains m m' where "f m = (Ok a, m')"
  using assms by (auto simp: machine_run_def split: option.splits prod.splits)

lemma notify_quiet:
  assumes "notify_non_replay env k s = (Ok l, s')"
  shows "\<forall>p \<in> set l. quiet (snd p)"
proof -
  have "quiet rs" if "machine_run k (on_local_activity (Ok []) (encountered_non_replay_wft x)) s =
      (Ok rs, s')" for x s rs s'
    using that
  proof (rule machine_run_result)
    fix m m'
    assume "on_local_activity (Ok []) (encountered_non_replay_wft x) m = (Ok rs, m')"
    then show ?thesis
      by (cases m) (auto simp: on_local_activity_def quiet_def apsnd_eq_iff dest: la_notify_quiet)
  qed
  with assms show ?thesis
    by (auto simp: notify_non_replay_def action_defs split: prod.splits outcome.splits
        machines.splits)
qed

lemma resolve_quiet:
  assumes "machine_run k (on_local_activity (Panic p) f) s = (Ok rs, s')"
    and "\<And>lam. (\<exists>dat known. f lam = la_try_resolve_dat x lam dat known) \<or> (\<forall>rs. fst (f lam) \<noteq> Ok rs)"
  shows "quiet rs"
  using assms(1)
proof (rule machine_run_result)
  fix m m'
  assume r: "on_local_activity (Panic p) f m = (Ok rs, m')"
  then obtain lam lam' where "f lam = (Ok rs, lam')"
    by (cases m) (auto simp: on_local_activity_def apsnd_eq_iff)
  with assms(2) show ?thesis by (metis fst_conv quiet_def la_resolve_quiet)
qed

lemma la_try_resolve_cases:
  "(\<exists>dat known. la_try_resolve x lam r t a b orig = la_try_resolve_dat x lam dat known) \<or>
   (\<forall>rs. fst (la_try_resolve x lam r t a b orig) \<noteq> Ok rs)"
  unfolding la_try_resolve_def by (auto split: outcome.splits)

lemma la_try_resolve_with_dat_cases:
  "(\<exists>dat known. la_try_resolve_with_dat x lam d = la_try_resolve_dat x lam dat known) \<or>
   (\<forall>rs. fst (la_try_resolve_with_dat x lam d) \<noteq> Ok rs)"
  unfolding la_try_resolve_with_dat_def by blast

lemma task_started_depth:
  "task_started env (process_responses b env (Suc n)) i t s =
   task_started env (process_responses c env (Suc m)) i t s"
proof -
  have "sfor (\<lambda>(k, rs). process_responses b env (Suc n) k rs) (concat l) s' =
      sfor (\<lambda>(k, rs). process_responses c env (Suc m) k rs) (concat l) s'"
    if "smap (notify_non_replay env) keys s0 = (Ok l, s1)" for keys s0 s1 l s'
  proof (rule sfor_cong)
    have "\<forall>b \<in> set l. \<forall>p \<in> set b. quiet (snd p)" by (rule smap_all [OF that]) (rule notify_quiet)
    then show "(\<lambda>(k, rs). process_responses b env (Suc n) k rs) p s =
        (\<lambda>(k, rs). process_responses c env (Suc m) k rs) p s" if "p \<in> set (concat l)" for p s
      using that by (cases p) (force simp del: process_responses.simps intro!: process_quiet)
  qed
  then show ?thesis
    by (auto simp: task_started_def simp del: process_responses.simps intro!: sbind_cong)
qed

lemma request_cancel_depth:
  "request_cancel_local_activity env (process_responses b env (Suc n)) k seq s =
   request_cancel_local_activity env (process_responses c env (Suc m)) k seq s"
  unfolding request_cancel_local_activity_def Let_def
  by (auto simp del: process_responses.simps intro!: sbind_cong process_quiet split: option.splits
      elim!: resolve_quiet [where x = "env_x env", OF _ la_try_resolve_cases]
        resolve_quiet [where x = "env_x env", OF _ la_try_resolve_with_dat_cases])

lemma process_depth:
  "process_responses b env (Suc (Suc n)) k rs s = process_responses c env (Suc (Suc m)) k rs s"
proof -
  have "handle_response env (process_responses b env (Suc n)) k r s' =
      handle_response env (process_responses c env (Suc m)) k r s'" for r s'
    by (cases r) (simp_all add: handle_response_def task_started_depth [of _ b n _ _ _ c m]
        request_cancel_depth [of _ b n _ _ _ c m] del: process_responses.simps)
  then show ?thesis
    unfolding process_responses.simps(2) [of b _ "Suc n"] process_responses.simps(2) [of c _ "Suc m"]
    by (intro sbind_cong sfor_cong refl)
qed

text \<open>
  C7: Handling what machines answer always ends, and the bounded recursion of the model is the
  recursion of the code.  However deep the recursion is allowed to go from two levels on, and
  whatever a call beyond that depth would do (panic, return, change the state at will), the result
  is the same: no such call is ever made.  And the responses are handled one after another, each of
  them calling \<open>process_machine_responses\<close> again where the code does.
\<close>

theorem process_machine_responses_unfold:
  "process_responses beyond env (Suc (Suc n)) = process_machine_responses env \<and>
   process_machine_responses env smk responses =
     sthen (machine smk) (sfor (handle_response env (process_machine_responses env) smk) responses)"
proof
  have 3: "(3::nat) = Suc (Suc 1)" by simp
  have eq: "process_responses b env (Suc (Suc n)) = process_machine_responses env" for b n
    unfolding process_machine_responses_def 3 by (intro ext process_depth)
  then show "process_responses beyond env (Suc (Suc n)) = process_machine_responses env" .
  have "process_responses (process_machine_responses env) env (Suc (Suc 1)) smk responses =
      sthen (machine smk) (sfor (handle_response env (process_machine_responses env) smk) responses)"
    unfolding process_responses.simps(2) [of _ _ "Suc 1"] unfolding One_nat_def eq ..
  then show "process_machine_responses env smk responses =
      sthen (machine smk) (sfor (handle_response env (process_machine_responses env) smk) responses)"
    by (simp only: eq)
qed

section \<open>The tables of the orchestrator\<close>

definition kinds :: "(machine_key \<times> machines) list \<Rightarrow> machine_key \<rightharpoonup> machine_kind" where
  "kinds ms k = map_option machine_kind_of (map_of ms k)"

abbreviation kind_at :: "workflow_machines \<Rightarrow> machine_key \<rightharpoonup> machine_kind" where
  "kind_at s \<equiv> kinds (wm_all_machines s)"

primrec command_kind :: "command_id \<Rightarrow> machine_kind" where
  "command_kind (IdTimer n) = K_Timer"
| "command_kind (IdActivity n) = K_Activity"
| "command_kind (IdLocalActivity n) = K_LocalActivity"
| "command_kind (IdChildWorkflowStart n) = K_ChildWorkflow"
| "command_kind (IdSignalExternal n) = K_SignalExternal"
| "command_kind (IdCancelExternal n) = K_CancelExternal"
| "command_kind (IdNexusOperation n) = K_NexusOperation"

definition is_query_response :: "wf_command \<Rightarrow> bool" where
  "is_query_response c = (case wfc_variant c of QueryResponse _ \<Rightarrow> True | _ \<Rightarrow> False)"

text \<open>
  The machines are good and their keys used up; a queued command has a machine, which is no
  workflow task; an id that the language layer uses leads to a machine of its kind; a protocol
  instance leads to an update; an event leads to a machine, and a workflow task is recorded for
  one event only; requests were validated; and no query response awaits the machines.
\<close>

definition machines_wf :: "workflow_machines \<Rightarrow> bool" where
  "machines_wf s \<longleftrightarrow>
     (\<forall>k m. map_of (wm_all_machines s) k = Some m \<longrightarrow> k < wm_next_key s \<and> machine_ok m)"

definition commands_wf :: "workflow_machines \<Rightarrow> bool" where
  "commands_wf s \<longleftrightarrow>
     (\<forall>c \<in> set (wm_commands s) \<union> set (wm_current_wf_task_commands s).
        \<exists>kd. kind_at s (cm_machine c) = Some kd \<and> kd \<noteq> K_WorkflowTask)"

definition ids_wf :: "workflow_machines \<Rightarrow> bool" where
  "ids_wf s \<longleftrightarrow>
     (\<forall>(i, k) \<in> set (wm_id_to_machine s). kind_at s k = Some (command_kind i)) \<and>
     (\<forall>(i, k) \<in> set (wm_machines_by_protocol_instance_id s). kind_at s k = Some K_Update)"

definition task_entries :: "workflow_machines \<Rightarrow> (event_id \<times> machine_key) list" where
  "task_entries s =
     filter (\<lambda>p. kind_at s (snd p) = Some K_WorkflowTask) (wm_machines_by_event_id s)"

definition events_wf :: "workflow_machines \<Rightarrow> bool" where
  "events_wf s \<longleftrightarrow>
     (\<forall>p \<in> set (wm_machines_by_event_id s). kind_at s (snd p) \<noteq> None) \<and>
     distinct (map snd (task_entries s))"

definition inputs_wf :: "workflow_machines \<Rightarrow> bool" where
  "inputs_wf s \<longleftrightarrow>
     (\<forall>m \<in> set (wm_protocol_msgs s). update_request_ok (ipm_body m)) \<and>
     (\<forall>cs \<in> set (dw_incoming_commands (wm_drive_me s)). \<forall>c \<in> set cs. \<not> is_query_response c)"

definition wm_inv :: "workflow_machines \<Rightarrow> bool" where
  "wm_inv s \<longleftrightarrow> machines_wf s \<and> commands_wf s \<and> ids_wf s \<and> events_wf s \<and> inputs_wf s"

lemmas wf_defs = machines_wf_def commands_wf_def ids_wf_def events_wf_def task_entries_def
  inputs_wf_def
lemmas wm_inv_defs = wm_inv_def wf_defs

text \<open>What the invariant does not look at.\<close>

lemma wm_inv_updates [simp]:
  "wm_inv (wm_last_history_from_server_update f1 s) = wm_inv s"
  "wm_inv (wm_current_started_event_id_update f2 s) = wm_inv s"
  "wm_inv (wm_next_started_event_id_update f3 s) = wm_inv s"
  "wm_inv (wm_last_processed_event_update f4 s) = wm_inv s"
  "wm_inv (wm_replaying_update f5 s) = wm_inv s"
  "wm_inv (wm_have_seen_terminal_event_update f6 s) = wm_inv s"
  "wm_inv (wm_workflow_start_time_update f7 s) = wm_inv s"
  "wm_inv (wm_workflow_end_time_update f8 s) = wm_inv s"
  "wm_inv (wm_wft_start_time_update f9 s) = wm_inv s"
  "wm_inv (wm_current_wf_time_update f10 s) = wm_inv s"
  "wm_inv (wm_observed_internal_flags_update f11 s) = wm_inv s"
  "wm_inv (wm_history_size_bytes_update f12 s) = wm_inv s"
  "wm_inv (wm_continue_as_new_suggested_update f13 s) = wm_inv s"
  "wm_inv (wm_current_wft_build_id_update f14 s) = wm_inv s"
  "wm_inv (wm_machine_is_core_created_update f15 s) = wm_inv s"
  "wm_inv (wm_message_outbox_update f16 s) = wm_inv s"
  "wm_inv (wm_encountered_patch_markers_update f17 s) = wm_inv s"
  "wm_inv (wm_local_activity_data_update f18 s) = wm_inv s"
  by (simp_all add: wm_inv_defs)

lemma wm_inv_drive_me [simp]:
  "dw_incoming_commands d = dw_incoming_commands (wm_drive_me s) \<Longrightarrow>
   wm_inv (s\<lparr>wm_drive_me := d\<rparr>) = wm_inv s"
  by (simp add: wm_inv_defs)

section \<open>Safe actions\<close>

text \<open>
  From a state with the invariant and \<open>P\<close> the action does not panic, and on success the invariant
  holds again, all machines are still there with their kinds, and result and state satisfy \<open>Q\<close>.
  Facts about the kinds of machines are stable under all further actions.
\<close>

definition safe ::
  "(workflow_machines \<Rightarrow> bool) \<Rightarrow> 'a wm_action \<Rightarrow> ('a \<Rightarrow> workflow_machines \<Rightarrow> bool) \<Rightarrow> bool" where
  "safe P m Q \<longleftrightarrow>
     (\<forall>s0. valid (\<lambda>s. s = s0 \<and> wm_inv s \<and> P s) m
        (\<lambda>a s. wm_inv s \<and> kind_at s0 \<subseteq>\<^sub>m kind_at s \<and> Q a s))"

definition stable :: "(workflow_machines \<Rightarrow> bool) \<Rightarrow> bool" where
  "stable P \<longleftrightarrow> (\<forall>s s'. P s \<longrightarrow> kind_at s \<subseteq>\<^sub>m kind_at s' \<longrightarrow> P s')"

lemma stable_intros [intro, simp]:
  "stable (\<lambda>s. b)" "stable (\<lambda>s. kind_at s k = Some kd)" "stable (\<lambda>s. \<exists>kd. kind_at s k = Some kd \<and> R kd)"
  "stable (\<lambda>s. \<exists>kd. kind_at s k = Some kd)"
  by (auto simp: stable_def map_le_def) (metis domI)+

lemma stable_conj [intro, simp]: "stable P \<Longrightarrow> stable Q \<Longrightarrow> stable (\<lambda>s. P s \<and> Q s)"
  by (auto simp: stable_def)

lemma stable_ball [intro, simp]: "(\<And>a. stable (P a)) \<Longrightarrow> stable (\<lambda>s. \<forall>a \<in> A. P a s)"
  by (auto simp: stable_def)

lemma safeI:
  assumes "\<And>s. wm_inv s \<Longrightarrow> P s \<Longrightarrow> \<not> is_panic (fst (m s))"
    and "\<And>s a s'. wm_inv s \<Longrightarrow> P s \<Longrightarrow> m s = (Ok a, s') \<Longrightarrow>
      wm_inv s' \<and> kind_at s \<subseteq>\<^sub>m kind_at s' \<and> Q a s'"
  shows "safe P m Q"
  using assms unfolding safe_def by (auto intro!: validI)

lemma safeD:
  assumes "safe P m Q" "wm_inv s" "P s"
  shows "\<not> is_panic (fst (m s))"
    and "m s = (Ok a, s') \<Longrightarrow> wm_inv s' \<and> kind_at s \<subseteq>\<^sub>m kind_at s' \<and> Q a s'"
proof -
  have v: "valid (\<lambda>s'. s' = s \<and> wm_inv s' \<and> P s') m
      (\<lambda>a s'. wm_inv s' \<and> kind_at s \<subseteq>\<^sub>m kind_at s' \<and> Q a s')"
    using assms(1) by (simp add: safe_def)
  from assms(2,3) show "\<not> is_panic (fst (m s))" by (intro validD(1) [OF v]) simp
  from assms(2,3) show "wm_inv s' \<and> kind_at s \<subseteq>\<^sub>m kind_at s' \<and> Q a s'" if "m s = (Ok a, s')"
    using validD(2) [OF v _ that] by simp
qed

lemma safe_conseq:
  assumes "safe P m Q" "\<And>s. P' s \<Longrightarrow> P s" "\<And>a s. Q a s \<Longrightarrow> Q' a s"
  shows "safe P' m Q'"
  by (rule safeI) (use assms in \<open>blast dest: safeD\<close>)+

lemma safe_pre: "safe P m Q \<Longrightarrow> (\<And>s. P' s \<Longrightarrow> P s) \<Longrightarrow> safe P' m Q"
  by (rule safe_conseq)

lemma safe_post: "safe P m Q \<Longrightarrow> (\<And>a s. Q a s \<Longrightarrow> Q' a s) \<Longrightarrow> safe P m Q'"
  by (rule safe_conseq)

lemma safe_chain:
  assumes "safe P m Q" "\<And>a. safe (Q a) (f a) R"
  shows "safe P (sbind m f) R"
proof (rule safeI)
  fix s
  assume s: "wm_inv s" "P s"
  obtain r s1 where m: "m s = (r, s1)" by (cases "m s")
  have 1: "wm_inv s1 \<and> kind_at s \<subseteq>\<^sub>m kind_at s1 \<and> Q a s1" if "r = Ok a" for a
    using safeD(2) [OF assms(1) s] m that by auto
  show "\<not> is_panic (fst (sbind m f s))"
    using safeD(1) [OF assms(1) s] safeD(1) [OF assms(2)] 1 m by (cases r) (auto simp: sbind_def)
  show "wm_inv s' \<and> kind_at s \<subseteq>\<^sub>m kind_at s' \<and> R b s'" if b: "sbind m f s = (Ok b, s')" for b s'
  proof -
    from b m obtain a where a: "r = Ok a" "f a s1 = (Ok b, s')"
      by (cases r) (auto simp: sbind_def)
    from safeD(2) [OF assms(2) _ _ a(2)] 1 [OF a(1)] show ?thesis
      by (meson map_le_trans)
  qed
qed

lemma safe_keep:
  assumes "safe P m Q" "stable P"
  shows "safe P m (\<lambda>a s. P s \<and> Q a s)"
  by (rule safeI) (use assms in \<open>auto simp: stable_def dest: safeD\<close>)

lemma safe_bind:
  assumes "safe P m Q" "stable P" "\<And>a. safe (\<lambda>s. P s \<and> Q a s) (f a) R"
  shows "safe P (sbind m f) R"
  using safe_keep [OF assms(1,2)] assms(3) by (rule safe_chain)

lemma safe_read:
  "(\<And>s. wm_inv s \<Longrightarrow> P s \<Longrightarrow> safe (\<lambda>s'. s' = s) (f (g s)) R) \<Longrightarrow> safe P (sbind (sget g) f) R"
  by (auto simp: safe_def valid_def sbind_def sget_def)

lemma safe_then:
  "safe P m Q \<Longrightarrow> stable P \<Longrightarrow> safe P n R \<Longrightarrow> safe P (sthen m n) R"
  by (erule safe_bind) (auto elim: safe_conseq)

lemma safe_ret: "(\<And>s. P s \<Longrightarrow> Q a s) \<Longrightarrow> safe P (sret a) Q"
  by (rule safeI) (auto simp: sret_def)

lemma safe_err [simp]: "safe P (serr e) Q"
  by (rule safeI) (auto simp: serr_def)

lemma safe_get: "(\<And>s. wm_inv s \<Longrightarrow> P s \<Longrightarrow> Q (f s) s) \<Longrightarrow> safe P (sget f) Q"
  by (rule safeI) (auto simp: sget_def)

lemma safe_mod:
  "(\<And>s. wm_inv s \<Longrightarrow> P s \<Longrightarrow> wm_inv (f s) \<and> kind_at s \<subseteq>\<^sub>m kind_at (f s) \<and> Q () (f s)) \<Longrightarrow>
   safe P (smod f) Q"
  by (rule safeI) (auto simp: smod_def)

lemma safe_lift:
  "\<not> is_panic r \<Longrightarrow> (\<And>s a. r = Ok a \<Longrightarrow> P s \<Longrightarrow> Q a s) \<Longrightarrow> safe P (slift r) Q"
  by (rule safeI) (auto simp: slift_def)

lemma safe_lift_bind:
  "\<not> is_panic r \<Longrightarrow> (\<And>a. r = Ok a \<Longrightarrow> safe P (f a) Q) \<Longrightarrow> safe P (sbind (slift r) f) Q"
  by (cases r) (auto simp: sbind_def slift_def safe_def valid_def)

lemma safe_for:
  assumes "\<And>a. a \<in> set as \<Longrightarrow> safe P (f a) (\<lambda>_ _. True)" "stable P"
  shows "safe P (sfor f as) (\<lambda>_ _. True)"
  using assms(1)
proof (induction as)
  case (Cons a as)
  then show ?case by (auto intro: safe_then assms(2))
qed (simp add: safe_ret)

lemma safe_map:
  assumes "\<And>a. a \<in> set as \<Longrightarrow> safe P (f a) Q" "stable P" "\<And>b. stable (Q b)"
  shows "safe P (smap f as) (\<lambda>bs s. \<forall>b \<in> set bs. Q b s)"
  using assms(1)
proof (induction as)
  case (Cons a as)
  have IH: "safe P (smap f as) (\<lambda>bs s. \<forall>b \<in> set bs. Q b s)" by (rule Cons.IH) (simp add: Cons.prems)
  show ?case
    unfolding smap.simps
    by (rule safe_bind [where Q = Q], rule Cons.prems, simp, rule assms(2),
        rule safe_bind [OF safe_pre [OF IH]], simp, simp add: assms(2,3), rule safe_ret, simp)
qed (simp add: safe_ret)

subsection \<open>Machines\<close>

lemma wm_inv_grow:
  assumes s: "wm_inv s" and le: "kind_at s \<subseteq>\<^sub>m kinds ms"
    and ms: "\<forall>k m. map_of ms k = Some m \<longrightarrow> k < n \<and> machine_ok m"
  shows "wm_inv (s\<lparr>wm_all_machines := ms, wm_next_key := n\<rparr>)"
proof -
  have keep: "kinds ms k = Some kd" if "kind_at s k = Some kd" for k kd
  proof -
    have "k \<in> dom (kind_at s)" using that by blast
    with le have "kind_at s k = kinds ms k" unfolding map_le_def by blast
    with that show ?thesis by simp
  qed
  have ev: "\<forall>p \<in> set (wm_machines_by_event_id s). kinds ms (snd p) = kind_at s (snd p)"
  proof
    fix p
    assume "p \<in> set (wm_machines_by_event_id s)"
    with s obtain kd where "kind_at s (snd p) = Some kd"
      unfolding wm_inv_def events_wf_def by blast
    with keep show "kinds ms (snd p) = kind_at s (snd p)" by simp
  qed
  let ?s = "s\<lparr>wm_all_machines := ms, wm_next_key := n\<rparr>"
  have "machines_wf ?s" using ms by (simp add: machines_wf_def)
  moreover have "commands_wf ?s"
  proof -
    have "\<exists>kd. kinds ms (cm_machine c) = Some kd \<and> kd \<noteq> K_WorkflowTask"
      if "c \<in> set (wm_commands s) \<union> set (wm_current_wf_task_commands s)" for c
      using s that keep unfolding wm_inv_def commands_wf_def by blast
    then show ?thesis by (simp add: commands_wf_def)
  qed
  moreover have "ids_wf ?s"
    using s unfolding wm_inv_def ids_wf_def by (simp add: case_prod_beta keep)
  moreover have "task_entries ?s = task_entries s"
    using ev by (simp add: task_entries_def cong: filter_cong)
  then have "events_wf ?s"
    using s ev unfolding wm_inv_def events_wf_def by simp
  moreover have "inputs_wf ?s" using s by (simp add: wm_inv_def inputs_wf_def)
  ultimately show ?thesis by (simp add: wm_inv_def)
qed

lemma kinds_snoc: "map_of ms k = None \<Longrightarrow> kinds (ms @ [(k, m)]) = (kinds ms)(k \<mapsto> machine_kind_of m)"
  by (rule ext) (auto simp: kinds_def map_add_def split: option.splits)

lemma kinds_update: "kinds (AList.update k m ms) = (kinds ms)(k \<mapsto> machine_kind_of m)"
  by (rule ext) (auto simp: kinds_def update_conv')

lemma wm_inv_machine:
  "wm_inv s \<Longrightarrow> map_of (wm_all_machines s) k = Some m \<Longrightarrow> k < wm_next_key s \<and> machine_ok m"
  by (auto simp: wm_inv_def machines_wf_def)

lemma slot_fresh: "wm_inv s \<Longrightarrow> map_of (wm_all_machines s) (wm_next_key s) = None"
  using wm_inv_machine by (metis less_irrefl not_Some_eq)

lemma safe_slot_insert:
  assumes "machine_ok m"
  shows "safe P (slot_insert m) (\<lambda>k s. kind_at s k = Some (machine_kind_of m))"
proof (rule safeI)
  fix s k s'
  assume s: "wm_inv s" "slot_insert m s = (Ok k, s')"
  let ?ms = "wm_all_machines s @ [(wm_next_key s, m)]"
  have le: "kind_at s \<subseteq>\<^sub>m kinds ?ms"
    using slot_fresh [OF s(1)] by (auto simp: kinds_snoc) (auto simp: kinds_def map_le_def)
  have "wm_inv (s\<lparr>wm_all_machines := ?ms, wm_next_key := Suc (wm_next_key s)\<rparr>)"
  proof (rule wm_inv_grow [OF s(1) le], intro allI impI)
    fix k m'
    assume "map_of ?ms k = Some m'"
    then have "map_of (wm_all_machines s) k = Some m' \<or> k = wm_next_key s \<and> m' = m"
      by (auto simp: map_add_def split: option.splits if_splits)
    with wm_inv_machine [OF s(1)] assms show "k < Suc (wm_next_key s) \<and> machine_ok m'"
      by (metis less_Suc_eq)
  qed
  with s(2) le slot_fresh [OF s(1)]
  show "wm_inv s' \<and> kind_at s \<subseteq>\<^sub>m kind_at s' \<and> kind_at s' k = Some (machine_kind_of m)"
    by (auto simp: slot_insert_def kinds_snoc)
qed (simp add: slot_insert_def)

lemma safe_machine:
  "safe (\<lambda>s. kind_at s k = Some kd) (machine k) (\<lambda>m s. machine_ok m \<and> machine_kind_of m = kd)"
  by (rule safeI) (auto simp: machine_def kinds_def wm_inv_machine split: option.splits)

lemma safe_run:
  assumes "\<And>m. machine_ok m \<Longrightarrow> machine_kind_of m = kd \<Longrightarrow>
    \<not> is_panic (fst (f m)) \<and>
    (\<forall>a. fst (f m) = Ok a \<longrightarrow> machine_ok (snd (f m)) \<and> machine_kind_of (snd (f m)) = kd \<and> R a)"
  shows "safe (\<lambda>s. kind_at s k = Some kd) (machine_run k f) (\<lambda>a s. R a)"
proof (rule safeI)
  fix s
  assume s: "wm_inv s" "kind_at s k = Some kd"
  then obtain m where m: "map_of (wm_all_machines s) k = Some m" "machine_kind_of m = kd"
    by (auto simp: kinds_def)
  let ?m = "with_flags (wm_observed_internal_flags s) m"
  have call: "\<not> is_panic (fst (f ?m))" "fst (f ?m) = Ok a \<Longrightarrow>
      machine_ok (snd (f ?m)) \<and> machine_kind_of (snd (f ?m)) = kd \<and> R a" for a
    using assms [of ?m] m(2) wm_inv_machine [OF s(1) m(1)] by auto
  show "\<not> is_panic (fst (machine_run k f s))"
    using m call(1) by (simp add: machine_run_def split_beta)
  show "wm_inv s' \<and> kind_at s \<subseteq>\<^sub>m kind_at s' \<and> R a" if r: "machine_run k f s = (Ok a, s')" for a s'
  proof -
    let ?ms = "AList.update k (snd (f ?m)) (wm_all_machines s)"
    from r m have f: "fst (f ?m) = Ok a"
      and s': "s' = (s\<lparr>wm_all_machines := ?ms, wm_next_key := wm_next_key s\<rparr>)
        \<lparr>wm_observed_internal_flags := flags_of (wm_observed_internal_flags s) (snd (f ?m))\<rparr>"
      by (auto simp: machine_run_def split_beta)
    have le: "kind_at s \<subseteq>\<^sub>m kinds ?ms"
      using s(2) call(2) [OF f] by (simp add: kinds_update map_le_def)
    have "wm_inv (s\<lparr>wm_all_machines := ?ms, wm_next_key := wm_next_key s\<rparr>)"
      using wm_inv_machine [OF s(1)] call(2) [OF f] m(1)
      by (intro wm_inv_grow [OF s(1) le]) (auto simp: update_conv' split: if_splits)
    with le call(2) [OF f] show ?thesis by (simp add: s')
  qed
qed

subsection \<open>Simple steps\<close>

lemma safe_steps [simp]:
  "safe P (send_wf_job j) (\<lambda>_ _. True)"
  "safe P (set_current_time t) (\<lambda>_ _. True)"
  "safe P (update_local_activities f) (\<lambda>_ _. True)"
  by (auto simp: send_wf_job_def set_current_time_def update_local_activities_def send_job_def
      intro!: safe_mod)

lemma safe_take_local_activities [simp]: "safe P (take_local_activities g) (\<lambda>_ _. True)"
  by (rule safeI) (auto simp: take_local_activities_def split: prod.splits)

lemma safe_unit [simp]: "safe P (sret a) (\<lambda>_ _. True)" "safe P (sget h) (\<lambda>_ _. True)"
  by (auto intro: safe_ret safe_get)

lemma safe_true: "safe P m Q \<Longrightarrow> safe P m (\<lambda>_ _. True)"
  by (erule safe_post) simp

lemma safe_seq:
  "safe P m (\<lambda>_ _. True) \<Longrightarrow> stable P \<Longrightarrow> (\<And>a. safe P (f a) R) \<Longrightarrow> safe P (sbind m f) R"
  by (erule safe_bind) auto

lemma safe_ex:
  assumes "\<And>kd. R kd \<Longrightarrow> safe (\<lambda>s. kind_at s k = Some kd) m Q"
  shows "safe (\<lambda>s. \<exists>kd. kind_at s k = Some kd \<and> R kd) m Q"
  by (rule safeI) (use assms in \<open>blast dest: safeD\<close>)+

text \<open>Commands go to machines that are no workflow tasks.\<close>

abbreviation command_key :: "machine_key \<Rightarrow> workflow_machines \<Rightarrow> bool" where
  "command_key k s \<equiv> \<exists>kd. kind_at s k = Some kd \<and> kd \<noteq> K_WorkflowTask"

lemma safe_push: "safe (command_key (cm_machine c)) (push_task_command c) (\<lambda>_ _. True)"
  unfolding push_task_command_def
  by (rule safe_mod) (auto simp: wm_inv_defs)

lemma safe_new_command:
  assumes "machine_ok (nmc_machine new)"
  shows "safe P (add_new_command_machine new md)
    (\<lambda>c s. kind_at s (cm_machine c) = Some (machine_kind_of (nmc_machine new)))"
  unfolding add_new_command_machine_def
  by (rule safe_bind [where P = "\<lambda>_. True", THEN safe_pre], rule safe_slot_insert [OF assms])
    (auto intro: safe_ret)

definition id_fits :: "command_id_kind \<Rightarrow> machines \<Rightarrow> bool" where
  "id_fits cid m \<longleftrightarrow> machine_ok m \<and> machine_kind_of m \<noteq> K_WorkflowTask \<and>
     (case cid of LangIssued i \<Rightarrow> machine_kind_of m = command_kind i | _ \<Rightarrow> True)"

lemma safe_id_insert:
  "safe (\<lambda>s. kind_at s k = Some (command_kind i))
     (smod (\<lambda>s. s\<lparr>wm_id_to_machine := map_insert i k (wm_id_to_machine s)\<rparr>)) (\<lambda>_ _. True)"
  by (rule safe_mod) (auto simp: wm_inv_defs map_insert_def)

lemma safe_add_cmd:
  assumes "id_fits cid (nmc_machine new)"
  shows "safe P (add_cmd_to_wf_task new md cid)
    (\<lambda>k s. kind_at s k = Some (machine_kind_of (nmc_machine new)))"
proof -
  let ?kd = "machine_kind_of (nmc_machine new)"
  have ok: "machine_ok (nmc_machine new)" using assms by (simp add: id_fits_def)
  have id: "safe (\<lambda>s. kind_at s k = Some ?kd) (case cid of
      LangIssued i \<Rightarrow> smod (\<lambda>s. s\<lparr>wm_id_to_machine := map_insert i k (wm_id_to_machine s)\<rparr>)
    | CoreInternal \<Rightarrow> smod (\<lambda>s. s\<lparr>wm_machine_is_core_created := k # wm_machine_is_core_created s\<rparr>)
    | NeverResolves \<Rightarrow> sret ()) (\<lambda>_ _. True)" for k
    using assms safe_id_insert [of k]
    by (cases cid) (auto simp: id_fits_def intro!: safe_mod)
  have push: "safe (\<lambda>s. kind_at s (cm_machine c) = Some ?kd) (push_task_command c) (\<lambda>_ _. True)" for c
    by (rule safe_pre [OF safe_push]) (use assms in \<open>simp add: id_fits_def\<close>)
  have "safe (\<lambda>_. True) (add_cmd_to_wf_task new md cid) (\<lambda>k s. kind_at s k = Some ?kd)"
    unfolding add_cmd_to_wf_task_def Let_def
    by (rule safe_bind, rule safe_new_command [OF ok])
      (auto intro!: safe_seq [OF id] safe_seq [OF push] safe_ret)
  then show ?thesis by (rule safe_pre) simp
qed

lemma safe_add_terminal:
  assumes "machine_ok (nmc_machine new)" "machine_kind_of (nmc_machine new) \<noteq> K_WorkflowTask"
  shows "safe P (add_terminal_command env new md) (\<lambda>_ _. True)"
proof -
  have push: "safe (\<lambda>s. kind_at s (cm_machine c) = Some (machine_kind_of (nmc_machine new)))
      (push_task_command c) (\<lambda>_ _. True)" for c
    by (rule safe_pre [OF safe_push]) (use assms in simp)
  have "safe (\<lambda>_. True) (add_terminal_command env new md) (\<lambda>_ _. True)"
    unfolding add_terminal_command_def
    by (rule safe_bind, rule safe_new_command [OF assms(1)])
      (auto intro!: safe_seq [OF push] safe_seq [of _ "smod f" for f] safe_mod)
  then show ?thesis by (rule safe_pre) simp
qed

section \<open>Responses are safe\<close>

definition issues_command :: "machine_response \<Rightarrow> bool" where
  "issues_command r =
     (case r of IssueNewCommand _ \<Rightarrow> True | IssueFakeLocalActivityMarker _ \<Rightarrow> True | _ \<Rightarrow> False)"

text \<open>
  Only local activities ask for cancellations of local activities, and workflow tasks issue no
  commands.
\<close>

definition resp_ok :: "machine_kind \<Rightarrow> machine_response list \<Rightarrow> bool" where
  "resp_ok kd rs \<longleftrightarrow>
     (\<forall>r \<in> set rs. (\<forall>n. r = RequestCancelLocalActivity n \<longrightarrow> kd = K_LocalActivity) \<and>
        (issues_command r \<longrightarrow> kd \<noteq> K_WorkflowTask))"

lemma safe_assume: "(\<And>s. P s \<Longrightarrow> b) \<Longrightarrow> (b \<Longrightarrow> safe P m Q) \<Longrightarrow> safe P m Q"
  by (rule safeI) (blast dest: safeD)+

lemma safe_result:
  assumes "safe P m Q" "\<And>s a s'. m s = (Ok a, s') \<Longrightarrow> R a"
  shows "safe P m (\<lambda>a s. Q a s \<and> R a)"
  by (rule safeI) (use assms in \<open>blast dest: safeD\<close>)+

lemma kind_local_activity: "machine_kind_of m = K_LocalActivity \<longleftrightarrow> (\<exists>lam. m = LocalActivityMachine lam)"
  by (cases m) auto

lemma safe_la_run:
  assumes "\<And>lam. fsm_ok lam \<Longrightarrow> call_ok fsm_ok True (f lam)"
  shows "safe (\<lambda>s. kind_at s k = Some K_LocalActivity) (machine_run k (on_local_activity z f))
    (\<lambda>rs _. True)"
proof (rule safe_run)
  fix m
  assume "machine_ok m" "machine_kind_of m = K_LocalActivity"
  then obtain lam where m: "m = LocalActivityMachine lam" "fsm_ok lam"
    by (auto simp: kind_local_activity)
  from assms [OF m(2)] show "\<not> is_panic (fst (on_local_activity z f m)) \<and>
      (\<forall>a. fst (on_local_activity z f m) = Ok a \<longrightarrow> machine_ok (snd (on_local_activity z f m)) \<and>
        machine_kind_of (snd (on_local_activity z f m)) = K_LocalActivity \<and> True)"
    by (auto simp: on_local_activity_def m(1) call_ok_def)
qed

lemma complete_time_at_once [simp]: "\<exists>t. complete_time wf_time 0 = Ok t"
  by (cases wf_time) (simp_all add: complete_time_def)

lemmas la_calls = la_request_call [where r = "LaResolve a 0 c d e" for a c d e, simplified]
  la_request_call [where r = "LaKnown dat" for dat, simplified]
  la_request_call [where r = LaNonReplay, simplified]
  la_request_call [where r = LaCancel, simplified]

subsection \<open>Responses that run no machine\<close>

lemma fits_simps [simp]:
  "fsm_ok (from_parts st d)" "machine_ok m \<Longrightarrow> machine_kind_of m \<noteq> K_WorkflowTask \<Longrightarrow> id_fits CoreInternal m"
  "machine_ok m \<Longrightarrow> machine_kind_of m \<noteq> K_WorkflowTask \<Longrightarrow> id_fits NeverResolves m"
  "id_fits (LangIssued i) m \<longleftrightarrow> machine_ok m \<and> machine_kind_of m = command_kind i"
  by (auto simp: from_parts_def id_fits_def) (cases i; auto)

lemma safe_core_command [simp]: "safe P (new_core_originated_command a) (\<lambda>_ _. True)"
proof -
  have "safe (\<lambda>_. True) (new_core_originated_command a) (\<lambda>_ _. True)"
  proof (cases a)
    case (RequestCancelExternalWorkflowExecutionCommandAttributes ra)
    obtain c m where "new_external_cancel 0 \<lparr>nwe_namespace = rce_namespace ra,
        nwe_workflow_id = rce_workflow_id ra, nwe_run_id = rce_run_id ra\<rparr>
        (rce_child_workflow_only ra) (rce_reason ra) = Ok (m, c)" "fsm_ok m"
      using new_external_cancel_eq [of 0] by (metis fsm_ok_simps(1))
    then show ?thesis
      by (auto simp: new_core_originated_command_def
          RequestCancelExternalWorkflowExecutionCommandAttributes
          intro!: safe_lift_bind safe_seq [OF safe_true [OF safe_add_cmd]])
  next
    case (UpsertWorkflowSearchAttributesCommandAttributes attrs)
    then show ?thesis
      by (auto simp: new_core_originated_command_def upsert_search_attrs_internal_def
          upsert_create_new_def intro!: safe_seq [OF safe_true [OF safe_add_cmd]])
  qed (simp_all add: new_core_originated_command_def)
  then show ?thesis by (rule safe_pre) simp
qed

lemma safe_push_at:
  "kd \<noteq> K_WorkflowTask \<Longrightarrow>
   safe (\<lambda>s. kind_at s k = Some kd) (push_task_command \<lparr>cm_command = c, cm_machine = k\<rparr>) (\<lambda>_ _. True)"
  by (rule safe_pre [OF safe_push]) simp

lemma safe_handle_quiet:
  assumes "resp_ok kd [r]" "quiet [r]"
  shows "safe (\<lambda>s. kind_at s k = Some kd) (handle_response env proc k r) (\<lambda>_ _. True)"
  using assms
  by (cases r) (auto simp: handle_response_def resp_ok_def issues_command_def quiet_def
      intro!: safe_seq safe_push_at safe_mod split: option.splits)

lemma resp_ok_one: "resp_ok kd rs \<Longrightarrow> r \<in> set rs \<Longrightarrow> resp_ok kd [r]"
  by (simp add: resp_ok_def)

lemma resp_ok_append [simp]: "resp_ok kd (rs @ rs') \<longleftrightarrow> resp_ok kd rs \<and> resp_ok kd rs'"
  by (auto simp: resp_ok_def)

lemma quiet_one: "quiet rs \<Longrightarrow> r \<in> set rs \<Longrightarrow> quiet [r]"
  by (auto simp: quiet_def)

lemma safe_process_quiet:
  assumes "resp_ok kd rs" "quiet rs"
  shows "safe (\<lambda>s. kind_at s k = Some kd) (process_responses b env (Suc n) k rs) (\<lambda>_ _. True)"
  unfolding process_responses.simps
  by (intro safe_seq [OF safe_true [OF safe_machine]] safe_for safe_handle_quiet)
    (auto intro: assms resp_ok_one quiet_one)

subsection \<open>Responses that run machines\<close>

text \<open>The slot map lists keys it has.\<close>

definition env_ok :: "engine_env \<Rightarrow> bool" where
  "env_ok env \<longleftrightarrow> (\<forall>ks. set (env_slot_order env ks) \<subseteq> set ks)"

lemma resp_ok_local_activity [simp]: "resp_ok K_LocalActivity rs"
  by (auto simp: resp_ok_def)

lemma safe_notify:
  "safe (\<lambda>s. \<exists>kd. kind_at s k = Some kd \<and> True) (notify_non_replay env k)
     (\<lambda>l s. \<forall>p \<in> set l. kind_at s (fst p) = Some K_LocalActivity \<and> quiet (snd p))"
proof -
  have la: "safe (\<lambda>s. kind_at s k = Some K_LocalActivity)
     (sbind (machine_run k (on_local_activity (Ok []) (encountered_non_replay_wft (env_x env))))
        (\<lambda>resps. sret [(k, resps)]))
     (\<lambda>l s. \<forall>p \<in> set l. kind_at s (fst p) = Some K_LocalActivity)"
    by (rule safe_seq [OF safe_la_run]) (auto intro: la_calls safe_ret)
  have "safe (\<lambda>s. kind_at s k = Some kd) (notify_non_replay env k)
     (\<lambda>l s. \<forall>p \<in> set l. kind_at s (fst p) = Some K_LocalActivity)" for kd
    unfolding notify_non_replay_def
  proof (rule safe_bind [OF safe_machine])
    fix m
    show "safe (\<lambda>s. kind_at s k = Some kd \<and> machine_ok m \<and> machine_kind_of m = kd)
      (case m of
         LocalActivityMachine _ \<Rightarrow>
           sbind (machine_run k (on_local_activity (Ok []) (encountered_non_replay_wft (env_x env))))
             (\<lambda>resps. sret [(k, resps)])
       | _ \<Rightarrow> sret [])
      (\<lambda>l s. \<forall>p \<in> set l. kind_at s (fst p) = Some K_LocalActivity)"
      by (cases m) (auto intro: safe_ret safe_pre [OF la])
  qed simp
  then have "safe (\<lambda>s. \<exists>kd. kind_at s k = Some kd \<and> True) (notify_non_replay env k)
     (\<lambda>l s. \<forall>p \<in> set l. kind_at s (fst p) = Some K_LocalActivity)"
    by (intro safe_ex)
  from safe_result [OF this notify_quiet] show ?thesis by (rule safe_post) auto
qed

lemma kinds_keys: "k \<in> set (map fst ms) \<Longrightarrow> \<exists>kd. kinds ms k = Some kd"
  by (auto simp: kinds_def dest: weak_map_of_SomeI)

lemma safe_task_started:
  assumes "env_ok env"
    and "\<And>k rs. quiet rs \<Longrightarrow>
      safe (\<lambda>s. kind_at s k = Some K_LocalActivity) (proc k rs) (\<lambda>_ _. True)"
  shows "safe P (task_started env proc i t) (\<lambda>_ _. True)"
proof -
  let ?known = "\<lambda>keys s. \<forall>k \<in> set keys. \<exists>kd. kind_at s k = Some kd \<and> True"
  let ?l = "\<lambda>l s. \<forall>p \<in> set l. kind_at s (fst p) = Some K_LocalActivity \<and> quiet (snd p)"
  have keys: "safe P (sget (\<lambda>s. env_slot_order env (map fst (wm_all_machines s)))) ?known" for P
    using assms(1) kinds_keys by (intro safe_get) (fastforce simp: env_ok_def)
  have map: "safe (?known keys) (smap (notify_non_replay env) keys) (\<lambda>bs s. \<forall>b \<in> set bs. ?l b s)" for keys
    by (rule safe_map) (auto intro: safe_pre [OF safe_notify])
  have each: "safe (\<lambda>s. \<forall>b \<in> set bs. ?l b s) (sfor (\<lambda>(k, rs). proc k rs) (concat bs)) (\<lambda>_ _. True)" for bs
  proof (rule safe_for)
    fix p
    assume "p \<in> set (concat bs)"
    then have p: "kind_at s (fst p) = Some K_LocalActivity" "quiet (snd p)"
      if "\<forall>b \<in> set bs. ?l b s" for s
      using that by auto
    have "safe (\<lambda>s. \<forall>b \<in> set bs. ?l b s) (proc (fst p) (snd p)) (\<lambda>_ _. True)"
      by (rule safe_assume [where b = "quiet (snd p)"], erule p(2), rule safe_pre [OF assms(2)],
          assumption, erule p(1))
    then show "safe (\<lambda>s. \<forall>b \<in> set bs. ?l b s) ((\<lambda>(k, rs). proc k rs) p) (\<lambda>_ _. True)"
      by (simp add: split_beta)
  qed simp
  have notify: "safe (\<lambda>_. True) (sbind (sget (\<lambda>s. env_slot_order env (map fst (wm_all_machines s))))
      (\<lambda>keys. sbind (smap (notify_non_replay env) keys)
        (\<lambda>resps. sfor (\<lambda>(mkey, resp_set). proc mkey resp_set) (concat resps)))) (\<lambda>_ _. True)"
    by (rule safe_bind [OF keys], simp, rule safe_bind [OF safe_pre [OF map]], simp, simp,
        rule safe_pre [OF each], simp)
  have "safe (\<lambda>_. True) (task_started env proc i t) (\<lambda>_ _. True)"
    unfolding task_started_def
    by (intro safe_seq safe_mod safe_steps) (auto intro: notify)
  then show ?thesis by (rule safe_pre) simp
qed

lemma safe_request_cancel:
  assumes "\<And>k rs. quiet rs \<Longrightarrow>
      safe (\<lambda>s. kind_at s k = Some K_LocalActivity) (proc k rs) (\<lambda>_ _. True)"
  shows "safe (\<lambda>s. kind_at s k = Some K_LocalActivity)
    (request_cancel_local_activity env proc k seq) (\<lambda>_ _. True)"
proof -
  have run: "safe (\<lambda>s. kind_at s k = Some K_LocalActivity)
      (sbind (machine_run k (on_local_activity (Panic p) f)) (proc k)) (\<lambda>_ _. True)"
    if "\<And>lam. (\<exists>dat known. f lam = la_try_resolve_dat (env_x env) lam dat known) \<or>
        (\<forall>rs. fst (f lam) \<noteq> Ok rs)"
      "\<And>lam. fsm_ok lam \<Longrightarrow> call_ok fsm_ok True (f lam)" for f p
  proof (rule safe_bind [OF safe_result [OF safe_la_run [OF that(2)] resolve_quiet [OF _ that(1)]]])
    show "safe (\<lambda>s. kind_at s k = Some K_LocalActivity \<and> True \<and> quiet rs) (proc k rs) (\<lambda>_ _. True)"
      for rs
      by (rule safe_assume [where b = "quiet rs"]) (auto intro: safe_pre [OF assms])
  qed simp_all
  show ?thesis
    unfolding request_cancel_local_activity_def Let_def
    by (intro safe_seq safe_take_local_activities)
      (auto split: option.splits intro!: safe_seq run la_calls la_try_resolve_cases la_try_resolve_with_dat_cases)
qed

lemma safe_process:
  assumes "env_ok env" "resp_ok kd rs"
  shows "safe (\<lambda>s. kind_at s k = Some kd) (process_machine_responses env k rs) (\<lambda>_ _. True)"
proof -
  let ?p = "process_responses (\<lambda>_ _. spanic ''out of depth'') env 2"
  have q: "safe (\<lambda>s. kind_at s k = Some K_LocalActivity) (?p k rs) (\<lambda>_ _. True)" if "quiet rs" for k rs
    using safe_process_quiet [of K_LocalActivity rs k _ env 1] that
    by (simp add: numeral_2_eq_2 del: process_responses.simps)
  have "safe (\<lambda>s. kind_at s k = Some kd) (handle_response env ?p k r) (\<lambda>_ _. True)"
    if "r \<in> set rs" for r
  proof (cases "quiet [r]")
    case True
    with resp_ok_one [OF assms(2) that] show ?thesis by (rule safe_handle_quiet)
  next
    case False
    then consider n where "r = RequestCancelLocalActivity n" | i t where "r = TriggerWFTaskStarted i t"
      by (auto simp: quiet_def)
    then show ?thesis
      using safe_request_cancel [OF q] safe_task_started [OF assms(1) q]
        resp_ok_one [OF assms(2) that]
      by cases (auto simp: handle_response_def resp_ok_def)
  qed
  moreover have "process_machine_responses env k rs = sthen (machine k) (sfor (handle_response env ?p k) rs)"
    by (simp add: process_machine_responses_def numeral_3_eq_3 numeral_2_eq_2)
  ultimately show ?thesis
    by (auto intro!: safe_seq [OF safe_true [OF safe_machine]] safe_for)
qed

subsection \<open>Calls on machines\<close>

lemma machine_call_run:
  assumes "machine_call_ok m r" "machine_kind_of m = kd" "kd \<noteq> K_WorkflowTask"
  shows "\<not> is_panic (fst r) \<and>
    (\<forall>a. fst r = Ok a \<longrightarrow> machine_ok (snd r) \<and> machine_kind_of (snd r) = kd \<and> resp_ok kd a)"
  using assms by (auto simp: machine_call_ok_def call_ok_def resp_ok_def)

lemma wft_issues_nothing:
  assumes "machines_handle_event x (WorkflowTaskMachine m) ed = (Ok rs, m')"
  shows "resp_ok K_WorkflowTask rs"
proof -
  from assms obtain m1 where r: "handle_event (wft_try_from_event x) wft_step wft_adapt_response m ed =
      (Ok rs, m1)"
    by (auto simp: machines_handle_event_def apsnd_eq_iff)
  have 1: "resp_ok K_WorkflowTask rs" if "wft_adapt_response m c ei = Ok rs" for m c ei rs
    using that
    by (cases c) (auto simp: wft_adapt_response_def resp_ok_def issues_command_def
        split: option.splits if_splits)
  have "resp_ok K_WorkflowTask rs" if "omap_concat (\<lambda>c. wft_adapt_response m c ei) cs = Ok rs" for m ei cs rs
    using that
  proof (induction cs arbitrary: rs)
    case (Cons c cs)
    then obtain ra rb where "wft_adapt_response m c ei = Ok ra" "rs = ra @ rb"
      "omap_concat (\<lambda>c. wft_adapt_response m c ei) cs = Ok rb" by auto
    with 1 [of m c ei ra] Cons.IH [of rb] show ?case by simp
  qed (simp add: resp_ok_def)
  with r show ?thesis by (rule_tac handle_event_OkE) auto
qed

lemma event_call_run:
  assumes "machine_ok m" "machine_kind_of m = kd"
  shows "\<not> is_panic (fst (machines_handle_event x m ed)) \<and>
    (\<forall>a. fst (machines_handle_event x m ed) = Ok a \<longrightarrow>
       machine_ok (snd (machines_handle_event x m ed)) \<and>
       machine_kind_of (snd (machines_handle_event x m ed)) = kd \<and> resp_ok kd a)"
proof (cases "kd = K_WorkflowTask")
  case True
  with assms(2) obtain w where m: "m = WorkflowTaskMachine w" by (cases m) auto
  have "resp_ok kd a" if "fst (machines_handle_event x m ed) = Ok a" for a
    using wft_issues_nothing [of x w ed a] that True m by (metis prod.collapse)
  with event_call_ok [OF assms(1), of x ed] assms(2) show ?thesis
    by (auto simp: machine_call_ok_def call_ok_def)
qed (rule machine_call_run [OF event_call_ok [OF assms(1)] assms(2)])

lemma safe_call:
  assumes "env_ok env"
    and "\<And>m. machine_ok m \<Longrightarrow> machine_kind_of m = kd \<Longrightarrow>
      \<not> is_panic (fst (f m)) \<and>
      (\<forall>a. fst (f m) = Ok a \<longrightarrow> machine_ok (snd (f m)) \<and> machine_kind_of (snd (f m)) = kd \<and> resp_ok kd a)"
  shows "safe (\<lambda>s. kind_at s k = Some kd)
    (sbind (machine_run k f) (process_machine_responses env k)) (\<lambda>_ _. True)"
proof (rule safe_bind [OF safe_run [OF assms(2)]])
  show "safe (\<lambda>s. kind_at s k = Some kd \<and> resp_ok kd rs) (process_machine_responses env k rs)
      (\<lambda>_ _. True)" for rs
    by (rule safe_assume [where b = "resp_ok kd rs"]) (auto intro: safe_pre [OF safe_process [OF assms(1)]])
qed auto

lemma safe_submachine:
  assumes "env_ok env"
  shows "safe (\<lambda>s. \<exists>kd. kind_at s k = Some kd \<and> True) (submachine_handle_event env k ed) (\<lambda>_ _. True)"
  unfolding submachine_handle_event_def
  by (rule safe_ex, rule safe_call [OF assms], rule event_call_run)

lemma safe_key:
  "safe P (get_machine_key i) (\<lambda>k s. kind_at s k = Some (command_kind i))"
  by (rule safeI)
    (auto simp: get_machine_key_def wm_inv_defs split: option.splits dest!: map_of_SomeD)

lemma safe_cancel:
  assumes "env_ok env" "command_kind i \<noteq> K_WorkflowTask"
    and "\<And>m. machine_ok m \<Longrightarrow> machine_kind_of m = command_kind i \<Longrightarrow>
      \<exists>r. cancel m = Some r \<and> machine_call_ok m r"
  shows "safe P (cancel_machine env i cancel) (\<lambda>_ _. True)"
proof -
  let ?f = "\<lambda>m. case cancel m of
      None \<Rightarrow> (Err (Nondeterminism
        ''Machine was not of the kind it should have been during cancellation''), m)
    | Some r \<Rightarrow> r"
  have "safe (\<lambda>s. kind_at s k = Some (command_kind i))
      (sbind (machine_run k ?f) (process_machine_responses env k)) (\<lambda>_ _. True)" for k
  proof (rule safe_call [OF assms(1)])
    fix m
    assume m: "machine_ok m" "machine_kind_of m = command_kind i"
    from assms(3) [OF this] obtain r where "cancel m = Some r" "machine_call_ok m r" by blast
    with machine_call_run [OF _ m(2) assms(2)]
    show "\<not> is_panic (fst (?f m)) \<and> (\<forall>a. fst (?f m) = Ok a \<longrightarrow> machine_ok (snd (?f m)) \<and>
        machine_kind_of (snd (?f m)) = command_kind i \<and> resp_ok (command_kind i) a)" by simp
  qed
  then have "safe (\<lambda>_. True) (cancel_machine env i cancel) (\<lambda>_ _. True)"
    unfolding cancel_machine_def by (intro safe_bind [OF safe_key]) auto
  then show ?thesis by (rule safe_pre) simp
qed

section \<open>Commands of the language layer are safe\<close>

lemma safe_add_lang:
  assumes "id_fits cid (wrap (fst new))"
  shows "safe P (add_lang_command wrap md cid new) (\<lambda>_ _. True)"
proof -
  have "safe (\<lambda>_. True) (add_lang_command wrap md cid new) (\<lambda>_ _. True)"
    unfolding add_lang_command_def
    by (rule safe_seq [OF safe_true [OF safe_add_cmd]]) (use assms in auto)
  then show ?thesis by (rule safe_pre) simp
qed

lemma safe_get_bind: "(\<And>s. safe P (f (g s)) R) \<Longrightarrow> safe P (sbind (sget g) f) R"
  by (auto simp: safe_def valid_def sbind_def sget_def)

text \<open>What the constructors of machines give.\<close>

lemma act_created_ok: "act_new_scheduled a fl ucv = Ok (m, c) \<Longrightarrow> act_ok m"
  by (auto simp: act_new_scheduled_eq act_ok_def act_cancelling_def)

lemma signal_no_panic: "\<not> is_panic (new_external_signal a ns)"
  by (auto simp: new_external_signal_def on_event_def from_parts_def sig_handlers transition_results
      split: option.splits signal_target.splits)

lemma terminal_created:
  "\<not> is_panic (complete_workflow r)" "complete_workflow r = Ok (m1, c) \<Longrightarrow> fsm_ok m1"
  "\<not> is_panic (fail_workflow f)" "fail_workflow f = Ok (m2, c) \<Longrightarrow> fsm_ok m2"
  "\<not> is_panic (continue_as_new a b)" "continue_as_new a b = Ok (m3, c) \<Longrightarrow> fsm_ok m3"
  "\<not> is_panic cancel_workflow" "cancel_workflow = Ok (m4, c) \<Longrightarrow> fsm_ok m4"
  by (auto simp: complete_workflow_def fail_workflow_def continue_as_new_def cancel_workflow_def
      on_event_def from_parts_def complete_on_schedule_def failwf_on_schedule_def
      can_on_schedule_def cancelwf_on_schedule_def transition_results)

lemma new_la_ok:
  "\<not> is_panic (new_local_activity x now a replaying pre wf_time flags)"
  "new_local_activity x now a replaying pre wf_time flags = Ok (m, rs) \<Longrightarrow> fsm_ok m"
  by (auto simp: new_local_activity_def from_parts_def on_event_def la_handlers transition_results
      la_adapt_response_def Let_def la_resolved_responses_def fsm_ok_def
      split: if_splits option.splits)

lemma has_change_ok:
  "has_change x i rep dep seen ids fl = (r, fl') \<Longrightarrow> \<not> is_panic r"
  "has_change x i rep dep seen ids fl = (Ok (m, c, rs), fl') \<Longrightarrow> fsm_ok m \<and> resp_ok K_Patch rs"
  by (cases rep, auto simp: has_change_def from_parts_def on_event_def patch_handlers Let_def
      transition_results patch_upsert_def resp_ok_def issues_command_def
      split: option.splits prod.splits if_splits)

lemma safe_local_activity:
  assumes "env_ok env"
  shows "safe P (add_local_activity env a) (\<lambda>_ _. True)"
proof -
  have proc: "safe (\<lambda>s. kind_at s k = Some K_LocalActivity) (process_machine_responses env k rs)
      (\<lambda>_ _. True)" for k rs by (rule safe_process [OF assms]) simp
  have id: "safe (\<lambda>s. kind_at s k = Some K_LocalActivity)
      (smod (\<lambda>s. s\<lparr>wm_id_to_machine := map_insert (IdLocalActivity n) k (wm_id_to_machine s)\<rparr>))
      (\<lambda>_ _. True)" for k n
    using safe_id_insert [of k "IdLocalActivity n"] by simp
  have slot: "safe (\<lambda>_. True) (slot_insert (LocalActivityMachine la))
      (\<lambda>k s. kind_at s k = Some K_LocalActivity)" if "fsm_ok la" for la
    using safe_slot_insert [of "LocalActivityMachine la"] that by simp
  have "safe (\<lambda>_. True) (add_local_activity env a) (\<lambda>_ _. True)"
    unfolding add_local_activity_def
    by (auto split: sum.splits intro!: safe_seq [OF safe_take_local_activities] safe_get_bind
        safe_lift_bind new_la_ok(1) safe_bind [OF slot] safe_seq [OF id] proc dest!: new_la_ok(2))
  then show ?thesis by (rule safe_pre) simp
qed

lemma safe_patch_marker:
  assumes "env_ok env"
  shows "safe P (set_patch_marker env md i dep) (\<lambda>_ _. True)"
proof -
  have proc: "safe (\<lambda>s. kind_at s k = Some K_Patch) (process_machine_responses env k rs)
      (\<lambda>_ _. True)" if "resp_ok K_Patch rs" for k rs using that by (rule safe_process [OF assms])
  have add: "safe (\<lambda>_. True)
      (add_cmd_to_wf_task \<lparr>nmc_command = c, nmc_machine = PatchMachine m\<rparr> md NeverResolves)
      (\<lambda>k s. kind_at s k = Some K_Patch)" if "fsm_ok m" for c m
    using safe_add_cmd [of NeverResolves "\<lparr>nmc_command = c, nmc_machine = PatchMachine m\<rparr>"] that
    by simp
  have "safe (\<lambda>_. True) (set_patch_marker env md i dep) (\<lambda>_ _. True)"
    unfolding set_patch_marker_def
    by (auto split: prod.splits intro!: safe_get_bind safe_seq [of _ "smod f" for f] safe_mod
        safe_lift_bind safe_bind [OF add] safe_seq [OF proc] simp: has_change_ok(1)
        dest!: has_change_ok(2))
  then show ?thesis by (rule safe_pre) simp
qed

lemma safe_by_msg: "safe P (get_machine_by_msg i) (\<lambda>k s. kind_at s k = Some K_Update)"
  by (rule safeI)
    (auto simp: get_machine_by_msg_def wm_inv_defs split: option.splits dest!: map_of_SomeD)

lemma safe_update_response:
  assumes "env_ok env"
  shows "safe P (handle_update_response env ur) (\<lambda>_ _. True)"
proof -
  let ?f = "\<lambda>m. case m of
      UpdateMachine a \<Rightarrow> apsnd UpdateMachine (upd_handle_response (env_x env) ur a)
    | _ \<Rightarrow> (Err (Nondeterminism
        ''Tried to handle an update response for update but it was not found!''), m)"
  have "safe (\<lambda>s. kind_at s k = Some K_Update)
      (sbind (machine_run k ?f) (process_machine_responses env k)) (\<lambda>_ _. True)" for k
  proof (rule safe_call [OF assms])
    fix m
    assume "machine_ok m" "machine_kind_of m = K_Update"
    then obtain u where u: "m = UpdateMachine u" "fsm_ok u" by (cases m) auto
    with upd_response_call [OF u(2), of "env_x env" ur]
    show "\<not> is_panic (fst (?f m)) \<and> (\<forall>a. fst (?f m) = Ok a \<longrightarrow> machine_ok (snd (?f m)) \<and>
        machine_kind_of (snd (?f m)) = K_Update \<and> resp_ok K_Update a)"
      by (auto simp: call_ok_def resp_ok_def)
  qed
  then have "safe (\<lambda>_. True) (handle_update_response env ur) (\<lambda>_ _. True)"
    unfolding handle_update_response_def by (intro safe_bind [OF safe_by_msg]) auto
  then show ?thesis by (rule safe_pre) simp
qed

lemma cancel_calls:
  "machine_ok m \<Longrightarrow> machine_kind_of m = K_Timer \<Longrightarrow> \<exists>r. cancel_timer m = Some r \<and> machine_call_ok m r"
  "machine_ok m \<Longrightarrow> machine_kind_of m = K_Activity \<Longrightarrow>
   \<exists>r. cancel_activity m = Some r \<and> machine_call_ok m r"
  "machine_ok m \<Longrightarrow> machine_kind_of m = K_LocalActivity \<Longrightarrow>
   \<exists>r. cancel_local_activity x m = Some r \<and> machine_call_ok m r"
  "machine_ok m \<Longrightarrow> machine_kind_of m = K_ChildWorkflow \<Longrightarrow>
   \<exists>r. cancel_child reason m = Some r \<and> machine_call_ok m r"
  "machine_ok m \<Longrightarrow> machine_kind_of m = K_SignalExternal \<Longrightarrow>
   \<exists>r. cancel_signal m = Some r \<and> machine_call_ok m r"
  "machine_ok m \<Longrightarrow> machine_kind_of m = K_NexusOperation \<Longrightarrow>
   \<exists>r. cancel_nexus m = Some r \<and> machine_call_ok m r"
  by (cases m; simp add: cancel_timer_def cancel_activity_def cancel_local_activity_def
      cancel_child_def cancel_signal_def cancel_nexus_def machine_call_ok_def;
      rule call_ok_apsnd; (rule timer_cancel_call act_cancel_call child_cancel_call sig_cancel_call
        nexus_cancel_call la_calls)?; simp)+

lemma safe_driven_result:
  assumes "env_ok env" "\<not> is_query_response c"
  shows "safe P (handle_driven_result env c) (\<lambda>_ _. True)"
proof -
  note intros = safe_lift_bind safe_get_bind safe_add_lang safe_add_terminal
    safe_seq [of _ "smod f" for f] safe_mod safe_cancel [OF assms(1)] cancel_calls
    safe_local_activity safe_patch_marker safe_update_response signal_no_panic
    safe_unit safe_err assms(1)
  note created = timer_new_scheduled_eq act_new_scheduled_eq child_new_scheduled_eq
    nexus_new_scheduled_def modify_workflow_properties_def upsert_search_attrs_def
    upsert_create_new_def search_attributes_update_def
  have cext: "\<not> is_panic (new_external_cancel seq we oc reason)"
    "new_external_cancel seq we oc reason = Ok (m, cmd) \<Longrightarrow> fsm_ok m" for seq we oc reason m cmd
    using new_external_cancel_eq [of seq we oc reason] by auto
  have "safe (\<lambda>_. True) (handle_driven_result env c) (\<lambda>_ _. True)"
    using assms(2)
    by (cases "wfc_variant c")
      (auto simp: handle_driven_result_def Let_def created is_query_response_def split_beta
        fits_simps cext(1) act_ok_def act_cancelling_def terminal_created(1,3,5,7)
        intro!: intros split: option.splits dest!: new_external_signal_Ok cext(2) terminal_created(2,4,6,8))
  then show ?thesis by (rule safe_pre) simp
qed

subsection \<open>Preparing commands\<close>

lemma safe_cancelled:
  "safe (command_key (cm_machine c)) (command_cancelled c) (\<lambda>_ _. True)"
  unfolding command_cancelled_def
proof (rule safe_ex, rule safe_bind [OF safe_machine])
  fix kd m
  show "safe (\<lambda>s. kind_at s (cm_machine c) = Some kd \<and> machine_ok m \<and> machine_kind_of m = kd)
      (slift (was_cancelled_before_sent_to_server m)) (\<lambda>_ _. True)"
    by (rule safe_assume [where b = "machine_ok m"]) (auto intro!: safe_lift was_cancelled_no_panic)
qed simp

lemma safe_retain:
  "safe (\<lambda>s. \<forall>c \<in> set cs. command_key (cm_machine c) s) (retain_commands cs)
     (\<lambda>kept s. set kept \<subseteq> set cs)"
proof (induction cs)
  case (Cons c cs)
  show ?case
    unfolding retain_commands.simps
  proof (rule safe_seq [OF safe_pre [OF safe_cancelled]])
    fix b
    show "safe (\<lambda>s. \<forall>c' \<in> set (c # cs). command_key (cm_machine c') s)
      (sbind (retain_commands cs) (\<lambda>kept. sret (if b then kept else c # kept)))
      (\<lambda>kept s. set kept \<subseteq> set (c # cs))"
      by (rule safe_bind [OF safe_pre [OF Cons.IH]]) (auto intro!: safe_ret)
  qed auto
qed (simp add: safe_ret)

lemma safe_prepare:
  assumes "env_ok env"
  shows "safe (command_key (cm_machine c)) (prepare_command env c) (\<lambda>_ _. True)"
proof -
  have ack: "safe (command_key (cm_machine c))
      (case cm_command c of
         RealCommand cmd \<Rightarrow>
           sbind (machine_run (cm_machine c)
                    (\<lambda>m. machines_handle_command (env_x env) m (proto_command_type cmd)))
             (\<lambda>rs. process_machine_responses env (cm_machine c) rs)
       | FakeLocalActivityMarker _ \<Rightarrow> sret ()) (\<lambda>_ _. True)"
    by (cases "cm_command c", simp_all)
      (rule safe_ex, rule safe_call [OF assms], rule machine_call_run [OF command_call_ok])
  have "safe (command_key (cm_machine c)) (smod (\<lambda>s. s\<lparr>wm_commands := wm_commands s @ [c]\<rparr>)) (\<lambda>_ _. True)"
    by (rule safe_mod) (auto simp: wm_inv_defs)
  then show ?thesis
    unfolding prepare_command_def by (auto intro!: safe_seq [OF safe_cancelled] safe_seq [OF ack])
qed

lemma take_task_command:
  assumes "wm_inv s" "wm_current_wf_task_commands s = c # cs"
  shows "wm_inv (s\<lparr>wm_current_wf_task_commands := cs\<rparr>)" and "command_key (cm_machine c) s"
  using assms by (auto simp: wm_inv_defs)

lemma prepare_loop_inv:
  assumes "env_ok env" "wm_inv s"
  shows "\<not> is_panic (fst (prepare_loop env s)) \<and>
    (\<forall>u s'. prepare_loop env s = (Ok u, s') \<longrightarrow> wm_inv s' \<and> kind_at s \<subseteq>\<^sub>m kind_at s')"
  using assms
proof (induction env s rule: prepare_loop.induct)
  case (1 env s)
  show ?case
  proof (cases "wm_current_wf_task_commands s")
    case Nil
    with 1 show ?thesis by (simp add: prepare_loop.simps)
  next
    case (Cons c cs)
    let ?s = "s\<lparr>wm_current_wf_task_commands := cs\<rparr>"
    note t = take_task_command [OF 1(3) Cons]
    note d = safeD [OF safe_prepare [OF 1(2)] t(1), of c]
    show ?thesis
    proof (cases "prepare_command env c ?s")
      case (Pair r s1)
      have k: "command_key (cm_machine c) ?s" using t(2) by simp
      show ?thesis
      proof (cases r)
        case (Ok u)
        with d(2) [OF k] Pair have s1: "wm_inv s1 \<and> kind_at s \<subseteq>\<^sub>m kind_at s1" by simp
        have "\<not> is_panic (fst (prepare_loop env s1)) \<and>
            (\<forall>u s'. prepare_loop env s1 = (Ok u, s') \<longrightarrow> wm_inv s' \<and> kind_at s1 \<subseteq>\<^sub>m kind_at s')"
          using 1(1) [OF Cons Pair [symmetric] Ok 1(2)] s1 by simp
        moreover have "prepare_loop env s = prepare_loop env s1"
          by (subst prepare_loop.simps) (simp add: Cons Pair Ok)
        ultimately show ?thesis using s1 map_le_trans by metis
      qed (use d(1) [OF k] Pair Cons in \<open>auto simp: prepare_loop.simps\<close>)
    qed
  qed
qed

lemma safe_prepare_commands:
  assumes "env_ok env"
  shows "safe P (prepare_commands env) (\<lambda>_ _. True)"
proof -
  have loop: "safe P (prepare_loop env) (\<lambda>_ _. True)" for P
    by (rule safeI) (use prepare_loop_inv [OF assms] in auto)
  have set: "safe (\<lambda>s. (\<forall>c \<in> set cs. command_key (cm_machine c) s) \<and> set kept \<subseteq> set cs)
      (smod (\<lambda>s. s\<lparr>wm_commands := kept\<rparr>)) (\<lambda>_ _. True)" for cs kept
    by (rule safe_mod) (auto simp: wm_inv_defs)
  have get: "safe (\<lambda>_. True) (sget wm_commands) (\<lambda>cs s. \<forall>c \<in> set cs. command_key (cm_machine c) s)"
    by (rule safe_get) (auto simp: wm_inv_defs)
  have "safe (\<lambda>_. True) (prepare_commands env) (\<lambda>_ _. True)"
    unfolding prepare_commands_def
    by (rule safe_bind [OF get], simp, rule safe_bind [OF safe_pre [OF safe_retain]], simp, simp,
        rule safe_seq [OF safe_pre [OF set]], auto intro: loop)
  then show ?thesis by (rule safe_pre) simp
qed

lemma safe_iterate:
  assumes "env_ok env"
  shows "safe P (iterate_machines env) (\<lambda>_ _. True)"
proof -
  have "safe (\<lambda>_. True) (iterate_machines env) (\<lambda>_ _. True)"
    unfolding iterate_machines_def handle_driven_results_def
  proof (rule safe_read)
    fix s
    assume s: "wm_inv s"
    obtain rs d where f: "fetch_workflow_iteration_output (wm_drive_me s) = (rs, d)" by fastforce
    have "wm_inv (s\<lparr>wm_drive_me := d\<rparr>)" and rs: "\<forall>c \<in> set rs. \<not> is_query_response c"
      using s f by (auto simp: wm_inv_defs fetch_workflow_iteration_output_def
          is_query_response_def split: list.splits)
    then have "safe (\<lambda>s'. s' = s) (smod (\<lambda>s. s\<lparr>wm_drive_me := d\<rparr>)) (\<lambda>_ _. True)"
      by (intro safe_mod) auto
    with rs show "safe (\<lambda>s'. s' = s) (case fetch_workflow_iteration_output (wm_drive_me s) of
        (results, d) \<Rightarrow> sthen (smod (\<lambda>s. s\<lparr>wm_drive_me := d\<rparr>))
          (sthen (sfor (handle_driven_result env) results) (prepare_commands env))) (\<lambda>_ _. True)"
      by (auto simp: f intro!: safe_chain [of _ "smod h" for h] safe_seq [of _ "sfor h l" for h l]
          safe_for safe_driven_result safe_prepare_commands assms)
  qed
  then show ?thesis by (rule safe_pre) simp
qed

section \<open>What handling responses leaves alone\<close>

text \<open>
  A predicate that survives changes of the fields that responses of machines may change survives
  the handling of responses, also when that ends in an error.
\<close>

locale response_frame =
  fixes I :: "workflow_machines \<Rightarrow> bool"
  assumes updates: "I s \<Longrightarrow> I (wm_all_machines_update f1 s)"
    "I s \<Longrightarrow> I (wm_next_key_update f2 s)"
    "I s \<Longrightarrow> I (wm_observed_internal_flags_update f3 s)"
    "I s \<Longrightarrow> I (wm_drive_me_update f4 s)"
    "I s \<Longrightarrow> I (wm_local_activity_data_update f5 s)"
    "I s \<Longrightarrow> I (wm_current_wf_task_commands_update f6 s)"
    "I s \<Longrightarrow> I (wm_machine_is_core_created_update f8 s)"
    "I s \<Longrightarrow> I (wm_id_to_machine_update f9 s)"
    "I s \<Longrightarrow> I (wm_current_started_event_id_update f10 s)"
    "I s \<Longrightarrow> I (wm_wft_start_time_update f11 s)"
    and message: "I s \<Longrightarrow> \<not> wm_replaying s \<Longrightarrow> I (wm_message_outbox_update f7 s)"
    and time: "I s \<Longrightarrow> (case wm_current_wf_time s of None \<Rightarrow> True | Some t \<Rightarrow> t < time) \<Longrightarrow>
      I (s\<lparr>wm_current_wf_time := Some time\<rparr>)"
begin

lemma keeps_steps:
  "keeps I (machine k)" "keeps I (machine_run k f)" "keeps I (slot_insert m)"
  "keeps I (push_task_command c)" "keeps I (send_wf_job j)" "keeps I (set_current_time t)"
  "keeps I (update_local_activities g)" "keeps I (take_local_activities h)"
  by (auto simp: keeps_def machine_def machine_run_def slot_insert_def push_task_command_def
      send_wf_job_def set_current_time_def update_local_activities_def take_local_activities_def
      smod_def updates time split: option.splits prod.splits)

lemma keeps_add_cmd: "keeps I (add_cmd_to_wf_task new md cid)"
  unfolding add_cmd_to_wf_task_def add_new_command_machine_def Let_def
  by (intro keeps_bind keeps_steps keeps_simple) (cases cid; simp add: keeps_mod updates)

lemma keeps_core_command: "keeps I (new_core_originated_command a)"
  unfolding new_core_originated_command_def
  by (cases a) (auto intro!: keeps_bind keeps_add_cmd split: prod.splits)

lemma keeps_notify: "keeps I (notify_non_replay env k)"
  unfolding notify_non_replay_def
  by (auto intro!: keeps_bind keeps_steps split: machines.splits)

lemma keeps_task_started:
  "(\<And>k rs. keeps I (proc k rs)) \<Longrightarrow> keeps I (task_started env proc i t)"
  unfolding task_started_def
  by (auto intro!: keeps_bind keeps_mod keeps_map keeps_for keeps_steps keeps_notify updates)

lemma keeps_request_cancel:
  "(\<And>k rs. keeps I (proc k rs)) \<Longrightarrow> keeps I (request_cancel_local_activity env proc k seq)"
  unfolding request_cancel_local_activity_def Let_def
  by (auto intro!: keeps_bind keeps_steps split: option.splits)

lemma keeps_handle_response:
  "(\<And>k rs. keeps I (proc k rs)) \<Longrightarrow> keeps I (handle_response env proc k r)"
  unfolding handle_response_def
  by (cases r) (auto intro!: keeps_bind keeps_mod keeps_steps keeps_task_started keeps_core_command
      keeps_request_cancel updates message split: option.splits)

lemma keeps_process: "keeps I (process_machine_responses env k rs)"
proof -
  have "keeps I (process_responses (\<lambda>_ _. spanic p) env n k rs)" for p n k rs
    by (induction n arbitrary: k rs)
      (auto intro!: keeps_bind keeps_steps keeps_for keeps_handle_response)
  then show ?thesis by (simp add: process_machine_responses_def)
qed

lemma keeps_submachine: "keeps I (submachine_handle_event env k ed)"
  unfolding submachine_handle_event_def by (intro keeps_bind keeps_steps keeps_process)

end

text \<open>Commands of the language layer change a few more fields.\<close>

locale command_frame = response_frame +
  assumes command_updates: "I s \<Longrightarrow> I (wm_commands_update f12 s)"
    "I s \<Longrightarrow> I (wm_encountered_patch_markers_update f13 s)"
    "I s \<Longrightarrow> I (wm_workflow_end_time_update f14 s)"
begin

lemma keeps_keys: "keeps I (get_machine_key i)" "keeps I (get_machine_by_msg j)"
  by (auto simp: keeps_def get_machine_key_def get_machine_by_msg_def split: option.splits)

lemma keeps_cancel: "keeps I (cancel_machine env i cancel)"
  unfolding cancel_machine_def by (intro keeps_bind keeps_keys keeps_steps keeps_process)

lemma keeps_add_lang: "keeps I (add_lang_command wrap md cid new)"
  unfolding add_lang_command_def by (intro keeps_bind keeps_add_cmd keeps_simple)

lemma keeps_terminal: "keeps I (add_terminal_command env new md)"
  unfolding add_terminal_command_def add_new_command_machine_def
  by (intro keeps_bind keeps_steps keeps_simple) (auto intro: keeps_mod updates command_updates)

lemma keeps_local_activity: "keeps I (add_local_activity env a)"
  unfolding add_local_activity_def
  by (auto intro!: keeps_bind keeps_steps keeps_process keeps_mod updates split: sum.splits)

lemma keeps_patch_marker: "keeps I (set_patch_marker env md i dep)"
  unfolding set_patch_marker_def
  by (auto intro!: keeps_bind keeps_add_cmd keeps_process keeps_mod updates command_updates)

lemma keeps_update_response: "keeps I (handle_update_response env ur)"
  unfolding handle_update_response_def by (intro keeps_bind keeps_keys keeps_steps keeps_process)

lemma keeps_driven_result: "keeps I (handle_driven_result env c)"
  unfolding handle_driven_result_def Let_def
  by (cases "wfc_variant c")
    (auto intro!: keeps_bind keeps_cancel keeps_add_lang keeps_terminal keeps_local_activity
      keeps_patch_marker keeps_update_response keeps_mod updates split: option.splits)

lemma keeps_cancelled: "keeps I (command_cancelled c)"
  unfolding command_cancelled_def by (intro keeps_bind keeps_steps keeps_simple)

lemma keeps_retain: "keeps I (retain_commands cs)"
  by (induction cs) (auto intro!: keeps_bind keeps_cancelled)

lemma keeps_prepare: "keeps I (prepare_command env c)"
  unfolding prepare_command_def
  by (auto intro!: keeps_bind keeps_cancelled keeps_steps keeps_process keeps_mod command_updates
      split: machine_associated_command.splits)

lemma keeps_prepare_loop: "keeps I (prepare_loop env)"
proof -
  have "I (snd (prepare_loop env s))" if "I s" for env s
    using that
  proof (induction env s rule: prepare_loop.induct)
    case (1 env s)
    show ?case
    proof (cases "wm_current_wf_task_commands s")
      case Nil
      with 1 show ?thesis by (simp add: prepare_loop.simps)
    next
      case (Cons c cs)
      obtain r s1 where p: "prepare_command env c (s\<lparr>wm_current_wf_task_commands := cs\<rparr>) = (r, s1)"
        by fastforce
      have s1: "I s1" using keepsD [OF keeps_prepare, of _ env c] p updates(6) [OF 1(2)]
        by (metis snd_conv)
      show ?thesis
        using 1(1) [OF Cons p [symmetric] _ s1] s1
        by (cases r) (simp_all add: prepare_loop.simps [of env s] Cons p)
    qed
  qed
  then show ?thesis by (simp add: keeps_def)
qed

lemma keeps_iterate: "keeps I (iterate_machines env)"
  unfolding iterate_machines_def prepare_commands_def handle_driven_results_def
  by (auto intro!: keeps_bind keeps_for keeps_driven_result keeps_retain keeps_prepare_loop keeps_mod
      updates command_updates)

end

text \<open>Responses record no machine for an event.\<close>

interpretation event_table: response_frame "\<lambda>s. J (wm_machines_by_event_id s)" for J
  by unfold_locales simp_all

text \<open>Nor do they touch the commands that wait for their events.\<close>

interpretation command_queue: response_frame "\<lambda>s. J (wm_commands s)" for J
  by unfold_locales simp_all

text \<open>And a replaying workflow sends no message.\<close>

interpretation silent_replay: command_frame "\<lambda>s. wm_replaying s \<and> wm_message_outbox s = msgs" for msgs
  by unfold_locales simp_all

section \<open>Concrete instances\<close>

definition wit_env :: engine_env where
  "wit_env = \<lparr>env_x = wit_externals, env_now = 0, env_slot_order = (\<lambda>ks. ks)\<rparr>"

definition wit_basics :: run_basics where
  "wit_basics =
     \<lparr>rb_worker_config = \<lparr>cfg_worker_build_id = ''b'', cfg_task_queue = ''q'', cfg_namespace = ''n'',
        cfg_max_cached_workflows = 1, cfg_ignore_evicts_on_shutdown = False,
        cfg_workflow_failure_errors = [], cfg_workflow_types_to_failure_errors = []\<rparr>,
      rb_workflow_id = ''w'', rb_workflow_type = ''t'', rb_run_id = ''r'', rb_history = wit_update,
      rb_server_sdk_metadata = True, rb_sdk_name = ''s'', rb_sdk_version = ''1''\<rparr>"

text \<open>A run whose workflow has just asked for a timer and for its cancellation.\<close>

definition wit_run :: "wf_command_variant list \<Rightarrow> workflow_machines" where
  "wit_run cs =
     wm_new wit_basics (send_commands (map (\<lambda>v. \<lparr>wfc_variant = v, wfc_metadata = None\<rparr>) cs) dw_new)"

lemma wit_env_ok: "env_ok wit_env"
  by (simp add: env_ok_def wit_env_def)

section \<open>Properties\<close>

text \<open>
  C13: While a run replays, what the language layer does sends no message to the server: iterating
  the machines leaves the outbox as it is, whether or not it ends in an error.
\<close>

theorem replay_sends_no_messages:
  assumes "wm_replaying s"
  shows "wm_message_outbox (snd (iterate_machines env s)) = wm_message_outbox s \<and>
    wm_replaying (snd (iterate_machines env s))"
  using keepsD [OF silent_replay.keeps_iterate, of s "wm_message_outbox s" env] assms by simp

theorem replay_sends_no_messages_witness:
  "wm_replaying ((wit_run [])\<lparr>wm_replaying := True\<rparr>) \<and>
   wm_message_outbox (snd (iterate_machines wit_env ((wit_run [])\<lparr>wm_replaying := True\<rparr>))) = []"
  using replay_sends_no_messages [of "(wit_run [])\<lparr>wm_replaying := True\<rparr>" wit_env]
  by (simp add: wit_run_def wm_new_def)

lemma retain_commands_filter:
  assumes "retain_commands cs s = (Ok kept, s')"
  shows "s' = s \<and> kept = filter (\<lambda>c. command_cancelled c s = (Ok False, s)) cs"
  using assms
proof (induction cs arbitrary: kept)
  case (Cons c cs)
  then obtain b rest where b: "command_cancelled c s = (Ok b, s)"
    "retain_commands cs s = (Ok rest, s')" "kept = (if b then rest else c # rest)"
    by (auto simp: action_defs split: prod.splits outcome.splits dest: command_cancelled_state)
  with Cons.IH [OF b(2)] show ?case by auto
qed (simp add: sret_def)

lemma prepare_loop_queues:
  assumes "prepare_loop env s = (Ok u, s')"
  shows "wm_current_wf_task_commands s' = [] \<and>
    wm_commands s' = wm_commands s @
      filter (\<lambda>c. fst (command_cancelled c s) = Ok False) (wm_current_wf_task_commands s)"
  using assms
proof (induction env s rule: prepare_loop.induct)
  case (1 env s)
  show ?case
  proof (cases "wm_current_wf_task_commands s")
    case Nil
    with 1(2) show ?thesis by (simp add: prepare_loop.simps)
  next
    case (Cons c cs)
    let ?s = "s\<lparr>wm_current_wf_task_commands := cs\<rparr>"
    from 1(2) Cons obtain v s1 where p: "prepare_command env c ?s = (Ok v, s1)"
      and l: "prepare_loop env s1 = (Ok u, s')"
      by (auto simp: prepare_loop.simps [of env s] split: prod.splits outcome.splits)
    from prepare_command_queues [OF p] 1(1) [OF Cons p [symmetric] refl l] Cons show ?thesis by simp
  qed
qed

end
