(* ===== verification/Engine.thy ===== *)
theory Engine
  imports Orchestration
begin

text \<open>
  The orchestrator as its callers use it: events, workflow tasks and the operations of
  \<open>WorkflowMachines\<close> that the rest of the worker calls, in any order.
\<close>

section \<open>Events are safe\<close>

lemma safe_protocol_message:
  assumes "env_ok env" "update_request_ok (ipm_body msg)"
  shows "safe P (handle_protocol_message env msg) (\<lambda>_ _. True)"
proof -
  have init: "\<exists>m r. upd_init mid iid eid (ipm_body msg) rep = Ok (m, PushWFJob r) \<and> fsm_ok m"
    for mid iid eid rep
    using update_request_accessors [OF assms(2)] by (auto simp: upd_init_def)
  have slot: "safe (\<lambda>_. True) (add_new_protocol_machine (UpdateMachine m) i)
      (\<lambda>k s. kind_at s k = Some K_Update)" if "fsm_ok m" for m i
    unfolding add_new_protocol_machine_def
  proof (rule safe_bind [OF safe_slot_insert])
    show "safe (\<lambda>s. True \<and> kind_at s k = Some (machine_kind_of (UpdateMachine m)))
        (sthen (smod (\<lambda>s. s\<lparr>wm_machines_by_protocol_instance_id :=
            map_insert i k (wm_machines_by_protocol_instance_id s)\<rparr>)) (sret k))
        (\<lambda>k s. kind_at s k = Some K_Update)" for k
      by (rule safe_seq) (auto intro!: safe_mod safe_ret simp: wm_inv_defs map_insert_def)
  qed (use that in auto)
  have proc: "safe (\<lambda>s. kind_at s k = Some K_Update) (process_machine_responses env k [PushWFJob r])
      (\<lambda>_ _. True)" for k r
    by (rule safe_process [OF assms(1)]) (simp add: resp_ok_def issues_command_def)
  have "safe (\<lambda>_. True) (handle_protocol_message env msg) (\<lambda>_ _. True)"
    unfolding handle_protocol_message_def Let_def
  proof (cases "ipm_sequencing_id msg")
    case (Some q)
    have 1: "safe (\<lambda>_. True) (sbind (slift (upd_init mid iid eid (ipm_body msg) rep))
        (\<lambda>(m, response). sbind (add_new_protocol_machine (UpdateMachine m) iid)
          (\<lambda>mk. process_machine_responses env mk [response]))) (\<lambda>_ _. True)" for mid iid eid rep
      using init [of mid iid eid rep]
      by (auto intro!: safe_lift_bind safe_bind [OF slot] proc)
    show "safe (\<lambda>_. True) (case ipm_sequencing_id msg of
        Some (SeqEventId seq_id) \<Rightarrow>
          sbind (sget (\<lambda>s. upd_init (ipm_id msg) (ipm_protocol_instance_id msg) seq_id
                    (ipm_body msg) (wm_replaying s))) (\<lambda>um.
          sbind (slift um) (\<lambda>(m, response).
          sbind (add_new_protocol_machine (UpdateMachine m) (ipm_protocol_instance_id msg)) (\<lambda>mk.
          process_machine_responses env mk [response])))
      | _ \<Rightarrow> serr (Fatal ''Update request messages must contain an event sequencing id! This is a server bug.''))
      (\<lambda>_ _. True)"
      by (cases q) (auto simp: Some intro!: safe_get_bind 1)
  qed simp
  then show ?thesis by (rule safe_pre) simp
qed

subsection \<open>Command events\<close>

lemma safe_front: "safe P front_machine (\<lambda>_ _. True)"
proof -
  have "\<exists>m. map_of (wm_all_machines s) (cm_machine c) = Some m"
    if "wm_inv s" "wm_commands s = c # cs" for s c cs
    using that by (auto simp: wm_inv_def commands_wf_def kinds_def)
  then show ?thesis
    by (intro safeI) (fastforce simp: front_machine_def machine_def action_defs
        split: list.splits option.splits)+
qed

lemma safe_pop:
  "safe P pop_command (\<lambda>r s. \<forall>c. r = Some c \<longrightarrow> command_key (cm_machine c) s)"
  by (rule safeI) (auto simp: wm_inv_defs pop_command_def split: list.splits)

lemma patch_marker_no_panic: "\<not> is_panic (patch_marker_handling x e mach nx)"
  by (auto simp: patch_marker_handling_def skip_one_or_two_events_def Let_def split: option.splits)

lemma safe_turn:
  assumes "env_ok env"
  shows "safe P (command_turn env ed nx)
    (\<lambda>r s. \<forall>c. r = Some (Inr c) \<longrightarrow> command_key (cm_machine c) s)"
proof -
  let ?Q = "\<lambda>r s. \<forall>c. r = Some (Inr c) \<longrightarrow> command_key (cm_machine c) s"
  have feed: "safe (command_key (cm_machine c))
      (sbind (command_cancelled c) (\<lambda>b. if b then sret None
         else sthen (submachine_handle_event env (cm_machine c) ed) (sret (Some (Inr c))))) ?Q" for c
    by (rule safe_seq [OF safe_cancelled])
      (auto intro!: safe_ret safe_seq safe_pre [OF safe_submachine [OF assms]])
  have pop: "safe (\<lambda>_. True) (sbind pop_command (\<lambda>r. case r of
        None \<Rightarrow> serr (Nondeterminism ''No command scheduled for event'')
      | Some c \<Rightarrow>
          sbind (command_cancelled c) (\<lambda>b. if b then sret None
            else sthen (submachine_handle_event env (cm_machine c) ed) (sret (Some (Inr c)))))) ?Q"
    by (rule safe_chain [OF safe_pop]) (auto split: option.splits intro: feed)
  have "safe (\<lambda>_. True) (command_turn env ed nx) ?Q"
    unfolding command_turn_def
    by (intro safe_seq [OF safe_front] safe_lift_bind patch_marker_no_panic)
      (auto split: event_handling_outcome.splits
        intro!: safe_seq [OF safe_true [OF safe_pop]] safe_ret pop)
  then show ?thesis by (rule safe_pre) simp
qed

lemma command_loop_inv:
  assumes "env_ok env" "wm_inv s"
  shows "\<not> is_panic (fst (command_loop env ed nx s)) \<and>
    (\<forall>r s'. command_loop env ed nx s = (Ok r, s') \<longrightarrow>
       wm_inv s' \<and> kind_at s \<subseteq>\<^sub>m kind_at s' \<and> (\<forall>c. r = Inr c \<longrightarrow> command_key (cm_machine c) s'))"
  using assms
proof (induction env ed nx s rule: command_loop.induct)
  case (1 env ed nx s)
  note d = safeD [OF safe_turn [OF 1(2), of "\<lambda>_. True" ed nx] 1(3)]
  obtain t s1 where t: "command_turn env ed nx s = (t, s1)" by fastforce
  note loop = command_loop.simps [of env ed nx s]
  show ?case
  proof (cases t)
    case (Ok r)
    with d(2) t have s1: "wm_inv s1" "kind_at s \<subseteq>\<^sub>m kind_at s1"
      "\<forall>c. r = Some (Inr c) \<longrightarrow> command_key (cm_machine c) s1" by auto
    show ?thesis
    proof (cases r)
      case None
      have "command_loop env ed nx s = command_loop env ed nx s1" by (simp add: loop t Ok None)
      with 1(1) [OF t [symmetric] Ok None 1(2) s1(1)] s1(2) show ?thesis
        by (metis map_le_trans)
    qed (use s1 in \<open>simp add: loop t Ok\<close>)
  qed (use d(1) t in \<open>auto simp: loop\<close>)
qed

lemma safe_loop:
  "env_ok env \<Longrightarrow>
   safe P (command_loop env ed nx) (\<lambda>r s. \<forall>c. r = Inr c \<longrightarrow> command_key (cm_machine c) s)"
  by (rule safeI) (use command_loop_inv in auto)

lemma la_reads_no_panic:
  "fsm_ok m \<Longrightarrow> \<not> is_panic (marker_should_get_special_handling m)"
  "fsm_ok m \<Longrightarrow> \<not> is_panic (will_accept_resolve_marker m)"
  by (auto simp: fsm_ok_def marker_should_get_special_handling_def will_accept_resolve_marker_def
      fsm_state_get_def split: la_state.splits)

lemma safe_machine_bind:
  assumes "\<And>m. machine_ok m \<Longrightarrow> machine_kind_of m = kd \<Longrightarrow>
    safe (\<lambda>s. kind_at s k = Some kd) (f m) Q"
  shows "safe (\<lambda>s. kind_at s k = Some kd) (sbind (machine k) f) Q"
proof (rule safe_bind [OF safe_machine])
  show "safe (\<lambda>s. kind_at s k = Some kd \<and> machine_ok m \<and> machine_kind_of m = kd) (f m) Q" for m
    by (rule safe_assume [where b = "machine_ok m \<and> machine_kind_of m = kd"])
      (auto intro: safe_pre [OF assms])
qed simp

lemma safe_la_marker:
  assumes "env_ok env"
  shows "safe P (local_activity_marker env ed) (\<lambda>_ _. True)"
proof -
  have "safe (\<lambda>s. kind_at s k = Some K_LocalActivity) (sbind (machine k) (\<lambda>m. case m of
          LocalActivityMachine lam \<Rightarrow>
            sbind (slift (marker_should_get_special_handling lam)) (\<lambda>special.
            if special then sthen (submachine_handle_event env k ed) (sret True) else sret False)
        | _ \<Rightarrow> serr (Fatal ''Encountered local activity marker but the associated machine was of the wrong type!'')))
      (\<lambda>_ _. True)" for k
    by (rule safe_machine_bind)
      (auto simp: kind_local_activity intro!: safe_lift_bind la_reads_no_panic(1) safe_seq
        safe_pre [OF safe_submachine [OF assms]])
  then have "safe (\<lambda>_. True) (local_activity_marker env ed) (\<lambda>_ _. True)"
    unfolding local_activity_marker_def
    by (auto split: option.splits intro!: safe_bind [OF safe_key])
  then show ?thesis by (rule safe_pre) simp
qed

lemma events_insert_inv:
  assumes "wm_inv s" "command_key k s"
  shows "wm_inv (s\<lparr>wm_machines_by_event_id := map_insert e k (wm_machines_by_event_id s)\<rparr>)"
proof -
  let ?s = "s\<lparr>wm_machines_by_event_id := map_insert e k (wm_machines_by_event_id s)\<rparr>"
  have "task_entries ?s = filter (\<lambda>p. fst p \<noteq> e) (task_entries s)"
    using assms(2) by (auto simp: task_entries_def map_insert_def conj_commute)
  then have "events_wf ?s"
    using assms by (auto simp: wm_inv_def events_wf_def map_insert_def distinct_map_filter)
  with assms(1) show ?thesis by (simp add: wm_inv_defs)
qed

lemma safe_command_event:
  assumes "env_ok env"
  shows "safe P (handle_command_event env ed nx) (\<lambda>_ _. True)"
proof -
  have consumed: "safe (command_key k) (sbind (machine k) (\<lambda>m.
      sbind (slift (machines_is_final_state m)) (\<lambda>final.
      sthen (if final then sret ()
             else smod (\<lambda>s. s\<lparr>wm_machines_by_event_id := map_insert e k (wm_machines_by_event_id s)\<rparr>))
      (sret Normal)))) (\<lambda>_ _. True)" for k e
    by (rule safe_ex, rule safe_machine_bind)
      (auto intro!: safe_lift_bind final_state_no_panic safe_seq safe_mod events_insert_inv)
  have "safe (\<lambda>_. True) (sbind (command_loop env ed nx) (\<lambda>r. case r of
      Inl eho \<Rightarrow> sret eho
    | Inr c \<Rightarrow>
        sbind (machine (cm_machine c)) (\<lambda>m.
        sbind (slift (machines_is_final_state m)) (\<lambda>final.
        sthen (if final then sret ()
               else smod (\<lambda>s. s\<lparr>wm_machines_by_event_id :=
                      map_insert (he_event_id (hed_event ed)) (cm_machine c)
                        (wm_machines_by_event_id s)\<rparr>))
        (sret Normal))))) (\<lambda>_ _. True)"
    by (rule safe_chain [OF safe_loop [OF assms]]) (auto split: sum.splits intro: consumed)
  then have "safe (\<lambda>_. True) (handle_command_event env ed nx) (\<lambda>_ _. True)"
    unfolding handle_command_event_def by (auto intro!: safe_seq [OF safe_la_marker [OF assms]])
  then show ?thesis by (rule safe_pre) simp
qed

subsection \<open>Other events\<close>

lemma safe_frame:
  assumes "safe P m Q" "keeps I m"
  shows "safe (\<lambda>s. P s \<and> I s) m (\<lambda>a s. Q a s \<and> I s)"
proof (rule safeI)
  fix s
  assume s: "wm_inv s" "P s \<and> I s"
  then show "\<not> is_panic (fst (m s))" using safeD(1) [OF assms(1)] by blast
  show "wm_inv s' \<and> kind_at s \<subseteq>\<^sub>m kind_at s' \<and> Q a s' \<and> I s'" if "m s = (Ok a, s')" for a s'
    using safeD(2) [OF assms(1) s(1) _ that] keepsD [OF assms(2), of s] s(2) that by simp
qed

lemma safe_new_task:
  "safe P (slot_insert (WorkflowTaskMachine (wft_new i)))
     (\<lambda>k s. kind_at s k = Some K_WorkflowTask \<and> k \<notin> snd ` set (wm_machines_by_event_id s))"
proof (rule safeI)
  fix s k s'
  assume s: "wm_inv s" "slot_insert (WorkflowTaskMachine (wft_new i)) s = (Ok k, s')"
  have ok: "machine_ok (WorkflowTaskMachine (wft_new i))" by (simp add: wft_new_def)
  have "\<forall>p \<in> set (wm_machines_by_event_id s). kind_at s (snd p) \<noteq> None"
    using s(1) by (simp add: wm_inv_def events_wf_def)
  moreover have "kind_at s (wm_next_key s) = None" using slot_fresh [OF s(1)] by (simp add: kinds_def)
  ultimately have "k \<notin> snd ` set (wm_machines_by_event_id s')"
    using s(2) by (fastforce simp: slot_insert_def)
  with safeD(2) [OF safe_slot_insert [OF ok, of "\<lambda>_. True"] s(1) _ s(2)]
  show "wm_inv s' \<and> kind_at s \<subseteq>\<^sub>m kind_at s' \<and> kind_at s' k = Some K_WorkflowTask \<and>
      k \<notin> snd ` set (wm_machines_by_event_id s')" by simp
qed (simp add: slot_insert_def)

lemma task_insert_inv:
  assumes "wm_inv s" "kind_at s k = Some K_WorkflowTask" "k \<notin> snd ` set (wm_machines_by_event_id s)"
  shows "wm_inv (s\<lparr>wm_machines_by_event_id := map_insert e k (wm_machines_by_event_id s)\<rparr>)"
proof -
  let ?s = "s\<lparr>wm_machines_by_event_id := map_insert e k (wm_machines_by_event_id s)\<rparr>"
  have "task_entries ?s = (e, k) # filter (\<lambda>p. fst p \<noteq> e) (task_entries s)"
    using assms(2) by (auto simp: task_entries_def map_insert_def conj_commute)
  moreover have "k \<notin> snd ` set (filter (\<lambda>p. fst p \<noteq> e) (task_entries s))"
    using assms(3) by (auto simp: task_entries_def)
  ultimately have "distinct (map snd (task_entries ?s))"
    using assms(1) by (simp add: wm_inv_def events_wf_def distinct_map_filter)
  with assms have "events_wf ?s"
    unfolding events_wf_def wm_inv_def by (auto simp: map_insert_def)
  with assms(1) show ?thesis by (simp add: wm_inv_defs)
qed

lemma safe_task_scheduled:
  assumes "env_ok env"
  shows "safe P (sbind (slot_insert (WorkflowTaskMachine (wft_new i))) (\<lambda>key.
      sthen (submachine_handle_event env key ed)
      (smod (\<lambda>s. s\<lparr>wm_machines_by_event_id := map_insert e key (wm_machines_by_event_id s)\<rparr>))))
    (\<lambda>_ _. True)"
proof (rule safe_chain [OF safe_new_task])
  fix k
  let ?P = "\<lambda>s. kind_at s k = Some K_WorkflowTask \<and> k \<notin> snd ` set (wm_machines_by_event_id s)"
  have sub: "safe (\<lambda>s. kind_at s k = Some K_WorkflowTask) (submachine_handle_event env k ed)
      (\<lambda>_ s. kind_at s k = Some K_WorkflowTask)"
    by (rule safe_post [OF safe_keep [OF safe_pre [OF safe_submachine [OF assms]]]]) auto
  have "safe ?P (submachine_handle_event env k ed) (\<lambda>_. ?P)"
    using safe_frame [OF sub event_table.keeps_submachine [of "\<lambda>t. k \<notin> snd ` set t"]] .
  then show "safe ?P (sthen (submachine_handle_event env k ed)
      (smod (\<lambda>s. s\<lparr>wm_machines_by_event_id := map_insert e k (wm_machines_by_event_id s)\<rparr>)))
      (\<lambda>_ _. True)"
    by (rule safe_chain) (auto intro!: safe_mod task_insert_inv)
qed

lemma safe_non_stateful:
  assumes "env_ok env"
  shows "safe P (handle_non_stateful_event env ed) (\<lambda>_ _. True)"
proof -
  have start: "safe (\<lambda>_. True) (smod (\<lambda>s. s\<lparr>wm_drive_me :=
      dw_start x (wm_workflow_id s) seed t attrs (wm_drive_me s)\<rparr>)) (\<lambda>_ _. True)" for x seed t attrs
    by (rule safe_mod) (simp add: dw_start_def send_job_def Let_def)
  have time: "safe (\<lambda>_. True) (sthen (smod (\<lambda>s. s\<lparr>wm_workflow_start_time := Some t\<rparr>))
      (set_current_time t)) (\<lambda>_ _. True)" for t
    by (rule safe_seq) (auto intro: safe_mod)
  have job: "safe (\<lambda>_. True) (case he_attributes e of
        Some (WorkflowExecutionSignaledEventAttributes attrs) \<Rightarrow> send_wf_job (f attrs)
      | _ \<Rightarrow> sret ()) (\<lambda>_ _. True)"
    "safe (\<lambda>_. True) (case he_attributes e of
        Some (WorkflowExecutionCancelRequestedEventAttributes cause) \<Rightarrow> send_wf_job (g cause)
      | _ \<Rightarrow> sret ()) (\<lambda>_ _. True)" for e f g
    by (cases "he_attributes e", simp, case_tac a, simp_all)+
  have "safe (\<lambda>_. True) (handle_non_stateful_event env ed) (\<lambda>_ _. True)"
    unfolding handle_non_stateful_event_def Let_def
    by (cases "event_type_try_from (he_event_type (hed_event ed))", simp, case_tac a, simp_all add: job)
      (auto split: option.splits intro!: safe_get_bind safe_task_scheduled assms
        safe_seq [OF _ _ start] time)
  then show ?thesis by (rule safe_pre) simp
qed

lemma safe_stateful:
  assumes "env_ok env"
  shows "safe P (handle_stateful_or_not env ed) (\<lambda>_ _. True)"
proof -
  have look: "safe (\<lambda>_. True) (sbind (sget (\<lambda>s. map_of (wm_machines_by_event_id s) i)) (\<lambda>found.
      case found of None \<Rightarrow> serr er | Some k \<Rightarrow> submachine_handle_event env k ed)) (\<lambda>_ _. True)" for i er
  proof (rule safe_chain [where Q = "\<lambda>r s. \<forall>k. r = Some k \<longrightarrow> (\<exists>kd. kind_at s k = Some kd \<and> True)"])
    show "safe (\<lambda>_. True) (sget (\<lambda>s. map_of (wm_machines_by_event_id s) i))
        (\<lambda>r s. \<forall>k. r = Some k \<longrightarrow> (\<exists>kd. kind_at s k = Some kd \<and> True))"
      by (rule safe_get) (fastforce simp: wm_inv_def events_wf_def dest: map_of_SomeD)
    show "safe (\<lambda>s. \<forall>k. r = Some k \<longrightarrow> (\<exists>kd. kind_at s k = Some kd \<and> True))
        (case r of None \<Rightarrow> serr er | Some k \<Rightarrow> submachine_handle_event env k ed) (\<lambda>_ _. True)" for r
      using safe_submachine [OF assms] by (cases r) auto
  qed
  have "safe (\<lambda>_. True) (handle_stateful_or_not env ed) (\<lambda>_ _. True)"
    unfolding handle_stateful_or_not_def Let_def
    by (intro safe_seq)
      (auto split: option.splits intro!: safe_mod look safe_non_stateful assms)
  then show ?thesis by (rule safe_pre) simp
qed

lemma safe_event:
  assumes "env_ok env"
  shows "safe P (wm_handle_event env ed nx) (\<lambda>_ _. True)"
proof -
  have "safe (\<lambda>_. True) (wm_handle_event env ed nx) (\<lambda>_ _. True)"
    unfolding wm_handle_event_def Let_def
    by (rule safe_seq) (auto intro: safe_mod safe_command_event safe_stateful assms)
  then show ?thesis by (rule safe_pre) simp
qed

section \<open>Workflow tasks are safe\<close>

lemma safe_if: "(b \<Longrightarrow> safe P m Q) \<Longrightarrow> (\<not> b \<Longrightarrow> safe P n Q) \<Longrightarrow> safe P (if b then m else n) Q"
  by simp

definition admitted_ok :: "admitted \<Rightarrow> bool" where
  "admitted_ok ms \<longleftrightarrow> (\<forall>p \<in> set ms. update_request_ok (ipm_body (snd p)))"

lemma safe_completed_tasks: "safe P (apply_completed_tasks es) (\<lambda>_ _. True)"
proof -
  have wtc: "safe (\<lambda>_. True) (apply_wft_complete_data w) (\<lambda>_ _. True)" for w
    unfolding apply_wft_complete_data_def by (rule safe_mod) simp
  have "safe (\<lambda>_. True) (apply_completed_tasks es) (\<lambda>_ _. True)"
    by (induction es) (auto split: option.splits intro!: safe_seq safe_get_bind wtc)
  then show ?thesis by (rule safe_pre) simp
qed

lemma safe_take_msgs:
  "safe P (take_processable_msgs i) (\<lambda>ms _. \<forall>m \<in> set ms. update_request_ok (ipm_body m))"
  by (rule safeI) (auto simp: take_processable_msgs_def wm_inv_defs Let_def)

lemma safe_admitted:
  assumes "admitted_ok ms"
  shows "safe (\<lambda>_. True) (update_admitted e b ms) (\<lambda>r _. admitted_ok (snd r))"
proof -
  have msg: "safe (\<lambda>_. True) (smod (\<lambda>s. s\<lparr>wm_protocol_msgs := wm_protocol_msgs s @ [m]\<rparr>)) (\<lambda>_ _. True)"
    if "incoming_message_from_event e = Inr m" for m
    using incoming_message_from_event_ok [OF that] by (intro safe_mod) (simp add: wm_inv_defs)
  have ins: "admitted_ok (map_insert k m ms)" if "incoming_message_from_event e = Inr m" for k m
    using incoming_message_from_event_ok [OF that] assms by (auto simp: admitted_ok_def map_insert_def)
  have "safe (\<lambda>_. True) (case incoming_message_from_event e of
        Inl er \<Rightarrow> serr er'
      | Inr m \<Rightarrow> sbind (sget wm_replaying) (\<lambda>replaying.
          if replaying then sret (False, map_insert (ipm_protocol_instance_id m) m ms)
          else sthen (smod (\<lambda>s. s\<lparr>wm_protocol_msgs := wm_protocol_msgs s @ [m]\<rparr>)) (sret (False, ms))))
      (\<lambda>r _. admitted_ok (snd r))" for er'
    by (auto split: sum.splits intro!: safe_get_bind safe_ret safe_seq msg ins assms)
  then show ?thesis
    unfolding update_admitted_def
    by (cases "he_attributes e", simp add: safe_ret assms, case_tac a)
      (simp_all add: safe_ret assms)
qed

lemma safe_apply_event:
  assumes "env_ok env" "admitted_ok (snd vars)"
  shows "safe (\<lambda>_. True) (apply_event env has_final e nx vars) (\<lambda>r _. admitted_ok (snd r))"
proof -
  have replay: "safe (\<lambda>_. True) (end_of_replay has_final e) (\<lambda>_ _. True)"
    unfolding end_of_replay_def by (rule safe_mod) simp
  have msgs: "safe (\<lambda>_. True) (sbind (take_processable_msgs i) (\<lambda>ms.
      sthen (sfor (handle_protocol_message env) ms) f)) R" if "safe (\<lambda>_. True) f R" for i f R
    by (rule safe_chain [OF safe_take_msgs], rule safe_chain [where Q = "\<lambda>_ _. True"],
        rule safe_for, rule safe_assume, erule bspec, assumption,
        rule safe_protocol_message [OF assms(1)]) (auto intro: that)
  have handle: "safe (\<lambda>_. True) (if b then
          sbind (sget wm_replaying) (\<lambda>replaying.
          sbind (wm_handle_event env (ed replaying) nx) (\<lambda>eho. sret (eho \<noteq> SkipEvent True)))
        else sret True) (\<lambda>_ _. True)" for b ed
    by (auto intro!: safe_get_bind safe_seq [OF safe_event [OF assms(1)]])
  have rest: "safe (\<lambda>_. True) (sbind (take_processable_msgs (he_event_id e - 1)) (\<lambda>ms.
      sthen (sfor (handle_protocol_message env) ms)
      (sbind (if b then
          sbind (sget wm_replaying) (\<lambda>replaying.
          sbind (wm_handle_event env \<lparr>hed_event = e, hed_replaying = replaying,
              hed_current_task_is_last_in_history = has_final\<rparr> nx) (\<lambda>eho. sret (eho \<noteq> SkipEvent True)))
        else sret True) (\<lambda>dn.
      sthen (smod (\<lambda>s. s\<lparr>wm_last_processed_event := he_event_id e\<rparr>)) (sret (dn, ms'))))))
      (\<lambda>r _. admitted_ok (snd r))" if "admitted_ok ms'" for b ms'
    by (rule msgs, rule safe_seq [OF handle], simp, rule safe_seq)
      (auto intro!: safe_mod safe_ret that)
  show ?thesis
    unfolding apply_event_def Let_def
    by (rule safe_get_bind, rule safe_if, rule safe_err, rule safe_seq [OF replay], simp,
        rule safe_chain [OF safe_admitted [OF assms(2)]], rename_tac r, case_tac r,
        simp only: prod.case snd_conv, rule safe_assume, assumption, rule safe_pre [OF rest],
        simp_all)
qed

lemma safe_apply_events:
  assumes "env_ok env" "admitted_ok (snd vars)"
  shows "safe (\<lambda>_. True) (apply_events env has_final es vars) (\<lambda>ms _. admitted_ok ms)"
  using assms(2)
proof (induction es arbitrary: vars)
  case (Cons e es)
  show ?case
    unfolding apply_events.simps
  proof (rule safe_chain [OF safe_apply_event [OF assms(1) Cons.prems]])
    show "safe (\<lambda>_. admitted_ok (snd r)) (apply_events env has_final es r) (\<lambda>ms _. admitted_ok ms)" for r
      by (rule safe_assume, assumption, rule safe_pre [OF Cons.IH]) auto
  qed
qed (simp add: safe_ret)

subsection \<open>Looking ahead\<close>

definition action_ok :: "delayed_action \<Rightarrow> workflow_machines \<Rightarrow> bool" where
  "action_ok a s =
     (case a of
        WakeLa k _ \<Rightarrow> kind_at s k = Some K_LocalActivity
      | DelayedMessage m \<Rightarrow> update_request_ok (ipm_body m))"

lemma stable_action_ok [simp]: "stable (action_ok a)"
  unfolding action_ok_def by (cases a) simp_all

lemma safe_scan_la:
  "safe P (sbind (sget (\<lambda>s. map_of (wm_id_to_machine s) (IdLocalActivity n))) (\<lambda>found.
     case found of
       Some mk \<Rightarrow> sret ([WakeLa mk dat], ms)
     | None \<Rightarrow> sthen (update_local_activities f) (sret ([], ms))))
   (\<lambda>r s. snd r = ms \<and> (\<forall>a \<in> set (fst r). action_ok a s))"
proof (rule safe_chain [where Q = "\<lambda>r s. \<forall>k. r = Some k \<longrightarrow> kind_at s k = Some K_LocalActivity"])
  show "safe P (sget (\<lambda>s. map_of (wm_id_to_machine s) (IdLocalActivity n)))
      (\<lambda>r s. \<forall>k. r = Some k \<longrightarrow> kind_at s k = Some K_LocalActivity)"
    by (rule safe_get) (fastforce simp: wm_inv_def ids_wf_def dest: map_of_SomeD)
  show "safe (\<lambda>s. \<forall>k. r = Some k \<longrightarrow> kind_at s k = Some K_LocalActivity)
      (case r of Some mk \<Rightarrow> sret ([WakeLa mk dat], ms)
       | None \<Rightarrow> sthen (update_local_activities f) (sret ([], ms)))
      (\<lambda>r s. snd r = ms \<and> (\<forall>a \<in> set (fst r). action_ok a s))" for r
    by (cases r) (auto simp: action_ok_def intro!: safe_ret safe_seq)
qed

lemma safe_scan_event:
  assumes "admitted_ok ms"
  shows "safe (\<lambda>_. True) (scan_event x e ms)
    (\<lambda>r s. admitted_ok (snd r) \<and> (\<forall>a \<in> set (fst r). action_ok a s))"
proof -
  let ?Q = "\<lambda>r s. admitted_ok (snd r) \<and> (\<forall>a \<in> set (fst r). action_ok a s)"
  have patch: "safe (\<lambda>_. True) (sthen (smod (\<lambda>s. s\<lparr>wm_encountered_patch_markers :=
        map_insert i False (wm_encountered_patch_markers s)\<rparr>))
      (sthen (send_wf_job (NotifyHasPatch i)) (sret ([], ms)))) ?Q" for i
    by (intro safe_seq safe_steps safe_mod safe_ret) (auto simp: assms)
  have known: "update_request_ok (ipm_body m)" if "map_of ms k = Some m" for k m
    using map_of_SomeD [OF that] assms by (fastforce simp: admitted_ok_def)
  have rem: "admitted_ok (map_remove k ms)" for k
    using assms by (auto simp: admitted_ok_def map_remove_def)
  have acc: "safe (\<lambda>_. True) (case map_of ms (uac_protocol_instance_id atts) of
      Some msg \<Rightarrow> sret ([DelayedMessage msg], map_remove (uac_protocol_instance_id atts) ms)
    | None \<Rightarrow>
        (case incoming_message_from_event e of
           Inl err \<Rightarrow> serr er
         | Inr msg \<Rightarrow> sret ([DelayedMessage msg], ms))) ?Q" for atts er
    by (auto split: option.splits sum.splits simp: action_ok_def rem known assms
        intro!: safe_ret incoming_message_from_event_ok)
  have la: "safe (\<lambda>_. True) (sbind (sget (\<lambda>s. map_of (wm_id_to_machine s) (IdLocalActivity n)))
      (\<lambda>found. case found of
         Some mk \<Rightarrow> sret ([WakeLa mk dat], ms)
       | None \<Rightarrow> sthen (update_local_activities f) (sret ([], ms)))) ?Q" for n dat f
    by (rule safe_post [OF safe_scan_la]) (simp add: assms)
  have other: "safe (\<lambda>_. True) (sret ([], ms)) ?Q" by (rule safe_ret) (simp add: assms)
  show ?thesis
  proof (cases "get_patch_marker_details x e")
    case None
    show ?thesis
    proof (cases "is_local_activity_marker e")
      case True
      with None show ?thesis unfolding scan_event_def by (auto split: option.splits intro: la)
    next
      case False
      with None show ?thesis
        unfolding scan_event_def
        by (cases "he_attributes e", simp add: other, case_tac a) (simp_all add: other acc)
    qed
  qed (auto simp: scan_event_def intro: patch)
qed

lemma safe_scan:
  assumes "admitted_ok ms"
  shows "safe (\<lambda>_. True) (scan_ahead x es ms) (\<lambda>as s. \<forall>a \<in> set as. action_ok a s)"
  using assms
proof (induction es arbitrary: ms)
  case (Cons e es)
  show ?case
    unfolding scan_ahead.simps
  proof (rule safe_chain [OF safe_scan_event [OF Cons.prems]])
    fix r :: "delayed_action list \<times> admitted"
    obtain as ms' where r: "r = (as, ms')" by fastforce
    have "safe (\<lambda>s. \<forall>a \<in> set as. action_ok a s)
        (sbind (scan_ahead x es ms') (\<lambda>more. sret (as @ more))) (\<lambda>as s. \<forall>a \<in> set as. action_ok a s)"
      if "admitted_ok ms'"
      by (rule safe_bind [OF safe_pre [OF Cons.IH [OF that]]]) (auto intro!: safe_ret)
    then show "safe (\<lambda>s. admitted_ok (snd r) \<and> (\<forall>a \<in> set (fst r). action_ok a s))
        (case r of (as, ms') \<Rightarrow> sbind (scan_ahead x es ms') (\<lambda>more. sret (as @ more)))
        (\<lambda>as s. \<forall>a \<in> set as. action_ok a s)"
      unfolding r prod.case fst_conv snd_conv
      by (rule_tac safe_assume [where b = "admitted_ok ms'"]) (auto intro: safe_pre)
  qed
qed (simp add: safe_ret)

lemma safe_delayed:
  assumes "env_ok env"
  shows "safe (action_ok a) (delayed env a) (\<lambda>_ _. True)"
proof (cases a)
  case (WakeLa k dat)
  have wake: "safe (\<lambda>s. kind_at s k = Some K_LocalActivity)
      (sbind (machine_run k (on_local_activity (Ok []) (\<lambda>lam. la_try_resolve_with_dat x lam d)))
        (process_machine_responses env k)) (\<lambda>_ _. True)" for x d
    by (rule safe_seq [OF safe_la_run]) (auto intro!: la_calls safe_process [OF assms])
  have "safe (\<lambda>s. kind_at s k = Some K_LocalActivity) (delayed env (WakeLa k dat)) (\<lambda>_ _. True)"
    unfolding delayed_def delayed_action.case
    by (rule safe_machine_bind)
      (auto simp: kind_local_activity intro!: safe_lift_bind la_reads_no_panic(2) wake)
  with WakeLa show ?thesis by (simp add: action_ok_def [abs_def])
next
  case (DelayedMessage m)
  show ?thesis
    unfolding DelayedMessage
    by (rule safe_assume [where b = "update_request_ok (ipm_body m)"])
      (auto simp: action_ok_def delayed_def intro: safe_protocol_message assms)
qed

subsection \<open>One workflow task\<close>

text \<open>The caller asks \<open>ready_to_apply_next_wft\<close> first.\<close>

definition can_apply :: "workflow_machines \<Rightarrow> bool" where
  "can_apply s \<longleftrightarrow> wm_have_seen_terminal_event s \<or> ready_to_apply_next_wft s"

lemma safe_take_sequence: "safe ready_to_apply_next_wft take_sequence (\<lambda>_ _. True)"
proof (rule safeI)
  fix s
  assume "ready_to_apply_next_wft s"
  then obtain r h where "take_next_wft_sequence (wm_last_history_from_server s)
      (wm_current_started_event_id s) = (Ok r, h)"
    unfolding ready_to_apply_next_wft_def using take_when_ready by blast
  then show "\<not> is_panic (fst (take_sequence s))" by (simp add: take_sequence_def)
qed (auto simp: take_sequence_def split: prod.splits)

lemma safe_next_events: "safe P (next_events n) (\<lambda>_ _. True)"
  by (cases n) (auto simp: next_events_def)

lemma safe_apply_next:
  assumes "env_ok env"
  shows "safe can_apply (apply_next_wft_from_history env) (\<lambda>_ _. True)"
proof -
  have set: "safe (\<lambda>_. True) (smod (\<lambda>s. s\<lparr>wm_replaying := b\<rparr>)) (\<lambda>_ _. True)"
    "safe (\<lambda>_. True) (smod (\<lambda>s. s\<lparr>wm_next_started_event_id := i\<rparr>)) (\<lambda>_ _. True)" for b i
    by (auto intro: safe_mod)
  have look: "safe (\<lambda>_. True) (sbind (scan_ahead x es ms) (\<lambda>as. sthen (sfor (delayed env) as) (sret n)))
      (\<lambda>_ _. True)" if "admitted_ok ms" for x es ms n
    by (rule safe_chain [OF safe_scan [OF that]], rule safe_chain [where Q = "\<lambda>_ _. True"], rule safe_for)
      (auto intro: safe_pre [OF safe_delayed [OF assms]])
  have evs: "safe (\<lambda>_. True) (sbind (apply_events env f es (True, [])) (\<lambda>ms.
      sbind (sget (\<lambda>s. peek_next_wft_sequence (wm_last_history_from_server s) last)) (\<lambda>ahead.
      sbind (scan_ahead (env_x env) ahead ms) (\<lambda>as. sthen (sfor (delayed env) as) (sret n)))))
      (\<lambda>_ _. True)" for f es last n
  proof (rule safe_chain [OF safe_apply_events [OF assms]])
    show "safe (\<lambda>_. admitted_ok ms)
        (sbind (sget (\<lambda>s. peek_next_wft_sequence (wm_last_history_from_server s) last)) (\<lambda>ahead.
         sbind (scan_ahead (env_x env) ahead ms) (\<lambda>as. sthen (sfor (delayed env) as) (sret n))))
        (\<lambda>_ _. True)" for ms
      by (rule safe_assume, assumption, rule safe_get_bind, rule safe_pre [OF look]) simp_all
  qed (simp add: admitted_ok_def)
  have rest: "safe (\<lambda>_. True) (sbind (next_events n) (\<lambda>(events, has_final_event).
       sthen (apply_completed_tasks events)
       (sthen (if events = [] then smod (\<lambda>s. s\<lparr>wm_replaying := False\<rparr>) else sret ())
       (sthen (if events \<noteq> [] \<and> event_type_try_from (he_event_type (last events)) = Some ET_WorkflowTaskStarted
               then smod (\<lambda>s. s\<lparr>wm_next_started_event_id := he_event_id (last events)\<rparr>)
               else sret ())
       (sbind (apply_events env has_final_event events (True, [])) (\<lambda>messages.
       sbind (sget (\<lambda>s. peek_next_wft_sequence (wm_last_history_from_server s) lh)) (\<lambda>ahead.
       sbind (scan_ahead (env_x env) ahead messages) (\<lambda>delayed_actions.
       sthen (sfor (delayed env) delayed_actions)
       (sret (length events)))))))))) (\<lambda>_ _. True)" for n lh
    by (rule safe_seq [OF safe_next_events], simp, rename_tac p, case_tac p, simp only: prod.case)
      (intro safe_seq safe_completed_tasks safe_if set safe_unit evs stable_intros)
  show ?thesis
    unfolding apply_next_wft_from_history_def
  proof (rule safe_read, rule safe_if)
    show "safe (\<lambda>s'. s' = s) (sthen (smod (\<lambda>s. s\<lparr>wm_replaying := False\<rparr>)) (sret 0)) (\<lambda>_ _. True)" for s
      by (rule safe_pre [where P = "\<lambda>_. True"], rule safe_seq) (auto intro: set)
  qed (rule safe_get_bind, rule safe_chain [OF safe_pre [OF safe_take_sequence]],
      simp add: can_apply_def, rule rest)
qed

lemma safe_new_work:
  assumes "env_ok env" "\<forall>m \<in> set msgs. update_request_ok (ipm_body m)"
  shows "safe (\<lambda>s. wm_have_seen_terminal_event s \<or>
      can_take_next_wft_sequence update (wm_current_started_event_id s))
    (new_work_from_server env update msgs) (\<lambda>_ _. True)"
proof -
  let ?P = "\<lambda>s. wm_have_seen_terminal_event s \<or>
      can_take_next_wft_sequence update (wm_current_started_event_id s)"
  have 1: "safe ?P (smod (\<lambda>s. s\<lparr>wm_protocol_msgs := msgs\<rparr>)) (\<lambda>_. ?P)"
    using assms(2) by (intro safe_mod) (simp add: wm_inv_defs)
  have 2: "safe ?P (smod (\<lambda>s. s\<lparr>wm_last_history_from_server := update,
      wm_replaying := (hu_previous_wft_started_id update > 0)\<rparr>)) (\<lambda>_. can_apply)"
    by (intro safe_mod) (auto simp: can_apply_def ready_to_apply_next_wft_def)
  show ?thesis
    unfolding new_work_from_server_def new_history_from_server_def
    by (rule safe_chain [OF 1], rule safe_chain [OF 2], rule safe_chain [OF safe_apply_next [OF assms(1)]])
      simp
qed

section \<open>What events leave alone\<close>

locale event_frame = command_frame +
  assumes event_updates: "I s \<Longrightarrow> I (wm_machines_by_event_id_update f15 s)"
    "I s \<Longrightarrow> I (wm_machines_by_protocol_instance_id_update f16 s)"
    "I s \<Longrightarrow> I (wm_protocol_msgs_update f17 s)" "I s \<Longrightarrow> I (wm_replaying_update f18 s)"
    "I s \<Longrightarrow> I (wm_have_seen_terminal_event_update f19 s)"
    "I s \<Longrightarrow> I (wm_workflow_start_time_update f20 s)"
    "I s \<Longrightarrow> I (wm_history_size_bytes_update f21 s)"
    "I s \<Longrightarrow> I (wm_continue_as_new_suggested_update f22 s)"
begin

lemma keeps_protocol_message: "keeps I (handle_protocol_message env msg)"
  unfolding handle_protocol_message_def Let_def add_new_protocol_machine_def
  by (auto intro!: keeps_bind keeps_steps keeps_process keeps_mod event_updates
      split: option.splits sequencing_id.splits)

lemma keeps_front: "keeps I front_machine"
  unfolding keeps_def
proof (intro allI impI)
  fix s
  assume "I s"
  then show "I (snd (front_machine s))"
    using front_machine_state by (metis prod.collapse)
qed

lemma keeps_pop: "keeps I pop_command"
  by (auto simp: keeps_def pop_command_def command_updates split: list.splits)

lemma keeps_turn: "keeps I (command_turn env ed nx)"
  unfolding command_turn_def
  by (auto intro!: keeps_bind keeps_front keeps_pop keeps_cancelled keeps_submachine
      split: event_handling_outcome.splits option.splits)

lemma keeps_loop: "keeps I (command_loop env ed nx)"
proof -
  have "I (snd (command_loop env ed nx s))" if "I s" for env ed nx s
    using that
  proof (induction env ed nx s rule: command_loop.induct)
    case (1 env ed nx s)
    obtain t s1 where t: "command_turn env ed nx s = (t, s1)" by fastforce
    have s1: "I s1" using keepsD [OF keeps_turn 1(2)] t by (metis snd_conv)
    show ?case
    proof (cases t)
      case (Ok r)
      then show ?thesis
        using 1(1) [OF t [symmetric] Ok _ s1] s1
        by (cases r) (simp_all add: command_loop.simps [of env ed nx s] t)
    qed (use s1 in \<open>simp_all add: command_loop.simps [of env ed nx s] t\<close>)
  qed
  then show ?thesis by (simp add: keeps_def)
qed

lemma keeps_command_event: "keeps I (handle_command_event env ed nx)"
  unfolding handle_command_event_def local_activity_marker_def
  by (auto intro!: keeps_bind keeps_loop keeps_steps keeps_keys keeps_submachine keeps_mod
      event_updates split: sum.splits option.splits machines.splits)

lemma keeps_non_stateful: "keeps I (handle_non_stateful_event env ed)"
proof -
  have job: "keeps I (case he_attributes e of
        Some (WorkflowExecutionSignaledEventAttributes attrs) \<Rightarrow> send_wf_job (f attrs)
      | _ \<Rightarrow> sret ())"
    "keeps I (case he_attributes e of
        Some (WorkflowExecutionCancelRequestedEventAttributes cause) \<Rightarrow> send_wf_job (g cause)
      | _ \<Rightarrow> sret ())" for e f g
    by (cases "he_attributes e", simp, case_tac a, simp_all add: keeps_steps)+
  show ?thesis
    unfolding handle_non_stateful_event_def Let_def
    by (cases "event_type_try_from (he_event_type (hed_event ed))", simp, case_tac a, simp_all add: job)
      (auto split: option.splits intro!: keeps_bind keeps_steps keeps_submachine keeps_mod updates
        event_updates)
qed

lemma keeps_stateful: "keeps I (handle_stateful_or_not env ed)"
  unfolding handle_stateful_or_not_def Let_def
  by (intro keeps_bind keeps_simple)
    (auto split: option.splits intro!: keeps_bind keeps_mod keeps_non_stateful keeps_submachine
      event_updates)

lemma keeps_event: "keeps I (wm_handle_event env ed nx)"
  unfolding wm_handle_event_def Let_def
  by (rule keeps_bind) (auto intro: keeps_mod event_updates keeps_command_event keeps_stateful)

lemma keeps_end_of_replay: "keeps I (end_of_replay b e)"
  unfolding end_of_replay_def by (auto intro!: keeps_mod event_updates)

lemma keeps_admitted: "keeps I (update_admitted e b ms)"
  unfolding update_admitted_def
  by (cases "he_attributes e", simp, case_tac a, simp_all)
    (auto intro!: keeps_bind keeps_mod event_updates split: sum.splits)

lemma keeps_take_msgs: "keeps I (take_processable_msgs i)"
  by (simp add: keeps_def take_processable_msgs_def Let_def event_updates)

lemma keeps_scan_event: "keeps I (scan_event x e ms)"
  unfolding scan_event_def
  by (cases "he_attributes e", simp, case_tac [2] a)
    (auto intro!: keeps_bind keeps_mod keeps_steps command_updates split: option.splits sum.splits)

lemma keeps_scan: "keeps I (scan_ahead x es ms)"
  by (induction es arbitrary: ms) (auto intro!: keeps_bind keeps_scan_event split: prod.splits)

lemma keeps_delayed: "keeps I (delayed env a)"
  unfolding delayed_def
  by (auto intro!: keeps_bind keeps_steps keeps_process keeps_protocol_message
      split: delayed_action.splits machines.splits)

end

interpretation event_counter: event_frame "\<lambda>s. J (wm_last_processed_event s)" for J
  by unfold_locales simp_all

section \<open>What the whole engine leaves alone\<close>

locale apply_frame = event_frame +
  assumes apply_updates: "I s \<Longrightarrow> I (wm_last_processed_event_update f23 s)"
    "I s \<Longrightarrow> I (wm_next_started_event_id_update f25 s)"
    "I s \<Longrightarrow> I (wm_current_wft_build_id_update f26 s)"
begin

lemma keeps_apply_event: "keeps I (apply_event env b e nx vars)"
  unfolding apply_event_def Let_def
  by (auto intro!: keeps_bind keeps_end_of_replay keeps_admitted keeps_take_msgs keeps_for
      keeps_protocol_message keeps_event keeps_mod apply_updates split: prod.splits)

lemma keeps_apply_events: "keeps I (apply_events env b es vars)"
  by (induction es arbitrary: vars) (auto intro!: keeps_bind keeps_apply_event)

lemma keeps_completed_tasks: "keeps I (apply_completed_tasks es)"
  by (induction es) (auto intro!: keeps_bind keeps_mod updates apply_updates
      simp: apply_wft_complete_data_def split: option.splits)

end

locale engine_frame = apply_frame +
  assumes engine_updates: "I s \<Longrightarrow> I (wm_last_history_from_server_update f24 s)"
begin

lemma keeps_take_sequence: "keeps I take_sequence"
  by (auto simp: keeps_def take_sequence_def engine_updates split: prod.splits)

lemma keeps_apply_next: "keeps I (apply_next_wft_from_history env)"
  unfolding apply_next_wft_from_history_def next_events_def
  by (auto intro!: keeps_bind keeps_take_sequence keeps_completed_tasks keeps_apply_events keeps_scan
      keeps_for keeps_delayed keeps_mod event_updates apply_updates split: next_wft.splits)

lemma keeps_new_work: "keeps I (new_work_from_server env u msgs)"
  unfolding new_work_from_server_def new_history_from_server_def
  by (auto intro!: keeps_bind keeps_apply_next keeps_mod event_updates engine_updates)

lemma keeps_local_resolution: "keeps I (local_resolution env r)"
  unfolding local_resolution_def by (intro keeps_bind keeps_keys keeps_steps keeps_process keeps_simple)

lemma keeps_get_commands: "keeps I get_commands"
  unfolding get_commands_def real_command_def
  by (auto intro!: keeps_bind keeps_map keeps_steps keeps_mod updates)

end

section \<open>The operations of the engine\<close>

text \<open>
  What the owner of a run calls.  \<open>Push_Commands\<close> is the language layer's completion, put into the
  channel that \<open>iterate_machines\<close> reads.
\<close>

datatype (plugins only: code) engine_op =
    New_Work engine_env history_update "incoming_protocol_message list"
  | Apply_Next engine_env
  | Push_Commands "wf_command list"
  | Iterate engine_env
  | Local_Resolution engine_env local_activity_resolution
  | Drain_Local_Activities engine_env
  | Get_Commands
  | Get_Activation externals
  | Get_Metadata
  | Add_Lang_Flags "u32 list"
  | Try_Flag core_internal_flags bool
  | Take_Messages
  | Reset_Started event_id

definition forget :: "'a wm_action \<Rightarrow> unit wm_action" where
  "forget m = sthen m (sret ())"

definition engine_step :: "engine_op \<Rightarrow> unit wm_action" where
  "engine_step p =
     (case p of
        New_Work env u msgs \<Rightarrow> new_work_from_server env u msgs
      | Apply_Next env \<Rightarrow> forget (apply_next_wft_from_history env)
      | Push_Commands cs \<Rightarrow> smod (\<lambda>s. s\<lparr>wm_drive_me := send_commands cs (wm_drive_me s)\<rparr>)
      | Iterate env \<Rightarrow> iterate_machines env
      | Local_Resolution env r \<Rightarrow> forget (local_resolution env r)
      | Drain_Local_Activities env \<Rightarrow> forget (drain_queued_local_activities env)
      | Get_Commands \<Rightarrow> forget get_commands
      | Get_Activation x \<Rightarrow> forget (get_wf_activation x)
      | Get_Metadata \<Rightarrow> forget get_metadata_for_wft_complete
      | Add_Lang_Flags fs \<Rightarrow> wm_add_lang_used_flags fs
      | Try_Flag f b \<Rightarrow> forget (try_use_flag f b)
      | Take_Messages \<Rightarrow> forget take_messages
      | Reset_Started i \<Rightarrow> reset_last_started_id i)"

text \<open>
  What the owner ensures: history is only applied when the next sequence is there, requests passed
  validation, queries are answered elsewhere, a speculative task that is undone has created
  workflow task machines only, and the workflow time at which a local activity was scheduled plus
  the runtime reported for it is a time the platform can represent.
\<close>

definition la_fits :: "machine_key \<Rightarrow> duration \<Rightarrow> workflow_machines \<Rightarrow> bool" where
  "la_fits k runtime s =
     (case map_of (wm_all_machines s) k of
        Some (LocalActivityMachine lam) \<Rightarrow>
          (case la_wf_time_when_started (fsm_shared lam) of
             Some t \<Rightarrow> t + runtime < system_time_end
           | None \<Rightarrow> True)
      | _ \<Rightarrow> True)"

definition resolution_fits :: "local_activity_resolution \<Rightarrow> workflow_machines \<Rightarrow> bool" where
  "resolution_fits r s =
     (case map_of (wm_id_to_machine s) (IdLocalActivity (lar_seq r)) of
        Some k \<Rightarrow> la_fits k (lar_runtime r) s
      | None \<Rightarrow> True)"

definition op_ready :: "engine_op \<Rightarrow> workflow_machines \<Rightarrow> bool" where
  "op_ready p s =
     (case p of
        New_Work env u msgs \<Rightarrow> env_ok env \<and> (\<forall>m \<in> set msgs. update_request_ok (ipm_body m)) \<and>
          (wm_have_seen_terminal_event s \<or> can_take_next_wft_sequence u (wm_current_started_event_id s))
      | Apply_Next env \<Rightarrow> env_ok env \<and> can_apply s
      | Push_Commands cs \<Rightarrow> \<forall>c \<in> set cs. \<not> is_query_response c
      | Iterate env \<Rightarrow> env_ok env
      | Local_Resolution env r \<Rightarrow> env_ok env \<and> resolution_fits r s
      | Reset_Started i \<Rightarrow> \<forall>(e, k) \<in> set (wm_machines_by_event_id s).
          e > wm_last_processed_event s - 2 \<longrightarrow> kind_at s k = Some K_WorkflowTask
      | _ \<Rightarrow> True)"

inductive reachable :: "workflow_machines \<Rightarrow> bool" where
  start: "reachable (wm_new basics dw_new)"
| step: "reachable s \<Longrightarrow> op_ready p s \<Longrightarrow> engine_step p s = (Ok u, s') \<Longrightarrow> reachable s'"

subsection \<open>Every operation is safe\<close>

lemma safe_forget: "safe P m (\<lambda>_ _. True) \<Longrightarrow> safe P (forget m) (\<lambda>_ _. True)"
  unfolding forget_def by (erule safe_chain) simp

text \<open>Resolving a local activity whose time of completion can be represented.\<close>

lemma resolve_call:
  assumes "fsm_ok lam" "\<And>t. la_wf_time_when_started (fsm_shared lam) = Some t \<Longrightarrow>
    t + runtime < system_time_end"
  shows "call_ok fsm_ok True (la_try_resolve x lam r runtime a b orig)"
  using la_request_call [OF assms(1), of "LaResolve r runtime a b orig" x] assms(2)
  by (cases "la_wf_time_when_started (fsm_shared lam)")
    (auto simp: complete_time_def time_add_def)

lemma safe_resolve:
  "safe (\<lambda>s. kind_at s k = Some K_LocalActivity \<and> la_fits k runtime s)
     (machine_run k (on_local_activity z (\<lambda>lam. la_try_resolve x lam r runtime a b orig)))
     (\<lambda>_ s. kind_at s k = Some K_LocalActivity)"
proof -
  define f where "f = (\<lambda>lam. la_try_resolve x lam r runtime a b orig)"
  define fits where "fits lam \<longleftrightarrow> (\<forall>t. la_wf_time_when_started (fsm_shared lam) = Some t \<longrightarrow>
    t + runtime < system_time_end)" for lam :: la_machine
  define g where "g lam = (if fits lam then f lam else (Ok [], lam))" for lam
  have "safe (\<lambda>s. kind_at s k = Some K_LocalActivity) (machine_run k (on_local_activity z g))
      (\<lambda>_ _. True)"
  proof (rule safe_la_run)
    show "call_ok fsm_ok True (g lam)" if "fsm_ok lam" for lam
    proof (cases "fits lam")
      case True
      with that show ?thesis by (auto simp: g_def f_def fits_def intro!: resolve_call)
    qed (use that in \<open>simp add: g_def call_ok_def\<close>)
  qed
  then have g: "safe (\<lambda>s. kind_at s k = Some K_LocalActivity) (machine_run k (on_local_activity z g))
      (\<lambda>_ s. kind_at s k = Some K_LocalActivity)"
    by (rule safe_post [OF safe_keep]) auto
  have "machine_run k (on_local_activity z f) s = machine_run k (on_local_activity z g) s"
    if "la_fits k runtime s" for s
    using that
    by (auto simp: machine_run_def la_fits_def fits_def g_def on_local_activity_def with_flags_def
        split: option.splits machines.splits)
  with g show ?thesis
    unfolding f_def [symmetric] by (intro safeI) (auto dest: safeD)
qed

lemma safe_local_resolution:
  assumes "env_ok env"
  shows "safe (resolution_fits r) (local_resolution env r) (\<lambda>_ _. True)"
proof -
  have "safe (resolution_fits r) (get_machine_key (IdLocalActivity (lar_seq r)))
      (\<lambda>k s. kind_at s k = Some K_LocalActivity \<and> la_fits k (lar_runtime r) s)"
    by (rule safeI) (auto simp: get_machine_key_def wm_inv_defs resolution_fits_def
        split: option.splits dest!: map_of_SomeD)
  then show ?thesis
    unfolding local_resolution_def
    by (rule safe_chain, intro safe_chain [OF safe_resolve])
      (auto intro!: safe_seq [OF safe_process [OF assms resp_ok_local_activity]] safe_seq)
qed

lemma safe_get_commands: "safe (\<lambda>_. True) get_commands (\<lambda>_ _. True)"
proof -
  have real: "safe (command_key (cm_machine c)) (real_command c) (\<lambda>_ _. True)" for c
    unfolding real_command_def
    by (rule safe_ex, rule safe_machine_bind) (auto intro!: safe_lift_bind final_state_no_panic)
  have all: "safe (\<lambda>s. \<forall>c \<in> set cs. command_key (cm_machine c) s) (smap real_command cs)
      (\<lambda>bs s. \<forall>b \<in> set bs. True)" for cs
    by (rule safe_map) (auto intro: safe_pre [OF real])
  have get: "safe (\<lambda>_. True) (sget wm_commands) (\<lambda>cs s. \<forall>c \<in> set cs. command_key (cm_machine c) s)"
    by (rule safe_get) (auto simp: wm_inv_defs)
  have "safe (\<lambda>_. True) (sbind (sget wm_commands) (\<lambda>cs. sbind (smap real_command cs)
      (\<lambda>ls. sret (concat ls)))) (\<lambda>_ _. True)"
    by (rule safe_chain [OF get], rule safe_chain [OF all]) simp
  then show ?thesis
    unfolding get_commands_def by (rule safe_chain [rotated]) (auto intro: safe_mod)
qed

lemma safe_reads:
  "safe P (drain_queued_local_activities env) (\<lambda>_ _. True)"
  "safe P (get_wf_activation x) (\<lambda>_ _. True)" "safe P get_metadata_for_wft_complete (\<lambda>_ _. True)"
  "safe P (wm_add_lang_used_flags fs) (\<lambda>_ _. True)" "safe P (try_use_flag f b) (\<lambda>_ _. True)"
  "safe P take_messages (\<lambda>_ _. True)"
  by (rule safeI; auto simp: drain_queued_local_activities_def get_wf_activation_def drain_jobs_def
      get_metadata_for_wft_complete_def wm_add_lang_used_flags_def try_use_flag_def take_messages_def
      smod_def Let_def split: prod.splits)+

lemma push_commands_inv:
  "wm_inv s \<Longrightarrow> \<forall>c \<in> set cs. \<not> is_query_response c \<Longrightarrow>
   wm_inv (s\<lparr>wm_drive_me := send_commands cs (wm_drive_me s)\<rparr>)"
  by (auto simp: wm_inv_defs send_commands_def)

lemma kinds_without:
  "kinds (filter (\<lambda>(k, m). k \<notin> d) ms) k = (if k \<in> d then None else kinds ms k)"
  by (induction ms) (auto simp: kinds_def)

lemma map_of_without:
  "map_of (filter (\<lambda>(k, m). k \<notin> d) ms) k = (if k \<in> d then None else map_of ms k)"
  by (induction ms) auto

text \<open>Undoing a task drops its workflow task machine, which only its own event refers to.\<close>

lemma reset_inv:
  assumes s: "wm_inv s" and ready: "op_ready (Reset_Started i) s"
  shows "wm_inv (snd (reset_last_started_id i s))"
proof -
  let ?es = "wm_machines_by_event_id s" and ?last = "wm_last_processed_event s - 2"
  define d where "d = snd ` set (filter (\<lambda>(mid, mkey). mid > ?last) ?es)"
  let ?s = "s\<lparr>wm_current_started_event_id := i, wm_last_processed_event := ?last,
      wm_machines_by_event_id := filter (\<lambda>(mid, mkey). \<not> mid > ?last) ?es,
      wm_all_machines := filter (\<lambda>(k, m). k \<notin> d) (wm_all_machines s)\<rparr>"
  have d: "kind_at s k = Some K_WorkflowTask" if "k \<in> d" for k
    using that ready by (auto simp: d_def op_ready_def)
  have kept: "kind_at ?s k = Some kd" if "kind_at s k = Some kd" "kd \<noteq> K_WorkflowTask" for k kd
    using that d by (auto simp: kinds_without)
  have other: "k \<notin> d" if "(e, k) \<in> set ?es" "\<not> e > ?last" for e k
  proof
    assume "k \<in> d"
    then obtain e' where e': "(e', k) \<in> set ?es" "e' > ?last" by (auto simp: d_def)
    have "(e, k) \<in> set (task_entries s)" "(e', k) \<in> set (task_entries s)"
      using d [OF \<open>k \<in> d\<close>] that(1) e'(1) by (auto simp: task_entries_def)
    moreover have "inj_on snd (set (task_entries s))"
      using s by (simp add: wm_inv_def events_wf_def distinct_map)
    ultimately have "e = e'" by (metis Pair_inject inj_on_contraD snd_conv)
    with e'(2) that(2) show False by simp
  qed
  have "machines_wf ?s" using s by (auto simp: wm_inv_def machines_wf_def map_of_without)
  moreover have "commands_wf ?s" using s kept unfolding wm_inv_def commands_wf_def by simp blast
  moreover have "ids_wf ?s"
  proof -
    have "command_kind i \<noteq> K_WorkflowTask" for i by (cases i) simp_all
    with s kept show ?thesis unfolding wm_inv_def ids_wf_def by auto
  qed
  moreover have "task_entries ?s = filter (\<lambda>(mid, mkey). \<not> mid > ?last) (task_entries s)"
    using other by (auto simp: task_entries_def kinds_without intro!: filter_cong)
  then have "events_wf ?s"
    using s other by (auto simp: wm_inv_def events_wf_def kinds_without distinct_map_filter)
  moreover have "inputs_wf ?s" using s by (simp add: wm_inv_def inputs_wf_def)
  ultimately show ?thesis
    by (simp add: wm_inv_def reset_last_started_id_def smod_def d_def Let_def)
qed

lemma op_keeps_inv:
  assumes s: "wm_inv s" and ready: "op_ready p s"
  shows "\<not> is_panic (fst (engine_step p s)) \<and> (\<forall>u s'. engine_step p s = (Ok u, s') \<longrightarrow> wm_inv s')"
proof (cases p)
  case (Push_Commands cs)
  with s ready push_commands_inv show ?thesis
    by (auto simp: engine_step_def op_ready_def smod_def)
next
  case (Reset_Started i)
  with reset_inv [OF s, of i] ready show ?thesis
    by (auto simp: engine_step_def reset_last_started_id_def smod_def)
next
  case (New_Work env u msgs)
  with safeD [OF safe_new_work s, of env msgs u] ready show ?thesis
    by (auto simp: engine_step_def op_ready_def)
next
  case (Apply_Next env)
  with safeD [OF safe_forget [OF safe_apply_next] s, of env] ready show ?thesis
    by (auto simp: engine_step_def op_ready_def)
next
  case (Iterate env)
  with safeD [OF safe_iterate s, of env "\<lambda>_. True"] ready show ?thesis
    by (auto simp: engine_step_def op_ready_def)
next
  case (Local_Resolution env r)
  with safeD [OF safe_forget [OF safe_local_resolution] s, of env] ready show ?thesis
    by (auto simp: engine_step_def op_ready_def)
next
  case Get_Commands
  with safeD [OF safe_forget [OF safe_get_commands] s] show ?thesis by (auto simp: engine_step_def)
qed (use safeD [OF safe_forget [OF safe_reads(1)] s, of "\<lambda>_. True"]
    safeD [OF safe_forget [OF safe_reads(2)] s, of "\<lambda>_. True"]
    safeD [OF safe_forget [OF safe_reads(3)] s, of "\<lambda>_. True"]
    safeD [OF safe_reads(4) s, of "\<lambda>_. True"] safeD [OF safe_forget [OF safe_reads(5)] s, of "\<lambda>_. True"]
    safeD [OF safe_forget [OF safe_reads(6)] s, of "\<lambda>_. True"]
    in \<open>auto simp: engine_step_def\<close>)

lemma new_inv: "wm_inv (wm_new basics dw_new)"
  by (simp add: wm_new_def dw_new_def wm_inv_defs)

lemma reachable_inv: "reachable s \<Longrightarrow> wm_inv s"
  by (induction rule: reachable.induct) (use new_inv op_keeps_inv in blast)+

end
