(* ===== verification/Engine_Properties.thy ===== *)
theory Engine_Properties
  imports Engine
begin

text \<open>
  What the operations of the orchestrator guarantee together: no panics, well-typed tables, time
  that does not go back, and events and commands that are met in order.
\<close>

section \<open>A concrete run\<close>

definition wit_timer :: wf_command where
  "wit_timer =
     \<lparr>wfc_variant = AddTimer \<lparr>st_seq = 1, st_start_to_fire_timeout = None\<rparr>, wfc_metadata = None\<rparr>"

definition wit_asked :: workflow_machines where
  "wit_asked = snd (engine_step (Push_Commands [wit_timer]) (wm_new wit_basics dw_new))"

text \<open>A run whose workflow has just started a timer.\<close>

definition wit_timed :: workflow_machines where
  "wit_timed = snd (engine_step (Iterate wit_env) wit_asked)"

lemmas wit_run_defs = engine_step_def iterate_machines_def action_defs
  fetch_workflow_iteration_output_def send_commands_def dw_new_def wm_new_def
  handle_driven_results_def handle_driven_result_def prepare_commands_def prepare_loop.simps
  prepare_command_def command_cancelled_def machine_def machine_run_def process_machine_responses_def
  add_lang_command_def add_cmd_to_wf_task_def add_new_command_machine_def slot_insert_def
  push_task_command_def was_cancelled_before_sent_to_server_def timer_was_cancelled_before_sent_def
  timer_new_scheduled_eq machines_handle_command_def with_flags_def handle_command_def
  timer_try_from_command_def proto_command_type_def start_timer_attrs_def on_event_def timer_handlers
  transition_results process_machine_commands_def

lemma wit_timed_run:
  "engine_step (Iterate wit_env) wit_asked = (Ok (), wit_timed)"
  "map_of (wm_id_to_machine wit_timed) (IdTimer 1) = Some 0"
proof -
  have 3: "command_type_get 3 = CT_StartTimer" by code_simp
  show "engine_step (Iterate wit_env) wit_asked = (Ok (), wit_timed)"
    "map_of (wm_id_to_machine wit_timed) (IdTimer 1) = Some 0"
    unfolding wit_timed_def wit_asked_def wit_timer_def
    by (simp_all add: wit_run_defs Let_def 3 numeral_3_eq_3)
qed

lemma wit_timed_reachable: "reachable wit_timed"
proof -
  have "reachable wit_asked"
    by (rule reachable.step [OF reachable.start, of "Push_Commands [wit_timer]" wit_basics])
      (simp_all add: op_ready_def is_query_response_def wit_timer_def wit_asked_def engine_step_def
        smod_def)
  then show ?thesis
    by (rule reachable.step [OF _ _ wit_timed_run(1)]) (simp add: op_ready_def wit_env_ok)
qed

text \<open>A run that has been given its first workflow task.\<close>

definition wit_task_events :: "history_event list" where
  "wit_task_events =
     [hed_event (mk_event 1 1 (WorkflowExecutionStartedEventAttributes
        \<lparr>wes_workflow_type = Some ''t'', wes_parent_workflow_namespace = [],
         wes_parent_workflow_execution = None, wes_input = None, wes_workflow_execution_timeout = None,
         wes_workflow_run_timeout = None, wes_workflow_task_timeout = None,
         wes_continued_execution_run_id = [], wes_initiator = 0, wes_continued_failure = None,
         wes_last_completion_result = None, wes_original_execution_run_id = ''r'', wes_identity = [],
         wes_first_execution_run_id = ''r'', wes_retry_policy = None, wes_attempt = 1,
         wes_workflow_execution_expiration_time = None, wes_cron_schedule = [],
         wes_first_workflow_task_backoff = None, wes_memo = None, wes_search_attributes = None,
         wes_header = None\<rparr>)),
      hed_event (mk_event 2 5 WorkflowTaskScheduledEventAttributes),
      hed_event (mk_event 3 6 (WorkflowTaskStartedEventAttributes
        \<lparr>wts_scheduled_event_id = 2, wts_history_size_bytes = 0, wts_suggest_continue_as_new = False\<rparr>))]"

definition wit_first_update :: "history_event list \<Rightarrow> history_update" where
  "wit_first_update es = \<lparr>hu_events = es, hu_previous_wft_started_id = 0, hu_wft_started_id = 3,
     hu_has_last_wft = True, hu_wft_count = 1\<rparr>"

definition wit_first :: workflow_machines where
  "wit_first = wm_new (wit_basics\<lparr>rb_history := wit_first_update wit_task_events\<rparr>) dw_new"

lemma wit_first_history:
  "take_next_wft_sequence (wit_first_update wit_task_events) 0 =
     (Ok (WFT wit_task_events True), wit_first_update [])"
  "peek_next_wft_completed (wit_first_update wit_task_events) 0 = None"
  "peek_next_wft_sequence (wit_first_update []) 0 = []"
  "peek_next_wft_completed (wit_first_update []) 3 = None"
  "hu_previous_wft_started_id (wit_first_update wit_task_events) = 0"
  by code_simp+

lemmas wit_first_defs = wit_task_events_def wm_new_def wit_basics_def take_sequence_def next_events_def
  concrete_events apply_event_def end_of_replay_def update_admitted_def take_processable_msgs_def
  wm_handle_event_def handle_stateful_or_not_def handle_non_stateful_event_def
  is_final_wf_execution_event_def is_command_event_def get_initial_command_event_id_def
  set_current_time_def dw_start_def wit_env_def wit_externals_def slot_insert_def
  submachine_handle_event_def machine_run_def machines_handle_event_def with_flags_def
  handle_event_def on_event_def wft_new_def wft_try_from_event_def process_machine_commands_def
  transition_results wft_handlers wft_adapt_response_def flags_of_def machine_def handle_response_def
  task_started_def command_event_types_def initial_command_event_id_def map_insert_def dw_new_def
  from_parts_def notify_non_replay_def process_machine_responses_def

lemma wit_first_applied: "\<exists>s'. apply_next_wft_from_history wit_env wit_first = (Ok 3, s')"
proof -
  have 3: "process_responses b env 3 = process_responses b env (Suc (Suc (Suc 0)))" for b env
    by (simp add: numeral_3_eq_3)
  note history = wit_first_history [unfolded wit_task_events_def mk_event_def, simplified]
  show ?thesis
    unfolding wit_first_def apply_next_wft_from_history_def
    by (simp add: action_defs Let_def history wit_first_defs 3)
qed

text \<open>A workflow that has asked for two timers and cancelled the first at once.\<close>

definition wit_issued :: workflow_machines where
  "wit_issued = snd (handle_driven_results wit_env
     (map (\<lambda>v. \<lparr>wfc_variant = v, wfc_metadata = None\<rparr>)
       [AddTimer \<lparr>st_seq = 1, st_start_to_fire_timeout = None\<rparr>,
        AddTimer \<lparr>st_seq = 2, st_start_to_fire_timeout = None\<rparr>, CancelTimer 1])
     (wm_new wit_basics dw_new))"

lemma wit_issued_run:
  "fst (prepare_commands wit_env wit_issued) = Ok ()"
  "map cm_machine (wm_current_wf_task_commands wit_issued) = [0, 1]" "wm_commands wit_issued = []"
  "cm_machine c = 0 \<Longrightarrow> fst (command_cancelled c wit_issued) = Ok True"
  "cm_machine c = 1 \<Longrightarrow> command_cancelled c wit_issued = (Ok False, wit_issued)"
proof -
  have 3: "command_type_get 3 = CT_StartTimer" by code_simp
  have p: "process_responses b env 3 = process_responses b env (Suc (Suc (Suc 0)))" for b env
    by (simp add: numeral_3_eq_3)
  note evaluate = wit_issued_def wit_run_defs Let_def 3 p cancel_machine_def get_machine_key_def
    cancel_timer_def timer_cancel_def
  show "fst (prepare_commands wit_env wit_issued) = Ok ()"
    "map cm_machine (wm_current_wf_task_commands wit_issued) = [0, 1]" "wm_commands wit_issued = []"
    "cm_machine c = 0 \<Longrightarrow> fst (command_cancelled c wit_issued) = Ok True"
    "cm_machine c = 1 \<Longrightarrow> command_cancelled c wit_issued = (Ok False, wit_issued)"
    by (simp_all add: evaluate)
qed

section \<open>Properties\<close>

text \<open>
  C1: The orchestrator does not panic.  Take any state that operations which each returned a value
  reach from a new run (history with its tasks and messages, commands of the language layer,
  resolutions of local activities, undone speculative tasks, and whatever is read in between; a run
  whose operation returned an error is not used further, it is evicted).  In such a state, with
  every history, every command and every resolution, an operation whose caller keeps its obligations
  returns a value or an error.  The obligations are those of \<open>op_ready\<close>: history is applied when the
  next sequence can be taken, protocol messages carry valid requests, no query answer is pushed as a
  command, the slot map lists keys it has, a speculative task that is undone has created workflow
  task machines only, and the start time of a local activity plus its reported runtime is a
  representable \<open>SystemTime\<close>.
\<close>

theorem engine_never_panics:
  assumes "reachable s" "op_ready p s"
  shows "\<not> is_panic (fst (engine_step p s))"
  using op_keeps_inv [OF reachable_inv [OF assms(1)] assms(2)] by blast

theorem engine_never_panics_witness:
  "op_ready (New_Work wit_env wit_update []) (wm_new wit_basics dw_new) \<and>
   \<not> is_panic (fst (engine_step (New_Work wit_env wit_update []) (wm_new wit_basics dw_new)))"
proof -
  have "can_take_next_wft_sequence wit_update 0" by code_simp
  then have "op_ready (New_Work wit_env wit_update []) (wm_new wit_basics dw_new)"
    by (simp add: op_ready_def wit_env_ok wm_new_def)
  with engine_never_panics [OF reachable.start] show ?thesis by blast
qed

text \<open>
  C6: The tables of the orchestrator are well typed in every reachable state: the sequence number
  of a timer leads to a timer machine, that of an activity to an activity machine and so on, a
  protocol instance leads to an update machine, and every event and every queued command that
  refers to a machine refers to one that exists, for commands one that is no workflow task.
\<close>

theorem engine_tables_typed:
  assumes "reachable s"
  shows "(map_of (wm_id_to_machine s) i = Some k \<longrightarrow>
        (\<exists>m. map_of (wm_all_machines s) k = Some m \<and> machine_kind_of m = command_kind i)) \<and>
     (map_of (wm_machines_by_protocol_instance_id s) j = Some k \<longrightarrow>
        (\<exists>u. map_of (wm_all_machines s) k = Some (UpdateMachine u))) \<and>
     (map_of (wm_machines_by_event_id s) e = Some k \<longrightarrow> map_of (wm_all_machines s) k \<noteq> None) \<and>
     (c \<in> set (wm_commands s @ wm_current_wf_task_commands s) \<longrightarrow>
        (\<exists>m. map_of (wm_all_machines s) (cm_machine c) = Some m \<and> machine_kind_of m \<noteq> K_WorkflowTask))"
proof -
  note inv = reachable_inv [OF assms]
  have upd: "\<exists>u. m = UpdateMachine u" if "machine_kind_of m = K_Update" for m
    using that by (cases m) auto
  have 1: "\<exists>m. map_of (wm_all_machines s) k = Some m \<and> machine_kind_of m = kd"
    if "kind_at s k = Some kd" for k kd
    using that by (auto simp: kinds_def)
  show ?thesis
  proof (intro conjI impI)
    assume "map_of (wm_id_to_machine s) i = Some k"
    with inv have "kind_at s k = Some (command_kind i)"
      by (auto simp: wm_inv_def ids_wf_def dest: map_of_SomeD)
    then show "\<exists>m. map_of (wm_all_machines s) k = Some m \<and> machine_kind_of m = command_kind i"
      by (rule 1)
  next
    assume "map_of (wm_machines_by_protocol_instance_id s) j = Some k"
    with inv have "kind_at s k = Some K_Update"
      by (auto simp: wm_inv_def ids_wf_def dest: map_of_SomeD)
    with 1 upd show "\<exists>u. map_of (wm_all_machines s) k = Some (UpdateMachine u)" by blast
  next
    assume "map_of (wm_machines_by_event_id s) e = Some k"
    with inv have "kind_at s k \<noteq> None"
      by (fastforce simp: wm_inv_def events_wf_def dest: map_of_SomeD)
    then show "map_of (wm_all_machines s) k \<noteq> None" by (auto simp: kinds_def)
  next
    assume "c \<in> set (wm_commands s @ wm_current_wf_task_commands s)"
    with inv obtain kd where "kind_at s (cm_machine c) = Some kd" "kd \<noteq> K_WorkflowTask"
      by (auto simp: wm_inv_def commands_wf_def)
    with 1 show "\<exists>m. map_of (wm_all_machines s) (cm_machine c) = Some m \<and>
        machine_kind_of m \<noteq> K_WorkflowTask" by blast
  qed
qed

theorem engine_tables_typed_witness:
  "\<exists>m. map_of (wm_all_machines wit_timed) 0 = Some m \<and> machine_kind_of m = K_Timer"
  using engine_tables_typed [OF wit_timed_reachable, of "IdTimer 1" 0] wit_timed_run(2) by simp

subsection \<open>Time\<close>

definition time_le :: "system_time option \<Rightarrow> system_time option \<Rightarrow> bool" where
  "time_le a b = (case (a, b) of (None, _) \<Rightarrow> True | (Some t, Some u) \<Rightarrow> t \<le> u | _ \<Rightarrow> False)"

interpretation workflow_time: engine_frame "\<lambda>s. time_le t (wm_current_wf_time s)" for t
  by unfold_locales (auto simp: time_le_def split: option.splits)

text \<open>
  C12: Workflow time never goes back: whatever operation runs in whatever state, and also when it
  ends in an error, the current time of the workflow afterwards is not before the one it had.
\<close>

theorem workflow_time_monotone:
  "time_le (wm_current_wf_time s) (wm_current_wf_time (snd (engine_step p s)))"
proof -
  let ?I = "\<lambda>s'. time_le (wm_current_wf_time s) (wm_current_wf_time s')"
  have forget: "keeps ?I (forget m)" if "keeps ?I m" for m :: "'z wm_action"
    unfolding forget_def using that by (intro keeps_bind keeps_simple)
  have reads: "keeps ?I (drain_queued_local_activities env)" "keeps ?I (get_wf_activation x)"
    "keeps ?I get_metadata_for_wft_complete" "keeps ?I (wm_add_lang_used_flags fs)"
    "keeps ?I (try_use_flag f b)" "keeps ?I take_messages" "keeps ?I (reset_last_started_id i)"
    for env x fs f b i
    by (auto simp: keeps_def drain_queued_local_activities_def get_wf_activation_def drain_jobs_def
        get_metadata_for_wft_complete_def wm_add_lang_used_flags_def try_use_flag_def take_messages_def
        reset_last_started_id_def smod_def Let_def split: prod.splits)
  have "keeps ?I (engine_step p)"
    unfolding engine_step_def
    by (cases p) (auto intro!: forget reads keeps_mod workflow_time.keeps_new_work
        workflow_time.keeps_apply_next workflow_time.keeps_iterate workflow_time.keeps_get_commands
        workflow_time.keeps_local_resolution)
  moreover have "?I s" by (simp add: time_le_def split: option.splits)
  ultimately show ?thesis by (rule keepsD)
qed

subsection \<open>Events in order\<close>

lemma apply_event_next:
  assumes "apply_event env b e nx vars s = (Ok r, s')"
  shows "he_event_id e = wm_last_processed_event s + 1 \<and> wm_last_processed_event s' = he_event_id e"
proof -
  have last: "wm_last_processed_event s2 = i"
    if "sthen (smod (\<lambda>s. s\<lparr>wm_last_processed_event := i\<rparr>)) (sret v) s1 = (Ok w, s2)" for i v w s1 s2
    using that by (auto simp: action_defs)
  from assms have e: "he_event_id e = wm_last_processed_event s + 1"
    by (auto simp: apply_event_def Let_def action_defs split: if_splits)
  from assms e show ?thesis
    by (auto simp: apply_event_def Let_def sget_def elim!: sbind_OkE split: prod.splits dest!: last)
qed

lemma apply_events_next:
  assumes "apply_events env b es vars s = (Ok ms, s')"
  shows "map he_event_id es = map (\<lambda>i. wm_last_processed_event s + 1 + int i) [0..<length es] \<and>
    wm_last_processed_event s' = wm_last_processed_event s + int (length es)"
  using assms
proof (induction es arbitrary: vars s)
  case (Cons e es)
  from Cons.prems obtain v s1 where e: "apply_event env b e (case es of [] \<Rightarrow> None | e # _ \<Rightarrow> Some e) vars s =
      (Ok v, s1)" and es: "apply_events env b es v s1 = (Ok ms, s')"
    by (auto elim: sbind_OkE)
  from apply_event_next [OF e] Cons.IH [OF es] show ?case
    by (auto simp: map_upt_Suc algebra_simps simp del: upt_Suc intro!: map_cong)
qed (simp add: sret_def)

lemma completed_tasks_counter: "keeps (\<lambda>s. wm_last_processed_event s = n) (apply_completed_tasks es)"
  by (induction es) (auto intro!: keeps_bind keeps_mod simp: apply_wft_complete_data_def
      split: option.splits)

text \<open>
  C8: Applying a workflow task applies its events one after another without a gap: when it
  succeeds, the number it returns is the number of events by which the counter of processed events
  has advanced.
\<close>

theorem apply_next_advances:
  assumes "apply_next_wft_from_history env s = (Ok n, s')"
  shows "wm_last_processed_event s' = wm_last_processed_event s + int n"
proof (cases "wm_have_seen_terminal_event s")
  case True
  with assms show ?thesis by (auto simp: apply_next_wft_from_history_def action_defs)
next
  case False
  let ?c = wm_last_processed_event
  have keep: "?c t' = ?c t" if "keeps (\<lambda>s. ?c s = ?c t) m" "m t = (r, t')" for m :: "'z wm_action" and r t t'
    using keepsD [OF that(1), of t] that(2) by simp
  have seq: "?c t' = ?c t" if "take_sequence t = (r, t')" for r t t'
    using that by (auto simp: take_sequence_def split: prod.splits)
  have nxt: "t' = t" if "next_events k t = (Ok r, t')" for k r t t'
    using that by (auto simp: next_events_def action_defs split: next_wft.splits)
  note frames = event_counter.keeps_scan [of "\<lambda>i. i = j" for j]
    keeps_for [OF event_counter.keeps_delayed [of "\<lambda>i. i = j" for j]]
  show ?thesis
    using assms False
    by (auto simp: apply_next_wft_from_history_def sget_def sret_def
        elim!: sbind_OkE split: prod.splits if_splits
        dest!: seq nxt keep [OF completed_tasks_counter] keep [OF frames(1)] keep [OF frames(2)]
          apply_events_next
        simp: smod_def)
qed

theorem apply_next_advances_witness:
  "\<exists>s'. apply_next_wft_from_history wit_env wit_first = (Ok 3, s') \<and>
     wm_last_processed_event wit_first = 0 \<and> wm_last_processed_event s' = 3"
proof -
  obtain s' where s': "apply_next_wft_from_history wit_env wit_first = (Ok 3, s')"
    using wit_first_applied by blast
  have "wm_last_processed_event wit_first = 0" by (simp add: wit_first_def wm_new_def)
  with apply_next_advances [OF s'] s' show ?thesis by simp
qed

subsection \<open>Commands in order\<close>

text \<open>
  C11: Preparing commands keeps them in order and drops exactly what was cancelled.  When it
  succeeds, no command of the task is left behind, and the commands to be sent are the commands
  queued before followed by the commands of this task, in the order they were issued, without those
  that were cancelled before they were sent.
\<close>

theorem prepare_commands_order:
  assumes "prepare_commands env s = (Ok u, s')"
  shows "wm_current_wf_task_commands s' = [] \<and>
    wm_commands s' = filter (\<lambda>c. command_cancelled c s = (Ok False, s))
      (wm_commands s @ wm_current_wf_task_commands s)"
proof -
  from assms obtain kept s1 where r: "retain_commands (wm_commands s) s = (Ok kept, s1)"
    and l: "prepare_loop env (s1\<lparr>wm_commands := kept\<rparr>) = (Ok u, s')"
    by (auto simp: prepare_commands_def action_defs split: prod.splits outcome.splits)
  have "command_cancelled c s = (Ok False, s) \<longleftrightarrow> fst (command_cancelled c s) = Ok False" for c
    by (cases "command_cancelled c s") (auto dest: command_cancelled_state)
  with retain_commands_filter [OF r] prepare_loop_queues [OF l] show ?thesis by simp
qed

theorem prepare_commands_order_witness:
  "\<exists>s'. prepare_commands wit_env wit_issued = (Ok (), s') \<and>
     map cm_machine (wm_current_wf_task_commands wit_issued) = [0, 1] \<and>
     map cm_machine (wm_commands s') = [1]"
proof -
  obtain s' where s': "prepare_commands wit_env wit_issued = (Ok (), s')"
    using wit_issued_run(1) by (cases "prepare_commands wit_env wit_issued") auto
  obtain c d where cd: "wm_current_wf_task_commands wit_issued = [c, d]" "cm_machine c = 0"
    "cm_machine d = 1" using wit_issued_run(2) by (auto simp: map_eq_Cons_conv)
  have "command_cancelled c wit_issued \<noteq> (Ok False, wit_issued)"
    using wit_issued_run(4) [OF cd(2)] by auto
  with prepare_commands_order [OF s'] wit_issued_run(3) wit_issued_run(5) [OF cd(3)] cd(1)
  have "wm_commands s' = [d]" by simp
  with s' cd show ?thesis by simp
qed

text \<open>Commands that an event may pass over: those cancelled before they were sent, and patches.\<close>

definition passed_over :: "workflow_machines \<Rightarrow> command_and_machine \<Rightarrow> bool" where
  "passed_over s c \<longleftrightarrow>
     (\<exists>m. map_of (wm_all_machines s) (cm_machine c) = Some m \<and>
        (was_cancelled_before_sent_to_server m = Ok True \<or> machine_kind_of m = K_Patch))"

lemma front_machine_Ok:
  assumes "front_machine s = (Ok mach, s')" "wm_commands s = c # cs"
  shows "\<exists>m. mach = Some m \<and> map_of (wm_all_machines s) (cm_machine c) = Some m"
proof (cases "map_of (wm_all_machines s) (cm_machine c)")
  case (Some m)
  with assms(2) have "front_machine s = (Ok (Some m), s)"
    by (simp add: front_machine_def machine_def action_defs)
  with assms(1) have "Some m = mach" by simp
  with Some show ?thesis by blast
qed (use assms in \<open>simp add: front_machine_def machine_def action_defs\<close>)

lemma skip_only_patch:
  "patch_marker_handling x e (Some m) nx = Ok SkipCommand \<Longrightarrow> machine_kind_of m = K_Patch"
  by (cases m) (auto simp: patch_marker_handling_def skip_one_or_two_events_def Let_def
      split: option.splits if_splits)

lemma command_cancelled_Ok:
  "command_cancelled c s = (Ok b, s') \<Longrightarrow>
   \<exists>m. map_of (wm_all_machines s) (cm_machine c) = Some m \<and> was_cancelled_before_sent_to_server m = Ok b"
  by (auto simp: command_cancelled_def machine_def action_defs split: option.splits outcome.splits)

lemma submachine_commands:
  "submachine_handle_event env k ed s = (r, s') \<Longrightarrow> wm_commands s' = wm_commands s"
  using keepsD [OF command_queue.keeps_submachine [of "\<lambda>cs. cs = wm_commands s" env k ed], of s] by simp

lemma command_turn_cases:
  assumes "command_turn env ed nx s = (Ok r, s')"
  shows "case r of
      None \<Rightarrow> \<exists>c cs. wm_commands s = c # cs \<and> s' = s\<lparr>wm_commands := cs\<rparr> \<and> passed_over s c
    | Some (Inl _) \<Rightarrow> s' = s
    | Some (Inr c) \<Rightarrow> wm_commands s = c # wm_commands s' \<and> command_cancelled c s = (Ok False, s)"
proof -
  from assms obtain mach eho where f: "front_machine s = (Ok mach, s)"
    and p: "patch_marker_handling (env_x env) (hed_event ed) mach nx = Ok eho"
    by (auto simp: command_turn_def sbind_def slift_def split: prod.splits outcome.splits
        dest: front_machine_state)
  have cancelled: "command_cancelled c (s\<lparr>wm_commands := cs\<rparr>) = (Ok b, t) \<longleftrightarrow>
      t = s\<lparr>wm_commands := cs\<rparr> \<and> command_cancelled c s = (Ok b, s)" for c cs b t
    by (auto simp: command_cancelled_def machine_def action_defs split: option.splits outcome.splits)
  show ?thesis
  proof (cases eho)
    case SkipCommand
    with patch_skip_front [OF f, of "env_x env"] p obtain c cs where c: "wm_commands s = c # cs"
      by (cases "wm_commands s") auto
    from front_machine_Ok [OF f c] skip_only_patch p SkipCommand have "passed_over s c"
      by (auto simp: passed_over_def)
    with assms f p SkipCommand c show ?thesis
      by (auto simp: command_turn_def action_defs pop_command_def)
  next
    case Normal
    show ?thesis
    proof (cases "wm_commands s")
      case Nil
      with assms f p Normal show ?thesis by (auto simp: command_turn_def action_defs pop_command_def)
    next
      case (Cons c cs)
      from assms f p Normal Cons obtain b where b: "command_cancelled c s = (Ok b, s)"
        and rest: "(if b then sret None else sthen (submachine_handle_event env (cm_machine c) ed)
          (sret (Some (Inr c)))) (s\<lparr>wm_commands := cs\<rparr>) = (Ok r, s')"
        by (auto simp: command_turn_def slift_def pop_command_def cancelled elim!: sbind_OkE)
      show ?thesis
      proof (cases b)
        case True
        with b rest Cons command_cancelled_Ok [OF b] show ?thesis
          by (auto simp: sret_def passed_over_def)
      next
        case False
        with b rest Cons show ?thesis
          by (auto simp: sret_def elim!: sbind_OkE dest!: submachine_commands)
      qed
    qed
  qed (use assms f p in \<open>auto simp: command_turn_def action_defs\<close>)
qed

text \<open>
  C9: Command events meet commands in the order they were issued: when an event of a command is
  matched, everything that was queued before the command it is given to had been cancelled before
  it was sent or was a patch, that command itself was not cancelled, and the commands behind it
  stay as they are.  An event that is skipped takes only such commands with it.
\<close>

theorem command_events_in_order:
  assumes "command_loop env ed nx s = (Ok r, s')"
  shows "\<exists>skipped. wm_commands s = skipped @ (case r of Inl _ \<Rightarrow> [] | Inr c \<Rightarrow> [c]) @ wm_commands s' \<and>
    (\<forall>c \<in> set skipped. passed_over s c) \<and>
    (\<forall>c. r = Inr c \<longrightarrow> command_cancelled c s = (Ok False, s))"
  using assms
proof (induction env ed nx s rule: command_loop.induct)
  case (1 env ed nx s)
  from 1(2) obtain t s1 where t: "command_turn env ed nx s = (Ok t, s1)"
    by (auto simp: command_loop.simps [of env ed nx s] split: prod.splits outcome.splits)
  note turn = command_turn_cases [OF t]
  show ?case
  proof (cases t)
    case None
    with turn obtain c cs where c: "wm_commands s = c # cs" "s1 = s\<lparr>wm_commands := cs\<rparr>" "passed_over s c"
      by auto
    from 1(2) t None have "command_loop env ed nx s1 = (Ok r, s')"
      by (simp add: command_loop.simps [of env ed nx s])
    from 1(1) [OF t [symmetric] refl None this] obtain skipped where
      "cs = skipped @ (case r of Inl _ \<Rightarrow> [] | Inr c \<Rightarrow> [c]) @ wm_commands s'"
      "\<forall>c \<in> set skipped. passed_over s c" "\<forall>c. r = Inr c \<longrightarrow> command_cancelled c s1 = (Ok False, s1)"
      using c(2) by (auto simp: passed_over_def)
    moreover have "command_cancelled c s = (Ok False, s)"
      if "command_cancelled c s1 = (Ok False, s1)" for c
      using that c(2) by (auto simp: command_cancelled_def machine_def action_defs
          split: option.splits outcome.splits)
    ultimately show ?thesis using c(1,3) by (intro exI [of _ "c # skipped"]) auto
  next
    case (Some v)
    with 1(2) t have "r = v" "s' = s1" by (auto simp: command_loop.simps [of env ed nx s])
    with turn Some show ?thesis by (cases v) auto
  qed
qed

theorem command_events_in_order_witness:
  "\<exists>c s'. command_loop wit_env (mk_event 5 17 (TimerStartedEventAttributes ''1'')) None wit_timed = (Ok (Inr c), s') \<and>
     wm_commands wit_timed = [c] \<and> wm_commands s' = []"
proof -
  have 3: "command_type_get 3 = CT_StartTimer" by code_simp
  have "\<exists>c s'. command_loop wit_env (mk_event 5 17 (TimerStartedEventAttributes ''1'')) None wit_timed =
      (Ok (Inr c), s') \<and> wm_commands wit_timed = [c]"
    unfolding wit_timed_def wit_asked_def wit_timer_def
    by (subst command_loop.simps)
      (simp add: wit_run_defs Let_def 3 numeral_3_eq_3 command_turn_def front_machine_def
        pop_command_def submachine_handle_event_def machines_handle_event_def handle_event_def
        concrete_events patch_marker_handling_def get_patch_marker_details_def timer_ops
        wit_env_def flags_of_def)
  then obtain c s' where c: "command_loop wit_env (mk_event 5 17 (TimerStartedEventAttributes ''1'')) None
      wit_timed = (Ok (Inr c), s')" "wm_commands wit_timed = [c]" by blast
  from command_events_in_order [OF c(1)] c(2) have "wm_commands s' = []"
    by (auto simp: Cons_eq_append_conv)
  with c show ?thesis by blast
qed

end
