(* ===== verification/Run_Data.thy ===== *)
theory Run_Data
  imports Workflow_Machines
begin

text \<open>
  What a managed run keeps and what comes in and goes out (\<open>core/src/worker/workflow/mod.rs\<close>): the
  validation of completions of the language layer, the order commands of a completion are applied
  in (\<open>managed_run.rs\<close>), workflow tasks from the server and the buffer for tasks that come while
  another one is being worked on.

  Channels, permits of task slots and abort handles are names (natural numbers).
\<close>

section \<open>Completions of the language layer\<close>

definition LEGACY_QUERY_ID :: string where
  "LEGACY_QUERY_ID = ''legacy_query''"

datatype (plugins only: code) lang_command_variant =
    LC_StartTimer start_timer
  | LC_ScheduleActivity schedule_activity
  | LC_RespondToQuery query_result
  | LC_RequestCancelActivity u32
  | LC_CancelTimer u32
  | LC_CompleteWorkflowExecution "payload option"
  | LC_FailWorkflowExecution "failure option"
  | LC_ContinueAsNewWorkflowExecution continue_as_new_cmd
  | LC_CancelWorkflowExecution
  | LC_SetPatchMarker string bool
  | LC_StartChildWorkflowExecution start_child_workflow
  | LC_CancelChildWorkflowExecution u32 string
  | LC_RequestCancelExternalWorkflowExecution cancel_external_cmd
  | LC_SignalExternalWorkflowExecution signal_external_cmd
  | LC_CancelSignalWorkflow u32
  | LC_ScheduleLocalActivity schedule_local_activity
  | LC_RequestCancelLocalActivity u32
  | LC_UpsertWorkflowSearchAttributes "payload str_map"
  | LC_ModifyWorkflowProperties "payload str_map option"
  | LC_UpdateResponse update_response
  | LC_ScheduleNexusOperation schedule_nexus_operation
  | LC_RequestCancelNexusOperation u32

record lang_command =
  lc_variant :: "lang_command_variant option"
  lc_user_metadata :: "user_metadata option"

definition wf_command_variant_from :: "lang_command_variant \<Rightarrow> wf_command_variant" where
  "wf_command_variant_from v =
     (case v of
        LC_StartTimer s \<Rightarrow> AddTimer s
      | LC_CancelTimer s \<Rightarrow> CancelTimer s
      | LC_ScheduleActivity s \<Rightarrow> AddActivity s
      | LC_RequestCancelActivity s \<Rightarrow> WFRequestCancelActivity s
      | LC_CompleteWorkflowExecution c \<Rightarrow> CompleteWorkflow c
      | LC_FailWorkflowExecution s \<Rightarrow> FailWorkflow s
      | LC_RespondToQuery s \<Rightarrow> QueryResponse s
      | LC_ContinueAsNewWorkflowExecution s \<Rightarrow> ContinueAsNew s
      | LC_CancelWorkflowExecution \<Rightarrow> CancelWorkflow
      | LC_SetPatchMarker p d \<Rightarrow> SetPatchMarker p d
      | LC_StartChildWorkflowExecution s \<Rightarrow> AddChildWorkflow s
      | LC_RequestCancelExternalWorkflowExecution s \<Rightarrow> RequestCancelExternalWorkflow s
      | LC_SignalExternalWorkflowExecution s \<Rightarrow> SignalExternalWorkflow s
      | LC_CancelSignalWorkflow s \<Rightarrow> CancelSignalWorkflow s
      | LC_CancelChildWorkflowExecution s r \<Rightarrow> CancelChild s r
      | LC_ScheduleLocalActivity s \<Rightarrow> AddLocalActivity s
      | LC_RequestCancelLocalActivity s \<Rightarrow> WFRequestCancelLocalActivity s
      | LC_UpsertWorkflowSearchAttributes s \<Rightarrow> UpsertSearchAttributes s
      | LC_ModifyWorkflowProperties s \<Rightarrow> ModifyWorkflowProperties s
      | LC_UpdateResponse s \<Rightarrow> UpdateResponse s
      | LC_ScheduleNexusOperation s \<Rightarrow> ScheduleNexusOperation s
      | LC_RequestCancelNexusOperation s \<Rightarrow> RequestCancelNexusOperation s)"

definition wf_command_try_from :: "lang_command \<Rightarrow> wf_command option" where
  "wf_command_try_from c =
     map_option (\<lambda>v. \<lparr>wfc_variant = wf_command_variant_from v, wfc_metadata = lc_user_metadata c\<rparr>)
       (lc_variant c)"

text \<open>\<open>collect::<Result<Vec<_>, _>>\<close>\<close>

fun collect_options :: "'a option list \<Rightarrow> 'a list option" where
  "collect_options [] = Some []"
| "collect_options (None # xs) = None"
| "collect_options (Some x # xs) = map_option ((#) x) (collect_options xs)"

text \<open>\<open>WorkflowTaskFailedCause\<close> by its numbers; the getter of the field maps unknown ones to 0.\<close>

type_synonym wft_failed_cause = int

definition cause_unspecified :: wft_failed_cause where
  "cause_unspecified = 0"

definition cause_non_deterministic_error :: wft_failed_cause where
  "cause_non_deterministic_error = 24"

record completion_failure =
  cf_failure :: "failure option"
  cf_force_cause :: int

definition force_cause :: "completion_failure \<Rightarrow> wft_failed_cause" where
  "force_cause f =
     (if 0 \<le> cf_force_cause f \<and> cf_force_cause f \<le> 35 then cf_force_cause f else cause_unspecified)"

datatype completion_status =
    Successful "lang_command list" "u32 list"
  | Failed completion_failure

record workflow_activation_completion =
  wac_run_id :: string
  wac_status :: "completion_status option"

datatype validated_completion =
    VC_Success string "wf_command list" "u32 list"
  | VC_Fail string completion_failure bool

datatype complete_wf_error = MalformedWorkflowCompletion string string

definition is_legacy_query_response :: "wf_command \<Rightarrow> bool" where
  "is_legacy_query_response c =
     (case wfc_variant c of QueryResponse q \<Rightarrow> qr_query_id q = LEGACY_QUERY_ID | _ \<Rightarrow> False)"

definition validate_completion ::
  "workflow_activation_completion \<Rightarrow> bool \<Rightarrow> complete_wf_error + validated_completion" where
  "validate_completion completion is_autocomplete =
     (case wac_status completion of
        Some (Successful cs used_internal_flags) \<Rightarrow>
          (case collect_options (map wf_command_try_from cs) of
             None \<Rightarrow> Inl (MalformedWorkflowCompletion
               ''At least one workflow command in the completion contained an empty variant''
               (wac_run_id completion))
           | Some commands \<Rightarrow>
               if length commands > 1 \<and> list_ex is_legacy_query_response commands
               then Inl (MalformedWorkflowCompletion
                 ''Workflow completion had a legacy query response along with other commands. This is not allowed and constitutes an error in the lang SDK. Commands: ''
                 (wac_run_id completion))
               else Inr (VC_Success (wac_run_id completion) commands used_internal_flags))
      | Some (Failed failure) \<Rightarrow> Inr (VC_Fail (wac_run_id completion) failure is_autocomplete)
      | None \<Rightarrow> Inl (MalformedWorkflowCompletion ''Workflow completion had empty status field''
          (wac_run_id completion)))"

definition vc_run_id :: "validated_completion \<Rightarrow> string" where
  "vc_run_id v = (case v of VC_Success run_id _ _ \<Rightarrow> run_id | VC_Fail run_id _ _ \<Rightarrow> run_id)"

section \<open>The order of the commands of a completion\<close>

text \<open>The closure of \<open>filter_map\<close> pushes onto two lists besides keeping commands.\<close>

fun split_commands ::
  "wf_command list \<Rightarrow> wf_command list \<times> query_result list \<times> wf_command list" where
  "split_commands [] = ([], [], [])"
| "split_commands (c # cs) =
     (case split_commands cs of
        (commands, query_results, terminals) \<Rightarrow>
          (case wfc_variant c of
             QueryResponse qr \<Rightarrow> (commands, qr # query_results, terminals)
           | v \<Rightarrow> if is_terminal v then (commands, query_results, c # terminals)
                  else (c # commands, query_results, terminals)))"

definition preprocess_command_sequence ::
  "wf_command list \<Rightarrow> wf_command list \<times> query_result list" where
  "preprocess_command_sequence cs =
     (case split_commands cs of
        (commands, query_results, terminals) \<Rightarrow> (commands @ take 1 terminals, query_results))"

fun old_behavior_loop ::
  "wf_command list \<Rightarrow> bool \<Rightarrow> wf_command list \<times> query_result list" where
  "old_behavior_loop [] seen_terminal = ([], [])"
| "old_behavior_loop (c # cs) seen_terminal =
     (case wfc_variant c of
        QueryResponse qr \<Rightarrow>
          (case old_behavior_loop cs seen_terminal of (commands, qs) \<Rightarrow> (commands, qr # qs))
      | v \<Rightarrow>
          if seen_terminal then old_behavior_loop cs seen_terminal
          else (case old_behavior_loop cs (is_terminal v) of (commands, qs) \<Rightarrow> (c # commands, qs)))"

definition preprocess_command_sequence_old_behavior ::
  "wf_command list \<Rightarrow> wf_command list \<times> query_result list" where
  "preprocess_command_sequence_old_behavior cs = old_behavior_loop cs False"

section \<open>Workflow tasks\<close>

record workflow_query =
  wq_query_type :: string
  wq_query_args :: "payloads option"
  wq_header :: "payload str_map option"

definition query_to_job :: "string \<Rightarrow> workflow_query \<Rightarrow> query_workflow" where
  "query_to_job i q =
     \<lparr>qw_query_id = i, qw_query_type = wq_query_type q, qw_arguments = from_payloads (wq_query_args q),
      qw_headers = opt_default [] (wq_header q)\<rparr>"

type_synonym task_token = "byte list"
type_synonym instant = int

record history_paginator = paginator +
  pag_wf_id :: string
  pag_run_id :: string

record prepared_wft =
  pw_task_token :: task_token
  pw_attempt :: u32
  pw_execution :: workflow_execution
  pw_workflow_type :: string
  pw_legacy_query :: "workflow_query option"
  pw_query_requests :: "query_workflow list"
  pw_update :: history_update
  pw_messages :: "incoming_protocol_message list"

definition is_incremental :: "prepared_wft \<Rightarrow> bool" where
  "is_incremental w =
     (case first_event_id (pw_update w) of None \<Rightarrow> True | Some eid \<Rightarrow> eid > 1)"

definition is_query_only :: "prepared_wft \<Rightarrow> bool" where
  "is_query_only w \<longleftrightarrow> hu_wft_started_id (pw_update w) = 0 \<and> pw_legacy_query w \<noteq> None"

record permitted_wft =
  pm_work :: prepared_wft
  pm_permit :: nat
  pm_paginator :: history_paginator

record workflow_task_info =
  ti_task_token :: task_token
  ti_attempt :: u32
  ti_wf_id :: string

record outstanding_task =
  ot_info :: workflow_task_info
  ot_pending_queries :: "query_workflow list"
  ot_start_time :: instant
  ot_permit :: nat

definition has_pending_legacy_query :: "outstanding_task \<Rightarrow> bool" where
  "has_pending_legacy_query t = list_ex (\<lambda>q. qw_query_id q = LEGACY_QUERY_ID) (ot_pending_queries t)"

datatype outstanding_activation = OA_Normal | OA_Eviction | OA_LegacyQuery | OA_Autocomplete

section \<open>Buffered tasks\<close>

record buffered_tasks =
  bt_wft :: "permitted_wft option"
  bt_query_only_tasks :: "permitted_wft list"
  bt_query_only_tasks_for_buffered :: "permitted_wft list"

definition bt_default :: buffered_tasks where
  "bt_default = \<lparr>bt_wft = None, bt_query_only_tasks = [], bt_query_only_tasks_for_buffered = []\<rparr>"

definition bt_buffer :: "permitted_wft \<Rightarrow> buffered_tasks \<Rightarrow> buffered_tasks" where
  "bt_buffer task b =
     (if is_query_only (pm_work task) then
        if bt_wft b = None then b\<lparr>bt_query_only_tasks := bt_query_only_tasks b @ [task]\<rparr>
        else b\<lparr>bt_query_only_tasks_for_buffered := bt_query_only_tasks_for_buffered b @ [task]\<rparr>
      else
        (if bt_wft b \<noteq> None then b\<lparr>bt_query_only_tasks_for_buffered := []\<rparr> else b)
          \<lparr>bt_wft := Some task\<rparr>)"

definition has_tasks :: "buffered_tasks \<Rightarrow> bool" where
  "has_tasks b \<longleftrightarrow> bt_wft b \<noteq> None \<or> bt_query_only_tasks b \<noteq> []"

definition get_next_wft :: "buffered_tasks \<Rightarrow> permitted_wft option \<times> buffered_tasks" where
  "get_next_wft b =
     (case bt_query_only_tasks b of
        q # qs \<Rightarrow> (Some q, b\<lparr>bt_query_only_tasks := qs\<rparr>)
      | [] \<Rightarrow>
          (case bt_wft b of
             Some t \<Rightarrow> (Some t, b\<lparr>bt_wft := None,
                 bt_query_only_tasks := bt_query_only_tasks_for_buffered b,
                 bt_query_only_tasks_for_buffered := []\<rparr>)
           | None \<Rightarrow> (None, b)))"

section \<open>Errors, evictions and outcomes\<close>

definition evict_reason :: "wf_error \<Rightarrow> eviction_reason" where
  "evict_reason e = (case e of Nondeterminism _ \<Rightarrow> ER_Nondeterminism | Fatal _ \<Rightarrow> ER_Fatal)"

definition cause_from :: "eviction_reason \<Rightarrow> wft_failed_cause" where
  "cause_from r =
     (case r of ER_Nondeterminism \<Rightarrow> cause_non_deterministic_error | _ \<Rightarrow> cause_unspecified)"

definition error_to_string :: "wf_error \<Rightarrow> string" where
  "error_to_string e =
     (case e of Nondeterminism m \<Rightarrow> ''[TMPRL1100] Nondeterminism error: '' @ m
      | Fatal m \<Rightarrow> ''Fatal error in workflow machines: '' @ m)"

definition as_failure :: "wf_error \<Rightarrow> completion_failure" where
  "as_failure e =
     \<lparr>cf_failure = Some (application_failure (error_to_string e) False),
      cf_force_cause = cause_from (evict_reason e)\<rparr>"

text \<open>\<open>Into<workflow_completion::Failure>\<close> of a failure.\<close>

definition completion_failure_from :: "failure \<Rightarrow> completion_failure" where
  "completion_failure_from f = \<lparr>cf_failure = Some f, cf_force_cause = cause_unspecified\<rparr>"

datatype activation_or_auto =
    LangActivation workflow_activation
  | ReadyForQueries workflow_activation
  | Autocomplete string
  | AutoFail string wf_error

type_synonym run_update_act = "activation_or_auto option"

record request_evict_msg =
  re_run_id :: string
  re_message :: string
  re_reason :: eviction_reason
  re_auto_reply_fail_tt :: "task_token option"

datatype eviction_request_result =
    EvictionRequested "u32 option" run_update_act
  | EvictionNotFound
  | EvictionAlreadyRequested "u32 option"

definition into_run_update_resp :: "eviction_request_result \<Rightarrow> run_update_act" where
  "into_run_update_resp r =
     (case r of EvictionRequested _ resp \<Rightarrow> resp | EvictionNotFound \<Rightarrow> None
      | EvictionAlreadyRequested _ \<Rightarrow> None)"

datatype failed_activation_wft_report =
    FR_Report task_token wft_failed_cause completion_failure
  | ReportLegacyQueryFailure task_token completion_failure

datatype activation_action =
    WftComplete "proto_command list" "protocol_message list" "query_result list" bool
      wft_completed_metadata
  | RespondLegacyQuery query_result

datatype activation_complete_outcome =
    ReportWFTSuccess task_token activation_action
  | ReportWFTFail failed_activation_wft_report
  | DoNothing
  | WFTFailedDontReport

record activation_complete_result =
  acr_replaying :: bool
  acr_outcome :: activation_complete_outcome

datatype wft_report_status = Reported "event_id option" | NotReported | DropWft

definition is_legacy_query :: "workflow_activation \<Rightarrow> bool" where
  "is_legacy_query a =
     (case wa_jobs a of [QueryWorkflow qr] \<Rightarrow> qw_query_id qr = LEGACY_QUERY_ID | _ \<Rightarrow> False)"

text \<open>Drains the pending queries of the task into the activation.\<close>

definition put_queries_in_act ::
  "workflow_activation \<Rightarrow> outstanding_task \<Rightarrow> workflow_activation \<times> outstanding_task" where
  "put_queries_in_act act wft =
     (if ot_pending_queries wft = [] then (act, wft)
      else if has_pending_legacy_query wft \<and> wa_jobs act \<noteq> [] then (act, wft)
      else (act\<lparr>wa_jobs := wa_jobs act @ map QueryWorkflow (ot_pending_queries wft)\<rparr>,
            wft\<lparr>ot_pending_queries := []\<rparr>))"

section \<open>What a completion is split into\<close>

definition query_of :: "wf_command \<Rightarrow> query_result option" where
  "query_of c = (case wfc_variant c of QueryResponse qr \<Rightarrow> Some qr | _ \<Rightarrow> None)"

abbreviation ends_workflow :: "wf_command \<Rightarrow> bool" where
  "ends_workflow c \<equiv> is_terminal (wfc_variant c)"

definition is_plain :: "wf_command \<Rightarrow> bool" where
  "is_plain c \<longleftrightarrow> query_of c = None \<and> \<not> ends_workflow c"

lemma query_is_not_terminal: "query_of c = Some qr \<Longrightarrow> \<not> ends_workflow c"
  by (auto simp: query_of_def is_terminal_def split: wf_command_variant.splits)

lemma split_commands_Cons:
  "split_commands (c # cs) =
     (case split_commands cs of
        (commands, query_results, terminals) \<Rightarrow>
          (case query_of c of
             Some qr \<Rightarrow> (commands, qr # query_results, terminals)
           | None \<Rightarrow> if ends_workflow c then (commands, query_results, c # terminals)
                      else (c # commands, query_results, terminals)))"
  by (simp add: query_of_def split: wf_command_variant.splits prod.splits)

lemma old_behavior_Cons:
  "old_behavior_loop (c # cs) seen =
     (case query_of c of
        Some qr \<Rightarrow> (case old_behavior_loop cs seen of (commands, qs) \<Rightarrow> (commands, qr # qs))
      | None \<Rightarrow>
          if seen then old_behavior_loop cs seen
          else (case old_behavior_loop cs (ends_workflow c) of (commands, qs) \<Rightarrow> (c # commands, qs)))"
  by (simp add: query_of_def split: wf_command_variant.splits)

lemma split_commands_spec:
  "split_commands cs = (filter is_plain cs, List.map_filter query_of cs, filter ends_workflow cs)"
proof (induction cs)
  case (Cons c cs)
  show ?case
    unfolding split_commands_Cons Cons
    by (auto simp: is_plain_def [of c] query_is_not_terminal List.map_filter_simps
        split: option.splits)
qed (simp add: List.map_filter_simps)

lemma old_behavior_seen: "old_behavior_loop cs True = ([], List.map_filter query_of cs)"
proof (induction cs)
  case (Cons c cs)
  then show ?case
    unfolding old_behavior_Cons by (simp add: List.map_filter_simps split: option.splits)
qed (simp add: List.map_filter_simps)

lemma old_behavior_spec:
  "old_behavior_loop cs False =
     (filter is_plain (takeWhile (\<lambda>c. \<not> ends_workflow c) cs) @ take 1 (filter ends_workflow cs),
      List.map_filter query_of cs)"
proof (induction cs)
  case (Cons c cs)
  show ?case
    unfolding old_behavior_Cons
    by (auto simp: Cons old_behavior_seen is_plain_def [of c] query_is_not_terminal List.map_filter_simps
        split: option.splits)
qed (simp add: List.map_filter_simps)

lemma preprocess_spec:
  "preprocess_command_sequence cs =
     (filter is_plain cs @ take 1 (filter ends_workflow cs), List.map_filter query_of cs)"
  by (simp add: preprocess_command_sequence_def split_commands_spec)


section \<open>What is handed out of the buffer\<close>

abbreviation query_task :: "permitted_wft \<Rightarrow> bool" where
  "query_task t \<equiv> is_query_only (pm_work t)"

fun hand_out :: "nat \<Rightarrow> buffered_tasks \<Rightarrow> permitted_wft list \<times> buffered_tasks" where
  "hand_out 0 b = ([], b)"
| "hand_out (Suc n) b =
     (case get_next_wft b of
        (Some t, b') \<Rightarrow> (case hand_out n b' of (ts, b'') \<Rightarrow> (t # ts, b''))
      | (None, b') \<Rightarrow> ([], b'))"

definition bt_content :: "buffered_tasks \<Rightarrow> permitted_wft list" where
  "bt_content b =
     bt_query_only_tasks b @
     (case bt_wft b of None \<Rightarrow> [] | Some t \<Rightarrow> t # bt_query_only_tasks_for_buffered b)"

text \<open>Queries wait for a buffered task only while there is one.\<close>

definition bt_inv :: "buffered_tasks \<Rightarrow> bool" where
  "bt_inv b \<longleftrightarrow> (bt_wft b = None \<longrightarrow> bt_query_only_tasks_for_buffered b = [])"

lemma bt_inv_ops:
  "bt_inv bt_default" "bt_inv b \<Longrightarrow> bt_inv (bt_buffer t b)" "bt_inv b \<Longrightarrow> bt_inv (snd (get_next_wft b))"
  by (auto simp: bt_inv_def bt_default_def bt_buffer_def get_next_wft_def
      split: list.splits option.splits)

lemma has_tasks_iff: "has_tasks b \<longleftrightarrow> bt_content b \<noteq> []"
  by (auto simp: has_tasks_def bt_content_def split: option.splits)

lemma get_next_wft_content:
  assumes "bt_inv b"
  shows "bt_content b =
    (case get_next_wft b of (Some t, b') \<Rightarrow> t # bt_content b' | (None, b') \<Rightarrow> [])"
  using assms
  by (auto simp: bt_inv_def bt_content_def get_next_wft_def split: list.splits option.splits)

lemma hand_out_content:
  "bt_inv b \<Longrightarrow> length (bt_content b) \<le> n \<Longrightarrow>
   fst (hand_out n b) = bt_content b \<and> bt_inv (snd (hand_out n b)) \<and>
   bt_content (snd (hand_out n b)) = []"
proof (induction n arbitrary: b)
  case (Suc n)
  obtain t b' where g: "get_next_wft b = (t, b')" by (cases "get_next_wft b")
  have b': "bt_inv b'" using bt_inv_ops(3) [OF Suc.prems(1)] g by simp
  show ?case
  proof (cases t)
    case None
    with g have "b' = b" by (auto simp: get_next_wft_def split: list.splits option.splits)
    with None g show ?thesis using get_next_wft_content [OF Suc.prems(1)] b' by simp
  next
    case (Some u)
    then have "bt_content b = u # bt_content b'"
      using get_next_wft_content [OF Suc.prems(1)] g by simp
    then show ?thesis using Suc.IH [OF b'] Suc.prems(2) g Some by (auto split: prod.splits)
  qed
qed simp

lemma bt_content_buffer:
  "bt_content (bt_buffer t b) =
     (if query_task t then bt_content b @ [t] else bt_query_only_tasks b @ [t])"
  if "bt_inv b"
  using that by (auto simp: bt_inv_def bt_content_def bt_buffer_def split: option.splits)

lemma bt_buffer_fields:
  "bt_query_only_tasks (bt_buffer t b) =
     bt_query_only_tasks b @ (if query_task t \<and> bt_wft b = None then [t] else [])"
  "bt_wft (bt_buffer t b) = None \<longleftrightarrow> bt_wft b = None \<and> query_task t"
  by (auto simp: bt_buffer_def)

lemma fold_buffer:
  "bt_inv (fold bt_buffer ts bt_default) \<and>
   bt_query_only_tasks (fold bt_buffer ts bt_default) = takeWhile query_task ts \<and>
   (bt_wft (fold bt_buffer ts bt_default) = None \<longleftrightarrow> list_all query_task ts) \<and>
   bt_content (fold bt_buffer ts bt_default) =
     takeWhile query_task ts @
     (if list_all query_task ts then []
      else last (filter (\<lambda>t. \<not> query_task t) ts) # rev (takeWhile query_task (rev ts)))"
proof (induction ts rule: rev_induct)
  case Nil
  show ?case using bt_inv_ops(1) by (simp add: bt_content_def bt_default_def)
next
  case (snoc t ts)
  let ?b = "fold bt_buffer ts bt_default"
  have "takeWhile query_task (ts @ [t]) =
      takeWhile query_task ts @ (if list_all query_task ts \<and> query_task t then [t] else [])"
    by (induction ts) auto
  moreover have "list_all query_task ts \<Longrightarrow> takeWhile query_task ts = ts"
    by (simp add: list_all_iff)
  ultimately show ?case
    using snoc by (auto simp: bt_inv_ops bt_content_buffer bt_buffer_fields)
qed

text \<open>
  C16: The buffer hands out first the query-only tasks that came before any task that advances
  history, then the latest task that advances history, then the query-only tasks that came after
  it; everything else was superseded, and then the buffer is empty.
\<close>

theorem buffered_tasks_handed_out:
  "fst (hand_out (length ts) (fold bt_buffer ts bt_default)) =
     takeWhile query_task ts @
     (if list_all query_task ts then []
      else last (filter (\<lambda>t. \<not> query_task t) ts) # rev (takeWhile query_task (rev ts))) \<and>
   \<not> has_tasks (snd (hand_out (length ts) (fold bt_buffer ts bt_default)))"
proof -
  let ?b = "fold bt_buffer ts bt_default"
  have "length (bt_content (fold bt_buffer us bt_default)) \<le> length us" for us
  proof (induction us rule: rev_induct)
    case (snoc t us)
    have "length (bt_query_only_tasks b) \<le> length (bt_content b)" for b
      by (simp add: bt_content_def)
    moreover have "bt_inv (fold bt_buffer us bt_default)" using fold_buffer by blast
    ultimately show ?case using snoc le_trans by (fastforce simp: bt_content_buffer)
  qed (simp add: bt_content_def bt_default_def)
  then show ?thesis using hand_out_content fold_buffer by (simp add: has_tasks_iff)
qed

end
