(* ===== verification/Managed_Run.thy ===== *)
theory Managed_Run
  imports Run_Data Engine
begin

text \<open>
  One run as the worker holds it (\<open>ManagedRun\<close> and \<open>WorkflowManager\<close> of
  \<open>core/src/worker/workflow/managed_run.rs\<close>): the machines, the workflow task and the activation
  that are outstanding, buffered tasks, a requested eviction, and a completion that waits for local
  activities or for a page of history.

  What a run reads from outside is a parameter (\<open>run_env\<close>): the environment of the machines, the
  clock, the answers of the local activity manager to all requests sent so far, whether the receiver
  of a completion still listens, the text of a failure, the product with the heartbeat fraction in
  single precision, and how many nested calls the stack has room for.  The calls of this file may
  nest through each other without a bound in the source; a call that does not fit panics.  Replies,
  requests and aborted timers are kept as what was sent so far.  Metrics and spans are left out.
\<close>

section \<open>State\<close>

type_synonym chan = nat

record run_env =
  menv_engine :: engine_env
  menv_instant :: instant
  menv_sink :: "local_act_request list list \<Rightarrow> local_activity_resolution list"
  menv_chan_open :: "chan \<Rightarrow> bool"
  menv_debug_failure :: "completion_failure \<Rightarrow> string"
  menv_heartbeat_fraction :: "duration \<Rightarrow> duration"
  menv_stack :: nat

record completion_data_for_wft =
  cd_task_token :: task_token
  cd_query_responses :: "query_result list"
  cd_has_pending_query :: bool
  cd_activation_was_eviction :: bool
  cd_is_forced_failure :: bool

record waiting_on_las =
  wl_wft_timeout :: duration
  wl_completion_dat :: "(completion_data_for_wft \<times> chan option) option"
  wl_hb_timeout_handle :: nat

record run_activation_completion =
  rac_task_token :: task_token
  rac_start_time :: instant
  rac_commands :: "wf_command list"
  rac_activation_was_eviction :: bool
  rac_has_pending_query :: bool
  rac_query_responses :: "query_result list"
  rac_used_flags :: "u32 list"
  rac_is_forced_failure :: bool
  rac_resp_chan :: "chan option"

record managed_run =
  mr_machines :: workflow_machines
  mr_waiting_on_la :: "waiting_on_las option"
  mr_am_broken :: bool
  mr_wft :: "outstanding_task option"
  mr_activation :: "outstanding_activation option"
  mr_task_buffer :: buffered_tasks
  mr_trying_to_evict :: "request_evict_msg option"
  mr_paginator :: "history_paginator option"
  mr_completion_waiting_on_page_fetch :: "run_activation_completion option"
  mr_config :: worker_config
  mr_requests :: "local_act_request list list"
  mr_replies :: "(chan \<times> activation_complete_result) list"
  mr_timers :: nat
  mr_aborted :: "nat list"

type_synonym 'a mr_action = "(managed_run, 'a) action"

record fulfillable =
  fu_result :: activation_complete_result
  fu_resp_chan :: "chan option"

datatype act_or_fulfill = OutgoingAct run_update_act | FulfillableComplete "fulfillable option"

record run_update_err =
  ue_source :: wf_error
  ue_complete_resp_chan :: "chan option"

definition run_update_err_from :: "wf_error \<Rightarrow> run_update_err" where
  "run_update_err_from e = \<lparr>ue_source = e, ue_complete_resp_chan = None\<rparr>"

text \<open>A call whose error is looked at, and a call on the machines.\<close>

definition stry :: "('s, 'a) action \<Rightarrow> ('s, wf_error + 'a) action" where
  "stry m = (\<lambda>s.
     case m s of
       (Ok a, s') \<Rightarrow> (Ok (Inr a), s')
     | (Err e, s') \<Rightarrow> (Ok (Inl e), s')
     | (Panic p, s') \<Rightarrow> (Panic p, s'))"

definition on_machines :: "'a wm_action \<Rightarrow> 'a mr_action" where
  "on_machines m = (\<lambda>s. case m (mr_machines s) of (r, w) \<Rightarrow> (r, s\<lparr>mr_machines := w\<rparr>))"

abbreviation mr_run_id :: "managed_run \<Rightarrow> string" where
  "mr_run_id s \<equiv> wm_run_id (mr_machines s)"

section \<open>The workflow manager\<close>

definition get_next_activation :: "engine_env \<Rightarrow> workflow_activation wm_action" where
  "get_next_activation env =
     sbind (get_wf_activation (env_x env)) (\<lambda>activation.
     if wa_jobs activation \<noteq> [] then sret activation
     else sthen (apply_next_wft_from_history env) (get_wf_activation (env_x env)))"

definition manager_new_work ::
  "engine_env \<Rightarrow> history_update \<Rightarrow> incoming_protocol_message list \<Rightarrow> workflow_activation wm_action" where
  "manager_new_work env update messages =
     sthen (new_work_from_server env update messages) (get_next_activation env)"

text \<open>A task that is taken makes the update shorter, so the loop over the tasks of an update ends.\<close>

lemma taken_shrinks:
  assumes "take_next_wft_sequence u from_id = (Ok (WFT evs final), u')"
  shows "length (hu_events u') < length (hu_events u)"
proof -
  obtain n where "build_next_wft (hu_skip u from_id) n = (Ok (WFT evs final), u')"
    using assms by (auto simp: take_next_wft_sequence_eq Let_def split: seq_end.splits if_splits)
  from build_next_wft_Ok [OF this] show ?thesis by (auto simp: hu_skip_def)
qed

interpretation history_kept: apply_frame "\<lambda>s. J (wm_last_history_from_server s)" for J
  by unfold_locales simp_all

lemma apply_next_shrinks:
  assumes "apply_next_wft_from_history env s = (Ok n, s')" "n \<noteq> 0"
  shows "length (hu_events (wm_last_history_from_server s')) <
    length (hu_events (wm_last_history_from_server s))"
proof (cases "wm_have_seen_terminal_event s")
  case True
  with assms show ?thesis by (auto simp: apply_next_wft_from_history_def action_defs)
next
  case False
  let ?h = wm_last_history_from_server
  have keep: "?h t' = ?h t" if "keeps (\<lambda>s. ?h s = ?h t) m" "m t = (r, t')" for m :: "'z wm_action" and r t t'
    using keepsD [OF that(1), of t] that(2) by simp
  have seq: "length (hu_events (?h t'')) < length (hu_events (?h t))"
    if "take_sequence t = (Ok k, t')" "next_events k t' = (Ok (es, b), t'')" "es \<noteq> []" for t t' t'' k es b
    using that by (auto simp: take_sequence_def next_events_def action_defs dest: taken_shrinks
        split: prod.splits next_wft.splits)
  note frames = history_kept.keeps_completed_tasks [of "\<lambda>i. i = j" for j]
    history_kept.keeps_apply_events [of "\<lambda>i. i = j" for j]
    history_kept.keeps_scan [of "\<lambda>i. i = j" for j]
    keeps_for [OF history_kept.keeps_delayed [of "\<lambda>i. i = j" for j]]
  show ?thesis
    using assms False
    by (auto simp: apply_next_wft_from_history_def sget_def sret_def
        elim!: sbind_OkE split: prod.splits if_splits
        dest!: keep [OF frames(1)] keep [OF frames(2)] keep [OF frames(3)] keep [OF frames(4)]
        simp: smod_def) (blast intro: seq)+
qed

function apply_tasks_loop :: "engine_env \<Rightarrow> unit wm_action" where
  "apply_tasks_loop env s =
     (case apply_next_wft_from_history env s of
        (Ok consumed_events, s') \<Rightarrow>
          if consumed_events = 0 \<or> \<not> wm_replaying s' \<or> has_pending_jobs s' then (Ok (), s')
          else apply_tasks_loop env s'
      | (Err e, s') \<Rightarrow> (Err e, s')
      | (Panic p, s') \<Rightarrow> (Panic p, s'))"
  by pat_completeness auto

termination apply_tasks_loop
  by (relation "measure (\<lambda>(env, s). length (hu_events (wm_last_history_from_server s)))")
    (auto dest: apply_next_shrinks [OF sym])

declare apply_tasks_loop.simps [simp del]

definition apply_next_task_if_ready :: "engine_env \<Rightarrow> unit wm_action" where
  "apply_next_task_if_ready env =
     sbind (sget has_pending_jobs) (\<lambda>pending.
     if pending then sret () else apply_tasks_loop env)"

definition push_commands_and_iterate :: "engine_env \<Rightarrow> wf_command list \<Rightarrow> unit wm_action" where
  "push_commands_and_iterate env cmds =
     sthen (smod (\<lambda>s. s\<lparr>wm_drive_me := send_commands cmds (wm_drive_me s)\<rparr>)) (iterate_machines env)"

section \<open>Requests, timers and replies\<close>

text \<open>\<open>LAReqSink::sink_reqs\<close>\<close>

definition sink_reqs ::
  "run_env \<Rightarrow> local_act_request list \<Rightarrow> local_activity_resolution list mr_action" where
  "sink_reqs env reqs = (\<lambda>s.
     if reqs = [] then (Ok [], s)
     else (let requests = mr_requests s @ [reqs]
           in (Ok (menv_sink env requests), s\<lparr>mr_requests := requests\<rparr>)))"

definition sink_la_requests :: "run_env \<Rightarrow> local_act_request list \<Rightarrow> unit mr_action" where
  "sink_la_requests env new_local_acts =
     sbind (sink_reqs env new_local_acts) (\<lambda>immediate_resolutions.
     sfor (\<lambda>resolution.
         sthen (on_machines (local_resolution (menv_engine env) resolution)) (sret ()))
       immediate_resolutions)"

definition sink_heartbeat_timeout_start ::
  "run_env \<Rightarrow> string \<Rightarrow> instant \<Rightarrow> duration \<Rightarrow> nat mr_action" where
  "sink_heartbeat_timeout_start env run_id wft_start_time wft_timeout =
     sbind (sget mr_timers) (\<lambda>handle.
     sthen (smod (\<lambda>s. s\<lparr>mr_timers := Suc handle\<rparr>))
     (sthen (sink_reqs env
        [LAR_StartHeartbeatTimeout run_id
           (wft_start_time + menv_heartbeat_fraction env wft_timeout) handle])
     (sret handle)))"

definition abort :: "nat \<Rightarrow> unit mr_action" where
  "abort handle = smod (\<lambda>s. s\<lparr>mr_aborted := mr_aborted s @ [handle]\<rparr>)"

text \<open>\<open>oneshot::Sender::send\<close>: whether the receiver was still there.\<close>

definition send_reply :: "run_env \<Rightarrow> chan \<Rightarrow> activation_complete_result \<Rightarrow> bool mr_action" where
  "send_reply env ch result =
     sthen (smod (\<lambda>s. s\<lparr>mr_replies := mr_replies s @ [(ch, result)]\<rparr>)) (sret (menv_chan_open env ch))"

definition fulfill :: "run_env \<Rightarrow> fulfillable \<Rightarrow> unit mr_action" where
  "fulfill env f =
     (case fu_resp_chan f of
        Some ch \<Rightarrow> sthen (send_reply env ch (fu_result f)) (sret ())
      | None \<Rightarrow> sret ())"

section \<open>What a run has to do\<close>

definition more_pending_work :: "managed_run \<Rightarrow> bool" where
  "more_pending_work s \<longleftrightarrow> mr_wft s \<noteq> None \<and> has_pending_jobs (mr_machines s)"

definition activation_is_eviction :: "managed_run \<Rightarrow> bool" where
  "activation_is_eviction s \<longleftrightarrow> mr_activation s = Some OA_Eviction"

definition pending_work_is_legacy_query :: "managed_run \<Rightarrow> bool" where
  "pending_work_is_legacy_query s \<longleftrightarrow>
     mr_activation s = Some OA_LegacyQuery \<or>
     (case mr_wft s of None \<Rightarrow> False | Some t \<Rightarrow> has_pending_legacy_query t)"

definition has_any_pending_work :: "bool \<Rightarrow> bool \<Rightarrow> managed_run \<Rightarrow> bool" where
  "has_any_pending_work ignore_evicts ignore_buffered s =
     (let evict_work = (if ignore_evicts then False else mr_trying_to_evict s \<noteq> None);
          act_work = (if ignore_evicts
                      then (case mr_activation s of None \<Rightarrow> False | Some a \<Rightarrow> a \<noteq> OA_Eviction)
                      else mr_activation s \<noteq> None);
          buffered = (if ignore_buffered then False else has_tasks (mr_task_buffer s))
      in mr_wft s \<noteq> None \<or> buffered \<or> more_pending_work s \<or> act_work \<or> evict_work)"

definition has_buffered_wft :: "managed_run \<Rightarrow> bool" where
  "has_buffered_wft s = has_tasks (mr_task_buffer s)"

definition buffer_wft_if_outstanding_work ::
  "permitted_wft \<Rightarrow> managed_run \<Rightarrow> permitted_wft option \<times> managed_run" where
  "buffer_wft_if_outstanding_work work s =
     (if mr_activation s \<noteq> None \<or> mr_trying_to_evict s \<noteq> None \<or> more_pending_work s
      then (None, s\<lparr>mr_task_buffer := bt_buffer work (mr_task_buffer s)\<rparr>)
      else (Some work, s))"

definition outstanding_kind :: "activation_or_auto \<Rightarrow> outstanding_activation" where
  "outstanding_kind act =
     (case act of
        LangActivation a \<Rightarrow>
          (if is_only_eviction a then OA_Eviction
           else if is_legacy_query a then OA_LegacyQuery else OA_Normal)
      | ReadyForQueries a \<Rightarrow>
          (if is_only_eviction a then OA_Eviction
           else if is_legacy_query a then OA_LegacyQuery else OA_Normal)
      | Autocomplete _ \<Rightarrow> OA_Autocomplete
      | AutoFail _ _ \<Rightarrow> OA_Autocomplete)"

definition insert_outstanding_activation :: "activation_or_auto \<Rightarrow> unit mr_action" where
  "insert_outstanding_activation act = (\<lambda>s.
     case mr_activation s of
       Some _ \<Rightarrow> (Panic ''Attempted to insert a new outstanding activation, but there already was one outstanding'', s)
     | None \<Rightarrow> (Ok (), s\<lparr>mr_activation := Some (outstanding_kind act)\<rparr>))"

definition check_more_inner :: "run_env \<Rightarrow> run_update_act mr_action" where
  "check_more_inner env =
     sbind (sget (\<lambda>s. s)) (\<lambda>s.
     if mr_activation s \<noteq> None then sret None
     else
       sthen (if mr_trying_to_evict s \<noteq> None
              then sink_la_requests env [LAR_CancelAllInRun (mr_run_id s)] else sret ())
       (sbind (sget (\<lambda>s. s)) (\<lambda>s.
       case mr_wft s of
         None \<Rightarrow> sret None
       | Some wft \<Rightarrow>
           if has_pending_jobs (mr_machines s) \<and> \<not> mr_am_broken s
           then sbind (on_machines (get_next_activation (menv_engine env)))
                  (\<lambda>a. sret (Some (LangActivation a)))
           else if \<not> mr_am_broken s \<and> ot_pending_queries wft \<noteq> []
           then sbind (on_machines (get_wf_activation (env_x (menv_engine env))))
                  (\<lambda>a. sret (Some (ReadyForQueries a)))
           else sret (map_option (\<lambda>wte. LangActivation
                  (create_evict_activation (mr_run_id s) (re_message wte) (re_reason wte)))
                  (mr_trying_to_evict s)))))"

definition incoming_inner :: "run_env \<Rightarrow> permitted_wft \<Rightarrow> run_update_act mr_action" where
  "incoming_inner env pwft =
     (let work = pm_work pwft;
          start_time = menv_instant env;
          wft_info = \<lparr>ti_task_token = pw_task_token work, ti_attempt = pw_attempt work,
                      ti_wf_id = we_workflow_id (pw_execution work)\<rparr>;
          legacy = map_option (query_to_job LEGACY_QUERY_ID) (pw_legacy_query work);
          queries = pw_query_requests work
      in if queries \<noteq> [] \<and> legacy \<noteq> None
         then serr (Fatal ''Server issued both normal and legacy query'')
         else
           sthen (smod (\<lambda>s. s\<lparr>mr_paginator := Some (pm_paginator pwft),
                mr_wft := Some \<lparr>ot_info = wft_info,
                   ot_pending_queries = queries @ (case legacy of None \<Rightarrow> [] | Some q \<Rightarrow> [q]),
                   ot_start_time = start_time, ot_permit = pm_permit pwft\<rparr>\<rparr>))
           (sbind (sget mr_machines) (\<lambda>w.
            if legacy \<noteq> None \<and> hu_wft_started_id (pw_update work) = 0 \<and>
               hu_previous_wft_started_id (pw_update work) < wm_current_started_event_id w
            then sret (Some (AutoFail (wm_run_id w) (Fatal ''Query expired'')))
            else
              sbind (if is_real (pw_update work)
                     then on_machines (manager_new_work (menv_engine env) (pw_update work)
                            (pw_messages work))
                     else sbind (on_machines (get_next_activation (menv_engine env))) (\<lambda>r.
                          if wa_jobs r = [] then serr (Fatal ''Machines created for with no jobs'')
                          else sret r)) (\<lambda>activation.
              if wa_jobs activation \<noteq> [] then sret (Some (LangActivation activation))
              else
                sbind (sget (\<lambda>s. s)) (\<lambda>s.
                if outstanding_la_count (wm_local_activity_data (mr_machines s)) > 0 then
                  (case mr_waiting_on_la s of
                     Some lawait \<Rightarrow>
                       if wl_completion_dat lawait \<noteq> None
                       then spanic ''Should not have completion dat when getting new wft & empty jobs''
                       else
                         sthen (abort (wl_hb_timeout_handle lawait))
                         (sbind (sink_heartbeat_timeout_start env (mr_run_id s) start_time
                                   (wl_wft_timeout lawait)) (\<lambda>handle.
                          sthen (smod (\<lambda>s. s\<lparr>mr_waiting_on_la :=
                                  Some (lawait\<lparr>wl_hb_timeout_handle := handle\<rparr>)\<rparr>))
                          (sret None)))
                   | None \<Rightarrow> spanic ''Got a new WFT while there are outstanding local activities, but there was no waiting on LA info.'')
                else sret (Some (Autocomplete (mr_run_id s))))))))"

section \<open>Answering a completion\<close>

fun peek_command :: "command_and_machine list \<Rightarrow> bool wm_action" where
  "peek_command [] = sret False"
| "peek_command (c # cs) =
     sbind (real_command c) (\<lambda>r. if r \<noteq> [] then sret True else peek_command cs)"

text \<open>\<open>commands().peek().is_some()\<close>, which records flags as \<open>get_commands\<close> does.\<close>

definition has_command :: "bool wm_action" where
  "has_command =
     sthen (smod (\<lambda>s. s\<lparr>wm_observed_internal_flags :=
              write_all_known (wm_observed_internal_flags s)\<rparr>))
     (sbind (sget wm_commands) peek_command)"

definition prepare_complete_resp ::
  "chan option \<Rightarrow> completion_data_for_wft \<Rightarrow> bool \<Rightarrow> fulfillable mr_action" where
  "prepare_complete_resp resp_chan data due_to_heartbeat_timeout =
     sbind (sget (\<lambda>s. s)) (\<lambda>s.
     let replaying = wm_replaying (mr_machines s);
         pending_jobs = has_pending_jobs (mr_machines s);
         seen_terminal = wm_have_seen_terminal_event (mr_machines s);
         pending_la = has_pending_la_resolutions (mr_machines s);
         has_query_responses = (cd_query_responses data \<noteq> []);
         is_query_playback = (cd_has_pending_query data \<and> \<not> has_query_responses);
         should_respond = (\<not> (pending_jobs \<or> (replaying \<and> \<not> cd_is_forced_failure data) \<or>
            is_query_playback \<or> cd_activation_was_eviction data \<or> seen_terminal));
         force_new_wft = (due_to_heartbeat_timeout \<or> (has_query_responses \<and> pending_la))
     in sthen (if cd_activation_was_eviction data then on_machines has_command else sret False)
        (sbind (if should_respond \<or> has_query_responses then
             sbind (if mr_am_broken s \<and> cd_activation_was_eviction data then sret ([], [])
                    else sbind (on_machines get_commands) (\<lambda>commands.
                         sbind (on_machines take_messages) (\<lambda>messages. sret (commands, messages))))
               (\<lambda>(commands, messages).
             sbind (on_machines get_metadata_for_wft_complete) (\<lambda>sdk_metadata.
             sret (ReportWFTSuccess (cd_task_token data)
               (WftComplete commands messages (cd_query_responses data) force_new_wft
                  sdk_metadata))))
           else sret DoNothing) (\<lambda>outcome.
         sret \<lparr>fu_result = \<lparr>acr_replaying = replaying, acr_outcome = outcome\<rparr>,
               fu_resp_chan = resp_chan\<rparr>)))"

text \<open>The closure of \<open>_process_completion\<close>, and the function around it.\<close>

definition apply_completion ::
  "run_env \<Rightarrow> run_activation_completion \<Rightarrow> history_update option \<Rightarrow>
   (instant \<times> duration) option mr_action" where
  "apply_completion env completion update_from_new_page =
     (let e = menv_engine env
      in sthen (on_machines (push_commands_and_iterate e (rac_commands completion)))
         (sthen (case update_from_new_page of
                   Some update \<Rightarrow> on_machines (new_history_from_server e update)
                 | None \<Rightarrow> sret ())
         (sbind (sget mr_am_broken) (\<lambda>broken.
          sthen (if \<not> rac_activation_was_eviction completion \<and> \<not> broken
                 then on_machines (apply_next_task_if_ready e) else sret ())
          (sbind (on_machines (drain_queued_local_activities e)) (\<lambda>new_local_acts.
           sthen (sink_la_requests env new_local_acts)
           (sbind (sget mr_machines) (\<lambda>w.
            if outstanding_la_count (wm_local_activity_data w) = 0 then sret None
            else
              (case Option.bind (dw_started_attrs (wm_drive_me w)) wsi_workflow_task_timeout of
                 None \<Rightarrow> serr (Fatal ''Workflow's start attribs were missing a well formed task timeout'')
               | Some wft_timeout \<Rightarrow> sret (Some (rac_start_time completion, wft_timeout)))))))))))"

definition process_inner ::
  "run_env \<Rightarrow> run_activation_completion \<Rightarrow> history_update option \<Rightarrow>
   (run_update_err + fulfillable option) mr_action" where
  "process_inner env completion update_from_new_page =
     (let data = \<lparr>cd_task_token = rac_task_token completion,
                  cd_query_responses = rac_query_responses completion,
                  cd_has_pending_query = rac_has_pending_query completion,
                  cd_activation_was_eviction = rac_activation_was_eviction completion,
                  cd_is_forced_failure = rac_is_forced_failure completion\<rparr>;
          respond = sbind (prepare_complete_resp (rac_resp_chan completion) data False)
            (\<lambda>f. sret (Inr (Some f)))
      in sthen (on_machines (wm_add_lang_used_flags (rac_used_flags completion)))
         (if rac_activation_was_eviction completion then respond
          else
            sbind (stry (apply_completion env completion update_from_new_page)) (\<lambda>outcome.
            case outcome of
              Inr None \<Rightarrow> respond
            | Inr (Some (start_t, wft_timeout)) \<Rightarrow>
                sbind (sget mr_waiting_on_la) (\<lambda>wola.
                sthen (case wola of Some w \<Rightarrow> abort (wl_hb_timeout_handle w) | None \<Rightarrow> sret ())
                (sbind (sget (\<lambda>s. mr_run_id s)) (\<lambda>run_id.
                 sbind (sink_heartbeat_timeout_start env run_id start_t wft_timeout) (\<lambda>handle.
                 sthen (smod (\<lambda>s. s\<lparr>mr_waiting_on_la := Some
                     \<lparr>wl_wft_timeout = wft_timeout,
                      wl_completion_dat = Some (data, rac_resp_chan completion),
                      wl_hb_timeout_handle = handle\<rparr>\<rparr>))
                 (sret (Inr None))))))
            | Inl err \<Rightarrow>
                sret (Inl \<lparr>ue_source = err, ue_complete_resp_chan = rac_resp_chan completion\<rparr>))))"

definition preprocess ::
  "wf_command list \<Rightarrow> (wf_command list \<times> query_result list) mr_action" where
  "preprocess commands =
     sbind (sget (\<lambda>s. wm_replaying (mr_machines s))) (\<lambda>replaying.
     sbind (if replaying then on_machines (try_use_flag MoveTerminalCommands False) else sret True)
       (\<lambda>use_new.
     sret (if replaying \<and> \<not> use_new then preprocess_command_sequence_old_behavior commands
           else preprocess_command_sequence commands)))"

section \<open>Calls that nest\<close>

record callees =
  c_update_to_acts :: "run_update_err + act_or_fulfill \<Rightarrow> run_update_act mr_action"
  c_failed_completion :: "wft_failed_cause \<Rightarrow> eviction_reason \<Rightarrow> completion_failure \<Rightarrow> bool \<Rightarrow>
    chan option \<Rightarrow> run_update_act mr_action"
  c_request_eviction :: "request_evict_msg \<Rightarrow> eviction_request_result mr_action"

definition from_act :: "wf_error + run_update_act \<Rightarrow> run_update_err + act_or_fulfill" where
  "from_act r = map_sum run_update_err_from OutgoingAct r"

definition incoming_with :: "run_env \<Rightarrow> callees \<Rightarrow> permitted_wft \<Rightarrow> run_update_act mr_action" where
  "incoming_with env c pwft =
     sbind (stry (incoming_inner env pwft)) (\<lambda>res. c_update_to_acts c (from_act res))"

definition check_more_with :: "run_env \<Rightarrow> callees \<Rightarrow> run_update_act mr_action" where
  "check_more_with env c =
     sbind (stry (check_more_inner env)) (\<lambda>res. c_update_to_acts c (from_act res))"

definition process_with ::
  "run_env \<Rightarrow> callees \<Rightarrow> run_activation_completion \<Rightarrow> run_update_act mr_action" where
  "process_with env c completion =
     sbind (process_inner env completion None) (\<lambda>res.
     c_update_to_acts c (map_sum (\<lambda>e. e) FulfillableComplete res))"

definition reply_with ::
  "run_env \<Rightarrow> callees \<Rightarrow> activation_complete_outcome \<Rightarrow> chan option \<Rightarrow> unit mr_action" where
  "reply_with env c outcome ch =
     (case ch of
        None \<Rightarrow> sret ()
      | Some ch \<Rightarrow>
          sbind (sget (\<lambda>s. wm_replaying (mr_machines s))) (\<lambda>replaying.
          sbind (send_reply env ch \<lparr>acr_replaying = replaying, acr_outcome = outcome\<rparr>) (\<lambda>received.
          if received then sret ()
          else
            sbind (sget (\<lambda>s. mr_run_id s)) (\<lambda>run_id.
            sthen (c_request_eviction c
              \<lparr>re_run_id = run_id,
               re_message = ''The workflow task completer went missing! This likely indicates an SDK bug, please report.'',
               re_reason = ER_Fatal, re_auto_reply_fail_tt = None\<rparr>) (sret ())))))"

definition evict_outcome :: "activation_complete_outcome mr_action" where
  "evict_outcome = (\<lambda>s.
     case mr_trying_to_evict s of
       Some te \<Rightarrow>
         (case re_auto_reply_fail_tt te of
            Some tt \<Rightarrow>
              (Ok (ReportWFTFail (FR_Report tt cause_unspecified
                     (completion_failure_from (application_failure (re_message te) True)))),
               s\<lparr>mr_trying_to_evict := Some (te\<lparr>re_auto_reply_fail_tt := None\<rparr>)\<rparr>)
          | None \<Rightarrow> (Ok DoNothing, s))
     | None \<Rightarrow> (Ok DoNothing, s))"

definition legacy_response :: "wf_command list \<Rightarrow> query_result option" where
  "legacy_response commands =
     (case commands of
        [c] \<Rightarrow>
          (case wfc_variant c of
             QueryResponse qr \<Rightarrow> if qr_query_id qr = LEGACY_QUERY_ID then Some qr else None
           | _ \<Rightarrow> None)
      | _ \<Rightarrow> None)"

text \<open>\<open>Inl\<close>: a page of history is to be fetched with the paginator before the completion goes on.\<close>

definition successful_with ::
  "run_env \<Rightarrow> callees \<Rightarrow> wf_command list \<Rightarrow> u32 list \<Rightarrow> chan option \<Rightarrow> bool \<Rightarrow>
   (history_paginator + run_update_act) mr_action" where
  "successful_with env c commands used_flags resp_chan is_forced_failure =
     sbind (sget mr_wft) (\<lambda>wft.
     case wft of
       None \<Rightarrow>
         sbind (evict_outcome) (\<lambda>outcome.
         sthen (reply_with env c outcome resp_chan) (sret (Inr None)))
     | Some entry \<Rightarrow>
         (case legacy_response commands of
           Some qr \<Rightarrow>
             sthen (reply_with env c (ReportWFTSuccess (ti_task_token (ot_info entry))
                      (RespondLegacyQuery qr)) resp_chan) (sret (Inr None))
         | None \<Rightarrow>
             sbind (preprocess commands) (\<lambda>(commands, query_responses).
             sbind (sget (\<lambda>s. s)) (\<lambda>s.
             let rac = \<lparr>rac_task_token = ti_task_token (ot_info entry),
                        rac_start_time = ot_start_time entry, rac_commands = commands,
                        rac_activation_was_eviction = activation_is_eviction s,
                        rac_has_pending_query = (ot_pending_queries entry \<noteq> []),
                        rac_query_responses = query_responses, rac_used_flags = used_flags,
                        rac_is_forced_failure = is_forced_failure, rac_resp_chan = resp_chan\<rparr>
             in if \<not> ready_to_apply_next_wft (mr_machines s) then
                  (case mr_paginator s of
                     Some paginator \<Rightarrow>
                       sthen (smod (\<lambda>s. s\<lparr>mr_paginator := None,
                                mr_completion_waiting_on_page_fetch := Some rac\<rparr>))
                       (sret (Inl paginator))
                   | None \<Rightarrow>
                       sbind (c_update_to_acts c (Inl
                         \<lparr>ue_source = Fatal ''Run's paginator was absent when attempting to fetch next history page. This is a Core SDK bug.'',
                          ue_complete_resp_chan = resp_chan\<rparr>)) (\<lambda>r. sret (Inr r)))
                else sbind (process_with env c rac) (\<lambda>r. sret (Inr r))))))"

definition should_fail_workflow :: "worker_config \<Rightarrow> string \<Rightarrow> workflow_error_type \<Rightarrow> bool" where
  "should_fail_workflow cfg wf_type err \<longleftrightarrow>
     err \<in> set (cfg_workflow_failure_errors cfg) \<or>
     (case map_of (cfg_workflow_types_to_failure_errors cfg) wf_type of
        Some errs \<Rightarrow> err \<in> set errs
      | None \<Rightarrow> False)"

definition failed_with ::
  "run_env \<Rightarrow> callees \<Rightarrow> wft_failed_cause \<Rightarrow> eviction_reason \<Rightarrow> completion_failure \<Rightarrow> bool \<Rightarrow>
   chan option \<Rightarrow> run_update_act mr_action" where
  "failed_with env c cause reason failure is_auto_fail resp_chan =
     sbind (sget (\<lambda>s. s)) (\<lambda>s.
     case mr_wft s of
       None \<Rightarrow> sthen (reply_with env c DoNothing resp_chan) (sret None)
     | Some t \<Rightarrow>
         (let tt = ti_task_token (ot_info t);
              message = ''Workflow activation completion failed: '' @ menv_debug_failure env failure;
              is_no_report_query_fail = (pending_work_is_legacy_query s \<and> is_auto_fail \<and>
                (reason = ER_Unspecified \<or> reason = ER_PaginationOrHistoryFetch))
          in sbind (if is_no_report_query_fail then sret (False, None)
                else
                  sbind (c_request_eviction c \<lparr>re_run_id = mr_run_id s, re_message = message,
                           re_reason = reason, re_auto_reply_fail_tt = None\<rparr>) (\<lambda>r.
                  sret (case r of
                          EvictionRequested (Some attempt) _ \<Rightarrow> attempt \<le> 1
                        | EvictionAlreadyRequested (Some attempt) \<Rightarrow> attempt \<le> 1
                        | _ \<Rightarrow> False,
                        into_run_update_resp r))) (\<lambda>(should_report, rur).
             sbind (sget (\<lambda>s. s)) (\<lambda>s.
             if \<not> pending_work_is_legacy_query s \<and> should_report \<and>
                cause = cause_non_deterministic_error \<and>
                should_fail_workflow (mr_config s) (wm_workflow_type (mr_machines s)) WET_Nondeterminism
             then
               sbind (successful_with env c
                 [\<lparr>wfc_variant = FailWorkflow (cf_failure failure), wfc_metadata = None\<rparr>] []
                 resp_chan True) (\<lambda>r. sret (case r of Inr acts \<Rightarrow> acts | Inl _ \<Rightarrow> None))
             else
               sthen (reply_with env c
                 (if pending_work_is_legacy_query s then
                    if is_no_report_query_fail then WFTFailedDontReport
                    else ReportWFTFail (ReportLegacyQueryFailure tt failure)
                  else if should_report then ReportWFTFail (FR_Report tt cause failure)
                  else WFTFailedDontReport) resp_chan) (sret rur)))))"

definition request_eviction_with ::
  "run_env \<Rightarrow> callees \<Rightarrow> request_evict_msg \<Rightarrow> eviction_request_result mr_action" where
  "request_eviction_with env c info =
     sbind (sget (\<lambda>s. s)) (\<lambda>s.
     let attempts = map_option (\<lambda>wt. ti_attempt (ot_info wt)) (mr_wft s)
     in case (mr_completion_waiting_on_page_fetch s, re_reason info) of
          (Some compl, ER_PaginationOrHistoryFetch) \<Rightarrow>
            sthen (smod (\<lambda>s. s\<lparr>mr_completion_waiting_on_page_fetch := None\<rparr>))
            (sbind (c_failed_completion c cause_unspecified (re_reason info)
                (completion_failure_from (application_failure (re_message info) False)) True
                (rac_resp_chan compl)) (\<lambda>run_upd.
             sret (EvictionRequested attempts run_upd)))
        | _ \<Rightarrow>
            if \<not> activation_is_eviction s \<and> mr_trying_to_evict s = None then
              sthen (if re_reason info \<noteq> ER_CacheFull \<and> re_reason info \<noteq> ER_WorkflowExecutionEnding \<and>
                        \<not> pending_work_is_legacy_query s
                     then smod (\<lambda>s. s\<lparr>mr_wft :=
                            map_option (\<lambda>wft. wft\<lparr>ot_pending_queries := []\<rparr>) (mr_wft s)\<rparr>)
                     else sret ())
              (sthen (smod (\<lambda>s. s\<lparr>mr_trying_to_evict := Some info\<rparr>))
              (sbind (check_more_with env c) (\<lambda>acts. sret (EvictionRequested attempts acts))))
            else
              sthen (smod (\<lambda>s. s\<lparr>mr_trying_to_evict := Some info\<rparr>))
              (sret (EvictionAlreadyRequested attempts)))"

text \<open>The evict activation of a run with nothing else to do.\<close>

definition idle_eviction :: "managed_run \<Rightarrow> run_update_act" where
  "idle_eviction s =
     (case mr_trying_to_evict s of
        Some reason \<Rightarrow>
          if mr_activation s = None \<and> \<not> more_pending_work s
          then Some (LangActivation
                 ((create_evict_activation (mr_run_id s) (re_message reason) (re_reason reason))
                    \<lparr>wa_history_length := word_of_int (wm_last_processed_event (mr_machines s))\<rparr>))
          else None
      | None \<Rightarrow> None)"

definition ready_act :: "run_update_act \<Rightarrow> run_update_act mr_action" where
  "ready_act maybe_act =
     (case maybe_act of
        Some (LangActivation activation) \<Rightarrow> sret (Some (LangActivation activation))
      | Some (ReadyForQueries act) \<Rightarrow>
          (\<lambda>s. case mr_wft s of
             Some wft \<Rightarrow>
               (case put_queries_in_act act wft of
                  (act', wft') \<Rightarrow> (Ok (Some (LangActivation act')), s\<lparr>mr_wft := Some wft'\<rparr>))
           | None \<Rightarrow> (Ok None, s))
      | Some a \<Rightarrow> sret (Some a)
      | None \<Rightarrow> sget idle_eviction)"

definition take_buffered :: "permitted_wft option mr_action" where
  "take_buffered = (\<lambda>s.
     case get_next_wft (mr_task_buffer s) of (t, b) \<Rightarrow> (Ok t, s\<lparr>mr_task_buffer := b\<rparr>))"

definition is_none_or_autocomplete :: "run_update_act \<Rightarrow> bool" where
  "is_none_or_autocomplete r =
     (case r of None \<Rightarrow> True | Some (Autocomplete _) \<Rightarrow> True | _ \<Rightarrow> False)"

text \<open>The two branches of \<open>update_to_acts\<close>.\<close>

definition acts_with ::
  "run_env \<Rightarrow> callees \<Rightarrow> run_update_act \<Rightarrow> fulfillable option \<Rightarrow> run_update_act mr_action" where
  "acts_with env c maybe_act maybe_fulfill =
     sbind (sget more_pending_work) (\<lambda>more.
     sbind (if more \<and> maybe_act = None then stry (check_more_inner env) else sret (Inr maybe_act))
       (\<lambda>checked.
     case checked of
       Inl e \<Rightarrow> c_update_to_acts c (Inl (run_update_err_from e))
     | Inr maybe_act \<Rightarrow>
         sbind (ready_act maybe_act) (\<lambda>r.
         sthen (case maybe_fulfill of Some f \<Rightarrow> fulfill env f | None \<Rightarrow> sret ())
         (sbind (sget (has_any_pending_work False True)) (\<lambda>pending.
          if is_none_or_autocomplete r \<and> \<not> pending then
            sbind take_buffered (\<lambda>bufft.
            case bufft of
              Some pwft \<Rightarrow> incoming_with env c pwft
            | None \<Rightarrow> sret None)
          else
            (case r of
               Some a \<Rightarrow> sthen (insert_outstanding_activation a) (sret (Some a))
             | None \<Rightarrow> sret None))))))"

definition broken_with :: "callees \<Rightarrow> run_update_err \<Rightarrow> run_update_act mr_action" where
  "broken_with c fail =
     sthen (smod (\<lambda>s. s\<lparr>mr_am_broken := True\<rparr>))
     (case ue_complete_resp_chan fail of
        Some resp_chan \<Rightarrow>
          c_failed_completion c
            (case ue_source fail of
               Nondeterminism _ \<Rightarrow> cause_non_deterministic_error
             | Fatal _ \<Rightarrow> cause_unspecified)
            (evict_reason (ue_source fail)) (as_failure (ue_source fail)) True (Some resp_chan)
      | None \<Rightarrow>
          sbind (sget (\<lambda>s. mr_run_id s)) (\<lambda>run_id.
          sret (Some (AutoFail run_id (ue_source fail)))))"

definition update_with ::
  "run_env \<Rightarrow> callees \<Rightarrow> run_update_err + act_or_fulfill \<Rightarrow> run_update_act mr_action" where
  "update_with env c outcome =
     (case outcome of
        Inr (OutgoingAct a) \<Rightarrow> acts_with env c a None
      | Inr (FulfillableComplete f) \<Rightarrow> acts_with env c None f
      | Inl fail \<Rightarrow> broken_with c fail)"

text \<open>Each call nested into another one takes one place of the stack.\<close>

definition overflowing :: callees where
  "overflowing =
     \<lparr>c_update_to_acts = (\<lambda>_. spanic ''stack overflow''),
      c_failed_completion = (\<lambda>_ _ _ _ _. spanic ''stack overflow''),
      c_request_eviction = (\<lambda>_. spanic ''stack overflow'')\<rparr>"

primrec nested :: "run_env \<Rightarrow> nat \<Rightarrow> callees" where
  "nested env 0 = overflowing"
| "nested env (Suc n) =
     \<lparr>c_update_to_acts = update_with env (nested env n),
      c_failed_completion = failed_with env (nested env n),
      c_request_eviction = request_eviction_with env (nested env n)\<rparr>"

lemma nested_callees:
  assumes "0 < n"
  shows "c_update_to_acts (nested env n) = update_with env (nested env (n - 1))"
    "c_failed_completion (nested env n) = failed_with env (nested env (n - 1))"
    "c_request_eviction (nested env n) = request_eviction_with env (nested env (n - 1))"
  using assms by (cases n; simp)+

declare nested.simps [simp del]

section \<open>The operations of a run\<close>

definition update_to_acts :: "run_env \<Rightarrow> run_update_err + act_or_fulfill \<Rightarrow> run_update_act mr_action" where
  "update_to_acts env = update_with env (nested env (menv_stack env))"

definition incoming_wft :: "run_env \<Rightarrow> permitted_wft \<Rightarrow> run_update_act mr_action" where
  "incoming_wft env = incoming_with env (nested env (menv_stack env))"

definition check_more_activations :: "run_env \<Rightarrow> run_update_act mr_action" where
  "check_more_activations env = check_more_with env (nested env (menv_stack env))"

definition successful_completion ::
  "run_env \<Rightarrow> wf_command list \<Rightarrow> u32 list \<Rightarrow> chan option \<Rightarrow> bool \<Rightarrow>
   (history_paginator + run_update_act) mr_action" where
  "successful_completion env = successful_with env (nested env (menv_stack env))"

definition failed_completion ::
  "run_env \<Rightarrow> wft_failed_cause \<Rightarrow> eviction_reason \<Rightarrow> completion_failure \<Rightarrow> bool \<Rightarrow> chan option \<Rightarrow>
   run_update_act mr_action" where
  "failed_completion env = failed_with env (nested env (menv_stack env))"

definition request_eviction :: "run_env \<Rightarrow> request_evict_msg \<Rightarrow> eviction_request_result mr_action" where
  "request_eviction env = request_eviction_with env (nested env (menv_stack env))"

definition fetched_page_completion ::
  "run_env \<Rightarrow> history_update \<Rightarrow> history_paginator \<Rightarrow> run_update_act mr_action" where
  "fetched_page_completion env update paginator =
     sthen (smod (\<lambda>s. s\<lparr>mr_paginator := Some paginator\<rparr>))
     (sbind (sget mr_completion_waiting_on_page_fetch) (\<lambda>waiting.
      sbind (case waiting of
               Some d \<Rightarrow>
                 sthen (smod (\<lambda>s. s\<lparr>mr_completion_waiting_on_page_fetch := None\<rparr>))
                 (process_inner env d (Some update))
             | None \<Rightarrow>
                 sret (Inl (run_update_err_from (Fatal ''Tried to apply next-page-fetch update to a run that wasn't handling a completion''))))
        (\<lambda>res. update_to_acts env (map_sum (\<lambda>e. e) FulfillableComplete res))))"

definition local_resolution_inner ::
  "run_env \<Rightarrow> local_activity_resolution \<Rightarrow> fulfillable option mr_action" where
  "local_resolution_inner env res =
     sthen (on_machines (local_resolution (menv_engine env) res))
     (sbind (sget (\<lambda>s. s)) (\<lambda>s.
      if outstanding_la_count (wm_local_activity_data (mr_machines s)) = 0 then
        (case mr_waiting_on_la s of
           Some wait_dat \<Rightarrow>
             sthen (smod (\<lambda>s. s\<lparr>mr_waiting_on_la := None\<rparr>))
             (sthen (abort (wl_hb_timeout_handle wait_dat))
             (case wl_completion_dat wait_dat of
                Some (completion_dat, resp_chan) \<Rightarrow>
                  sbind (prepare_complete_resp resp_chan completion_dat False) (\<lambda>f. sret (Some f))
              | None \<Rightarrow> sret None))
         | None \<Rightarrow> sret None)
      else sret None))"

definition mr_local_resolution ::
  "run_env \<Rightarrow> local_activity_resolution \<Rightarrow> run_update_act mr_action" where
  "mr_local_resolution env res =
     sbind (stry (local_resolution_inner env res)) (\<lambda>r.
     update_to_acts env (map_sum run_update_err_from FulfillableComplete r))"

definition heartbeat_inner :: "run_env \<Rightarrow> bool mr_action" where
  "heartbeat_inner env =
     sbind (sget mr_waiting_on_la) (\<lambda>waiting.
     case waiting of
       Some wait_dat \<Rightarrow>
         sthen (abort (wl_hb_timeout_handle wait_dat))
         (case wl_completion_dat wait_dat of
            Some (completion_dat, resp_chan) \<Rightarrow>
              sthen (smod (\<lambda>s. s\<lparr>mr_waiting_on_la := Some (wait_dat\<lparr>wl_completion_dat := None\<rparr>)\<rparr>))
              (sbind (prepare_complete_resp resp_chan completion_dat True) (\<lambda>compl.
               sthen (fulfill env compl) (sret False)))
          | None \<Rightarrow> sret True)
     | None \<Rightarrow> sret False)"

definition heartbeat_timeout :: "run_env \<Rightarrow> run_update_act mr_action" where
  "heartbeat_timeout env =
     sbind (heartbeat_inner env) (\<lambda>auto_reply.
     sbind (sget (\<lambda>s. mr_run_id s)) (\<lambda>run_id.
     update_to_acts env (Inr (OutgoingAct (if auto_reply then Some (Autocomplete run_id) else None)))))"

definition mark_wft_complete :: "run_env \<Rightarrow> wft_report_status \<Rightarrow> outstanding_task option mr_action" where
  "mark_wft_complete env report_status =
     sbind (sget mr_wft) (\<lambda>retme.
     sthen (smod (\<lambda>s. s\<lparr>mr_wft := None\<rparr>))
     (sthen (case report_status of
               Reported reset_last_started_to \<Rightarrow>
                 sthen (case reset_last_started_to of
                          Some i \<Rightarrow> on_machines (reset_last_started_id i)
                        | None \<Rightarrow> sret ())
                 (sbind (sget (\<lambda>s. mr_run_id s)) (\<lambda>run_id.
                  sthen (sink_reqs env [LAR_IndicateWorkflowTaskCompleted run_id]) (sret ())))
             | _ \<Rightarrow> sret ())
     (sret retme)))"

definition finish_activation ::
  "(outstanding_activation \<Rightarrow> bool) \<Rightarrow> managed_run \<Rightarrow> (bool \<times> buffered_tasks) \<times> managed_run" where
  "finish_activation pred s =
     (case mr_activation s of
        Some a \<Rightarrow>
          if pred a then
            if a = OA_Eviction
            then ((True, mr_task_buffer s), s\<lparr>mr_activation := None, mr_task_buffer := bt_default\<rparr>)
            else ((False, bt_default), s\<lparr>mr_activation := None\<rparr>)
          else ((False, bt_default), s)
      | None \<Rightarrow> ((False, bt_default), s))"

definition blank_run :: "run_basics \<Rightarrow> managed_run" where
  "blank_run basics =
     \<lparr>mr_machines = wm_new basics dw_new, mr_waiting_on_la = None, mr_am_broken = False,
      mr_wft = None, mr_activation = None, mr_task_buffer = bt_default, mr_trying_to_evict = None,
      mr_paginator = None, mr_completion_waiting_on_page_fetch = None,
      mr_config = rb_worker_config basics, mr_requests = [], mr_replies = [], mr_timers = 0,
      mr_aborted = []\<rparr>"

definition mr_new :: "run_env \<Rightarrow> run_basics \<Rightarrow> permitted_wft \<Rightarrow> run_update_act outcome \<times> managed_run" where
  "mr_new env basics wft = incoming_wft env wft (blank_run basics)"

section \<open>Runs\<close>

text \<open>
  What the worker calls on a run, and what it may answer for the language layer.  The flag of \<open>successful_completion\<close> is only set by
  \<open>failed_completion\<close> itself.
\<close>

datatype (plugins only: code) run_op =
    Incoming run_env permitted_wft
  | Check_More run_env
  | Complete_Ok run_env "wf_command list" "u32 list" "chan option"
  | Complete_Fail run_env wft_failed_cause eviction_reason completion_failure bool "chan option"
  | Fetched_Page run_env history_update history_paginator
  | Resolve_Local run_env local_activity_resolution
  | Heartbeat run_env
  | Evict run_env request_evict_msg
  | Mark_Complete run_env wft_report_status
  | Finish_Activation "outstanding_activation \<Rightarrow> bool"
  | Buffer_Task permitted_wft

definition run_acts :: "run_op \<Rightarrow> run_update_act mr_action" where
  "run_acts p =
     (case p of
        Incoming env wft \<Rightarrow> incoming_wft env wft
      | Check_More env \<Rightarrow> check_more_activations env
      | Complete_Ok env cs fl ch \<Rightarrow>
          sbind (successful_completion env cs fl ch False) (\<lambda>r.
          sret (case r of Inr acts \<Rightarrow> acts | Inl _ \<Rightarrow> None))
      | Complete_Fail env cause reason failure auto ch \<Rightarrow>
          failed_completion env cause reason failure auto ch
      | Fetched_Page env update pag \<Rightarrow> fetched_page_completion env update pag
      | Resolve_Local env res \<Rightarrow> mr_local_resolution env res
      | Heartbeat env \<Rightarrow> heartbeat_timeout env
      | Evict env info \<Rightarrow> sbind (request_eviction env info) (\<lambda>r. sret (into_run_update_resp r))
      | Mark_Complete env status \<Rightarrow> sthen (mark_wft_complete env status) (sret None)
      | Finish_Activation pred \<Rightarrow> sthen (smod (\<lambda>s. snd (finish_activation pred s))) (sret None)
      | Buffer_Task wft \<Rightarrow> sthen (smod (\<lambda>s. snd (buffer_wft_if_outstanding_work wft s))) (sret None))"

inductive run_reachable :: "run_basics \<Rightarrow> managed_run \<Rightarrow> bool" for basics where
  fresh: "run_reachable basics (blank_run basics)"
| stepped: "run_reachable basics s \<Longrightarrow> run_acts p s = (Ok r, s') \<Longrightarrow> run_reachable basics s'"

end
