(* ===== verification/Workflow_Stream.thy ===== *)
theory Workflow_Stream
  imports Managed_Run
begin

text \<open>
  All runs of a worker: the cache of runs (\<open>core/src/worker/workflow/run_cache.rs\<close>) and the stream
  that directs every input to its run (\<open>core/src/worker/workflow/workflow_stream.rs\<close>).

  The least-recently-used map of the cache is a list of its entries, the most recently used first.
  Looking a run up moves it to the front, as \<open>get\<close> and \<open>get_mut\<close> do; \<open>peek_lru\<close>, \<open>contains\<close> and the
  iterators do not.  What an input reads from outside is a parameter (\<open>stream_env\<close>): the environment
  of each run, whether the shutdown token was cancelled by another part of the worker, and how many
  references to the counter of history fetches are held outside of the stream.
\<close>

section \<open>The cache of runs\<close>

record run_cache =
  rc_worker_config :: worker_config
  rc_sdk_name_and_version :: "string \<times> string"
  rc_server_sdk_metadata :: bool
  rc_runs :: "(string \<times> managed_run) list"

type_synonym 'a rc_action = "(run_cache, 'a) action"

definition lru_size :: "worker_config \<Rightarrow> nat" where
  "lru_size config =
     (if cfg_max_cached_workflows config > 0 then cfg_max_cached_workflows config else 1)"

definition rc_new :: "worker_config \<Rightarrow> string \<times> string \<Rightarrow> bool \<Rightarrow> run_cache" where
  "rc_new config sdk capabilities =
     \<lparr>rc_worker_config = config, rc_sdk_name_and_version = sdk, rc_server_sdk_metadata = capabilities,
      rc_runs = []\<rparr>"

definition lru_front :: "string \<Rightarrow> 'v \<Rightarrow> (string \<times> 'v) list \<Rightarrow> (string \<times> 'v) list" where
  "lru_front k v es = (k, v) # filter (\<lambda>e. fst e \<noteq> k) es"

text \<open>\<open>LruCache::push\<close> returns the entry that had the key or that had to go.\<close>

definition lru_push ::
  "nat \<Rightarrow> string \<Rightarrow> 'v \<Rightarrow> (string \<times> 'v) list \<Rightarrow> (string \<times> 'v) option \<times> (string \<times> 'v) list" where
  "lru_push cap k v es =
     (case map_of es k of
        Some old \<Rightarrow> (Some (k, old), lru_front k v es)
      | None \<Rightarrow>
          if length es = cap then (Some (last es), (k, v) # butlast es)
          else (None, (k, v) # es))"

text \<open>\<open>get_mut\<close> and a call on the run, if it is there.\<close>

definition with_run :: "string \<Rightarrow> 'a mr_action \<Rightarrow> 'a option rc_action" where
  "with_run k m = (\<lambda>c.
     case map_of (rc_runs c) k of
       None \<Rightarrow> (Ok None, c)
     | Some rh \<Rightarrow>
         (case m rh of
            (r, rh') \<Rightarrow>
              (case r of Ok a \<Rightarrow> Ok (Some a) | Err e \<Rightarrow> Err e | Panic p \<Rightarrow> Panic p,
               c\<lparr>rc_runs := lru_front k rh' (rc_runs c)\<rparr>)))"

definition rc_basics :: "run_cache \<Rightarrow> permitted_wft \<Rightarrow> run_basics" where
  "rc_basics c pwft =
     \<lparr>rb_worker_config = rc_worker_config c,
      rb_workflow_id = we_workflow_id (pw_execution (pm_work pwft)),
      rb_workflow_type = pw_workflow_type (pm_work pwft),
      rb_run_id = we_run_id (pw_execution (pm_work pwft)),
      rb_history = hu_dummy,
      rb_server_sdk_metadata = rc_server_sdk_metadata c,
      rb_sdk_name = fst (rc_sdk_name_and_version c),
      rb_sdk_version = snd (rc_sdk_name_and_version c)\<rparr>"

definition rc_instantiate :: "run_env \<Rightarrow> permitted_wft \<Rightarrow> run_update_act rc_action" where
  "rc_instantiate env pwft = (\<lambda>c.
     case mr_new env (rc_basics c pwft) pwft of
       (Ok rur, mrh) \<Rightarrow>
         (case lru_push (lru_size (rc_worker_config c)) (we_run_id (pw_execution (pm_work pwft))) mrh
                 (rc_runs c) of
            (evicted, runs) \<Rightarrow>
              (if evicted \<noteq> None
               then Panic ''Overflowed run cache! Cache owner is expected to avoid this!'' else Ok rur,
               c\<lparr>rc_runs := runs\<rparr>))
     | (Err e, mrh) \<Rightarrow> (Err e, c)
     | (Panic p, mrh) \<Rightarrow> (Panic p, c))"

definition rc_instantiate_or_update :: "run_env \<Rightarrow> permitted_wft \<Rightarrow> run_update_act rc_action" where
  "rc_instantiate_or_update env pwft =
     sbind (with_run (we_run_id (pw_execution (pm_work pwft))) (incoming_wft env pwft)) (\<lambda>r.
     case r of Some rur \<Rightarrow> sret rur | None \<Rightarrow> rc_instantiate env pwft)"

definition rc_remove :: "string \<Rightarrow> unit rc_action" where
  "rc_remove k = smod (\<lambda>c. c\<lparr>rc_runs := filter (\<lambda>e. fst e \<noteq> k) (rc_runs c)\<rparr>)"

definition current_lru_run :: "run_cache \<Rightarrow> string option" where
  "current_lru_run c = (if rc_runs c = [] then None else Some (fst (last (rc_runs c))))"

definition runs_lru_order :: "run_cache \<Rightarrow> (string \<times> managed_run) list" where
  "runs_lru_order c = rev (rc_runs c)"

definition has_run :: "string \<Rightarrow> run_cache \<Rightarrow> bool" where
  "has_run k c \<longleftrightarrow> map_of (rc_runs c) k \<noteq> None"

definition is_full :: "run_cache \<Rightarrow> bool" where
  "is_full c \<longleftrightarrow> lru_size (rc_worker_config c) = length (rc_runs c)"

definition cache_capacity :: "run_cache \<Rightarrow> nat" where
  "cache_capacity c = cfg_max_cached_workflows (rc_worker_config c)"

section \<open>The stream\<close>

datatype (plugins only: code) history_fetch_req =
    FetchFull permitted_wft
  | FetchNextPage history_paginator

record wf_stream =
  ws_runs :: run_cache
  ws_buffered_polls_need_cache_slot :: "permitted_wft list list"
  ws_runs_needing_fetching :: "history_fetch_req list"
  ws_shutdown :: bool
  ws_state_infos :: "(nat \<times> nat) list"

type_synonym 'a ws_action = "(wf_stream, 'a) action"

record stream_env =
  senv_run :: "string \<Rightarrow> run_env"
  senv_cancelled :: bool
  senv_fetches :: nat

record post_activation_msg =
  pa_run_id :: string
  pa_wft_report_status :: wft_report_status
  pa_wft_from_complete :: "(prepared_wft \<times> history_paginator) option"
  pa_is_autocomplete :: bool

datatype (plugins only: code) new_or_fetched_complete =
    NewComplete validated_completion "chan option"
  | FetchedComplete history_update history_paginator

datatype (plugins only: code) local_inputs =
    LI_Completion validated_completion "chan option"
  | LI_FetchedPageCompletion history_paginator history_update
  | LI_LocalResolution string local_activity_resolution
  | LI_PostActivation post_activation_msg
  | LI_RequestEviction request_evict_msg
  | LI_HeartbeatTimeout string
  | LI_GetStateInfo

datatype (plugins only: code) wf_stream_input =
    NewWft permitted_wft
  | LocalInput local_inputs
  | PollerDead
  | PollerError string
  | FailedFetch string string "task_token option"

datatype (plugins only: code) wf_stream_output =
    StreamOutput "activation_or_auto list" "history_fetch_req list"
  | StreamShutDown
  | StreamTonicError string

definition on_cache :: "'a rc_action \<Rightarrow> 'a ws_action" where
  "on_cache m = (\<lambda>s. case m (ws_runs s) of (r, c) \<Rightarrow> (r, s\<lparr>ws_runs := c\<rparr>))"

definition on_run :: "string \<Rightarrow> 'a mr_action \<Rightarrow> 'a option ws_action" where
  "on_run k m = on_cache (with_run k m)"

definition push_fetch :: "history_fetch_req \<Rightarrow> unit ws_action" where
  "push_fetch req = smod (\<lambda>s. s\<lparr>ws_runs_needing_fetching := ws_runs_needing_fetching s @ [req]\<rparr>)"

definition same_run :: "permitted_wft \<Rightarrow> permitted_wft list \<Rightarrow> bool" where
  "same_run work ws =
     (case ws of
        [] \<Rightarrow> False
      | ww # _ \<Rightarrow> we_run_id (pw_execution (pm_work ww)) = we_run_id (pw_execution (pm_work work)))"

fun push_buffered :: "permitted_wft \<Rightarrow> permitted_wft list list \<Rightarrow> permitted_wft list list" where
  "push_buffered work [] = [[work]]"
| "push_buffered work (ws # wss) =
     (if same_run work ws then (ws @ [work]) # wss else ws # push_buffered work wss)"

definition buffer_resp_on_full_cache :: "permitted_wft \<Rightarrow> unit ws_action" where
  "buffer_resp_on_full_cache work =
     smod (\<lambda>s. s\<lparr>ws_buffered_polls_need_cache_slot :=
       push_buffered work (ws_buffered_polls_need_cache_slot s)\<rparr>)"

definition instantiate_inner ::
  "stream_env \<Rightarrow> permitted_wft \<Rightarrow> (history_fetch_req + run_update_act) ws_action" where
  "instantiate_inner env pwft =
     (let run_id = we_run_id (pw_execution (pm_work pwft))
      in sbind (on_run run_id (\<lambda>r.
             case buffer_wft_if_outstanding_work pwft r of (w, r') \<Rightarrow> (Ok w, r'))) (\<lambda>w.
         if w = Some None then sret (Inr None)
         else
           sbind (sget ws_runs) (\<lambda>c.
           if \<not> has_run run_id c \<and> is_full c then
             sthen (buffer_resp_on_full_cache pwft) (sret (Inr None))
           else if \<not> has_run run_id c \<and> is_incremental (pm_work pwft) then
             sret (Inl (FetchFull pwft))
           else
             sbind (on_cache (rc_instantiate_or_update (senv_run env run_id) pwft)) (\<lambda>rur.
             sret (Inr rur)))))"

definition instantiate_or_update :: "stream_env \<Rightarrow> permitted_wft \<Rightarrow> run_update_act ws_action" where
  "instantiate_or_update env pwft =
     sbind (instantiate_inner env pwft) (\<lambda>r.
     case r of
       Inl histfetch \<Rightarrow> sthen (push_fetch histfetch) (sret None)
     | Inr r \<Rightarrow> sret r)"

definition ws_request_eviction ::
  "stream_env \<Rightarrow> request_evict_msg \<Rightarrow> eviction_request_result ws_action" where
  "ws_request_eviction env info =
     sbind (on_run (re_run_id info) (request_eviction (senv_run env (re_run_id info)) info)) (\<lambda>r.
     sret (case r of Some r \<Rightarrow> r | None \<Rightarrow> EvictionNotFound))"

definition cache_full_msg :: "string \<Rightarrow> request_evict_msg" where
  "cache_full_msg run_id =
     \<lparr>re_run_id = run_id, re_message = ''Workflow cache full'', re_reason = ER_CacheFull,
      re_auto_reply_fail_tt = None\<rparr>"

definition request_eviction_of_lru_run :: "stream_env \<Rightarrow> eviction_request_result ws_action" where
  "request_eviction_of_lru_run env =
     sbind (sget (\<lambda>s. current_lru_run (ws_runs s))) (\<lambda>lru_run_id.
     case lru_run_id of
       Some run_id \<Rightarrow> ws_request_eviction env (cache_full_msg run_id)
     | None \<Rightarrow> sret EvictionNotFound)"

definition nfc_run_id :: "new_or_fetched_complete \<Rightarrow> string" where
  "nfc_run_id complete =
     (case complete of NewComplete c _ \<Rightarrow> vc_run_id c | FetchedComplete _ p \<Rightarrow> pag_run_id p)"

text \<open>What a completion does to its run.\<close>

definition complete_run ::
  "run_env \<Rightarrow> new_or_fetched_complete \<Rightarrow> (history_paginator + run_update_act) mr_action" where
  "complete_run env complete =
     (case complete of
        NewComplete (VC_Success _ commands used_flags) response_tx \<Rightarrow>
          successful_completion env commands used_flags response_tx False
      | NewComplete (VC_Fail _ failure is_autocomplete) response_tx \<Rightarrow>
          sbind (failed_completion env (force_cause failure)
            (if is_autocomplete then ER_Unspecified else ER_LangFail) failure is_autocomplete
            response_tx) (\<lambda>r. sret (Inr r))
      | FetchedComplete update paginator \<Rightarrow>
          sbind (fetched_page_completion env update paginator) (\<lambda>r. sret (Inr r)))"

definition act_list :: "run_update_act \<Rightarrow> activation_or_auto list" where
  "act_list r = (case r of Some a \<Rightarrow> [a] | None \<Rightarrow> [])"

definition process_completion ::
  "stream_env \<Rightarrow> new_or_fetched_complete \<Rightarrow> activation_or_auto list ws_action" where
  "process_completion env complete =
     (let run_id = nfc_run_id complete
      in sbind (on_run run_id (complete_run (senv_run env run_id) complete)) (\<lambda>r.
         case r of
           None \<Rightarrow> sret []
         | Some r \<Rightarrow>
             sbind (case r of
                      Inr acts \<Rightarrow> sret (act_list acts)
                    | Inl npr \<Rightarrow> sthen (push_fetch (FetchNextPage npr)) (sret [])) (\<lambda>acts.
             sbind (sget (\<lambda>s. cache_capacity (ws_runs s))) (\<lambda>capacity.
             if capacity = 0 then
               sbind (request_eviction_of_lru_run env) (\<lambda>r.
               sret (acts @ act_list (into_run_update_resp r)))
             else sret acts))))"

definition complete_wft ::
  "stream_env \<Rightarrow> string \<Rightarrow> wft_report_status \<Rightarrow> outstanding_task option ws_action" where
  "complete_wft env run_id wft_report_status =
     sbind (on_run run_id (sget (\<lambda>r. wm_have_seen_terminal_event (mr_machines r)))) (\<lambda>saw.
     if saw \<noteq> Some True \<and> wft_report_status = NotReported then sret None
     else
       sbind (on_run run_id
         (sbind (sget mr_wft) (\<lambda>wft.
          if (case wft of Some wft \<Rightarrow> ot_pending_queries wft \<noteq> [] | None \<Rightarrow> False) then sret None
          else mark_wft_complete (senv_run env run_id) wft_report_status))) (\<lambda>r.
       sret (case r of Some t \<Rightarrow> t | None \<Rightarrow> None)))"

definition pop_buffered :: "permitted_wft list ws_action" where
  "pop_buffered = (\<lambda>s.
     case ws_buffered_polls_need_cache_slot s of
       [] \<Rightarrow> (Ok [], s)
     | ws # rest \<Rightarrow> (Ok ws, s\<lparr>ws_buffered_polls_need_cache_slot := rest\<rparr>))"

text \<open>The last one of the tasks goes first, as \<open>pop\<close> takes it.\<close>

definition start_buffered :: "stream_env \<Rightarrow> permitted_wft list \<Rightarrow> run_update_act ws_action" where
  "start_buffered env maybe_wfts =
     (if maybe_wfts = [] then sret None
      else
        sbind (instantiate_or_update env (last maybe_wfts)) (\<lambda>res.
        sthen (sfor (\<lambda>wft. sthen (instantiate_or_update env wft) (sret ())) (butlast maybe_wfts))
        (sret res)))"

definition finished_by :: "bool \<Rightarrow> outstanding_activation \<Rightarrow> bool" where
  "finished_by is_autocomplete act \<longleftrightarrow> \<not> is_autocomplete \<or> act = OA_Autocomplete"

text \<open>What follows for a run that produced no activation.\<close>

definition check_finished :: "run_env \<Rightarrow> string \<Rightarrow> wft_report_status \<Rightarrow> run_update_act mr_action" where
  "check_finished env run_id wft_report_status =
     sbind (check_more_activations env) (\<lambda>res.
     sbind (sget (\<lambda>r. wm_workflow_end_time (mr_machines r) \<noteq> None)) (\<lambda>workflow_is_finished.
     if res = None \<and> workflow_is_finished \<and>
        (case wft_report_status of Reported _ \<Rightarrow> True | _ \<Rightarrow> False) then
       sbind (request_eviction env
         \<lparr>re_run_id = run_id, re_message = ''Workflow completed'',
          re_reason = ER_WorkflowExecutionEnding, re_auto_reply_fail_tt = None\<rparr>) (\<lambda>r.
       sret (into_run_update_resp r))
     else sret res))"

definition next_tasks ::
  "string \<Rightarrow> bool \<Rightarrow> permitted_wft option \<Rightarrow> permitted_wft list ws_action" where
  "next_tasks run_id should_evict ready =
     sthen (if should_evict then on_cache (rc_remove run_id) else sret ())
     (case ready of
        Some x \<Rightarrow> sret [x]
      | None \<Rightarrow> if should_evict then pop_buffered else sret [])"

definition process_post_activation ::
  "stream_env \<Rightarrow> post_activation_msg \<Rightarrow> run_update_act ws_action" where
  "process_post_activation env report =
     (let run_id = pa_run_id report
      in sbind (complete_wft env run_id (pa_wft_report_status report)) (\<lambda>maybe_t.
         let wft_from_complete =
           Option.bind (pa_wft_from_complete report) (\<lambda>(wft, paginator).
             map_option (\<lambda>t. \<lparr>pm_work = wft, pm_permit = ot_permit t, pm_paginator = paginator\<rparr>) maybe_t)
         in sbind (on_run run_id (\<lambda>r.
                case finish_activation (finished_by (pa_is_autocomplete report)) r of
                  (x, r') \<Rightarrow> (Ok x, r'))) (\<lambda>finished.
            sbind (case finished of
                     None \<Rightarrow> sret None
                   | Some (should_evict, maybe_buffered) \<Rightarrow>
                       sbind (next_tasks run_id should_evict
                         (case fst (get_next_wft maybe_buffered) of
                            Some x \<Rightarrow> Some x
                          | None \<Rightarrow> wft_from_complete)) (start_buffered env)) (\<lambda>res.
            if res \<noteq> None then sret res
            else
              sbind (on_run run_id (check_finished (senv_run env run_id) run_id
                (pa_wft_report_status report))) (\<lambda>r.
              sret (case r of Some res \<Rightarrow> res | None \<Rightarrow> None))))))"

definition ws_local_resolution ::
  "stream_env \<Rightarrow> string \<Rightarrow> local_activity_resolution \<Rightarrow> run_update_act ws_action" where
  "ws_local_resolution env run_id res =
     sbind (on_run run_id (mr_local_resolution (senv_run env run_id) res)) (\<lambda>r.
     sret (case r of Some r \<Rightarrow> r | None \<Rightarrow> None))"

definition process_heartbeat_timeout :: "stream_env \<Rightarrow> string \<Rightarrow> run_update_act ws_action" where
  "process_heartbeat_timeout env run_id =
     sbind (on_run run_id (heartbeat_timeout (senv_run env run_id))) (\<lambda>r.
     sret (case r of Some r \<Rightarrow> r | None \<Rightarrow> None))"

text \<open>The loop of \<open>reconcile_buffered\<close> over the runs, the least recently used one first.\<close>

fun evict_these :: "nat \<Rightarrow> (string \<times> managed_run) list \<Rightarrow> string list" where
  "evict_these num_evicts_needed [] = []"
| "evict_these num_evicts_needed ((rid, handle) # runs) =
     (if num_evicts_needed = 0 then []
      else if \<not> has_buffered_wft handle then rid # evict_these (num_evicts_needed - 1) runs
      else evict_these num_evicts_needed runs)"

definition existing_evictions :: "run_cache \<Rightarrow> nat" where
  "existing_evictions c =
     length (filter (\<lambda>(_, h). mr_trying_to_evict h \<noteq> None) (runs_lru_order c))"

definition reconcile_buffered :: "stream_env \<Rightarrow> activation_or_auto list ws_action" where
  "reconcile_buffered env =
     sbind (sget (\<lambda>s. s)) (\<lambda>s.
     let num_in_buff = length (ws_buffered_polls_need_cache_slot s);
         num_evicts_needed = num_in_buff - existing_evictions (ws_runs s)
     in sbind (smap (\<lambda>run_id.
            sbind (ws_request_eviction env (cache_full_msg run_id)) (\<lambda>r.
            sret (act_list (into_run_update_resp r))))
          (evict_these num_evicts_needed (runs_lru_order (ws_runs s)))) (\<lambda>acts.
        sret (concat acts)))"

definition shutdown_done :: "stream_env \<Rightarrow> wf_stream \<Rightarrow> bool" where
  "shutdown_done env s \<longleftrightarrow>
     (ws_shutdown s \<or> senv_cancelled env) \<and>
     \<not> senv_fetches env + length (ws_runs_needing_fetching s) > 0 \<and>
     list_all (\<lambda>(_, r). \<not> has_any_pending_work
         (cfg_ignore_evicts_on_shutdown (rc_worker_config (ws_runs s))) False r)
       (rc_runs (ws_runs s))"

definition outstanding_wfts :: "wf_stream \<Rightarrow> nat" where
  "outstanding_wfts s = length (filter (\<lambda>(_, r). mr_wft r \<noteq> None) (rc_runs (ws_runs s)))"

definition li_run_id :: "local_inputs \<Rightarrow> string option" where
  "li_run_id i =
     (case i of
        LI_Completion c _ \<Rightarrow> Some (vc_run_id c)
      | LI_FetchedPageCompletion paginator _ \<Rightarrow> Some (pag_run_id paginator)
      | LI_LocalResolution run_id _ \<Rightarrow> Some run_id
      | LI_PostActivation pa \<Rightarrow> Some (pa_run_id pa)
      | LI_RequestEviction re \<Rightarrow> Some (re_run_id re)
      | LI_HeartbeatTimeout hb \<Rightarrow> Some hb
      | LI_GetStateInfo \<Rightarrow> None)"

definition local_input :: "stream_env \<Rightarrow> local_inputs \<Rightarrow> activation_or_auto list ws_action" where
  "local_input env i =
     sthen (case li_run_id i of Some rid \<Rightarrow> on_run rid (sret ()) | None \<Rightarrow> sret None)
     (case i of
        LI_Completion c response_tx \<Rightarrow> process_completion env (NewComplete c response_tx)
      | LI_FetchedPageCompletion paginator update \<Rightarrow>
          process_completion env (FetchedComplete update paginator)
      | LI_PostActivation report \<Rightarrow>
          sbind (process_post_activation env report) (\<lambda>r. sret (act_list r))
      | LI_LocalResolution run_id res \<Rightarrow>
          sbind (ws_local_resolution env run_id res) (\<lambda>r. sret (act_list r))
      | LI_HeartbeatTimeout hbt \<Rightarrow>
          sbind (process_heartbeat_timeout env hbt) (\<lambda>r. sret (act_list r))
      | LI_RequestEviction evict \<Rightarrow>
          sbind (ws_request_eviction env evict) (\<lambda>r. sret (act_list (into_run_update_resp r)))
      | LI_GetStateInfo \<Rightarrow>
          sthen (smod (\<lambda>s. s\<lparr>ws_state_infos := ws_state_infos s @
            [(length (rc_runs (ws_runs s)), outstanding_wfts s)]\<rparr>)) (sret []))"

definition handle_input :: "stream_env \<Rightarrow> wf_stream_input \<Rightarrow> activation_or_auto list ws_action" where
  "handle_input env action =
     (case action of
        NewWft pwft \<Rightarrow> sbind (instantiate_or_update env pwft) (\<lambda>r. sret (act_list r))
      | LocalInput i \<Rightarrow> local_input env i
      | FailedFetch run_id err auto_reply_fail_tt \<Rightarrow>
          sbind (ws_request_eviction env
            \<lparr>re_run_id = run_id, re_message = ''Fetching history failed: '' @ err,
             re_reason = ER_PaginationOrHistoryFetch, re_auto_reply_fail_tt = auto_reply_fail_tt\<rparr>)
            (\<lambda>r. sret (act_list (into_run_update_resp r)))
      | PollerDead \<Rightarrow> sthen (smod (\<lambda>s. s\<lparr>ws_shutdown := True\<rparr>)) (sret [])
      | PollerError e \<Rightarrow> sret [])"

definition take_fetches :: "history_fetch_req list ws_action" where
  "take_fetches = (\<lambda>s. (Ok (ws_runs_needing_fetching s), s\<lparr>ws_runs_needing_fetching := []\<rparr>))"

text \<open>The closure that the stream maps over its inputs.\<close>

definition stream_step :: "stream_env \<Rightarrow> wf_stream_input \<Rightarrow> wf_stream_output ws_action" where
  "stream_step env action =
     (case action of
        PollerError e \<Rightarrow> sret (StreamTonicError e)
      | _ \<Rightarrow>
          sbind (handle_input env action) (\<lambda>activations.
          sbind (reconcile_buffered env) (\<lambda>more.
          sbind (sget (shutdown_done env)) (\<lambda>finished.
          if finished then sret StreamShutDown
          else
            sbind take_fetches (\<lambda>fetch_histories.
            sret (StreamOutput (activations @ more) fetch_histories))))))"

definition ws_new :: "worker_config \<Rightarrow> string \<times> string \<Rightarrow> bool \<Rightarrow> wf_stream" where
  "ws_new config sdk capabilities =
     \<lparr>ws_runs = rc_new config sdk capabilities, ws_buffered_polls_need_cache_slot = [],
      ws_runs_needing_fetching = [], ws_shutdown = False, ws_state_infos = []\<rparr>"

inductive stream_reachable :: "worker_config \<Rightarrow> wf_stream \<Rightarrow> bool" for config where
  built: "stream_reachable config (ws_new config sdk capabilities)"
| taken: "stream_reachable config s \<Longrightarrow> stream_step env i s = (Ok out, s') \<Longrightarrow>
    stream_reachable config s'"

end
