(* ===== verification/Run_Properties.thy ===== *)
theory Run_Properties
  imports Managed_Run
begin

text \<open>
  Properties of a managed run.  The judgement \<open>triple P m Q E\<close> says what holds after a call that
  returns (\<open>Q\<close>) or ends in an error (\<open>E\<close>).  The locale \<open>run_invariant\<close> states what a property of
  the state needs of the single updates for all operations to keep it, whatever the machines do; it
  is used for what is reported to the server and for the heartbeat timers.
\<close>

section \<open>Calls that may fail\<close>

definition triple ::
  "('s \<Rightarrow> bool) \<Rightarrow> ('s, 'a) action \<Rightarrow> ('a \<Rightarrow> 's \<Rightarrow> bool) \<Rightarrow> ('s \<Rightarrow> bool) \<Rightarrow> bool" where
  "triple P m Q E \<longleftrightarrow>
     (\<forall>s. P s \<longrightarrow> (case m s of (Ok a, s') \<Rightarrow> Q a s' | (Err e, s') \<Rightarrow> E s' | (Panic p, s') \<Rightarrow> True))"

named_theorems triple_intros

lemma tripleD_Ok: "triple P m Q E \<Longrightarrow> P s \<Longrightarrow> m s = (Ok a, s') \<Longrightarrow> Q a s'"
  by (fastforce simp: triple_def)

lemma tripleD_Err: "triple P m Q E \<Longrightarrow> P s \<Longrightarrow> m s = (Err e, s') \<Longrightarrow> E s'"
  by (fastforce simp: triple_def)

lemma triple_conseq:
  "triple P m Q E \<Longrightarrow> (\<And>s. P' s \<Longrightarrow> P s) \<Longrightarrow> (\<And>a s. Q a s \<Longrightarrow> Q' a s) \<Longrightarrow> (\<And>s. E s \<Longrightarrow> E' s) \<Longrightarrow>
   triple P' m Q' E'"
  by (fastforce simp: triple_def split: prod.splits outcome.splits)

lemma triple_bind [triple_intros]:
  "triple P m Q E \<Longrightarrow> (\<And>a. triple (Q a) (f a) R E) \<Longrightarrow> triple P (sbind m f) R E"
  by (fastforce simp: triple_def sbind_def split: prod.splits outcome.splits)

lemma triple_read: "(\<And>s. P s \<Longrightarrow> triple (\<lambda>t. t = s) (f (g s)) Q E) \<Longrightarrow> triple P (sbind (sget g) f) Q E"
  by (auto simp: triple_def sbind_def sget_def)

lemma triple_at: "triple (\<lambda>t. t = s) m Q E \<longleftrightarrow>
  (case m s of (Ok a, s') \<Rightarrow> Q a s' | (Err e, s') \<Rightarrow> E s' | (Panic p, s') \<Rightarrow> True)"
  by (simp add: triple_def)

lemma triple_ret: "(\<And>s. P s \<Longrightarrow> Q a s) \<Longrightarrow> triple P (sret a) Q E"
  by (simp add: triple_def sret_def)

lemma triple_err: "(\<And>s. P s \<Longrightarrow> E s) \<Longrightarrow> triple P (serr e) Q E"
  by (simp add: triple_def serr_def)

lemma triple_panic: "triple P (spanic p) Q E"
  by (simp add: triple_def spanic_def)

lemma triple_get: "(\<And>s. P s \<Longrightarrow> Q (g s) s) \<Longrightarrow> triple P (sget g) Q E"
  by (simp add: triple_def sget_def)

lemma triple_mod: "(\<And>s. P s \<Longrightarrow> Q () (f s)) \<Longrightarrow> triple P (smod f) Q E"
  by (simp add: triple_def smod_def)

lemma triple_if: "(b \<Longrightarrow> triple P m Q E) \<Longrightarrow> (\<not> b \<Longrightarrow> triple P n Q E) \<Longrightarrow> triple P (if b then m else n) Q E"
  by simp

lemma triple_try:
  "triple P m (\<lambda>a. Q (Inr a)) (\<lambda>s. \<forall>e. Q (Inl e) s) \<Longrightarrow> triple P (stry m) Q E"
  by (fastforce simp: triple_def stry_def split: prod.splits outcome.splits)

lemma triple_on_machines:
  "(\<And>s w. P s \<Longrightarrow> P (s\<lparr>mr_machines := w\<rparr>)) \<Longrightarrow> triple P (on_machines m) (\<lambda>_. P) P"
  by (auto simp: triple_def on_machines_def split: prod.splits outcome.splits)

lemma triple_for: "(\<And>a. a \<in> set as \<Longrightarrow> triple P (f a) (\<lambda>_. P) E) \<Longrightarrow> triple P (sfor f as) (\<lambda>_. P) E"
  by (induction as) (auto intro: triple_bind triple_ret)

lemma triple_read_keep:
  "(\<And>s. P s \<Longrightarrow> triple P (f (g s)) Q E) \<Longrightarrow> triple P (sbind (sget g) f) Q E"
  by (fastforce simp: triple_def sbind_def sget_def)

text \<open>The same property of the state before and after, also after an error.\<close>

definition upholds :: "('s \<Rightarrow> bool) \<Rightarrow> ('s, 'a) action \<Rightarrow> ('a \<Rightarrow> bool) \<Rightarrow> bool" where
  "upholds I m R \<longleftrightarrow> triple I m (\<lambda>a s. I s \<and> R a) I"

lemma upholds_bind:
  assumes "upholds I m R" "\<And>a. R a \<Longrightarrow> upholds I (f a) S"
  shows "upholds I (sbind m f) S"
  unfolding upholds_def
proof (rule triple_bind)
  show "triple I m (\<lambda>a s. I s \<and> R a) I" using assms(1) by (simp add: upholds_def)
  show "triple (\<lambda>s. I s \<and> R a) (f a) (\<lambda>a s. I s \<and> S a) I" for a
    using assms(2) [of a] by (cases "R a") (auto simp: upholds_def triple_def)
qed

lemma upholds_weaken: "upholds I m R \<Longrightarrow> (\<And>a. R a \<Longrightarrow> S a) \<Longrightarrow> upholds I m S"
  unfolding upholds_def by (erule triple_conseq) auto

lemma upholds_ret: "S a \<Longrightarrow> upholds I (sret a) S"
  unfolding upholds_def by (rule triple_ret) simp

lemma upholds_err: "upholds I (serr e) S"
  unfolding upholds_def by (rule triple_err)

lemma upholds_panic: "upholds I (spanic p) S"
  unfolding upholds_def by (rule triple_panic)

lemma upholds_read: "(\<And>s. I s \<Longrightarrow> upholds I (f (g s)) S) \<Longrightarrow> upholds I (sbind (sget g) f) S"
  unfolding upholds_def by (rule triple_read_keep)

lemma upholds_get: "(\<And>s. I s \<Longrightarrow> S (g s)) \<Longrightarrow> upholds I (sget g) S"
  unfolding upholds_def by (rule triple_get) simp

lemma upholds_mod: "(\<And>s. I s \<Longrightarrow> I (f s)) \<Longrightarrow> S () \<Longrightarrow> upholds I (smod f) S"
  unfolding upholds_def by (rule triple_mod) simp

lemma upholds_if: "(b \<Longrightarrow> upholds I m S) \<Longrightarrow> (\<not> b \<Longrightarrow> upholds I n S) \<Longrightarrow> upholds I (if b then m else n) S"
  by simp

lemma upholds_try:
  "upholds I m R \<Longrightarrow> upholds I (stry m) (\<lambda>r. case r of Inl _ \<Rightarrow> True | Inr a \<Rightarrow> R a)"
  unfolding upholds_def by (rule triple_try) auto

lemma upholds_for: "(\<And>a. upholds I (f a) (\<lambda>_. True)) \<Longrightarrow> upholds I (sfor f as) (\<lambda>_. True)"
  by (induction as) (auto intro: upholds_bind upholds_ret)

lemma upholds_at:
  "(\<And>s. I s \<Longrightarrow> triple (\<lambda>t. t = s) (f s) (\<lambda>a s'. I s' \<and> S a) I) \<Longrightarrow> upholds I (sbind (sget (\<lambda>s. s)) f) S"
  unfolding upholds_def by (rule triple_read)

lemma upholdsD_at: "upholds I m S \<Longrightarrow> I s \<Longrightarrow> triple (\<lambda>t. t = s) m (\<lambda>a s'. I s' \<and> S a) I"
  by (simp add: upholds_def triple_def)

lemma upholds_seq:
  "upholds I m (\<lambda>_. True) \<Longrightarrow> (\<And>a. upholds I (f a) S) \<Longrightarrow> upholds I (sbind m f) S"
  by (rule upholds_bind)

lemma upholds_option:
  "(x = None \<Longrightarrow> upholds I m S) \<Longrightarrow> (\<And>a. x = Some a \<Longrightarrow> upholds I (f a) S) \<Longrightarrow>
   upholds I (case x of None \<Rightarrow> m | Some a \<Rightarrow> f a) S"
  by (cases x) simp_all

lemmas upholds_steps = upholds_read upholds_seq upholds_ret upholds_err upholds_panic upholds_if
  upholds_option TrueI

section \<open>Invariants of a run\<close>

definition rac_data :: "run_activation_completion \<Rightarrow> completion_data_for_wft" where
  "rac_data rac =
     \<lparr>cd_task_token = rac_task_token rac, cd_query_responses = rac_query_responses rac,
      cd_has_pending_query = rac_has_pending_query rac,
      cd_activation_was_eviction = rac_activation_was_eviction rac,
      cd_is_forced_failure = rac_is_forced_failure rac\<rparr>"

definition other_outcome :: "activation_complete_outcome \<Rightarrow> bool" where
  "other_outcome oc \<longleftrightarrow> (\<forall>tt cs ms qs b md. oc \<noteq> ReportWFTSuccess tt (WftComplete cs ms qs b md))"

text \<open>A heartbeat timer that takes the place of the one waited for, if there is one.\<close>

definition new_timer ::
  "local_act_request list list \<Rightarrow> duration \<Rightarrow> (completion_data_for_wft \<times> chan option) option \<Rightarrow>
   managed_run \<Rightarrow> managed_run" where
  "new_timer requests wft_timeout dat s =
     s\<lparr>mr_aborted := mr_aborted s @
         (case mr_waiting_on_la s of None \<Rightarrow> [] | Some w \<Rightarrow> [wl_hb_timeout_handle w]),
       mr_timers := Suc (mr_timers s), mr_requests := requests,
       mr_waiting_on_la := Some \<lparr>wl_wft_timeout = wft_timeout, wl_completion_dat = dat,
         wl_hb_timeout_handle = mr_timers s\<rparr>\<rparr>"

lemma restart_timer:
  assumes "mr_waiting_on_la s = Some w" "wl_completion_dat w = None"
  shows "sthen (abort (wl_hb_timeout_handle w))
      (sbind (sink_heartbeat_timeout_start env rid st (wl_wft_timeout w)) (\<lambda>handle.
       sthen (smod (\<lambda>s. s\<lparr>mr_waiting_on_la := Some (w\<lparr>wl_hb_timeout_handle := handle\<rparr>)\<rparr>)) (sret r))) s =
    (Ok r, new_timer (mr_requests s @ [[LAR_StartHeartbeatTimeout rid
        (st + menv_heartbeat_fraction env (wl_wft_timeout w)) (mr_timers s)]]) (wl_wft_timeout w) None s)"
  using assms by (cases w) (simp add: abort_def sink_heartbeat_timeout_start_def sink_reqs_def
      action_defs Let_def new_timer_def)

lemma timer_steps:
  "sbind (abort h) f s = f () (s\<lparr>mr_aborted := mr_aborted s @ [h]\<rparr>)"
  "sbind (smod g) f s = f () (g s)"
  by (simp_all add: abort_def action_defs)

lemma start_timer:
  "sbind (sget mr_waiting_on_la) (\<lambda>wola.
   sthen (case wola of Some w \<Rightarrow> abort (wl_hb_timeout_handle w) | None \<Rightarrow> sret ())
   (sbind (sget (\<lambda>s. mr_run_id s)) (\<lambda>run_id.
    sbind (sink_heartbeat_timeout_start env run_id st t) (\<lambda>handle.
    sthen (smod (\<lambda>s. s\<lparr>mr_waiting_on_la := Some
        \<lparr>wl_wft_timeout = t, wl_completion_dat = dat, wl_hb_timeout_handle = handle\<rparr>\<rparr>)) (sret r))))) s =
   (Ok r, new_timer (mr_requests s @ [[LAR_StartHeartbeatTimeout (mr_run_id s)
        (st + menv_heartbeat_fraction env t) (mr_timers s)]]) t dat s)"
  by (cases "mr_waiting_on_la s") (simp_all add: abort_def sink_heartbeat_timeout_start_def
      sink_reqs_def action_defs Let_def new_timer_def)

text \<open>What the calls need that do not nest.\<close>

locale run_frame =
  fixes I :: "managed_run \<Rightarrow> bool"
    and sound_data :: "completion_data_for_wft \<Rightarrow> bool"
    and sound :: "activation_complete_result \<Rightarrow> bool"
  assumes plain: "I s \<Longrightarrow> I (mr_machines_update f1 s)" "I s \<Longrightarrow> I (mr_wft_update f2 s)"
      "I s \<Longrightarrow> I (mr_paginator_update f3 s)" "I s \<Longrightarrow> I (mr_requests_update f4 s)"
    and restart: "I s \<Longrightarrow> mr_waiting_on_la s = Some w \<Longrightarrow> wl_completion_dat w = None \<Longrightarrow>
      I (new_timer rs (wl_wft_timeout w) None s)"
    and sound_other: "other_outcome oc \<Longrightarrow> sound \<lparr>acr_replaying = rp, acr_outcome = oc\<rparr>"
    and sound_wft_complete: "sound_data d \<Longrightarrow>
      (rp \<and> \<not> cd_is_forced_failure d \<longrightarrow> cd_query_responses d \<noteq> []) \<Longrightarrow>
      sound \<lparr>acr_replaying = rp,
        acr_outcome = ReportWFTSuccess tt (WftComplete cs ms (cd_query_responses d) b md)\<rparr>"
begin

lemma up_machines: "upholds I (on_machines m) (\<lambda>_. True)"
  using triple_on_machines [of I m] plain(1) by (simp add: upholds_def)

lemma up_sink: "upholds I (sink_reqs env reqs) (\<lambda>_. True)"
  by (auto simp: upholds_def triple_def sink_reqs_def Let_def intro: plain)

lemma up_sink_la: "upholds I (sink_la_requests env reqs) (\<lambda>_. True)"
  unfolding sink_la_requests_def
  by (intro upholds_bind [OF up_sink] upholds_for upholds_bind [OF up_machines] upholds_ret) simp

lemma up_check: "upholds I (check_more_inner env) (\<lambda>_. True)"
  unfolding check_more_inner_def
  by (intro upholds_steps up_sink_la up_machines)

lemma up_incoming: "upholds I (incoming_inner env pwft) (\<lambda>_. True)"
proof -
  have tail: "upholds I (sbind (sget (\<lambda>s. s)) (\<lambda>s.
      if outstanding_la_count (wm_local_activity_data (mr_machines s)) > 0 then
        (case mr_waiting_on_la s of
           Some w \<Rightarrow>
             if wl_completion_dat w \<noteq> None then spanic p
             else sthen (abort (wl_hb_timeout_handle w))
               (sbind (sink_heartbeat_timeout_start env (mr_run_id s) st (wl_wft_timeout w)) (\<lambda>handle.
                sthen (smod (\<lambda>s. s\<lparr>mr_waiting_on_la := Some (w\<lparr>wl_hb_timeout_handle := handle\<rparr>)\<rparr>))
                (sret None)))
         | None \<Rightarrow> spanic q)
      else sret (Some (Autocomplete (mr_run_id s))))) (\<lambda>_. True)" for st p q
    by (rule upholds_at)
      (auto simp: triple_at restart_timer spanic_def sret_def [of "Some a" for a] intro: restart
        simp del: not_None_eq split: option.splits)
  show ?thesis
    unfolding incoming_inner_def Let_def
    by (intro upholds_steps upholds_mod up_machines tail plain)
qed

lemma up_prepare:
  assumes "sound_data d"
  shows "upholds I (prepare_complete_resp ch d hb) (\<lambda>f. sound (fu_result f))"
proof -
  have outcome: "upholds I
      (if b \<or> cd_query_responses d \<noteq> [] then sbind m (\<lambda>(cs, ms).
         sbind (on_machines get_metadata_for_wft_complete) (\<lambda>md.
         sret (ReportWFTSuccess tt (WftComplete cs ms (cd_query_responses d) fn md))))
       else sret DoNothing) (\<lambda>oc. sound \<lparr>acr_replaying = rp, acr_outcome = oc\<rparr>)"
    if "b \<Longrightarrow> \<not> (rp \<and> \<not> cd_is_forced_failure d)" "upholds I m (\<lambda>_. True)" for b m tt fn rp
  proof -
    have other: "sound \<lparr>acr_replaying = rp, acr_outcome = DoNothing\<rparr>"
      by (rule sound_other) (simp add: other_outcome_def)
    have "upholds I (case a of (cs, ms) \<Rightarrow> sbind (on_machines get_metadata_for_wft_complete) (\<lambda>md.
        sret (ReportWFTSuccess tt (WftComplete cs ms (cd_query_responses d) fn md))))
      (\<lambda>oc. sound \<lparr>acr_replaying = rp, acr_outcome = oc\<rparr>)" if "b \<or> cd_query_responses d \<noteq> []" for a
      using that \<open>b \<Longrightarrow> \<not> (rp \<and> \<not> cd_is_forced_failure d)\<close>
      by (cases a) (auto intro!: upholds_seq up_machines upholds_ret sound_wft_complete [OF assms])
    with other that(2) show ?thesis by (intro upholds_if upholds_seq upholds_ret)
  qed
  show ?thesis
    unfolding prepare_complete_resp_def Let_def
    by (intro upholds_read upholds_seq upholds_if upholds_bind [OF outcome] up_machines upholds_ret TrueI)
      simp_all
qed

lemma up_apply: "upholds I (apply_completion env rac upd) (\<lambda>_. True)"
  unfolding apply_completion_def Let_def by (intro upholds_steps up_machines up_sink_la)

lemma up_preprocess: "upholds I (preprocess cs) (\<lambda>_. True)"
  unfolding preprocess_def by (intro upholds_steps up_machines)

end

text \<open>Processing a completion may start to wait with its data.\<close>

locale process_frame = run_frame +
  assumes timer: "I s \<Longrightarrow> (\<And>d c. dat = Some (d, c) \<Longrightarrow> sound_data d) \<Longrightarrow> I (new_timer rs t dat s)"
begin

lemma up_process:
  assumes "sound_data (rac_data rac)"
  shows "upholds I (process_inner env rac upd) (\<lambda>r. \<forall>f. r = Inr (Some f) \<longrightarrow> sound (fu_result f))"
proof -
  note prep = up_prepare [OF assms, unfolded rac_data_def]
  have wait: "upholds I (sbind (sget mr_waiting_on_la) (\<lambda>wola.
       sthen (case wola of Some w \<Rightarrow> abort (wl_hb_timeout_handle w) | None \<Rightarrow> sret ())
       (sbind (sget (\<lambda>s. mr_run_id s)) (\<lambda>run_id.
        sbind (sink_heartbeat_timeout_start env run_id st t) (\<lambda>handle.
        sthen (smod (\<lambda>s. s\<lparr>mr_waiting_on_la := Some
            \<lparr>wl_wft_timeout = t, wl_completion_dat = Some (rac_data rac, ch),
             wl_hb_timeout_handle = handle\<rparr>\<rparr>)) (sret (Inr None)))))))
      (\<lambda>r. \<forall>f. r = Inr (Some f) \<longrightarrow> sound (fu_result f))" for st t ch
    unfolding upholds_def triple_def start_timer using assms by (auto intro: timer)
  have outcome: "upholds I (case oc of
        Inr None \<Rightarrow> m
      | Inr (Some (start_t, wft_timeout)) \<Rightarrow> g start_t wft_timeout
      | Inl err \<Rightarrow> h err) S"
    if "upholds I m S" "\<And>a b. upholds I (g a b) S" "\<And>e. upholds I (h e) S"
    for oc m g h and S :: "run_update_err + fulfillable option \<Rightarrow> bool"
    using that by (auto split: sum.splits option.splits)
  show ?thesis
    unfolding process_inner_def Let_def
    by (intro upholds_seq [OF up_machines] upholds_if upholds_bind [OF prep]
        upholds_seq [OF upholds_weaken [OF upholds_try [OF up_apply]]] outcome
        wait [unfolded rac_data_def] upholds_ret TrueI) simp_all
qed

end

locale run_invariant = process_frame +
  assumes updates: "I s \<Longrightarrow> I (mr_am_broken_update f5 s)" "I s \<Longrightarrow> I (mr_activation_update f6 s)"
      "I s \<Longrightarrow> I (mr_task_buffer_update f7 s)" "I s \<Longrightarrow> I (mr_trying_to_evict_update f8 s)"
      "I s \<Longrightarrow> I (s\<lparr>mr_completion_waiting_on_page_fetch := None\<rparr>)"
    and reply: "I s \<Longrightarrow> sound r \<Longrightarrow> I (s\<lparr>mr_replies := mr_replies s @ [(ch, r)]\<rparr>)"
    and hold_page: "I s \<Longrightarrow> sound_data (rac_data rac) \<Longrightarrow>
      I (s\<lparr>mr_completion_waiting_on_page_fetch := Some rac\<rparr>)"
    and page_sound: "I s \<Longrightarrow> mr_completion_waiting_on_page_fetch s = Some rac \<Longrightarrow> sound_data (rac_data rac)"
    and stopped: "I s \<Longrightarrow> mr_waiting_on_la s = Some w \<Longrightarrow>
        I (s\<lparr>mr_waiting_on_la := None, mr_aborted := mr_aborted s @ [wl_hb_timeout_handle w]\<rparr>)"
      "I s \<Longrightarrow> mr_waiting_on_la s = Some w \<Longrightarrow>
        I (s\<lparr>mr_aborted := mr_aborted s @ [wl_hb_timeout_handle w],
             mr_waiting_on_la := Some (w\<lparr>wl_completion_dat := None\<rparr>)\<rparr>)"
      "I s \<Longrightarrow> I (s\<lparr>mr_aborted := mr_aborted s @ hs\<rparr>)"
    and waiting_sound: "I s \<Longrightarrow> mr_waiting_on_la s = Some w \<Longrightarrow> wl_completion_dat w = Some (d, c) \<Longrightarrow>
      sound_data d"
    and unforced: "\<not> cd_is_forced_failure d \<Longrightarrow> sound_data d"
    and forced: "I s \<Longrightarrow> should_fail_workflow (mr_config s) wt WET_Nondeterminism \<Longrightarrow> sound_data d"
begin

definition good_callees :: "callees \<Rightarrow> bool" where
  "good_callees c \<longleftrightarrow>
     (\<forall>oc. (\<forall>f. oc = Inr (FulfillableComplete (Some f)) \<longrightarrow> sound (fu_result f)) \<longrightarrow>
        upholds I (c_update_to_acts c oc) (\<lambda>_. True)) \<and>
     (\<forall>cause reason failure auto ch.
        upholds I (c_failed_completion c cause reason failure auto ch) (\<lambda>_. True)) \<and>
     (\<forall>info. upholds I (c_request_eviction c info) (\<lambda>_. True))"

lemma good_calleesD:
  assumes "good_callees c"
  shows "(\<And>f. oc = Inr (FulfillableComplete (Some f)) \<Longrightarrow> sound (fu_result f)) \<Longrightarrow>
      upholds I (c_update_to_acts c oc) (\<lambda>_. True)"
    and "upholds I (c_failed_completion c cause reason failure auto ch) (\<lambda>_. True)"
    and "upholds I (c_request_eviction c info) (\<lambda>_. True)"
  using assms by (simp_all add: good_callees_def)

lemma up_incoming_with: "good_callees c \<Longrightarrow> upholds I (incoming_with env c pwft) (\<lambda>_. True)"
  unfolding incoming_with_def
  by (intro upholds_seq [OF upholds_weaken [OF upholds_try [OF up_incoming]]] good_calleesD(1))
    (auto simp: from_act_def map_sum_def split: sum.splits)

lemma up_check_with: "good_callees c \<Longrightarrow> upholds I (check_more_with env c) (\<lambda>_. True)"
  unfolding check_more_with_def
  by (intro upholds_seq [OF upholds_weaken [OF upholds_try [OF up_check]]] good_calleesD(1))
    (auto simp: from_act_def map_sum_def split: sum.splits)

lemma up_process_with:
  "good_callees c \<Longrightarrow> sound_data (rac_data rac) \<Longrightarrow> upholds I (process_with env c rac) (\<lambda>_. True)"
  unfolding process_with_def
  by (intro upholds_bind [OF up_process] good_calleesD(1)) (auto simp: map_sum_def split: sum.splits)

lemma up_send: "sound r \<Longrightarrow> upholds I (send_reply env ch r) (\<lambda>_. True)"
  unfolding send_reply_def by (intro upholds_seq upholds_mod reply upholds_ret TrueI)

lemma up_reply_with:
  "good_callees c \<Longrightarrow> other_outcome oc \<Longrightarrow> upholds I (reply_with env c oc ch) (\<lambda>_. True)"
  unfolding reply_with_def
  by (intro upholds_steps up_send sound_other good_calleesD(3))

lemma up_evict_outcome: "upholds I evict_outcome other_outcome"
  unfolding upholds_def triple_def evict_outcome_def
  by (auto simp: other_outcome_def intro: updates split: option.splits)

lemma up_successful_with:
  assumes "good_callees c" "\<And>d. cd_is_forced_failure d = forced_failure \<Longrightarrow> sound_data d"
  shows "upholds I (successful_with env c cs fl ch forced_failure) (\<lambda>_. True)"
proof -
  have page: "upholds I (smod (\<lambda>s. s\<lparr>mr_paginator := None,
      mr_completion_waiting_on_page_fetch := Some rac\<rparr>)) (\<lambda>_. True)"
    if "rac_is_forced_failure rac = forced_failure" for rac
  proof (intro upholds_mod TrueI)
    fix s
    assume "I s"
    then have "I (s\<lparr>mr_paginator := None\<rparr>)" by (rule plain)
    from hold_page [OF this assms(2), of rac] that
    show "I (s\<lparr>mr_paginator := None, mr_completion_waiting_on_page_fetch := Some rac\<rparr>)"
      by (simp add: rac_data_def)
  qed
  have prod: "upholds I (case x of (a, b) \<Rightarrow> g a b) S" if "\<And>a b. upholds I (g a b) S"
    for x g and S :: "history_paginator + run_update_act \<Rightarrow> bool"
    using that by (cases x) simp
  show ?thesis
    unfolding successful_with_def Let_def
    by (intro upholds_steps upholds_bind [OF up_evict_outcome] up_reply_with [OF assms(1)] up_preprocess
        prod page good_calleesD(1) [OF assms(1)] up_process_with [OF assms(1)] assms(2))
      (simp_all add: other_outcome_def rac_data_def)
qed

lemma up_failed_with:
  assumes "good_callees c"
  shows "upholds I (failed_with env c cause reason failure auto ch) (\<lambda>_. True)"
proof -
  have prod: "upholds I (case x of (a, b) \<Rightarrow> g a b) S" if "\<And>a b. upholds I (g a b) S"
    for x g and S :: "run_update_act \<Rightarrow> bool"
    using that by (cases x) simp
  show ?thesis
    unfolding failed_with_def Let_def
    by (intro upholds_read upholds_option upholds_seq upholds_ret TrueI up_reply_with [OF assms]
        upholds_if good_calleesD(3) [OF assms] prod up_successful_with [OF assms])
      (auto simp: other_outcome_def intro: forced)
qed

lemma up_request_eviction_with:
  assumes "good_callees c"
  shows "upholds I (request_eviction_with env c info) (\<lambda>_. True)"
  unfolding request_eviction_with_def Let_def
  by (intro upholds_read)
    (auto intro!: upholds_seq upholds_mod plain updates good_calleesD(2) [OF assms] upholds_ret
      up_check_with [OF assms] split: option.splits eviction_reason.splits)

lemma up_update_with:
  assumes "good_callees c" "\<And>f. oc = Inr (FulfillableComplete (Some f)) \<Longrightarrow> sound (fu_result f)"
  shows "upholds I (update_with env c oc) (\<lambda>_. True)"
proof -
  have ready: "upholds I (ready_act a) (\<lambda>_. True)" for a
    unfolding upholds_def triple_def ready_act_def
    by (auto simp: sret_def sget_def plain split: option.splits activation_or_auto.splits prod.splits)
  have take: "upholds I take_buffered (\<lambda>_. True)"
    unfolding upholds_def triple_def take_buffered_def by (auto simp: updates split: prod.splits)
  have insert: "upholds I (insert_outstanding_activation a) (\<lambda>_. True)" for a
    unfolding upholds_def triple_def insert_outstanding_activation_def
    by (auto simp: updates split: option.splits)
  have reply: "upholds I (case f of Some f \<Rightarrow> fulfill env f | None \<Rightarrow> sret ()) (\<lambda>_. True)"
    if "\<And>g. f = Some g \<Longrightarrow> sound (fu_result g)" for f
    unfolding fulfill_def using that by (intro upholds_steps up_send) simp
  have done_inner: "upholds I (stry (check_more_inner env)) (\<lambda>_. True)"
    by (rule upholds_weaken [OF upholds_try [OF up_check]]) simp
  have sum: "upholds I (case x of Inl e \<Rightarrow> g e | Inr b \<Rightarrow> h b) S"
    if "\<And>e. upholds I (g e) S" "\<And>b. upholds I (h b) S"
    for g h S and x :: "wf_error + run_update_act"
    using that by (cases x) simp_all
  have acts: "upholds I (acts_with env c a f) (\<lambda>_. True)"
    if "\<And>g. f = Some g \<Longrightarrow> sound (fu_result g)" for a f
    unfolding acts_with_def
    by (intro upholds_read upholds_seq upholds_if sum done_inner ready reply [OF that] take insert
        upholds_option up_incoming_with [OF assms(1)] good_calleesD(1) [OF assms(1)] upholds_ret TrueI)
      simp_all
  have broken: "upholds I (broken_with c fail) (\<lambda>_. True)" for fail
    unfolding broken_with_def
    by (intro upholds_steps upholds_mod updates good_calleesD(2) [OF assms(1)])
  show ?thesis
    unfolding update_with_def using assms(2)
    by (auto intro!: acts broken split: sum.splits act_or_fulfill.splits)
qed

lemma good_nested: "good_callees (nested env n)"
proof (induction n)
  case 0
  show ?case by (auto simp: nested.simps good_callees_def overflowing_def intro: upholds_panic)
next
  case (Suc n)
  note ops = up_update_with [OF Suc] up_failed_with [OF Suc] up_request_eviction_with [OF Suc]
  show ?case by (subst good_callees_def) (auto simp: nested.simps intro: ops)
qed

lemma up_update_to_acts:
  "(\<And>f. oc = Inr (FulfillableComplete (Some f)) \<Longrightarrow> sound (fu_result f)) \<Longrightarrow>
   upholds I (update_to_acts env oc) (\<lambda>_. True)"
  unfolding update_to_acts_def by (rule up_update_with [OF good_nested])

lemma up_fetched_page: "upholds I (fetched_page_completion env upd pag) (\<lambda>_. True)"
proof -
  have "upholds I (case w of
        Some d \<Rightarrow> sthen (smod (\<lambda>s. s\<lparr>mr_completion_waiting_on_page_fetch := None\<rparr>))
          (process_inner env d (Some upd))
      | None \<Rightarrow> sret (Inl e)) (\<lambda>r. \<forall>f. r = Inr (Some f) \<longrightarrow> sound (fu_result f))"
    if "\<And>d. w = Some d \<Longrightarrow> sound_data (rac_data d)" for w e
    by (intro upholds_option upholds_seq upholds_mod updates up_process that upholds_ret TrueI) simp_all
  then show ?thesis
    unfolding fetched_page_completion_def
    by (intro upholds_seq [OF upholds_mod] upholds_read upholds_bind [of I _ "\<lambda>r. \<forall>f. r = Inr (Some f) \<longrightarrow>
        sound (fu_result f)"] up_update_to_acts plain TrueI)
      (auto simp: map_sum_def page_sound split: sum.splits)
qed

lemma up_local_resolution: "upholds I (mr_local_resolution env res) (\<lambda>_. True)"
proof -
  let ?R = "\<lambda>r. \<forall>f. r = Some f \<longrightarrow> sound (fu_result f)"
  have at: "triple (\<lambda>t. t = s) (if b then (case mr_waiting_on_la s of
        Some w \<Rightarrow> sthen (smod (\<lambda>s. s\<lparr>mr_waiting_on_la := None\<rparr>))
          (sthen (abort (wl_hb_timeout_handle w))
          (case wl_completion_dat w of
             Some (d, ch) \<Rightarrow> sbind (prepare_complete_resp ch d False) (\<lambda>f. sret (Some f))
           | None \<Rightarrow> sret None))
      | None \<Rightarrow> sret None) else sret None) (\<lambda>r s. I s \<and> ?R r) I" if s: "I s" for s b
  proof (cases "mr_waiting_on_la s")
    case (Some w)
    have "upholds I (case wl_completion_dat w of
        Some (d, ch) \<Rightarrow> sbind (prepare_complete_resp ch d False) (\<lambda>f. sret (Some f))
      | None \<Rightarrow> sret None) ?R"
      using waiting_sound [OF s Some]
      by (auto intro!: upholds_bind [OF up_prepare] upholds_ret split: option.splits)
    from upholdsD_at [OF this stopped(1) [OF s Some]] s show ?thesis
      by (simp add: Some triple_at timer_steps sret_def [of None])
  qed (use s in \<open>simp add: triple_at sret_def\<close>)
  have inner: "upholds I (local_resolution_inner env res) ?R"
    unfolding local_resolution_inner_def
    by (intro upholds_seq [OF up_machines] upholds_at at)
  show ?thesis
    unfolding mr_local_resolution_def
    by (intro upholds_bind [OF upholds_try [OF inner]] up_update_to_acts)
      (auto simp: map_sum_def split: sum.splits)
qed

lemma up_heartbeat: "upholds I (heartbeat_timeout env) (\<lambda>_. True)"
proof -
  have inner: "upholds I (heartbeat_inner env) (\<lambda>_. True)"
    unfolding upholds_def heartbeat_inner_def
  proof (rule triple_read)
    fix s
    assume s: "I s"
    show "triple (\<lambda>t. t = s) (case mr_waiting_on_la s of
        Some w \<Rightarrow> sthen (abort (wl_hb_timeout_handle w))
          (case wl_completion_dat w of
             Some (d, ch) \<Rightarrow>
               sthen (smod (\<lambda>s. s\<lparr>mr_waiting_on_la := Some (w\<lparr>wl_completion_dat := None\<rparr>)\<rparr>))
               (sbind (prepare_complete_resp ch d True) (\<lambda>compl. sthen (fulfill env compl) (sret False)))
           | None \<Rightarrow> sret True)
      | None \<Rightarrow> sret False) (\<lambda>a s. I s \<and> True) I"
    proof (cases "mr_waiting_on_la s")
      case (Some w)
      have ful: "upholds I (sbind (prepare_complete_resp ch d True)
          (\<lambda>compl. sthen (fulfill env compl) (sret False))) (\<lambda>_. True)"
        if "wl_completion_dat w = Some (d, ch)" for d ch
        unfolding fulfill_def
        by (intro upholds_bind [OF up_prepare [OF waiting_sound [OF s Some that]]] upholds_steps up_send)
      show ?thesis
      proof (cases "wl_completion_dat w")
        case None
        with Some s show ?thesis
          by (simp add: triple_at timer_steps sret_def stopped(3))
      next
        case (Some dc)
        obtain d ch where dc: "dc = (d, ch)" by (cases dc)
        from upholdsD_at [OF ful [OF Some [unfolded dc]] stopped(2) [OF s \<open>mr_waiting_on_la s = Some w\<close>]]
        show ?thesis
          using Some dc \<open>mr_waiting_on_la s = Some w\<close>
          by (simp add: triple_at timer_steps)
      qed
    qed (use s in \<open>simp add: triple_at sret_def\<close>)
  qed
  show ?thesis
    unfolding heartbeat_timeout_def
    by (intro upholds_seq [OF inner] upholds_read up_update_to_acts) simp
qed

lemma up_run_acts: "upholds I (run_acts p) (\<lambda>_. True)"
proof -
  have mark: "upholds I (mark_wft_complete env status) (\<lambda>_. True)" for env status
    unfolding mark_wft_complete_def
    by (intro upholds_read upholds_seq upholds_mod plain upholds_ret TrueI)
      (auto intro!: upholds_steps up_machines up_sink split: wft_report_status.splits)
  have finish: "upholds I (smod (\<lambda>s. snd (finish_activation pred s))) (\<lambda>_. True)" for pred
    by (intro upholds_mod TrueI) (auto simp: finish_activation_def updates split: option.splits)
  have buffer: "upholds I (smod (\<lambda>s. snd (buffer_wft_if_outstanding_work wft s))) (\<lambda>_. True)" for wft
    by (intro upholds_mod TrueI) (auto simp: buffer_wft_if_outstanding_work_def updates)
  note ops = up_incoming_with [OF good_nested] up_check_with [OF good_nested]
    up_successful_with [OF good_nested unforced] up_failed_with [OF good_nested]
    up_request_eviction_with [OF good_nested] up_fetched_page up_local_resolution up_heartbeat mark
  show ?thesis
    by (cases p; simp add: run_acts_def incoming_wft_def check_more_activations_def
        successful_completion_def failed_completion_def request_eviction_def;
      intro upholds_seq ops upholds_ret TrueI finish buffer; simp)
qed

lemma run_reachable_inv:
  assumes "run_reachable basics s" "I (blank_run basics)"
  shows "I s"
  using assms(1)
proof induction
  case (stepped s p r s')
  then show ?case using up_run_acts [of p] tripleD_Ok unfolding upholds_def by fastforce
qed (rule assms(2))

end

section \<open>What is reported while replaying\<close>

definition honest :: "activation_complete_result \<Rightarrow> bool" where
  "honest r \<longleftrightarrow>
     (acr_replaying r \<longrightarrow>
      (case acr_outcome r of
         ReportWFTSuccess _ (WftComplete _ _ query_responses _ _) \<Rightarrow> query_responses \<noteq> []
       | _ \<Rightarrow> True))"

definition never_fails_workflow :: "worker_config \<Rightarrow> bool" where
  "never_fails_workflow cfg \<longleftrightarrow> (\<forall>wt. \<not> should_fail_workflow cfg wt WET_Nondeterminism)"

definition reports_ok :: "managed_run \<Rightarrow> bool" where
  "reports_ok s \<longleftrightarrow>
     (\<forall>r \<in> snd ` set (mr_replies s). honest r) \<and>
     (\<forall>rac. mr_completion_waiting_on_page_fetch s = Some rac \<longrightarrow> \<not> rac_is_forced_failure rac) \<and>
     (\<forall>w d c. mr_waiting_on_la s = Some w \<longrightarrow> wl_completion_dat w = Some (d, c) \<longrightarrow>
        \<not> cd_is_forced_failure d) \<and>
     never_fails_workflow (mr_config s)"

interpretation reports: run_invariant reports_ok "\<lambda>d. \<not> cd_is_forced_failure d" honest
proof unfold_locales
  fix oc rp
  assume "other_outcome oc"
  then show "honest \<lparr>acr_replaying = rp, acr_outcome = oc\<rparr>"
    by (auto simp: honest_def other_outcome_def
        split: activation_complete_outcome.splits activation_action.splits)
qed (auto simp: reports_ok_def new_timer_def honest_def rac_data_def never_fails_workflow_def)

definition timers_ok :: "managed_run \<Rightarrow> bool" where
  "timers_ok s \<longleftrightarrow>
     (\<forall>h < mr_timers s. h \<in> set (mr_aborted s) \<or>
        (\<exists>w. mr_waiting_on_la s = Some w \<and> wl_hb_timeout_handle w = h))"

interpretation timers: run_invariant timers_ok "\<lambda>_. True" "\<lambda>_. True"
  by unfold_locales (auto simp: timers_ok_def new_timer_def less_Suc_eq split: option.splits)

section \<open>Concrete runs\<close>

definition wit_run_env :: run_env where
  "wit_run_env =
     \<lparr>menv_engine = wit_env, menv_instant = 0, menv_sink = (\<lambda>_. []), menv_chan_open = (\<lambda>_. True),
      menv_debug_failure = (\<lambda>_. []), menv_heartbeat_fraction = (\<lambda>d. d), menv_stack = 10\<rparr>"

definition wit_query :: workflow_query where
  "wit_query = \<lparr>wq_query_type = [], wq_query_args = None, wq_header = None\<rparr>"

text \<open>A task with a legacy query for a state that is gone, and possibly other queries.\<close>

definition wit_task :: "query_workflow list \<Rightarrow> permitted_wft" where
  "wit_task qs =
     \<lparr>pm_work = \<lparr>pw_task_token = [], pw_attempt = 1,
        pw_execution = \<lparr>we_workflow_id = ''w'', we_run_id = ''r''\<rparr>, pw_workflow_type = ''t'',
        pw_legacy_query = Some wit_query, pw_query_requests = qs,
        pw_update = hu_dummy\<lparr>hu_wft_started_id := 0\<rparr>, pw_messages = []\<rparr>,
      pm_permit = 0,
      pm_paginator = \<lparr>pag_previous_wft_started_id = 0, pag_wft_started_event_id = 0,
        pag_id_of_last_event = None, pag_event_queue = [], pag_next_page_token = Done,
        pag_final_events = [], pag_wf_id = ''w'', pag_run_id = ''r''\<rparr>\<rparr>"

definition wit_replaying :: run_basics where
  "wit_replaying = wit_basics\<lparr>rb_server_sdk_metadata := False,
     rb_history := hu_dummy\<lparr>hu_previous_wft_started_id := 3, hu_has_last_wft := True\<rparr>\<rparr>"

definition wit_result :: query_result where
  "wit_result = \<lparr>qr_query_id = ''q'', qr_variant = None\<rparr>"

definition wit_answer :: run_op where
  "wit_answer = Complete_Ok wit_run_env
     [\<lparr>wfc_variant = QueryResponse wit_result, wfc_metadata = None\<rparr>] [] (Some 0)"

text \<open>
  A replaying run that got a task with both kinds of queries and is broken, then an expired query,
  then an answer to a query.
\<close>

definition wit_broken :: managed_run where
  "wit_broken = (blank_run wit_replaying)\<lparr>mr_am_broken := True\<rparr>"

definition wit_late :: managed_run where
  "wit_late = snd (run_acts (Incoming wit_run_env (wit_task [])) wit_broken)"

definition wit_reported :: managed_run where
  "wit_reported = snd (run_acts wit_answer wit_late)"

lemmas run_ops = run_acts_def incoming_wft_def incoming_with_def incoming_inner_def stry_def
  action_defs from_act_def update_with_def broken_with_def run_update_err_from_def Let_def
  nested_callees acts_with_def more_pending_work_def has_pending_jobs_def ready_act_def
  has_any_pending_work_def is_none_or_autocomplete_def insert_outstanding_activation_def
  outstanding_kind_def

lemmas completion_ops = successful_completion_def successful_with_def legacy_response_def
  LEGACY_QUERY_ID_def preprocess_def on_machines_def preprocess_command_sequence_old_behavior_def
  old_behavior_Cons query_of_def process_with_def process_inner_def apply_completion_def
  push_commands_and_iterate_def iterate_machines_def fetch_workflow_iteration_output_def
  send_commands_def handle_driven_results_def prepare_commands_def prepare_loop.simps
  wm_add_lang_used_flags_def ready_to_apply_next_wft_def sink_la_requests_def sink_reqs_def
  drain_queued_local_activities_def take_all_reqs_def outstanding_la_count_def lad_default_def
  prepare_complete_resp_def try_use_flag_def activation_is_eviction_def fulfill_def send_reply_def
  get_commands_def take_messages_def get_metadata_for_wft_complete_def
  has_pending_la_resolutions_def idle_eviction_def check_more_inner_def

lemmas wit_runs = wit_basics_def wm_new_def dw_new_def blank_run_def hu_dummy_def wit_replaying_def
  wit_task_def wit_run_env_def

lemma wit_incoming_both:
  "run_acts (Incoming wit_run_env (wit_task [q])) (blank_run wit_replaying) =
     (Ok (Some (AutoFail ''r'' (Fatal ''Server issued both normal and legacy query''))), wit_broken)"
  by (simp add: run_ops wit_runs wit_broken_def)

lemma wit_incoming_late:
  "run_acts (Incoming wit_run_env (wit_task [])) wit_broken =
     (Ok (Some (AutoFail ''r'' (Fatal ''Query expired''))), wit_late)"
  by (simp add: run_ops wit_runs wit_broken_def wit_late_def)

lemma wit_no_history:
  "can_take_next_wft_sequence \<lparr>hu_events = [], hu_previous_wft_started_id = 3,
     hu_wft_started_id = - 1, hu_has_last_wft = True, hu_wft_count = 0\<rparr> 0"
  "peek_next_wft_completed \<lparr>hu_events = [], hu_previous_wft_started_id = 3,
     hu_wft_started_id = - 1, hu_has_last_wft = True, hu_wft_count = 0\<rparr> 0 = None"
  by code_simp+

lemma wit_answered:
  "run_acts wit_answer wit_late = (Ok None, wit_reported)"
  "mr_replies wit_reported =
     [(0, \<lparr>acr_replaying = True, acr_outcome = ReportWFTSuccess [] (WftComplete [] [] [wit_result]
        False wft_completed_metadata_default)\<rparr>)]"
  by (simp_all add: run_ops completion_ops wit_runs wit_reported_def wit_late_def wit_broken_def
      wit_answer_def wit_result_def wit_no_history flags_new_def)

lemma wit_reported_reachable: "run_reachable wit_replaying wit_reported"
  by (rule run_reachable.stepped [OF run_reachable.stepped [OF run_reachable.stepped
      [OF run_reachable.fresh wit_incoming_both] wit_incoming_late] wit_answered(1)])

section \<open>Properties\<close>



text \<open>
  At most one heartbeat timer of a run is neither aborted nor replaced: every timer that was ever
  started is aborted or is the one the run waits with.
\<close>

lemma one_heartbeat_timer:
  assumes "run_reachable basics s"
  shows "card {h. h < mr_timers s \<and> h \<notin> set (mr_aborted s)} \<le> 1"
proof -
  have "timers_ok (blank_run basics)" by (simp add: timers_ok_def blank_run_def)
  from timers.run_reachable_inv [OF assms this]
  have "{h. h < mr_timers s \<and> h \<notin> set (mr_aborted s)} \<subseteq>
      wl_hb_timeout_handle ` set_option (mr_waiting_on_la s)"
    by (auto simp: timers_ok_def)
  moreover have "finite (set_option x) \<and> card (set_option x) \<le> 1" for x :: "waiting_on_las option"
    by (cases x) simp_all
  ultimately show ?thesis
    by (meson card_image_le card_mono finite_imageI le_trans)
qed

end
