(* ===== verification/Run_Completions.thy ===== *)
theory Run_Completions
  imports Run_Properties
begin

text \<open>
  Activations and completions of a managed run: at most one activation is outstanding and it is the
  one that was handed out, and no completion is lost.
\<close>

lemmas triple_steps = triple_ret triple_err triple_panic triple_if

lemma triple_weaken: "triple P m Q E \<Longrightarrow> (\<And>a s. Q a s \<Longrightarrow> Q' a s) \<Longrightarrow> (\<And>s. E s \<Longrightarrow> E' s) \<Longrightarrow> triple P m Q' E'"
  by (rule triple_conseq)

lemma triple_pre: "triple P m Q E \<Longrightarrow> (\<And>s. P' s \<Longrightarrow> P s) \<Longrightarrow> triple P' m Q E"
  by (rule triple_conseq)

lemma triple_option:
  "(x = None \<Longrightarrow> triple P m Q E) \<Longrightarrow> (\<And>a. x = Some a \<Longrightarrow> triple P (f a) Q E) \<Longrightarrow>
   triple P (case x of None \<Rightarrow> m | Some a \<Rightarrow> f a) Q E"
  by (cases x) simp_all

lemma upholds_triple: "upholds I m R \<Longrightarrow> triple I m (\<lambda>_. I) (\<lambda>_. True)"
  unfolding upholds_def by (erule triple_conseq) auto

lemma upholds_try_triple: "upholds I m R \<Longrightarrow> triple I (stry m) (\<lambda>_. I) (\<lambda>_. True)"
  using upholds_triple [OF upholds_try] .

section \<open>The outstanding activation\<close>

abbreviation act_is :: "outstanding_activation option \<Rightarrow> managed_run \<Rightarrow> bool" where
  "act_is A s \<equiv> mr_activation s = A"

definition is_auto_fail :: "activation_or_auto \<Rightarrow> bool" where
  "is_auto_fail x = (case x of AutoFail _ _ \<Rightarrow> True | _ \<Rightarrow> False)"

text \<open>
  From the activation \<open>A\<close> before: it is still outstanding, and what is handed out is outstanding now
  and nothing was before.
\<close>

definition recorded :: "outstanding_activation option \<Rightarrow> run_update_act \<Rightarrow> managed_run \<Rightarrow> bool" where
  "recorded A r s \<longleftrightarrow>
     (A \<noteq> None \<longrightarrow> mr_activation s = A) \<and>
     (\<forall>x. r = Some x \<longrightarrow> is_auto_fail x \<or> (A = None \<and> mr_activation s = Some (outstanding_kind x)))"

interpretation activation: process_frame "act_is A" "\<lambda>_. True" "\<lambda>_. True" for A
  by unfold_locales (simp_all add: new_timer_def)

lemma triple_per_activation:
  assumes "\<And>B. triple (act_is B) m (Q B) (\<lambda>_. True)"
    and "\<And>s a s'. P s \<Longrightarrow> Q (mr_activation s) a s' \<Longrightarrow> R a s'"
  shows "triple P m R (\<lambda>_. True)"
  unfolding triple_def
proof (intro allI impI)
  fix s
  assume "P s"
  with assms(1) [of "mr_activation s"] assms(2) [of s]
  show "case m s of (Ok a, s') \<Rightarrow> R a s' | (Err e, s') \<Rightarrow> True | (Panic p, s') \<Rightarrow> True"
    by (fastforce simp: triple_def split: prod.splits outcome.splits)
qed

text \<open>The two ways an eviction is requested.\<close>

lemma triple_evict_cases:
  "(\<And>compl. w = Some compl \<Longrightarrow> triple P (f compl) Q E) \<Longrightarrow> triple P m Q E \<Longrightarrow>
   triple P (case (w, r) of (Some compl, ER_PaginationOrHistoryFetch) \<Rightarrow> f compl | _ \<Rightarrow> m) Q E"
  by (cases w; cases r) simp_all

definition activation_callees :: "callees \<Rightarrow> bool" where
  "activation_callees c \<longleftrightarrow>
     (\<forall>A oc. triple (act_is A) (c_update_to_acts c oc) (recorded A) (\<lambda>_. True)) \<and>
     (\<forall>A cause reason failure auto ch.
        triple (act_is A) (c_failed_completion c cause reason failure auto ch) (recorded A) (\<lambda>_. True)) \<and>
     (\<forall>A info. triple (act_is A) (c_request_eviction c info)
        (\<lambda>r. recorded A (into_run_update_resp r)) (\<lambda>_. True))"

lemma recorded_None: "act_is A s \<Longrightarrow> recorded A None s"
  by (simp add: recorded_def)

lemma recorded_trans:
  "recorded A r s \<Longrightarrow> recorded (mr_activation s) r' s' \<Longrightarrow> recorded A r' s' \<and> recorded A r s'"
  by (auto simp: recorded_def)

lemma act_incoming_with:
  assumes "activation_callees c"
  shows "triple (act_is A) (incoming_with env c pwft) (recorded A) (\<lambda>_. True)"
  unfolding incoming_with_def
  by (rule triple_bind [OF upholds_try_triple [OF activation.up_incoming]])
    (use assms in \<open>simp add: activation_callees_def\<close>)

lemma act_check_with:
  assumes "activation_callees c"
  shows "triple (act_is A) (check_more_with env c) (recorded A) (\<lambda>_. True)"
  unfolding check_more_with_def
  by (rule triple_bind [OF upholds_try_triple [OF activation.up_check]])
    (use assms in \<open>simp add: activation_callees_def\<close>)

lemma act_process_with:
  assumes "activation_callees c"
  shows "triple (act_is A) (process_with env c rac) (recorded A) (\<lambda>_. True)"
  unfolding process_with_def
  by (rule triple_bind [OF upholds_triple [OF activation.up_process]])
    (use assms in \<open>simp_all add: activation_callees_def\<close>)

lemma act_send: "triple (act_is A) (send_reply env ch r) (\<lambda>_. act_is A) (\<lambda>_. True)"
  by (simp add: triple_def send_reply_def action_defs)

lemma act_reply_with:
  assumes "activation_callees c"
  shows "triple (recorded A r) (reply_with env c oc ch) (\<lambda>_. recorded A r) (\<lambda>_. True)"
proof (cases ch)
  case (Some ch)
  have evict: "triple (act_is B) (sthen (c_request_eviction c info) (sret ()))
      (\<lambda>_. recorded B None) (\<lambda>_. True)" for B info
    by (rule triple_bind [where Q = "\<lambda>r. recorded B (into_run_update_resp r)"])
      (use assms in \<open>auto simp: activation_callees_def recorded_def intro: triple_ret\<close>)
  have "triple (act_is B) (reply_with env c oc (Some ch)) (\<lambda>_. recorded B None) (\<lambda>_. True)" for B
    unfolding reply_with_def option.case
    by (intro triple_read_keep triple_bind [OF act_send] triple_if triple_ret recorded_None evict)
  then show ?thesis
    unfolding Some by (rule triple_per_activation) (blast dest: recorded_trans)
qed (simp add: reply_with_def triple_ret)

lemma act_successful_with:
  assumes "activation_callees c"
  shows "triple (act_is A) (successful_with env c cs fl ch forced)
    (\<lambda>r. recorded A (case r of Inr acts \<Rightarrow> acts | Inl _ \<Rightarrow> None)) (\<lambda>_. True)"
proof -
  have reply: "triple (act_is A) (sthen (reply_with env c oc ch) (sret (Inr None)))
      (\<lambda>r. recorded A (case r of Inr acts \<Rightarrow> acts | Inl (_ :: history_paginator) \<Rightarrow> None)) (\<lambda>_. True)" for oc ch
    by (rule triple_bind [OF triple_pre [OF act_reply_with [OF assms, of A None]]])
      (simp_all add: recorded_None triple_ret)
  have outcome: "triple (act_is A) evict_outcome (\<lambda>_. act_is A) (\<lambda>_. True)"
    by (auto simp: triple_def evict_outcome_def split: option.splits)
  have update: "triple (act_is A) (sbind m (\<lambda>r. sret (Inr r)))
      (\<lambda>r. recorded A (case r of Inr acts \<Rightarrow> acts | Inl (_ :: history_paginator) \<Rightarrow> None)) (\<lambda>_. True)"
    if "triple (act_is A) m (recorded A) (\<lambda>_. True)" for m
    by (rule triple_bind [OF that]) (simp add: triple_ret)
  have page: "triple (act_is A) (sthen (smod (\<lambda>s. s\<lparr>mr_paginator := None,
        mr_completion_waiting_on_page_fetch := Some rac\<rparr>)) (sret (Inl pag)))
      (\<lambda>r. recorded A (case r of Inr acts \<Rightarrow> acts | Inl (_ :: history_paginator) \<Rightarrow> None)) (\<lambda>_. True)" for rac pag
    by (simp add: triple_def action_defs recorded_None)
  have prod: "triple P (case x of (a, b) \<Rightarrow> g a b) Q E" if "\<And>a b. triple P (g a b) Q E"
    for x g P E and Q :: "history_paginator + run_update_act \<Rightarrow> managed_run \<Rightarrow> bool"
    using that by (cases x) simp
  show ?thesis
    unfolding successful_with_def Let_def
    by (intro triple_read_keep triple_option triple_bind [OF outcome] reply
        triple_bind [OF upholds_triple [OF activation.up_preprocess]] prod triple_if page update
        act_process_with [OF assms])
      (use assms in \<open>simp add: activation_callees_def\<close>)
qed

lemma act_failed_with:
  assumes "activation_callees c"
  shows "triple (act_is A) (failed_with env c cause reason failure auto ch) (recorded A) (\<lambda>_. True)"
proof -
  have reply: "triple (recorded A rur) (sthen (reply_with env c oc ch) (sret rur)) (recorded A) (\<lambda>_. True)"
    for oc ch rur
    by (rule triple_bind [OF act_reply_with [OF assms]]) (rule triple_ret)
  have succeed: "triple (recorded A rur)
      (sbind (successful_with env c cs fl ch True) (\<lambda>r. sret (case r of Inr acts \<Rightarrow> acts | Inl _ \<Rightarrow> None)))
      (recorded A) (\<lambda>_. True)" for rur cs fl ch
  proof -
    have "triple (act_is B) (sbind (successful_with env c cs fl ch True)
        (\<lambda>r. sret (case r of Inr acts \<Rightarrow> acts | Inl _ \<Rightarrow> None))) (recorded B) (\<lambda>_. True)" for B
      by (rule triple_bind [OF act_successful_with [OF assms]]) (rule triple_ret)
    then show ?thesis by (rule triple_per_activation) (blast dest: recorded_trans)
  qed
  have evict: "triple (act_is A) (if b then sret (False, None)
      else sbind (c_request_eviction c info) (\<lambda>r. sret (g r, into_run_update_resp r)))
      (\<lambda>x. recorded A (snd x)) (\<lambda>_. True)" for b info and g :: "eviction_request_result \<Rightarrow> bool"
  proof (rule triple_if)
    have "triple (act_is A) (c_request_eviction c info) (\<lambda>r. recorded A (into_run_update_resp r)) (\<lambda>_. True)"
      using assms by (simp add: activation_callees_def)
    then show "triple (act_is A) (sbind (c_request_eviction c info) (\<lambda>r. sret (g r, into_run_update_resp r)))
        (\<lambda>x. recorded A (snd x)) (\<lambda>_. True)"
      by (rule triple_bind) (simp add: triple_ret)
  qed (simp add: triple_ret recorded_None)
  have cont: "triple (recorded A (snd x)) (case x of (sr, rur) \<Rightarrow>
      sbind (sget (\<lambda>s. s)) (\<lambda>s. if q s sr then
         sbind (successful_with env c cs fl ch True) (\<lambda>r. sret (case r of Inr acts \<Rightarrow> acts | Inl _ \<Rightarrow> None))
       else sthen (reply_with env c (oc s sr) ch) (sret rur))) (recorded A) (\<lambda>_. True)"
    for x cs fl ch and q :: "managed_run \<Rightarrow> bool \<Rightarrow> bool" and oc
    by (cases x) (simp, intro triple_read_keep triple_if succeed reply)
  have gone: "triple (act_is A) (sthen (reply_with env c oc ch) (sret None)) (recorded A) (\<lambda>_. True)" for oc
    by (rule triple_pre [OF reply]) (rule recorded_None)
  show ?thesis
    unfolding failed_with_def Let_def
    by (intro triple_read_keep triple_option gone triple_bind [OF evict] cont)
qed

lemma act_request_eviction_with:
  assumes "activation_callees c"
  shows "triple (act_is A) (request_eviction_with env c info)
    (\<lambda>r. recorded A (into_run_update_resp r)) (\<lambda>_. True)"
proof -
  have mod: "triple (act_is A) (smod f) (\<lambda>_. act_is A) (\<lambda>_. True)"
    if "\<And>s. mr_activation (f s) = mr_activation s" for f
    using that by (simp add: triple_def smod_def)
  have requested: "triple (act_is A) (sbind m (\<lambda>acts. sret (EvictionRequested att acts)))
      (\<lambda>r. recorded A (into_run_update_resp r)) (\<lambda>_. True)"
    if "triple (act_is A) m (recorded A) (\<lambda>_. True)" for m att
    by (rule triple_bind [OF that]) (simp add: triple_ret into_run_update_resp_def)
  have already: "triple (act_is A) (sret (EvictionAlreadyRequested att))
      (\<lambda>r. recorded A (into_run_update_resp r)) (\<lambda>_. True)" for att
    by (simp add: triple_ret into_run_update_resp_def recorded_None)
  have clear: "triple (act_is A) (if b then smod (\<lambda>s. s\<lparr>mr_wft :=
      map_option (\<lambda>wft. wft\<lparr>ot_pending_queries := []\<rparr>) (mr_wft s)\<rparr>) else sret ()) (\<lambda>_. act_is A) (\<lambda>_. True)" for b
    by (intro triple_if mod triple_ret) simp_all
  have failed: "triple (act_is A) (c_failed_completion c cause reason failure auto ch) (recorded A) (\<lambda>_. True)"
    for cause reason failure auto ch
    using assms by (simp add: activation_callees_def)
  show ?thesis
    unfolding request_eviction_with_def Let_def
    by (intro triple_read_keep triple_evict_cases triple_if triple_bind [OF mod] triple_bind [OF clear]
        requested already failed act_check_with [OF assms]) simp_all
qed

lemma act_acts_with:
  assumes "activation_callees c"
  shows "triple (act_is A) (acts_with env c maybe_act f) (recorded A) (\<lambda>_. True)"
proof -
  have check: "triple (act_is A) (if b then stry (check_more_inner env) else sret x) (\<lambda>_. act_is A) (\<lambda>_. True)"
    for b x
    by (intro triple_if upholds_try_triple [OF activation.up_check] triple_ret)
  have ready: "triple (act_is A) (ready_act a) (\<lambda>_. act_is A) (\<lambda>_. True)" for a
    by (auto simp: triple_def ready_act_def sret_def sget_def
        split: option.splits activation_or_auto.splits prod.splits)
  have fulfil: "triple (act_is A) (case f of Some f \<Rightarrow> fulfill env f | None \<Rightarrow> sret ())
      (\<lambda>_. act_is A) (\<lambda>_. True)" for f
    by (auto simp: triple_def fulfill_def send_reply_def action_defs split: option.splits)
  have take: "triple (act_is A) take_buffered (\<lambda>_. act_is A) (\<lambda>_. True)"
    by (auto simp: triple_def take_buffered_def split: prod.splits)
  have insert: "triple (act_is A) (sthen (insert_outstanding_activation a) (sret (Some a))) (recorded A) (\<lambda>_. True)"
    for a
    by (auto simp: triple_def insert_outstanding_activation_def action_defs recorded_def
        split: option.splits)
  have sum: "triple P (case x of Inl e \<Rightarrow> g e | Inr b \<Rightarrow> h b) Q E"
    if "\<And>e. triple P (g e) Q E" "\<And>b. triple P (h b) Q E"
    for g h P E and x :: "wf_error + run_update_act" and Q :: "run_update_act \<Rightarrow> managed_run \<Rightarrow> bool"
    using that by (cases x) simp_all
  have update: "triple (act_is A) (c_update_to_acts c oc) (recorded A) (\<lambda>_. True)" for oc
    using assms by (simp add: activation_callees_def)
  show ?thesis
    unfolding acts_with_def
    by (intro triple_read_keep triple_bind [OF check] sum update triple_bind [OF ready]
        triple_bind [OF fulfil] triple_if triple_bind [OF take] triple_option
        act_incoming_with [OF assms] insert triple_ret recorded_None)
qed

lemma act_update_with:
  assumes "activation_callees c"
  shows "triple (act_is A) (update_with env c oc) (recorded A) (\<lambda>_. True)"
proof -
  have "triple (act_is A) (broken_with c e) (recorded A) (\<lambda>_. True)" for e
    unfolding broken_with_def
    by (intro triple_bind [OF triple_mod, where Q = "\<lambda>_. act_is A"] triple_option triple_read_keep
        triple_ret)
      (use assms in \<open>simp_all add: activation_callees_def is_auto_fail_def recorded_def\<close>)
  then show ?thesis
    unfolding update_with_def
    by (auto intro: act_acts_with [OF assms] split: sum.splits act_or_fulfill.splits)
qed

lemma activation_nested: "activation_callees (nested env n)"
proof (induction n)
  case 0
  show ?case by (simp add: nested.simps activation_callees_def overflowing_def triple_panic)
next
  case (Suc n)
  note ops = act_update_with [OF Suc] act_failed_with [OF Suc] act_request_eviction_with [OF Suc]
  show ?case by (subst activation_callees_def) (simp add: nested.simps ops)
qed

lemma act_update: "triple (act_is A) (update_to_acts env oc) (recorded A) (\<lambda>_. True)"
  unfolding update_to_acts_def by (rule act_update_with [OF activation_nested])

lemma act_fetched: "triple (act_is A) (fetched_page_completion env u pag) (recorded A) (\<lambda>_. True)"
  unfolding fetched_page_completion_def
  by (intro triple_bind [OF triple_mod [where Q = "\<lambda>_. act_is A"]] triple_read_keep
      triple_bind [where Q = "\<lambda>_. act_is A", OF _ act_update] triple_option
      upholds_triple [OF activation.up_process] triple_ret) simp_all

lemma act_resolve: "triple (act_is A) (mr_local_resolution env res) (recorded A) (\<lambda>_. True)"
proof -
  have "upholds (act_is A) (local_resolution_inner env res) (\<lambda>_. True)"
    unfolding local_resolution_inner_def abort_def
    by (intro upholds_steps activation.up_machines upholds_mod)
      (auto intro!: upholds_seq upholds_weaken [OF activation.up_prepare] upholds_ret)
  then show ?thesis
    unfolding mr_local_resolution_def by (intro triple_bind [OF upholds_try_triple] act_update)
qed

lemma act_heartbeat: "triple (act_is A) (heartbeat_timeout env) (recorded A) (\<lambda>_. True)"
proof -
  have "upholds (act_is A) (heartbeat_inner env) (\<lambda>_. True)"
    unfolding heartbeat_inner_def abort_def fulfill_def send_reply_def
    by (intro upholds_steps upholds_mod)
      (auto intro!: upholds_seq upholds_mod upholds_weaken [OF activation.up_prepare] upholds_ret
        upholds_option)
  then show ?thesis
    unfolding heartbeat_timeout_def by (intro triple_bind [OF upholds_triple] triple_read_keep act_update)
qed

lemma act_mark:
  "triple (act_is A) (sthen (mark_wft_complete env status) (sret None)) (recorded A) (\<lambda>_. True)"
  by (auto simp: triple_def mark_wft_complete_def sink_reqs_def on_machines_def reset_last_started_id_def
      action_defs recorded_def Let_def split: wft_report_status.splits option.splits)

lemma act_run_acts:
  assumes "\<And>pred. p \<noteq> Finish_Activation pred"
  shows "triple (act_is A) (run_acts p) (recorded A) (\<lambda>_. True)"
proof (cases p)
  case (Complete_Ok env cs fl ch)
  show ?thesis
    unfolding run_acts_def Complete_Ok run_op.case successful_completion_def
    by (rule triple_bind [OF act_successful_with [OF activation_nested]]) (rule triple_ret)
next
  case (Evict env info)
  show ?thesis
    unfolding run_acts_def Evict run_op.case request_eviction_def
    by (rule triple_bind [OF act_request_eviction_with [OF activation_nested]]) (rule triple_ret)
next
  case (Buffer_Task wft)
  then show ?thesis
    by (auto simp: run_acts_def triple_def action_defs buffer_wft_if_outstanding_work_def recorded_def)
qed (use assms in \<open>simp_all add: run_acts_def incoming_wft_def check_more_activations_def
    failed_completion_def act_fetched act_resolve act_heartbeat act_mark act_incoming_with
    act_check_with act_failed_with activation_nested\<close>)

text \<open>
  C3: A run has at most one activation outstanding.  Whatever operation runs, the outstanding
  activation stays until it is finished, and an activation is handed out only when none was
  outstanding; it is then the outstanding one, recorded with its kind.  The request to fail a task
  automatically is the only answer that may leave no mark.
\<close>

theorem one_outstanding_activation:
  assumes "run_acts p s = (Ok r, s')" "\<And>pred. p \<noteq> Finish_Activation pred"
  shows "(mr_activation s \<noteq> None \<longrightarrow> mr_activation s' = mr_activation s) \<and>
    (\<forall>x. r = Some x \<longrightarrow> is_auto_fail x \<or>
       (mr_activation s = None \<and> mr_activation s' = Some (outstanding_kind x)))"
  using tripleD_Ok [OF act_run_acts [OF assms(2)] refl assms(1)] by (simp add: recorded_def)

theorem one_outstanding_activation_witness:
  "run_acts (Incoming wit_run_env (wit_task [])) wit_broken =
     (Ok (Some (AutoFail ''r'' (Fatal ''Query expired''))), wit_late) \<and>
   run_acts wit_answer wit_late = (Ok None, wit_reported) \<and>
   mr_activation wit_late \<noteq> None \<and> mr_activation wit_reported = mr_activation wit_late"
  using one_outstanding_activation [OF wit_answered(1)] wit_answered(1) wit_incoming_late
  by (simp add: wit_answer_def)
    (simp add: run_ops wit_runs wit_broken_def wit_late_def)

section \<open>No completion is lost\<close>

text \<open>The completions a run keeps for later, and those it has answered.\<close>

definition held :: "managed_run \<Rightarrow> chan set" where
  "held s =
     (case mr_waiting_on_la s of
        Some w \<Rightarrow> (case wl_completion_dat w of Some (d, ch) \<Rightarrow> set_option ch | None \<Rightarrow> {})
      | None \<Rightarrow> {}) \<union>
     (case mr_completion_waiting_on_page_fetch s of
        Some rac \<Rightarrow> set_option (rac_resp_chan rac)
      | None \<Rightarrow> {})"

definition replied :: "managed_run \<Rightarrow> chan set" where
  "replied s = fst ` set (mr_replies s)"

definition not_waiting :: "managed_run \<Rightarrow> bool" where
  "not_waiting s \<longleftrightarrow> (\<forall>w. mr_waiting_on_la s = Some w \<longrightarrow> wl_completion_dat w = None)"

text \<open>No completion is kept.\<close>

definition free :: "managed_run \<Rightarrow> bool" where
  "free s \<longleftrightarrow> not_waiting s \<and> mr_completion_waiting_on_page_fetch s = None"

text \<open>The completions \<open>G\<close> are kept, answered, or among those in hand.\<close>

definition accounted :: "chan set \<Rightarrow> chan set \<Rightarrow> managed_run \<Rightarrow> bool" where
  "accounted K G s \<longleftrightarrow> G \<subseteq> held s \<union> replied s \<union> K"

text \<open>Besides, on demand: an activation is outstanding, nothing is kept, nothing fails the workflow.\<close>

definition accounted_if ::
  "bool \<Rightarrow> bool \<Rightarrow> bool \<Rightarrow> chan set \<Rightarrow> chan set \<Rightarrow> managed_run \<Rightarrow> bool" where
  "accounted_if a b nf K G s \<longleftrightarrow>
     accounted K G s \<and> (a \<longrightarrow> mr_activation s \<noteq> None) \<and> (b \<longrightarrow> free s) \<and>
     (nf \<longrightarrow> never_fails_workflow (mr_config s))"

lemmas completion_defs = accounted_if_def accounted_def held_def replied_def free_def not_waiting_def

lemma accounted_diff: "accounted_if a b nf K G = accounted_if a b nf {} (G - K)"
  by (auto simp: accounted_if_def accounted_def fun_eq_iff)

lemma accounted_if_less: "accounted_if a b nf K G s \<Longrightarrow> accounted_if a False nf K G s"
  by (simp add: accounted_if_def)

interpretation completion: run_frame "accounted_if a b nf K G" "\<lambda>_. True" "\<lambda>_. True" for a b nf K G
  by unfold_locales (auto simp: completion_defs new_timer_def)

definition chans_of :: "run_update_err + act_or_fulfill \<Rightarrow> chan set" where
  "chans_of oc =
     (case oc of
        Inl e \<Rightarrow> set_option (ue_complete_resp_chan e)
      | Inr (FulfillableComplete (Some f)) \<Rightarrow> set_option (fu_resp_chan f)
      | Inr _ \<Rightarrow> {})"

definition completing_error :: "run_update_err + act_or_fulfill \<Rightarrow> bool" where
  "completing_error oc \<longleftrightarrow> (\<exists>e. oc = Inl e \<and> ue_complete_resp_chan e \<noteq> None)"

text \<open>What the calls need: an error of nondeterminism may fail the workflow with the completion.\<close>

definition may_update :: "bool \<Rightarrow> bool \<Rightarrow> bool \<Rightarrow> run_update_err + act_or_fulfill \<Rightarrow> bool" where
  "may_update a b nf oc \<longleftrightarrow>
     (completing_error oc \<longrightarrow> nf \<or> a \<and> b) \<and> (chans_of oc = {} \<or> isl oc \<or> a)"

definition may_fail :: "bool \<Rightarrow> bool \<Rightarrow> bool \<Rightarrow> wft_failed_cause \<Rightarrow> bool" where
  "may_fail a b nf cause \<longleftrightarrow> (cause = cause_non_deterministic_error \<longrightarrow> nf \<or> a \<and> b)"

definition completion_callees :: "callees \<Rightarrow> bool" where
  "completion_callees c \<longleftrightarrow>
     (\<forall>G a b nf oc. may_update a b nf oc \<longrightarrow>
        triple (accounted_if a b nf (chans_of oc) G) (c_update_to_acts c oc)
          (\<lambda>_. accounted_if a (b \<and> \<not> completing_error oc) nf {} G) (\<lambda>_. True)) \<and>
     (\<forall>G a b nf cause reason failure auto ch. may_fail a b nf cause \<longrightarrow>
        triple (accounted_if a b nf (set_option ch) G) (c_failed_completion c cause reason failure auto ch)
          (\<lambda>_. accounted_if a False nf {} G) (\<lambda>_. True)) \<and>
     (\<forall>G a b nf info. triple (accounted_if a b nf {} G) (c_request_eviction c info)
        (\<lambda>_. accounted_if a b nf {} G) (\<lambda>_. True))"

lemma completion_calleesD:
  assumes "completion_callees c"
  shows "may_update a b nf oc \<Longrightarrow> triple (accounted_if a b nf (chans_of oc) G) (c_update_to_acts c oc)
      (\<lambda>_. accounted_if a (b \<and> \<not> completing_error oc) nf {} G) (\<lambda>_. True)"
    and "may_fail a b nf cause \<Longrightarrow>
      triple (accounted_if a b nf (set_option ch) G) (c_failed_completion c cause reason failure auto ch)
        (\<lambda>_. accounted_if a False nf {} G) (\<lambda>_. True)"
    and "triple (accounted_if a b nf {} G) (c_request_eviction c info) (\<lambda>_. accounted_if a b nf {} G) (\<lambda>_. True)"
  using assms by (simp_all add: completion_callees_def)

lemma chans_of_from_act [simp]: "chans_of (from_act r) = {}" "\<not> completing_error (from_act r)"
  by (auto simp: chans_of_def from_act_def map_sum_def run_update_err_from_def completing_error_def
      split: sum.splits)

lemma may_update_from_act [simp]: "may_update a b nf (from_act r)"
  by (simp add: may_update_def)

lemma comp_incoming_with:
  assumes "completion_callees c"
  shows "triple (accounted_if a b nf {} G) (incoming_with env c pwft) (\<lambda>_. accounted_if a b nf {} G) (\<lambda>_. True)"
  unfolding incoming_with_def
  using completion_calleesD(1) [OF assms, where oc = "from_act r" and a = a and b = b and nf = nf and G = G for r]
  by (intro triple_bind [OF upholds_try_triple [OF completion.up_incoming]]) simp

lemma comp_check_with:
  assumes "completion_callees c"
  shows "triple (accounted_if a b nf {} G) (check_more_with env c) (\<lambda>_. accounted_if a b nf {} G) (\<lambda>_. True)"
  unfolding check_more_with_def
  using completion_calleesD(1) [OF assms, where oc = "from_act r" and a = a and b = b and nf = nf and G = G for r]
  by (intro triple_bind [OF upholds_try_triple [OF completion.up_check]]) simp

lemma comp_send:
  "triple (accounted_if a b nf (set_option (Some ch)) G) (send_reply env ch r) (\<lambda>_. accounted_if a b nf {} G) (\<lambda>_. True)"
  by (auto simp: triple_def send_reply_def action_defs completion_defs)

lemma comp_fulfill:
  "triple (accounted_if a b nf (set_option (fu_resp_chan f)) G) (fulfill env f) (\<lambda>_. accounted_if a b nf {} G) (\<lambda>_. True)"
proof (cases "fu_resp_chan f")
  case (Some ch)
  show ?thesis
    unfolding fulfill_def Some option.case by (rule triple_bind [OF comp_send]) (rule triple_ret)
qed (simp add: fulfill_def triple_ret)

lemma comp_reply_with:
  assumes "completion_callees c"
  shows "triple (accounted_if a b nf (set_option ch) G) (reply_with env c oc ch) (\<lambda>_. accounted_if a b nf {} G) (\<lambda>_. True)"
proof (cases ch)
  case (Some ch)
  have evict: "triple (accounted_if a b nf {} G) (sthen (c_request_eviction c info) (sret ()))
      (\<lambda>_. accounted_if a b nf {} G) (\<lambda>_. True)" for info
    by (rule triple_bind [OF completion_calleesD(3) [OF assms]]) (rule triple_ret)
  show ?thesis
    unfolding Some reply_with_def option.case
    by (intro triple_read_keep triple_bind [OF comp_send] triple_if triple_ret evict)
qed (simp add: reply_with_def triple_ret)

lemma triple_conj:
  "triple P m Q E \<Longrightarrow> triple P' m Q' E' \<Longrightarrow> triple (\<lambda>s. P s \<and> P' s) m (\<lambda>a s. Q a s \<and> Q' a s) (\<lambda>s. E s \<and> E' s)"
  by (fastforce simp: triple_def split: prod.splits outcome.splits)

text \<open>Preparing a response never ends in an error, and hands back the channel.\<close>

abbreviation no_err :: "('s, 'a) action \<Rightarrow> bool" where
  "no_err m \<equiv> triple (\<lambda>_. True) m (\<lambda>_ _. True) (\<lambda>_. False)"

lemma no_err_steps: "no_err (sret a)" "no_err (sget g)" "no_err (smod f)"
  by (simp_all add: triple_def action_defs)

lemma no_err_on_machines: "no_err m \<Longrightarrow> no_err (on_machines m)"
  by (auto simp: triple_def on_machines_def split: prod.splits outcome.splits)

lemma no_err_map: "(\<And>a. no_err (f a)) \<Longrightarrow> no_err (smap f as)"
  by (induction as) (auto intro!: triple_bind [where Q = "\<lambda>_ _. True"] no_err_steps)

lemma no_err_real_command: "no_err (real_command c)"
proof -
  have "no_err (machine k)" for k
    by (auto simp: triple_def machine_def split: option.splits)
  moreover have "no_err (slift (machines_is_final_state m))" for m
    by (cases m) (auto simp: triple_def slift_def machines_is_final_state_def
        has_reached_final_state_def fsm_state_get_def split: option.splits)
  ultimately show ?thesis
    unfolding real_command_def by (intro triple_bind [where Q = "\<lambda>_ _. True"] no_err_steps)
qed

lemma no_err_has_command: "no_err has_command"
proof -
  have "no_err (peek_command cs)" for cs
    by (induction cs) (auto intro!: triple_bind [where Q = "\<lambda>_ _. True"] no_err_steps no_err_real_command)
  then show ?thesis
    unfolding has_command_def by (intro triple_bind [where Q = "\<lambda>_ _. True"] no_err_steps)
qed

lemma no_err_outgoing: "no_err get_commands" "no_err take_messages" "no_err get_metadata_for_wft_complete"
proof -
  show "no_err get_commands"
    unfolding get_commands_def
    by (intro triple_bind [where Q = "\<lambda>_ _. True"] no_err_steps no_err_map no_err_real_command)
qed (auto simp: triple_def take_messages_def get_metadata_for_wft_complete_def split: prod.splits)

lemma prepare_keeps_chan:
  "triple (\<lambda>_. True) (prepare_complete_resp ch d hb) (\<lambda>f _. fu_resp_chan f = ch) (\<lambda>_. False)"
proof -
  have prod: "triple P (case x of (a, b) \<Rightarrow> g a b) Q E" if "\<And>a b. triple P (g a b) Q E"
    for x g P E and Q :: "activation_complete_outcome \<Rightarrow> managed_run \<Rightarrow> bool"
    using that by (cases x) simp
  show ?thesis
    unfolding prepare_complete_resp_def Let_def
    by (intro triple_read_keep triple_bind [where Q = "\<lambda>_ _. True"] triple_if prod no_err_on_machines
        no_err_has_command no_err_outgoing no_err_steps) (simp add: triple_ret)
qed

lemma comp_prepare:
  "triple (accounted_if a b nf K G) (prepare_complete_resp ch d hb)
     (\<lambda>f s. fu_resp_chan f = ch \<and> accounted_if a b nf K G s) (\<lambda>_. False)"
  using triple_conj [OF prepare_keeps_chan upholds_triple [OF completion.up_prepare]]
  by simp

lemma comp_process:
  "triple (accounted_if True True nf (set_option (rac_resp_chan rac)) G) (process_inner env rac u)
     (\<lambda>r. accounted_if True (r \<noteq> Inr None) nf (chans_of (map_sum (\<lambda>e. e) FulfillableComplete r)) G) (\<lambda>_. True)"
    (is "triple ?P _ ?Q _")
proof -
  have respond: "triple ?P (sbind (prepare_complete_resp (rac_resp_chan rac) d False)
      (\<lambda>f. sret (Inr (Some f)))) ?Q (\<lambda>_. True)" for d
    by (intro triple_bind [where E = "\<lambda>_. True", OF triple_weaken [OF comp_prepare]] triple_ret)
      (auto simp: chans_of_def)
  have wait: "triple ?P (sbind (sget mr_waiting_on_la) (\<lambda>wola.
       sthen (case wola of Some w \<Rightarrow> abort (wl_hb_timeout_handle w) | None \<Rightarrow> sret ())
       (sbind (sget (\<lambda>s. mr_run_id s)) (\<lambda>run_id.
        sbind (sink_heartbeat_timeout_start env run_id st t) (\<lambda>handle.
        sthen (smod (\<lambda>s. s\<lparr>mr_waiting_on_la := Some
            \<lparr>wl_wft_timeout = t, wl_completion_dat = Some (d, rac_resp_chan rac),
             wl_hb_timeout_handle = handle\<rparr>\<rparr>)) (sret (Inr None))))))) ?Q (\<lambda>_. True)" for st t d
    unfolding triple_def start_timer
    by (auto simp: completion_defs new_timer_def chans_of_def split: option.splits)
  have err: "triple ?P (sret (Inl \<lparr>ue_source = e, ue_complete_resp_chan = rac_resp_chan rac\<rparr>)) ?Q (\<lambda>_. True)" for e
    by (rule triple_ret) (simp add: chans_of_def)
  have outcome: "triple P (case oc of
        Inr None \<Rightarrow> m
      | Inr (Some (start_t, wft_timeout)) \<Rightarrow> g start_t wft_timeout
      | Inl err \<Rightarrow> h err) Q E"
    if "triple P m Q E" "\<And>a b. triple P (g a b) Q E" "\<And>e. triple P (h e) Q E"
    for oc m g h P E and Q :: "run_update_err + fulfillable option \<Rightarrow> managed_run \<Rightarrow> bool"
    using that by (auto split: sum.splits option.splits)
  show ?thesis
    unfolding process_inner_def Let_def
    by (intro triple_bind [OF upholds_triple [OF completion.up_machines]] triple_if respond
        triple_bind [OF upholds_try_triple [OF completion.up_apply]] outcome wait err)
qed

lemma comp_process_update:
  assumes "completion_callees c"
  shows "triple (accounted_if True (r \<noteq> Inr None) nf (chans_of (map_sum (\<lambda>e. e) FulfillableComplete r)) G)
    (c_update_to_acts c (map_sum (\<lambda>e. e) FulfillableComplete r)) (\<lambda>_. accounted_if True False nf {} G) (\<lambda>_. True)"
  by (rule triple_weaken [OF completion_calleesD(1) [OF assms]])
    (auto simp: may_update_def completing_error_def map_sum_def dest: accounted_if_less split: sum.splits)

lemma comp_process_with:
  assumes "completion_callees c"
  shows "triple (accounted_if True True nf (set_option (rac_resp_chan rac)) G) (process_with env c rac)
    (\<lambda>_. accounted_if True False nf {} G) (\<lambda>_. True)"
  unfolding process_with_def by (rule triple_bind [OF comp_process comp_process_update [OF assms]])

lemma comp_successful_with:
  assumes "completion_callees c"
  shows "triple (accounted_if True True nf (set_option ch) G) (successful_with env c cs fl ch forced)
    (\<lambda>_. accounted_if True False nf {} G) (\<lambda>_. True)"
proof -
  let ?P = "accounted_if True True nf (set_option ch) G"
  have reply: "triple ?P (sthen (reply_with env c oc ch) (sret x)) (\<lambda>_. accounted_if True False nf {} G) (\<lambda>_. True)"
    for oc and x :: "history_paginator + run_update_act"
    by (rule triple_bind [OF comp_reply_with [OF assms]]) (rule triple_ret, erule accounted_if_less)
  have outcome: "triple ?P evict_outcome (\<lambda>_. ?P) (\<lambda>_. True)"
    by (auto simp: triple_def evict_outcome_def completion_defs split: option.splits)
  have update: "triple ?P (sbind (c_update_to_acts c (Inl \<lparr>ue_source = e, ue_complete_resp_chan = ch\<rparr>))
      (\<lambda>r. sret (Inr r))) (\<lambda>_. accounted_if True False nf {} G) (\<lambda>_. True)" for e
    using completion_calleesD(1) [OF assms, where oc = "Inl \<lparr>ue_source = e, ue_complete_resp_chan = ch\<rparr>" and a = True and b = True and nf = nf and G = G]
    by (intro triple_bind [where Q = "\<lambda>_. accounted_if True False nf {} G"] triple_ret)
      (auto simp: chans_of_def may_update_def elim!: triple_weaken intro: accounted_if_less)
  have process: "triple ?P (sbind (process_with env c rac) (\<lambda>r. sret (Inr r)))
      (\<lambda>_. accounted_if True False nf {} G) (\<lambda>_. True)" if "rac_resp_chan rac = ch" for rac
    by (rule triple_bind [OF comp_process_with [OF assms, where rac = rac, unfolded that]]) (rule triple_ret)
  have page: "triple ?P (sthen (smod (\<lambda>s. s\<lparr>mr_paginator := None,
        mr_completion_waiting_on_page_fetch := Some rac\<rparr>)) (sret x)) (\<lambda>_. accounted_if True False nf {} G) (\<lambda>_. True)"
    if "rac_resp_chan rac = ch" for rac and x :: "history_paginator + run_update_act"
    using that by (auto simp: triple_def action_defs completion_defs)
  have prod: "triple P (case x of (a, b) \<Rightarrow> g a b) Q E" if "\<And>a b. triple P (g a b) Q E"
    for x g P E and Q :: "history_paginator + run_update_act \<Rightarrow> managed_run \<Rightarrow> bool"
    using that by (cases x) simp
  show ?thesis
    unfolding successful_with_def Let_def
    by (intro triple_read_keep triple_option triple_bind [OF outcome] reply
        triple_bind [OF upholds_triple [OF completion.up_preprocess]] prod triple_if page update process)
      simp_all
qed

lemma comp_failed_with:
  assumes "completion_callees c" "may_fail a b nf cause"
  shows "triple (accounted_if a b nf (set_option ch) G) (failed_with env c cause reason failure auto ch)
    (\<lambda>_. accounted_if a False nf {} G) (\<lambda>_. True)"
proof -
  let ?P = "accounted_if a b nf (set_option ch) G"
  have reply: "triple ?P (sthen (reply_with env c oc ch) (sret x)) (\<lambda>_. accounted_if a False nf {} G) (\<lambda>_. True)"
    for oc and x :: run_update_act
    by (rule triple_bind [OF comp_reply_with [OF assms(1)]]) (rule triple_ret, erule accounted_if_less)
  have succeed: "triple ?P (sbind (successful_with env c cs fl ch True) (\<lambda>r. sret (g r)))
      (\<lambda>_. accounted_if a False nf {} G) (\<lambda>_. True)" if "a \<and> b" for cs fl and g :: "_ \<Rightarrow> run_update_act"
    by (intro triple_bind [OF triple_pre [OF comp_successful_with [OF assms(1), where nf = nf]]] triple_ret)
      (use that in \<open>auto simp: accounted_if_def\<close>)
  have evict: "triple ?P (if x then sret (False, None)
      else sbind (c_request_eviction c info) (\<lambda>r. sret (g r, into_run_update_resp r))) (\<lambda>_. ?P) (\<lambda>_. True)"
    for x info and g :: "eviction_request_result \<Rightarrow> bool"
    using completion_calleesD(3) [OF assms(1), where a = a and b = b and nf = nf and G = "G - set_option ch" and info = info]
    by (intro triple_if triple_ret triple_bind [where Q = "\<lambda>_. ?P"])
      (simp_all add: accounted_diff [where K = "set_option ch"])
  have cont: "triple ?P (case x of (sr, rur) \<Rightarrow>
      sbind (sget (\<lambda>s. s)) (\<lambda>s. if q s \<and> sr \<and> cause = cause_non_deterministic_error \<and>
           should_fail_workflow (mr_config s) (wt s) WET_Nondeterminism then
         sbind (successful_with env c cs fl ch True) (\<lambda>r. sret (g r))
       else sthen (reply_with env c (oc s sr) ch) (sret rur))) (\<lambda>_. accounted_if a False nf {} G) (\<lambda>_. True)"
    for x cs fl q wt oc and g :: "_ \<Rightarrow> run_update_act"
  proof (cases x)
    case (Pair sr rur)
    show ?thesis
      unfolding Pair prod.case
    proof (intro triple_read_keep triple_if succeed reply)
      fix s
      assume "?P s" and "q s \<and> sr \<and> cause = cause_non_deterministic_error \<and>
        should_fail_workflow (mr_config s) (wt s) WET_Nondeterminism"
      then show "a \<and> b"
        using assms(2) by (auto simp: may_fail_def accounted_if_def never_fails_workflow_def)
    qed
  qed
  show ?thesis
    unfolding failed_with_def Let_def
    by (intro triple_read_keep triple_option reply triple_bind [OF evict] cont)
qed

lemma comp_request_eviction_with:
  assumes "completion_callees c"
  shows "triple (accounted_if a b nf {} G) (request_eviction_with env c info)
    (\<lambda>_. accounted_if a b nf {} G) (\<lambda>_. True)"
proof -
  let ?P = "accounted_if a b nf {} G"
  have mod: "triple ?P (smod f) (\<lambda>_. ?P) (\<lambda>_. True)"
    if "\<And>s. ?P s \<Longrightarrow> ?P (f s)" for f
    using that by (simp add: triple_def smod_def)
  have clear: "triple ?P (if q then smod (\<lambda>s. s\<lparr>mr_wft :=
        map_option (\<lambda>wft. wft\<lparr>ot_pending_queries := []\<rparr>) (mr_wft s)\<rparr>) else sret ()) (\<lambda>_. ?P) (\<lambda>_. True)" for q
    by (intro triple_if mod triple_ret) (simp_all add: completion_defs)
  have evicting: "triple ?P (smod (\<lambda>s. s\<lparr>mr_trying_to_evict := Some info\<rparr>)) (\<lambda>_. ?P) (\<lambda>_. True)"
    by (rule mod) (simp_all add: completion_defs)
  note other = triple_if [OF triple_bind [OF clear triple_bind [OF evicting triple_bind [OF
      comp_check_with [OF assms, where a = a and b = b and nf = nf and G = G and env = env] triple_ret]]] triple_bind [OF evicting triple_ret]]
  have page: "triple (\<lambda>t. t = s) (sthen (smod (\<lambda>s. s\<lparr>mr_completion_waiting_on_page_fetch := None\<rparr>))
      (sbind (c_failed_completion c cause_unspecified reason failure auto (rac_resp_chan compl))
        (\<lambda>run_upd. sret (EvictionRequested att run_upd)))) (\<lambda>_. ?P) (\<lambda>_. True)"
    if s: "?P s" and w: "mr_completion_waiting_on_page_fetch s = Some compl"
    for s compl reason failure auto att
  proof -
    from s w have b: "\<not> b" by (auto simp: free_def accounted_if_def)
    let ?Q = "accounted_if a False nf (set_option (rac_resp_chan compl)) G"
    have "triple (\<lambda>t. t = s) (smod (\<lambda>s. s\<lparr>mr_completion_waiting_on_page_fetch := None\<rparr>)) (\<lambda>_. ?Q) (\<lambda>_. True)"
      using s w by (auto simp: triple_def smod_def completion_defs)
    moreover have "triple ?Q (c_failed_completion c cause_unspecified reason failure auto
        (rac_resp_chan compl)) (\<lambda>_. ?P) (\<lambda>_. True)"
      using completion_calleesD(2) [OF assms, where cause = cause_unspecified and a = a and b = False and nf = nf] b
      by (simp add: may_fail_def cause_unspecified_def cause_non_deterministic_error_def)
    ultimately show ?thesis by (intro triple_bind triple_ret)
  qed
  show ?thesis
    unfolding request_eviction_with_def Let_def
    by (intro triple_read triple_evict_cases page triple_pre [OF other]) simp_all
qed

lemma check_with_activation: "mr_activation s \<noteq> None \<Longrightarrow> check_more_inner env s = (Ok None, s)"
  by (simp add: check_more_inner_def action_defs)

text \<open>With an activation outstanding there is no error that could drop the completion in hand.\<close>

lemma comp_check_more:
  assumes "K = {} \<or> a"
  shows "triple (accounted_if a b nf K G) (if x then stry (check_more_inner env) else sret (Inr m))
    (\<lambda>r s. accounted_if a b nf K G s \<and> (isl r \<longrightarrow> K = {})) (\<lambda>_. True)"
proof (intro triple_if)
  show "triple (accounted_if a b nf K G) (stry (check_more_inner env))
      (\<lambda>r s. accounted_if a b nf K G s \<and> (isl r \<longrightarrow> K = {})) (\<lambda>_. True)"
  proof (cases "K = {}")
    case True
    then show ?thesis by (auto intro: triple_weaken [OF upholds_try_triple [OF completion.up_check]])
  next
    case False
    with assms have "accounted_if a b nf K G s \<Longrightarrow> mr_activation s \<noteq> None" for s
      by (simp add: accounted_if_def)
    then show ?thesis by (auto simp: triple_def stry_def check_with_activation)
  qed
qed (simp add: triple_ret)

lemma comp_acts_with:
  assumes "completion_callees c" "chans_of (Inr (FulfillableComplete f)) = {} \<or> a"
  shows "triple (accounted_if a b nf (chans_of (Inr (FulfillableComplete f))) G) (acts_with env c maybe_act f)
    (\<lambda>_. accounted_if a b nf {} G) (\<lambda>_. True)"
proof -
  let ?K = "chans_of (Inr (FulfillableComplete f))"
  let ?P = "accounted_if a b nf ?K G" and ?Q = "accounted_if a b nf {} G"
  have ready: "triple ?P (ready_act a) (\<lambda>_. ?P) (\<lambda>_. True)" for a
    unfolding ready_act_def
    by (auto simp: triple_def sret_def sget_def split: option.splits activation_or_auto.splits prod.splits)
      (simp_all add: completion_defs)
  have fulfil: "triple ?P (case f of Some f \<Rightarrow> fulfill env f | None \<Rightarrow> sret ()) (\<lambda>_. ?Q) (\<lambda>_. True)"
    by (cases f) (simp_all add: chans_of_def triple_ret comp_fulfill)
  have take: "triple ?Q take_buffered (\<lambda>_. ?Q) (\<lambda>_. True)"
    by (auto simp: triple_def take_buffered_def split: prod.splits) (simp add: completion_defs)
  have insert: "triple ?Q (sthen (insert_outstanding_activation a) (sret (Some a))) (\<lambda>_. ?Q) (\<lambda>_. True)" for a
    by (auto simp: triple_def insert_outstanding_activation_def action_defs split: option.splits)
      (simp add: completion_defs)
  have go: "triple ?P (sbind (ready_act act) (\<lambda>r.
      sthen (case f of Some f \<Rightarrow> fulfill env f | None \<Rightarrow> sret ())
      (sbind (sget (has_any_pending_work False True)) (\<lambda>pending.
       if is_none_or_autocomplete r \<and> \<not> pending then
         sbind take_buffered (\<lambda>bufft.
         case bufft of Some pwft \<Rightarrow> incoming_with env c pwft | None \<Rightarrow> sret None)
       else (case r of Some a \<Rightarrow> sthen (insert_outstanding_activation a) (sret (Some a)) | None \<Rightarrow> sret None)))))
    (\<lambda>_. ?Q) (\<lambda>_. True)" for act
    by (intro triple_bind [OF ready] triple_bind [OF fulfil] triple_read_keep triple_if
        triple_bind [OF take] triple_option comp_incoming_with [OF assms(1)] insert triple_ret)
  have err: "triple ?Q (c_update_to_acts c (Inl (run_update_err_from e))) (\<lambda>_. ?Q) (\<lambda>_. True)" for e
    using completion_calleesD(1) [OF assms(1), where oc = "Inl (run_update_err_from e)" and a = a and b = b
        and nf = nf and G = G]
    by (simp add: may_update_def chans_of_def run_update_err_from_def completing_error_def)
  have sum: "triple (\<lambda>s. ?P s \<and> (isl x \<longrightarrow> ?K = {})) (case x of Inl e \<Rightarrow> g e | Inr b \<Rightarrow> h b) (\<lambda>_. ?Q) (\<lambda>_. True)"
    if "\<And>e. triple ?Q (g e) (\<lambda>_. ?Q) (\<lambda>_. True)" "\<And>b. triple ?P (h b) (\<lambda>_. ?Q) (\<lambda>_. True)"
    for g h and x :: "wf_error + run_update_act"
    by (cases x) (auto intro: triple_pre [OF that(1)] triple_pre [OF that(2)])
  show ?thesis
    unfolding acts_with_def
    by (intro triple_read_keep triple_bind [OF comp_check_more] sum err go assms(2))
qed

lemma comp_update_with:
  assumes "completion_callees c" "may_update a b nf oc"
  shows "triple (accounted_if a b nf (chans_of oc) G) (update_with env c oc)
    (\<lambda>_. accounted_if a (b \<and> \<not> completing_error oc) nf {} G) (\<lambda>_. True)"
proof -
  have no_chan: "chans_of (Inr (OutgoingAct x)) = chans_of (Inr (FulfillableComplete None))" for x
    by (simp add: chans_of_def)
  have broken: "triple (accounted_if a b nf (chans_of (Inl e)) G) (broken_with c e)
      (\<lambda>_. accounted_if a (b \<and> \<not> completing_error (Inl e)) nf {} G) (\<lambda>_. True)" if "oc = Inl e" for e
  proof -
    let ?P = "accounted_if a b nf (chans_of (Inl e)) G"
    have mod: "triple ?P (smod (\<lambda>s. s\<lparr>mr_am_broken := True\<rparr>)) (\<lambda>_. ?P) (\<lambda>_. True)"
      by (rule triple_mod) (simp add: completion_defs)
    show ?thesis
    proof (cases "ue_complete_resp_chan e")
      case None
      then show ?thesis
        unfolding broken_with_def
        by (intro triple_bind [OF mod]) (auto simp: completing_error_def chans_of_def
            intro!: triple_read_keep triple_ret)
    next
      case (Some ch)
      have "may_fail a b nf cause" for cause
        using assms(2) that Some by (auto simp: may_fail_def may_update_def completing_error_def)
      from completion_calleesD(2) [OF assms(1) this, where ch = "Some ch" and G = G] Some show ?thesis
        unfolding broken_with_def
        by (intro triple_bind [OF mod]) (auto simp: completing_error_def chans_of_def)
    qed
  qed
  show ?thesis
  proof (cases oc)
    case (Inl e)
    with broken show ?thesis by (simp add: update_with_def)
  next
    case (Inr x)
    then show ?thesis
      using assms(2) comp_acts_with [OF assms(1), where a = a and b = b and nf = nf and G = G]
      by (cases x) (auto simp: update_with_def may_update_def completing_error_def no_chan)
  qed
qed

lemma completion_nested: "completion_callees (nested env n)"
proof (induction n)
  case 0
  show ?case by (simp add: nested.simps completion_callees_def overflowing_def triple_panic)
next
  case (Suc n)
  note ops = comp_update_with [OF Suc] comp_failed_with [OF Suc] comp_request_eviction_with [OF Suc]
  show ?case by (subst completion_callees_def) (simp add: nested.simps ops)
qed

lemma comp_update:
  "may_update a b nf oc \<Longrightarrow> triple (accounted_if a b nf (chans_of oc) G) (update_to_acts env oc)
     (\<lambda>_. accounted_if a False nf {} G) (\<lambda>_. True)"
  unfolding update_to_acts_def
  by (rule triple_weaken [OF comp_update_with [OF completion_nested]]) (auto intro: accounted_if_less)

lemma comp_fetched:
  "triple (\<lambda>s. accounted_if True False nf {} G s \<and> not_waiting s) (fetched_page_completion env u pag)
     (\<lambda>_. accounted_if True False nf {} G) (\<lambda>_. True)"
proof -
  let ?P = "\<lambda>s. accounted_if True False nf {} G s \<and> not_waiting s"
  let ?Q = "\<lambda>r. accounted_if True (r \<noteq> Inr None) nf (chans_of (map_sum (\<lambda>e. e) FulfillableComplete r)) G"
  have page: "triple (\<lambda>t. t = s) (case mr_completion_waiting_on_page_fetch s of
      Some d \<Rightarrow> sthen (smod (\<lambda>s. s\<lparr>mr_completion_waiting_on_page_fetch := None\<rparr>)) (process_inner env d (Some u))
    | None \<Rightarrow> sret (Inl (run_update_err_from e))) ?Q (\<lambda>_. True)" if "?P s" for s e
  proof (cases "mr_completion_waiting_on_page_fetch s")
    case None
    with that show ?thesis
      by (auto intro!: triple_ret simp: chans_of_def run_update_err_from_def accounted_if_def free_def)
  next
    case (Some d)
    have "triple (\<lambda>t. t = s) (smod (\<lambda>s. s\<lparr>mr_completion_waiting_on_page_fetch := None\<rparr>))
        (\<lambda>_. accounted_if True True nf (set_option (rac_resp_chan d)) G) (\<lambda>_. True)"
      using that Some by (auto simp: triple_def smod_def completion_defs)
    then show ?thesis unfolding Some option.case by (rule triple_bind) (rule comp_process)
  qed
  have update: "triple (?Q r) (update_to_acts env (map_sum (\<lambda>e. e) FulfillableComplete r))
      (\<lambda>_. accounted_if True False nf {} G) (\<lambda>_. True)" for r
    by (rule comp_update) (auto simp: may_update_def completing_error_def map_sum_def split: sum.splits)
  have mod: "triple ?P (smod (\<lambda>s. s\<lparr>mr_paginator := Some pag\<rparr>)) (\<lambda>_. ?P) (\<lambda>_. True)"
    by (rule triple_mod) (simp add: completion_defs)
  show ?thesis
    unfolding fetched_page_completion_def
    by (intro triple_bind [OF mod] triple_read triple_bind [OF page update])
qed

text \<open>A completion that waits for local activities is taken out, and then answered.\<close>

lemma comp_take_waiting:
  assumes "accounted_if a b nf {} G s" "mr_waiting_on_la s = Some w" "wl_completion_dat w = Some (d, ch)"
  shows "accounted_if a b nf (set_option ch) G
      (s\<lparr>mr_waiting_on_la := None, mr_aborted := mr_aborted s @ [h]\<rparr>)"
    and "accounted_if a b nf (set_option ch) G
      (s\<lparr>mr_aborted := mr_aborted s @ [h], mr_waiting_on_la := Some (w\<lparr>wl_completion_dat := None\<rparr>)\<rparr>)"
  using assms by (auto simp: completion_defs)

lemma comp_resolve:
  "triple (\<lambda>s. accounted_if a False nf {} G s \<and> (not_waiting s \<or> a)) (mr_local_resolution env res)
     (\<lambda>_. accounted_if a False nf {} G) (\<lambda>_. True)"
proof -
  let ?P = "\<lambda>s. accounted_if a False nf {} G s \<and> (not_waiting s \<or> a)"
  let ?Q = "\<lambda>r s. accounted_if a False nf (chans_of (Inr (FulfillableComplete r))) G s \<and>
    (chans_of (Inr (FulfillableComplete r)) = {} \<or> a)"
  have machines: "triple ?P (on_machines m) (\<lambda>_. ?P) ?P" for m :: "bool wm_action"
    by (rule triple_on_machines) (simp add: completion_defs)
  have at: "triple (\<lambda>t. t = s) (if x then (case mr_waiting_on_la s of
        Some w \<Rightarrow> sthen (smod (\<lambda>s. s\<lparr>mr_waiting_on_la := None\<rparr>))
          (sthen (abort (wl_hb_timeout_handle w))
          (case wl_completion_dat w of
             Some (d, ch) \<Rightarrow> sbind (prepare_complete_resp ch d False) (\<lambda>f. sret (Some f))
           | None \<Rightarrow> sret None))
      | None \<Rightarrow> sret None) else sret None) ?Q ?P" if s: "?P s" for s x
  proof (cases "x \<and> (\<exists>w d ch. mr_waiting_on_la s = Some w \<and> wl_completion_dat w = Some (d, ch))")
    case True
    then obtain w d ch where w: "x" "mr_waiting_on_la s = Some w" "wl_completion_dat w = Some (d, ch)"
      by blast
    with s have a by (auto simp: not_waiting_def)
    let ?s = "s\<lparr>mr_waiting_on_la := None, mr_aborted := mr_aborted s @ [wl_hb_timeout_handle w]\<rparr>"
    have "triple (\<lambda>t. t = ?s) (sbind (prepare_complete_resp ch d False) (\<lambda>f. sret (Some f))) ?Q ?P"
      using comp_take_waiting(1) [OF conjunct1 [OF s] w(2,3)] \<open>a\<close>
      by (intro triple_bind [OF triple_conseq [OF comp_prepare]] triple_ret)
        (auto simp: chans_of_def)
    with w show ?thesis by (simp add: triple_at timer_steps)
  next
    case False
    have "?Q None t" if "t = s \<or> t = s\<lparr>mr_waiting_on_la := None, mr_aborted := mr_aborted s @ [h]\<rparr> \<and>
        mr_waiting_on_la s = Some w \<and> wl_completion_dat w = None" for t h w
      using that s by (auto simp: completion_defs chans_of_def)
    with False show ?thesis
      by (auto simp: triple_at timer_steps sret_def [of None] split: option.splits)
  qed
  have inner: "triple ?P (stry (local_resolution_inner env res))
      (\<lambda>r. case r of Inl e \<Rightarrow> ?P | Inr f \<Rightarrow> ?Q f) (\<lambda>_. True)"
    unfolding local_resolution_inner_def
    by (intro triple_try) (auto intro!: triple_bind [OF machines] triple_read at)
  have update: "triple (case r of Inl e \<Rightarrow> ?P | Inr f \<Rightarrow> ?Q f)
      (update_to_acts env (map_sum run_update_err_from FulfillableComplete r))
      (\<lambda>_. accounted_if a False nf {} G) (\<lambda>_. True)" for r
  proof (cases "may_update a False nf (map_sum run_update_err_from FulfillableComplete r)")
    case True
    show ?thesis
      by (rule triple_pre [OF comp_update [OF True]])
        (auto simp: chans_of_def run_update_err_from_def split: sum.splits)
  next
    case False
    then show ?thesis
      by (auto simp: triple_def may_update_def completing_error_def map_sum_def run_update_err_from_def
          chans_of_def [of "Inl e" for e] split: sum.splits)
  qed
  show ?thesis
    unfolding mr_local_resolution_def by (rule triple_bind [OF inner update])
qed

lemma comp_heartbeat:
  "triple (accounted_if a False nf {} G) (heartbeat_timeout env)
     (\<lambda>_. accounted_if a False nf {} G) (\<lambda>_. True)"
proof -
  let ?P = "accounted_if a False nf {} G"
  have at: "triple (\<lambda>t. t = s) (case mr_waiting_on_la s of
      Some w \<Rightarrow> sthen (abort (wl_hb_timeout_handle w))
        (case wl_completion_dat w of
           Some (d, ch) \<Rightarrow>
             sthen (smod (\<lambda>s. s\<lparr>mr_waiting_on_la := Some (w\<lparr>wl_completion_dat := None\<rparr>)\<rparr>))
             (sbind (prepare_complete_resp ch d True) (\<lambda>compl. sthen (fulfill env compl) (sret False)))
         | None \<Rightarrow> sret True)
    | None \<Rightarrow> sret False) (\<lambda>_. ?P) (\<lambda>_. True)" if s: "?P s" for s
  proof (cases "\<exists>w d ch. mr_waiting_on_la s = Some w \<and> wl_completion_dat w = Some (d, ch)")
    case True
    then obtain w d ch where w: "mr_waiting_on_la s = Some w" "wl_completion_dat w = Some (d, ch)"
      by blast
    let ?s = "s\<lparr>mr_aborted := mr_aborted s @ [wl_hb_timeout_handle w],
        mr_waiting_on_la := Some (w\<lparr>wl_completion_dat := None\<rparr>)\<rparr>"
    have ful: "triple (\<lambda>s. fu_resp_chan f = ch \<and> accounted_if a False nf (set_option ch) G s)
        (sthen (fulfill env f) (sret False)) (\<lambda>_. ?P) (\<lambda>_. True)" for f
      by (rule triple_bind [OF triple_pre [OF comp_fulfill [where f = f]]]) (auto intro: triple_ret)
    have "triple (\<lambda>t. t = ?s) (sbind (prepare_complete_resp ch d True)
        (\<lambda>compl. sthen (fulfill env compl) (sret False))) (\<lambda>_. ?P) (\<lambda>_. True)"
      using comp_take_waiting(2) [OF s w]
      by (intro triple_bind [OF triple_conseq [OF comp_prepare] ful]) auto
    with w show ?thesis by (simp add: triple_at timer_steps)
  next
    case False
    have "?P (s\<lparr>mr_aborted := mr_aborted s @ [h]\<rparr>)" for h
      using s by (simp add: completion_defs)
    with s False show ?thesis
      by (auto simp: triple_at timer_steps sret_def split: option.splits)
  qed
  have update: "triple ?P (update_to_acts env (Inr (OutgoingAct x))) (\<lambda>_. ?P) (\<lambda>_. True)" for x
    using comp_update [where a = a and b = False and nf = nf and oc = "Inr (OutgoingAct x)"]
    by (simp add: may_update_def completing_error_def chans_of_def)
  show ?thesis
    unfolding heartbeat_timeout_def heartbeat_inner_def
    by (intro triple_bind [where Q = "\<lambda>_. ?P"] triple_read at triple_read_keep update)
qed

text \<open>The completion an operation brings, and when it may come.\<close>

definition given :: "run_op \<Rightarrow> chan set" where
  "given p =
     (case p of
        Complete_Ok _ _ _ ch \<Rightarrow> set_option ch
      | Complete_Fail _ _ _ _ _ ch \<Rightarrow> set_option ch
      | _ \<Rightarrow> {})"

definition in_turn :: "run_op \<Rightarrow> managed_run \<Rightarrow> bool" where
  "in_turn p s =
     (case p of
        Complete_Ok _ _ _ _ \<Rightarrow> mr_activation s \<noteq> None \<and> free s
      | Complete_Fail _ _ _ _ _ _ \<Rightarrow>
          never_fails_workflow (mr_config s) \<or> (mr_activation s \<noteq> None \<and> free s)
      | Fetched_Page _ _ _ \<Rightarrow> mr_activation s \<noteq> None \<and> not_waiting s
      | Resolve_Local _ _ \<Rightarrow> mr_activation s \<noteq> None \<or> not_waiting s
      | _ \<Rightarrow> True)"

lemma comp_mark:
  "triple (accounted {} G) (sthen (mark_wft_complete env status) (sret None)) (\<lambda>_. accounted {} G) (\<lambda>_. True)"
  by (auto simp: triple_def mark_wft_complete_def sink_reqs_def on_machines_def reset_last_started_id_def
      action_defs accounted_def held_def replied_def Let_def split: wft_report_status.splits option.splits)

lemma comp_done:
  "triple P m (\<lambda>_. accounted_if a b nf {} G) (\<lambda>_. True) \<Longrightarrow> P s \<Longrightarrow>
   triple (\<lambda>t. t = s) m (\<lambda>_. accounted {} G) (\<lambda>_. True)"
  by (erule triple_conseq) (auto simp: accounted_if_def)

lemma comp_run_acts:
  assumes "in_turn p s"
  shows "triple (\<lambda>t. t = s) (run_acts p)
    (\<lambda>_. accounted {} (held s \<union> replied s \<union> given p)) (\<lambda>_. True)"
proof -
  let ?G = "held s \<union> replied s \<union> given p"
  let ?a = "mr_activation s \<noteq> None" and ?n = "never_fails_workflow (mr_config s)"
  have start: "accounted_if ?a (free s) ?n (given p) ?G s"
    by (auto simp: accounted_if_def accounted_def)
  note nest = completion_nested
  show ?thesis
  proof (cases p)
    case (Incoming env wft)
    show ?thesis
      unfolding run_acts_def Incoming run_op.case incoming_wft_def
      by (rule comp_done [OF comp_incoming_with [OF nest]]) (use start in \<open>simp add: Incoming given_def\<close>)
  next
    case (Check_More env)
    show ?thesis
      unfolding run_acts_def Check_More run_op.case check_more_activations_def
      by (rule comp_done [OF comp_check_with [OF nest]]) (use start in \<open>simp add: Check_More given_def\<close>)
  next
    case (Complete_Ok env cs fl ch)
    show ?thesis
      unfolding run_acts_def Complete_Ok run_op.case successful_completion_def
      by (rule comp_done [OF triple_bind [OF comp_successful_with [OF nest] triple_ret]])
        (use start assms in \<open>auto simp: Complete_Ok given_def in_turn_def\<close>)
  next
    case (Complete_Fail env cause reason failure auto ch)
    show ?thesis
      unfolding run_acts_def Complete_Fail run_op.case failed_completion_def
      by (rule comp_done [OF comp_failed_with [OF nest]])
        (use start assms in \<open>auto simp: Complete_Fail given_def in_turn_def may_fail_def\<close>)
  next
    case (Fetched_Page env u pag)
    show ?thesis
      unfolding run_acts_def Fetched_Page run_op.case
      by (rule comp_done [OF comp_fetched])
        (use start assms in \<open>auto simp: Fetched_Page given_def in_turn_def accounted_if_def\<close>)
  next
    case (Resolve_Local env res)
    show ?thesis
      unfolding run_acts_def Resolve_Local run_op.case
      by (rule comp_done [OF comp_resolve [where a = ?a and nf = ?n]])
        (use start assms in \<open>auto simp: Resolve_Local given_def in_turn_def accounted_if_def\<close>)
  next
    case (Heartbeat env)
    show ?thesis
      unfolding run_acts_def Heartbeat run_op.case
      by (rule comp_done [OF comp_heartbeat])
        (use start in \<open>auto simp: Heartbeat given_def elim: accounted_if_less\<close>)
  next
    case (Evict env info)
    show ?thesis
      unfolding run_acts_def Evict run_op.case request_eviction_def
      by (rule comp_done [OF triple_bind [OF comp_request_eviction_with
          [OF nest, where a = ?a and b = "free s" and nf = ?n] triple_ret]])
        (use start in \<open>simp_all add: Evict given_def\<close>)
  next
    case (Mark_Complete env status)
    show ?thesis
      unfolding run_acts_def Mark_Complete run_op.case
      by (rule triple_pre [OF comp_mark]) (simp add: given_def accounted_def)
  qed (auto simp: run_acts_def triple_def action_defs accounted_def given_def held_def replied_def
      finish_activation_def buffer_wft_if_outstanding_work_def split: option.splits)
qed

text \<open>
  C2: No completion is lost by an operation that comes in turn and returns: each completion that was
  kept for later, that was answered before or that the operation brings is afterwards answered or
  kept.  In turn means that a completion arrives while its activation is outstanding and no other
  completion is kept (a failed one may also arrive at a worker that never fails workflows), a fetched
  page arrives while an activation is outstanding and no completion waits for local activities, and
  a local resolution arrives while an activation is outstanding or no completion waits for local
  activities; the other operations may come at any time.
\<close>

theorem no_completion_lost:
  assumes "run_acts p s = (Ok r, s')" "in_turn p s"
  shows "held s \<union> replied s \<union> given p \<subseteq> held s' \<union> replied s'"
  using tripleD_Ok [OF comp_run_acts [OF assms(2)] refl assms(1)] by (simp add: accounted_def)

theorem no_completion_lost_witness:
  "run_acts wit_answer wit_late = (Ok None, wit_reported) \<and> in_turn wit_answer wit_late \<and>
   0 \<in> replied wit_reported"
proof -
  have turn: "in_turn wit_answer wit_late"
    by (simp add: in_turn_def wit_answer_def completion_defs)
      (simp add: run_ops wit_runs wit_broken_def wit_late_def)
  have "0 \<in> held wit_reported \<union> replied wit_reported"
    using no_completion_lost [OF wit_answered(1) turn] by (auto simp: given_def wit_answer_def)
  then show ?thesis using wit_answered turn by (simp add: replied_def)
qed

end
