(* ===== verification/Run_Errors.thy ===== *)
theory Run_Errors
  imports Run_Completions
begin

text \<open>
  Two ways in which a run goes wrong: a workflow task heartbeat that comes while an activation is
  outstanding, and a workflow that is to be failed because of a nondeterminism found on a new
  workflow task.
\<close>

section \<open>A heartbeat beside an activation\<close>

text \<open>
  C36: A heartbeat timeout of a run that has answered its workflow task already, so that it waits for
  local activities without a completion to answer, panics when an activation is outstanding: it
  always issues an automatic completion, and a second activation may not be recorded.
\<close>

theorem heartbeat_beside_activation_panics:
  assumes "mr_waiting_on_la s = Some w" "wl_completion_dat w = None" "mr_activation s = Some a"
  shows "fst (heartbeat_timeout env s) = Panic
    ''Attempted to insert a new outstanding activation, but there already was one outstanding''"
  using assms
  by (simp add: heartbeat_timeout_def heartbeat_inner_def abort_def run_ops update_to_acts_def)

definition wit_heartbeating :: managed_run where
  "wit_heartbeating = (blank_run wit_basics)\<lparr>mr_activation := Some OA_Normal,
     mr_waiting_on_la := Some \<lparr>wl_wft_timeout = 10, wl_completion_dat = None, wl_hb_timeout_handle = 0\<rparr>\<rparr>"

theorem heartbeat_beside_activation_panics_witness:
  "fst (heartbeat_timeout wit_run_env wit_heartbeating) = Panic
    ''Attempted to insert a new outstanding activation, but there already was one outstanding''"
  by (rule heartbeat_beside_activation_panics, (simp add: wit_heartbeating_def)+)

section \<open>An eviction that is not handed out\<close>

abbreviation cancel_las :: "managed_run \<Rightarrow> local_act_request list list" where
  "cancel_las s \<equiv> mr_requests s @ [[LAR_CancelAllInRun (mr_run_id s)]]"

lemma broken_run_evicts:
  assumes "mr_wft s = Some t" "mr_activation s = None" "mr_am_broken s" "mr_trying_to_evict s = None"
    "mr_completion_waiting_on_page_fetch s = None" "\<not> pending_work_is_legacy_query s"
    "menv_sink env (cancel_las s) = []" "0 < n"
  obtains act s' where
    "request_eviction_with env (nested env n) info s =
       (Ok (EvictionRequested (Some (ti_attempt (ot_info t))) (Some (LangActivation act))), s')"
    "mr_activation s' = Some OA_Eviction" "mr_config s' = mr_config s"
    "mr_machines s' = mr_machines s" "\<not> pending_work_is_legacy_query s'"
proof (rule that)
  let ?act = "create_evict_activation (mr_run_id s) (re_message info) (re_reason info)"
  let ?t = "if re_reason info = ER_CacheFull \<or> re_reason info = ER_WorkflowExecutionEnding then t
    else t\<lparr>ot_pending_queries := []\<rparr>"
  let ?s = "s\<lparr>mr_wft := Some ?t, mr_trying_to_evict := Some info, mr_requests := cancel_las s,
    mr_activation := Some OA_Eviction\<rparr>"
  have evict: "outstanding_kind (LangActivation ?act) = OA_Eviction"
    by (simp add: outstanding_kind_def create_evict_activation_def is_only_eviction_def)
  show "request_eviction_with env (nested env n) info s =
      (Ok (EvictionRequested (Some (ti_attempt (ot_info t))) (Some (LangActivation ?act))), ?s)"
    using assms evict
    by (simp add: request_eviction_with_def check_more_with_def check_more_inner_def
        sink_la_requests_def sink_reqs_def stry_def action_defs Let_def nested_callees from_act_def
        update_with_def acts_with_def more_pending_work_def ready_act_def
        is_none_or_autocomplete_def insert_outstanding_activation_def activation_is_eviction_def
        split: eviction_reason.splits)
qed (use assms in \<open>auto simp: pending_work_is_legacy_query_def has_pending_legacy_query_def\<close>)

text \<open>
  C37: A worker that fails workflows on nondeterminism can lose an eviction.  Take a run that works
  on the first attempt of a workflow task, has no activation outstanding, is broken already and not
  yet asked to be evicted, keeps no completion for a page of history, has no legacy query to answer,
  and whose local activities are cancelled without any of them resolving at once.  When the run is
  failed for nondeterminism and the call returns (the model's bound on nested calls being at least
  two), the eviction activation is recorded as outstanding but is not among what is handed out, so
  the run waits for an answer that cannot come.
\<close>

theorem eviction_not_handed_out:
  assumes "mr_wft s = Some t" "ti_attempt (ot_info t) \<le> 1" "mr_activation s = None" "mr_am_broken s"
    "mr_trying_to_evict s = None" "mr_completion_waiting_on_page_fetch s = None"
    "\<not> pending_work_is_legacy_query s" "menv_sink env (cancel_las s) = []" "1 < menv_stack env"
    "should_fail_workflow (mr_config s) (wm_workflow_type (mr_machines s)) WET_Nondeterminism"
    "failed_completion env cause_non_deterministic_error reason failure auto ch s = (Ok r, s')"
  shows "mr_activation s' = Some OA_Eviction \<and> (\<forall>act. r \<noteq> Some (LangActivation act))"
proof -
  let ?n = "menv_stack env - 1"
  let ?info = "\<lparr>re_run_id = mr_run_id s,
    re_message = ''Workflow activation completion failed: '' @ menv_debug_failure env failure,
    re_reason = reason, re_auto_reply_fail_tt = None\<rparr>"
  from assms(9) have n: "0 < ?n" by simp
  obtain act t' where evicted: "request_eviction_with env (nested env ?n) ?info s =
       (Ok (EvictionRequested (Some (ti_attempt (ot_info t))) (Some (LangActivation act))), t')"
    and t': "mr_activation t' = Some OA_Eviction" "mr_config t' = mr_config s"
    "mr_machines t' = mr_machines s" "\<not> pending_work_is_legacy_query t'"
    by (rule broken_run_evicts [OF assms(1,3-8) n])
  obtain x where x: "successful_with env (nested env (menv_stack env))
      [\<lparr>wfc_variant = FailWorkflow (cf_failure failure), wfc_metadata = None\<rparr>] [] ch True t' = (Ok x, s')"
    and r: "r = (case x of Inr acts \<Rightarrow> acts | Inl _ \<Rightarrow> None)"
    using assms(11) evicted t' assms(1,2,7,9,10)
    by (auto simp: failed_completion_def failed_with_def action_defs Let_def nested_callees
        split: prod.splits outcome.splits)
  from tripleD_Ok [OF act_successful_with [OF activation_nested, where A = "Some OA_Eviction"] t'(1) x]
  show ?thesis unfolding r [symmetric] by (auto simp: recorded_def is_auto_fail_def)
qed

text \<open>A run of a worker that fails workflows on nondeterminism, broken by its first task.\<close>

definition wit_failing :: run_basics where
  "wit_failing = wit_replaying\<lparr>rb_worker_config :=
     (rb_worker_config wit_basics)\<lparr>cfg_workflow_failure_errors := [WET_Nondeterminism]\<rparr>\<rparr>"

definition wit_unfit :: managed_run where
  "wit_unfit = (blank_run wit_failing)\<lparr>mr_am_broken := True,
     mr_wft := Some \<lparr>ot_info = \<lparr>ti_task_token = [], ti_attempt = 1, ti_wf_id = ''w''\<rparr>,
       ot_pending_queries = [], ot_start_time = 0, ot_permit = 0\<rparr>\<rparr>"

definition wit_error :: completion_failure where
  "wit_error = as_failure (Nondeterminism [])"

abbreviation wit_fail :: "run_update_act mr_action" where
  "wit_fail \<equiv> failed_completion wit_run_env cause_non_deterministic_error
     (evict_reason (Nondeterminism [])) wit_error True (Some 0)"

lemma wit_fail_ok: "fst (wit_fail wit_unfit) = Ok None"
  by (simp add: failed_completion_def failed_with_def request_eviction_with_def check_more_with_def
     run_ops completion_ops wit_runs wit_failing_def wit_unfit_def evict_reason_def
     pending_work_is_legacy_query_def should_fail_workflow_def preprocess_command_sequence_def
     wit_no_history flags_new_def create_evict_activation_def is_only_eviction_def
     has_pending_legacy_query_def has_command_def)

theorem eviction_not_handed_out_witness:
  "mr_activation (snd (wit_fail wit_unfit)) = Some OA_Eviction \<and>
   fst (wit_fail wit_unfit) = Ok None"
proof -
  obtain s' where s': "wit_fail wit_unfit = (Ok None, s')"
    using wit_fail_ok by (cases "wit_fail wit_unfit") simp
  have "mr_activation s' = Some OA_Eviction"
    using eviction_not_handed_out [OF _ _ _ _ _ _ _ _ _ _ s']
    by (simp add: wit_unfit_def wit_failing_def wit_runs pending_work_is_legacy_query_def
        has_pending_legacy_query_def should_fail_workflow_def)
  with s' show ?thesis by simp
qed

end
