(* ===== verification/Stream_Properties.thy ===== *)
theory Stream_Properties
  imports Workflow_Stream Run_Errors
begin

text \<open>
  Properties of the stream: what every operation keeps of the cache (locale \<open>stream_frame\<close>), that a
  cached run is only changed by its own operations, that the cache does not overflow, and what
  asking for evictions does not ensure.
\<close>

section \<open>What runs do inside the stream\<close>

text \<open>A call on a run that is made of operations of the run.\<close>

definition run_like :: "'a mr_action \<Rightarrow> bool" where
  "run_like m \<longleftrightarrow>
     (\<forall>basics. triple (run_reachable basics) m (\<lambda>_. run_reachable basics) (\<lambda>_. True))"

lemma run_like_steps:
  "run_like (sret a)" "run_like (sget f)"
  "run_like m \<Longrightarrow> (\<And>a. run_like (g a)) \<Longrightarrow> run_like (sbind m g)"
  "(b \<Longrightarrow> run_like m) \<Longrightarrow> (\<not> b \<Longrightarrow> run_like n) \<Longrightarrow> run_like (if b then m else n)"
  by (auto simp: run_like_def intro: triple_ret triple_get triple_bind)

lemma run_like_op: "run_like (run_acts p)"
  unfolding run_like_def triple_def
  by (auto split: prod.split outcome.split intro: run_reachable.stepped)

text \<open>An operation of a run whose answer is kept in more detail than \<open>run_acts\<close> does.\<close>

lemma run_like_detail:
  assumes "run_acts p = sbind m (\<lambda>a. sret (f a))"
  shows "run_like m"
proof -
  have "run_acts p s = (Ok (f a), s')" if "m s = (Ok a, s')" for s a s'
    using that by (simp add: assms action_defs)
  then show ?thesis
    unfolding run_like_def triple_def
    by (auto split: prod.split outcome.split intro: run_reachable.stepped)
qed

lemma run_like_ops:
  "run_like (incoming_wft env pwft)" "run_like (check_more_activations env)"
  "run_like (successful_completion env cs fl ch False)"
  "run_like (failed_completion env cause reason failure auto ch)"
  "run_like (fetched_page_completion env update pag)" "run_like (mr_local_resolution env res)"
  "run_like (heartbeat_timeout env)" "run_like (request_eviction env info)"
  "run_like (mark_wft_complete env status)"
  "run_like (\<lambda>s. case finish_activation pred s of (x, s') \<Rightarrow> (Ok x, s'))"
  "run_like (\<lambda>s. case buffer_wft_if_outstanding_work wft s of (x, s') \<Rightarrow> (Ok x, s'))"
proof -
  show "run_like (incoming_wft env pwft)" using run_like_op [of "Incoming env pwft"] by (simp add: run_acts_def)
  show "run_like (check_more_activations env)" using run_like_op [of "Check_More env"] by (simp add: run_acts_def)
  show "run_like (failed_completion env cause reason failure auto ch)"
    using run_like_op [of "Complete_Fail env cause reason failure auto ch"] by (simp add: run_acts_def)
  show "run_like (fetched_page_completion env update pag)"
    using run_like_op [of "Fetched_Page env update pag"] by (simp add: run_acts_def)
  show "run_like (mr_local_resolution env res)" using run_like_op [of "Resolve_Local env res"] by (simp add: run_acts_def)
  show "run_like (heartbeat_timeout env)" using run_like_op [of "Heartbeat env"] by (simp add: run_acts_def)
  show "run_like (successful_completion env cs fl ch False)"
    by (rule run_like_detail [where p = "Complete_Ok env cs fl ch"]) (simp add: run_acts_def)
  show "run_like (request_eviction env info)"
    by (rule run_like_detail [where p = "Evict env info"]) (simp add: run_acts_def)
  show "run_like (mark_wft_complete env status)"
    by (rule run_like_detail [where p = "Mark_Complete env status"]) (simp add: run_acts_def)
  show "run_like (\<lambda>s. case finish_activation pred s of (x, s') \<Rightarrow> (Ok x, s'))"
    by (rule run_like_detail [where p = "Finish_Activation pred" and f = "\<lambda>_. None"])
      (auto simp: run_acts_def action_defs split: prod.split)
  show "run_like (\<lambda>s. case buffer_wft_if_outstanding_work wft s of (x, s') \<Rightarrow> (Ok x, s'))"
    by (rule run_like_detail [where p = "Buffer_Task wft" and f = "\<lambda>_. None"])
      (auto simp: run_acts_def action_defs split: prod.split)
qed

section \<open>What the stream does to the cache\<close>

text \<open>
  A property of the cache that every call on a run keeps, that a new run keeps when there is room
  for it, and that the removal of a run keeps, is kept by every input.
\<close>

locale stream_frame =
  fixes I :: "run_cache \<Rightarrow> bool"
  assumes run_keeps: "I c \<Longrightarrow> map_of (rc_runs c) k = Some r \<Longrightarrow>
      (\<And>basics. run_reachable basics r \<Longrightarrow> run_reachable basics r') \<Longrightarrow>
      I (c\<lparr>rc_runs := lru_front k r' (rc_runs c)\<rparr>)"
    and new_keeps: "I c \<Longrightarrow> map_of (rc_runs c) (rb_run_id basics) = None \<Longrightarrow>
      length (rc_runs c) \<noteq> lru_size (rc_worker_config c) \<Longrightarrow>
      rb_worker_config basics = rc_worker_config c \<Longrightarrow> run_reachable basics r \<Longrightarrow>
      I (c\<lparr>rc_runs := (rb_run_id basics, r) # rc_runs c\<rparr>)"
    and remove_keeps: "I c \<Longrightarrow> I (c\<lparr>rc_runs := filter (\<lambda>e. fst e \<noteq> k) (rc_runs c)\<rparr>)"
begin

abbreviation kept :: "'a ws_action \<Rightarrow> bool" where
  "kept m \<equiv> triple (\<lambda>s. I (ws_runs s)) m (\<lambda>_ s. I (ws_runs s)) (\<lambda>_. True)"

lemma kept_run:
  assumes "run_like m"
  shows "kept (on_run k m)"
proof -
  have "I (c\<lparr>rc_runs := lru_front k r' (rc_runs c)\<rparr>)"
    if "I c" "map_of (rc_runs c) k = Some r" "m r = (Ok a, r')" for c r a r'
    using that(1,2)
  proof (rule run_keeps)
    show "run_reachable basics r'" if "run_reachable basics r" for basics
      using assms that \<open>m r = (Ok a, r')\<close> by (auto simp: run_like_def dest: tripleD_Ok)
  qed
  then show ?thesis
    by (auto simp: triple_def on_run_def on_cache_def with_run_def split: option.split prod.split outcome.split)
qed

lemma kept_steps:
  "kept (sret a)" "kept (sget f)" "(\<And>s. ws_runs (g s) = ws_runs s) \<Longrightarrow> kept (smod g)"
  "kept m \<Longrightarrow> (\<And>a. kept (h a)) \<Longrightarrow> kept (sbind m h)"
  "(b \<Longrightarrow> kept m) \<Longrightarrow> (\<not> b \<Longrightarrow> kept n) \<Longrightarrow> kept (if b then m else n)"
  by (auto intro: triple_ret triple_get triple_mod triple_bind)

lemma kept_option: "kept n \<Longrightarrow> (\<And>a. kept (f a)) \<Longrightarrow> kept (case x of None \<Rightarrow> n | Some a \<Rightarrow> f a)"
  by (cases x) simp_all

lemma kept_sum: "(\<And>a. kept (f a)) \<Longrightarrow> (\<And>b. kept (g b)) \<Longrightarrow> kept (case x of Inl a \<Rightarrow> f a | Inr b \<Rightarrow> g b)"
  by (cases x) simp_all

lemma kept_instantiate:
  "triple (\<lambda>c. I c \<and> (map_of (rc_runs c) (we_run_id (pw_execution (pm_work pwft))) = None \<longrightarrow>
       length (rc_runs c) \<noteq> lru_size (rc_worker_config c)))
     (rc_instantiate_or_update env pwft) (\<lambda>_. I) (\<lambda>_. True)"
proof -
  let ?k = "we_run_id (pw_execution (pm_work pwft))"
  have known: "I (c\<lparr>rc_runs := lru_front ?k r' (rc_runs c)\<rparr>)"
    if "I c" "map_of (rc_runs c) ?k = Some r" "incoming_wft env pwft r = (Ok a, r')" for c r a r'
    using that(1,2)
  proof (rule run_keeps)
    show "run_reachable basics r'" if "run_reachable basics r" for basics
      using run_like_ops(1) [of env pwft] that \<open>incoming_wft env pwft r = (Ok a, r')\<close>
      by (auto simp: run_like_def dest: tripleD_Ok)
  qed
  have fresh: "I (c\<lparr>rc_runs := (?k, r) # rc_runs c\<rparr>)"
    if "I c" "map_of (rc_runs c) ?k = None" "length (rc_runs c) \<noteq> lru_size (rc_worker_config c)"
      "mr_new env (rc_basics c pwft) pwft = (Ok a, r)" for c r a
  proof -
    have "run_reachable (rc_basics c pwft) r"
      using run_like_ops(1) [of env pwft] that(4) run_reachable.fresh [of "rc_basics c pwft"]
      by (auto simp: run_like_def mr_new_def dest: tripleD_Ok)
    from new_keeps [OF that(1) _ that(3) _ this] that(2) show ?thesis by (simp add: rc_basics_def)
  qed
  show ?thesis
    unfolding triple_def rc_instantiate_or_update_def with_run_def rc_instantiate_def lru_push_def
    by (auto simp: sbind_def sret_def known fresh split: option.split prod.split outcome.split)
qed

lemma kept_instantiate_inner: "kept (instantiate_inner env pwft)"
proof -
  let ?k = "we_run_id (pw_execution (pm_work pwft))"
  let ?room = "\<lambda>s. I (ws_runs s) \<and> (has_run ?k (ws_runs s) \<or> \<not> is_full (ws_runs s))"
  have go: "triple ?room (on_cache (rc_instantiate_or_update env' pwft)) (\<lambda>_ s. I (ws_runs s)) (\<lambda>_. True)" for env'
    using kept_instantiate [of pwft env']
    by (auto simp: triple_def on_cache_def has_run_def is_full_def split: prod.splits outcome.splits)
  have full: "kept (buffer_resp_on_full_cache w)" for w
    unfolding buffer_resp_on_full_cache_def by (rule kept_steps) simp
  have rest: "kept (sbind (sget ws_runs) (\<lambda>c.
      if \<not> has_run ?k c \<and> is_full c then sthen (buffer_resp_on_full_cache pwft) (sret (Inr None))
      else if \<not> has_run ?k c \<and> is_incremental (pm_work pwft) then sret (Inl (FetchFull pwft))
      else sbind (on_cache (rc_instantiate_or_update (senv_run env ?k) pwft)) (\<lambda>rur. sret (Inr rur))))"
  proof (rule triple_read)
    fix s :: wf_stream
    assume "I (ws_runs s)"
    then show "triple (\<lambda>t. t = s) (if \<not> has_run ?k (ws_runs s) \<and> is_full (ws_runs s)
        then sthen (buffer_resp_on_full_cache pwft) (sret (Inr None))
        else if \<not> has_run ?k (ws_runs s) \<and> is_incremental (pm_work pwft) then sret (Inl (FetchFull pwft))
        else sbind (on_cache (rc_instantiate_or_update (senv_run env ?k) pwft)) (\<lambda>rur. sret (Inr rur)))
      (\<lambda>_ s. I (ws_runs s)) (\<lambda>_. True)"
      by (intro triple_if triple_pre [OF kept_steps(4) [OF full kept_steps(1)]] triple_ret
          triple_bind [OF triple_pre [OF go]]) auto
  qed
  show ?thesis
    unfolding instantiate_inner_def Let_def
    by (intro kept_steps(4) kept_run run_like_ops kept_steps(5) kept_steps(1) rest)
qed

lemma kept_instantiate_or_update: "kept (instantiate_or_update env pwft)"
  unfolding instantiate_or_update_def push_fetch_def
  by (intro kept_steps kept_instantiate_inner kept_sum) simp_all

lemma kept_request_eviction: "kept (ws_request_eviction env info)"
  unfolding ws_request_eviction_def by (intro kept_steps kept_run run_like_ops)

lemma kept_complete_run: "run_like (complete_run env complete)"
  unfolding complete_run_def
  by (auto intro: run_like_steps run_like_ops split: new_or_fetched_complete.split validated_completion.split)

lemma kept_process_completion: "kept (process_completion env complete)"
  unfolding process_completion_def Let_def push_fetch_def request_eviction_of_lru_run_def
  by (intro kept_steps kept_run kept_complete_run kept_option kept_sum kept_request_eviction) simp_all

lemma kept_complete_wft: "kept (complete_wft env run_id status)"
  unfolding complete_wft_def by (intro kept_steps kept_run run_like_steps run_like_ops)

lemma kept_next_tasks: "kept (next_tasks run_id evict ready)"
proof -
  have "kept (on_cache (rc_remove k))" for k
    by (auto simp: triple_def on_cache_def rc_remove_def smod_def remove_keeps)
  moreover have "kept pop_buffered"
    by (auto simp: triple_def pop_buffered_def split: list.split)
  ultimately show ?thesis
    unfolding next_tasks_def by (intro kept_steps kept_option)
qed

lemma kept_start_buffered: "kept (start_buffered env ws)"
  unfolding start_buffered_def
  by (intro kept_steps kept_instantiate_or_update triple_for)

lemma kept_post_activation: "kept (process_post_activation env report)"
proof -
  have check: "run_like (check_finished env run_id status)" for env run_id status
    unfolding check_finished_def by (intro run_like_steps run_like_ops)
  have pair: "kept (case x of (a, b) \<Rightarrow> f a b)" if "\<And>a b. kept (f a b)" for x f
    using that by (cases x) simp
  show ?thesis
    unfolding process_post_activation_def Let_def
    by (intro kept_steps kept_complete_wft kept_run run_like_ops check kept_option pair kept_next_tasks
        kept_start_buffered)
qed

lemma kept_local_input: "kept (local_input env i)"
  unfolding local_input_def ws_local_resolution_def process_heartbeat_timeout_def
  by (intro kept_steps kept_option kept_run run_like_steps)
    (auto split: local_inputs.split intro!: kept_steps kept_run run_like_ops kept_process_completion
      kept_post_activation kept_request_eviction)

lemma kept_handle_input: "kept (handle_input env i)"
  unfolding handle_input_def
  by (auto split: wf_stream_input.split intro!: kept_steps kept_local_input kept_request_eviction
      kept_instantiate_or_update)

lemma kept_reconcile: "kept (reconcile_buffered env)"
proof -
  have all: "kept (smap f ks)" if "\<And>k. kept (f k)"
    for f :: "string \<Rightarrow> activation_or_auto list ws_action" and ks
    using that by (induction ks) (auto intro: kept_steps)
  show ?thesis
    unfolding reconcile_buffered_def Let_def by (intro kept_steps all kept_request_eviction)
qed

lemma kept_step: "kept (stream_step env i)"
proof -
  have "kept take_fetches" by (auto simp: triple_def take_fetches_def)
  then show ?thesis
    unfolding stream_step_def
    by (auto split: wf_stream_input.split intro!: kept_steps kept_handle_input kept_reconcile)
qed

lemma stream_keeps:
  assumes "stream_reachable config s" "\<And>sdk capabilities. I (rc_new config sdk capabilities)"
  shows "I (ws_runs s)"
  using assms(1)
proof induction
  case (taken s env i out s')
  then show ?case using tripleD_Ok [OF kept_step] by blast
qed (use assms(2) in \<open>simp add: ws_new_def\<close>)

end

section \<open>The cache does not overflow\<close>

definition cache_ok :: "run_cache \<Rightarrow> bool" where
  "cache_ok c \<longleftrightarrow> distinct (map fst (rc_runs c)) \<and> length (rc_runs c) \<le> lru_size (rc_worker_config c)"

lemma length_without_key:
  assumes "map_of es k \<noteq> None"
  shows "length (filter (\<lambda>e. fst e \<noteq> k) es) < length es"
proof -
  from assms obtain v where "(k, v) \<in> set es" by (auto dest: map_of_SomeD)
  then show ?thesis by (auto simp: length_filter_less)
qed

lemma distinct_filter_keys: "distinct (map fst es) \<Longrightarrow> distinct (map fst (filter P es))"
  by (induction es) auto

interpretation bounded: stream_frame cache_ok
proof
  fix c k r r' basics
  assume c: "cache_ok c"
  show "cache_ok (c\<lparr>rc_runs := filter (\<lambda>e. fst e \<noteq> k) (rc_runs c)\<rparr>)"
    using c by (simp add: cache_ok_def distinct_filter_keys) (meson le_trans length_filter_le)
  show "cache_ok (c\<lparr>rc_runs := lru_front k r' (rc_runs c)\<rparr>)" if "map_of (rc_runs c) k = Some r"
    using c that length_without_key [of "rc_runs c" k]
    by (auto simp: cache_ok_def lru_front_def distinct_filter_keys)
  show "cache_ok (c\<lparr>rc_runs := (rb_run_id basics, r) # rc_runs c\<rparr>)"
    if "map_of (rc_runs c) (rb_run_id basics) = None" "length (rc_runs c) \<noteq> lru_size (rc_worker_config c)"
    using c that by (auto simp: cache_ok_def map_of_eq_None_iff)
qed

lemma cache_panic:
  assumes "rc_instantiate_or_update env pwft c = (Panic p, c')"
    and "k = we_run_id (pw_execution (pm_work pwft))" "has_run k c \<or> \<not> is_full c"
  shows "(\<exists>r. map_of (rc_runs c) k = Some r \<and> fst (incoming_wft env pwft r) = Panic p) \<or>
    fst (mr_new env (rc_basics c pwft) pwft) = Panic p"
proof (cases "map_of (rc_runs c) k")
  case None
  with assms show ?thesis
    by (auto simp: rc_instantiate_or_update_def with_run_def rc_instantiate_def lru_push_def sbind_def
        has_run_def is_full_def split: prod.splits outcome.splits if_splits)
next
  case (Some r)
  with assms(1,2) show ?thesis
    by (auto simp: rc_instantiate_or_update_def with_run_def sbind_def sret_def
        split: prod.splits outcome.splits)
qed

text \<open>A task that is not buffered leaves its run as it is.\<close>

lemma not_buffered:
  assumes "on_run k (\<lambda>r. case buffer_wft_if_outstanding_work pwft r of (w, r') \<Rightarrow> (Ok w, r')) s = (Ok w, s')"
    and "w \<noteq> Some None"
  shows "map_of (rc_runs (ws_runs s')) k = map_of (rc_runs (ws_runs s)) k"
    "rc_basics (ws_runs s') = rc_basics (ws_runs s)"
  using assms
  by (auto simp: on_run_def on_cache_def with_run_def buffer_wft_if_outstanding_work_def lru_front_def
      rc_basics_def fun_eq_iff split: option.splits if_splits)

lemma instantiate_panic:
  assumes "instantiate_inner env pwft s = (Panic p, s')" "k = we_run_id (pw_execution (pm_work pwft))"
  shows "(\<exists>r. map_of (rc_runs (ws_runs s)) k = Some r \<and> fst (incoming_wft (senv_run env k) pwft r) = Panic p) \<or>
    fst (mr_new (senv_run env k) (rc_basics (ws_runs s) pwft) pwft) = Panic p"
proof -
  let ?buffer = "on_run k (\<lambda>r. case buffer_wft_if_outstanding_work pwft r of (w, r') \<Rightarrow> (Ok w, r')) s"
  have "\<exists>w t. ?buffer = (Ok w, t)"
    by (simp add: on_run_def on_cache_def with_run_def split: option.split prod.split)
  then obtain w t where buffer: "?buffer = (Ok w, t)" by blast
  with assms have w: "w \<noteq> Some None"
    by (auto simp: instantiate_inner_def Let_def sbind_def sret_def)
  obtain c' where "rc_instantiate_or_update (senv_run env k) pwft (ws_runs t) = (Panic p, c')"
      "has_run k (ws_runs t) \<or> \<not> is_full (ws_runs t)"
    using assms buffer w
    by (auto simp: instantiate_inner_def Let_def sbind_def sget_def sret_def on_cache_def
        buffer_resp_on_full_cache_def smod_def split: prod.splits outcome.splits if_splits)
  from cache_panic [OF this(1) assms(2) this(2)] not_buffered [OF buffer w] show ?thesis by simp
qed

text \<open>
  C5: The cache of runs never holds more runs than it has room for, each run once, and never
  overflows: when taking a workflow task panics, the panic is one of the run the task is for, known
  or new, and not the one the cache raises when it has to drop a run for another one.
\<close>

theorem run_cache_bounded:
  assumes "stream_reachable config s"
  shows "length (rc_runs (ws_runs s)) \<le> max 1 (cfg_max_cached_workflows (rc_worker_config (ws_runs s))) \<and>
    distinct (map fst (rc_runs (ws_runs s))) \<and>
    (\<forall>env pwft p s' k. k = we_run_id (pw_execution (pm_work pwft)) \<longrightarrow>
       instantiate_inner env pwft s = (Panic p, s') \<longrightarrow>
       (\<exists>r. map_of (rc_runs (ws_runs s)) k = Some r \<and> fst (incoming_wft (senv_run env k) pwft r) = Panic p) \<or>
       fst (mr_new (senv_run env k) (rc_basics (ws_runs s) pwft) pwft) = Panic p)"
proof -
  have "cache_ok (ws_runs s)"
    using bounded.stream_keeps [OF assms] by (simp add: cache_ok_def rc_new_def)
  then have "length (rc_runs (ws_runs s)) \<le> max 1 (cfg_max_cached_workflows (rc_worker_config (ws_runs s)))"
    "distinct (map fst (rc_runs (ws_runs s)))"
    by (auto simp: cache_ok_def lru_size_def split: if_splits)
  then show ?thesis using instantiate_panic by blast
qed

section \<open>Cached runs are changed by their operations only\<close>

definition runs_ok :: "worker_config \<Rightarrow> run_cache \<Rightarrow> bool" where
  "runs_ok config c \<longleftrightarrow> rc_worker_config c = config \<and>
     (\<forall>(k, r) \<in> set (rc_runs c). \<exists>basics. rb_run_id basics = k \<and> rb_worker_config basics = config \<and>
        run_reachable basics r)"

interpretation runs: stream_frame "runs_ok config" for config
  by unfold_locales (fastforce simp: runs_ok_def lru_front_def dest: map_of_SomeD)+

text \<open>
  C4: Every run in the cache has been reached by operations of a run from a new one, with the id it
  is cached under and the configuration of the worker, so everything shown of a run holds of each
  run of a worker, whatever inputs the worker takes in whatever order.
\<close>

theorem cached_runs_reachable:
  assumes "stream_reachable config s" "(k, r) \<in> set (rc_runs (ws_runs s))"
  shows "\<exists>basics. rb_run_id basics = k \<and> rb_worker_config basics = config \<and> run_reachable basics r"
  using runs.stream_keeps [OF assms(1)] assms(2) by (auto simp: runs_ok_def rc_new_def)

section \<open>Asking for evictions again\<close>

lemma evict_again:
  assumes "mr_trying_to_evict r \<noteq> None"
  shows "request_eviction env (cache_full_msg k) r =
    (Ok (EvictionAlreadyRequested (map_option (\<lambda>wt. ti_attempt (ot_info wt)) (mr_wft r))),
     r\<lparr>mr_trying_to_evict := Some (cache_full_msg k)\<rparr>)"
  using assms
  by (auto simp: request_eviction_def request_eviction_with_def cache_full_msg_def action_defs Let_def
      split: option.split)

lemma evict_these_0: "evict_these 0 rs = []"
  by (cases rs) auto

text \<open>
  C38: Asking for evictions may ask a run twice.  When the least recently used run has no buffered
  task and is being evicted already, and one more eviction is needed for the tasks that wait for a
  place in the cache, the call asks exactly this run again (its request is replaced and it becomes
  the most recently used one) and leaves every other run as it is, so fewer evictions are pending
  than tasks wait.
\<close>

theorem reconcile_asks_again:
  assumes "rc_runs (ws_runs s) = rs @ [(k, r)]" "k \<notin> fst ` set rs" "mr_trying_to_evict r \<noteq> None"
    "\<not> has_buffered_wft r"
    "length (ws_buffered_polls_need_cache_slot s) = Suc (existing_evictions (ws_runs s))"
  shows "\<exists>s'. reconcile_buffered env s = (Ok [], s') \<and>
    rc_runs (ws_runs s') = (k, r\<lparr>mr_trying_to_evict := Some (cache_full_msg k)\<rparr>) # rs \<and>
    existing_evictions (ws_runs s') < length (ws_buffered_polls_need_cache_slot s')"
proof -
  have "map_of (rc_runs (ws_runs s)) k = Some r"
    using assms(1,2) by (auto simp: map_of_eq_None_iff [THEN iffD2] map_add_def split: option.split)
  moreover have "filter (\<lambda>e. fst e \<noteq> k) rs = rs" using assms(2) by (auto simp: filter_id_conv)
  ultimately show ?thesis
    using assms evict_again [OF assms(3), of "senv_run env k" k]
    by (auto simp: reconcile_buffered_def runs_lru_order_def Let_def ws_request_eviction_def on_run_def
        on_cache_def with_run_def action_defs cache_full_msg_def act_list_def into_run_update_resp_def
        lru_front_def existing_evictions_def evict_these_0)
qed

section \<open>Concrete streams\<close>

definition wit_stream_env :: stream_env where
  "wit_stream_env = \<lparr>senv_run = (\<lambda>_. wit_run_env), senv_cancelled = False, senv_fetches = 0\<rparr>"

definition wit_config :: worker_config where
  "wit_config = (rb_worker_config wit_basics)\<lparr>cfg_max_cached_workflows := 1\<rparr>"

definition wit_stream :: wf_stream where
  "wit_stream = ws_new wit_config ([], []) False"

text \<open>A task with its history from the first event on, and with both kinds of queries.\<close>

definition wit_first_task :: permitted_wft where
  "wit_first_task = (wit_task [query_to_job [] wit_query])\<lparr>pm_work :=
     (pm_work (wit_task [query_to_job [] wit_query]))\<lparr>pw_update :=
       hu_dummy\<lparr>hu_events := [wit_event 1 1]\<rparr>\<rparr>\<rparr>"

definition wit_streamed :: wf_stream where
  "wit_streamed = snd (stream_step wit_stream_env (NewWft wit_first_task) wit_stream)"

lemma wit_streamed_step:
  "stream_step wit_stream_env (NewWft wit_first_task) wit_stream =
     (Ok (StreamOutput [AutoFail ''r'' (Fatal ''Server issued both normal and legacy query'')] []),
      wit_streamed)"
  "map fst (rc_runs (ws_runs wit_streamed)) = [''r'']"
  by (simp_all add: wit_streamed_def stream_step_def handle_input_def instantiate_or_update_def
      instantiate_inner_def wit_stream_def ws_new_def rc_new_def on_run_def on_cache_def with_run_def
      has_run_def is_full_def rc_instantiate_or_update_def rc_instantiate_def lru_push_def rc_basics_def
      mr_new_def lru_size_def wit_config_def wit_first_task_def wit_stream_env_def is_incremental_def
      first_event_id_def wit_event_def run_ops wit_runs reconcile_buffered_def act_list_def
      existing_evictions_def runs_lru_order_def shutdown_done_def take_fetches_def evict_these_0)

lemma wit_streamed_reachable: "stream_reachable wit_config wit_streamed"
  by (rule stream_reachable.taken [OF stream_reachable.built wit_streamed_step(1) [unfolded wit_stream_def]])

theorem run_cache_bounded_witness:
  "rc_runs (ws_runs wit_streamed) \<noteq> [] \<and>
   length (rc_runs (ws_runs wit_streamed)) \<le> max 1 (cfg_max_cached_workflows (rc_worker_config (ws_runs wit_streamed)))"
  using run_cache_bounded [OF wit_streamed_reachable] wit_streamed_step(2) by auto

theorem cached_runs_reachable_witness:
  "\<exists>r basics. (''r'', r) \<in> set (rc_runs (ws_runs wit_streamed)) \<and> rb_run_id basics = ''r'' \<and>
     run_reachable basics r"
proof -
  obtain r where r: "(''r'', r) \<in> set (rc_runs (ws_runs wit_streamed))"
    using wit_streamed_step(2) by (cases "rc_runs (ws_runs wit_streamed)") auto
  from cached_runs_reachable [OF wit_streamed_reachable this] r show ?thesis by blast
qed

definition wit_crowded :: wf_stream where
  "wit_crowded = (ws_new wit_config ([], []) False)\<lparr>
     ws_runs := (rc_new (wit_config\<lparr>cfg_max_cached_workflows := 2\<rparr>) ([], []) False)\<lparr>rc_runs :=
       [(''b'', blank_run wit_basics),
        (''a'', (blank_run wit_basics)\<lparr>mr_trying_to_evict := Some (cache_full_msg ''a'')\<rparr>)]\<rparr>,
     ws_buffered_polls_need_cache_slot := [[wit_task []], [wit_task []]]\<rparr>"

theorem reconcile_asks_again_witness:
  "\<exists>s'. reconcile_buffered wit_stream_env wit_crowded = (Ok [], s') \<and>
    rc_runs (ws_runs s') = [(''a'', (blank_run wit_basics)
        \<lparr>mr_trying_to_evict := Some (cache_full_msg ''a'')\<rparr>), (''b'', blank_run wit_basics)] \<and>
    existing_evictions (ws_runs s') < length (ws_buffered_polls_need_cache_slot s')"
  using reconcile_asks_again [of wit_crowded "[(''b'', blank_run wit_basics)]" "''a''"
      "(blank_run wit_basics)\<lparr>mr_trying_to_evict := Some (cache_full_msg ''a'')\<rparr>" wit_stream_env]
  by (simp add: wit_crowded_def rc_new_def blank_run_def has_buffered_wft_def has_tasks_def
      bt_default_def existing_evictions_def runs_lru_order_def)

end
